(* ===== verification/Py_Value.thy ===== *)
theory Py_Value
  imports Complex_Main "HOL-Library.List_Lexorder" "HOL-Library.Char_ord" "HOL-Library.Code_Target_Nat"
begin

text \<open>
  The prelude. Python values as the program's JSON documents and query rows hold them, the
  exceptions the program raises, the error monad every component is written in, and the
  operations of Python's \<open>str\<close>, \<open>list\<close> and \<open>dict\<close> that the code uses.
  A Python string is a HOL string whose characters are the code points below 256; Python's
  \<open>bytes\<close> are HOL strings as well. A dictionary is an association list in insertion
  order; every dictionary the program builds or reads has distinct keys.
\<close>

named_theorems result_simps \<open>inversion of the error monad's results\<close>

section \<open>Exceptions\<close>

datatype exn_class =
    ValueError | TypeError | KeyError | AttributeError | RuntimeError | OSError
  | OverflowError | IndexError | StopIteration | AssertionError | KeyboardInterrupt
  | JSONDecodeError | UnicodeError | FutureTimeoutError | SqliteError | ClientError
  | TimeoutExpired | CalledProcessError | HttpTransportError | HttpTimeoutError | HttpStatusError | HttpInvalidURL
  | CommerceBatchError | CommerceRunnerBusyError | CommercePipelineError
  | CommerceGoldGateError | CommerceJournalError | CommerceAlertError
  | CommerceLandingError | CommerceBronzeError | CommerceFixtureError
  | InjectedCommerceInterruption
  | ExecutionContractError | PlanningContractError | MetadataContractError
  | ReportSchemaError | AccessPolicyError | BreakGlassError
  | LocationManifestError | PayloadValidationError | OpenMeteoError
  | TrinoQueryError | TrinoProtocolError | TrinoQueryTimeoutError | TrinoPageLimitError
  | ReleaseContractError | FileExistsError | RangerAdminError | OtherException

datatype pyexn = Exn exn_class string

primrec class_of :: "pyexn \<Rightarrow> exn_class" where
  "class_of (Exn c m) = c"

primrec message_of :: "pyexn \<Rightarrow> string" where
  "message_of (Exn c m) = m"

text \<open>The immediate base class, where it is a class of the program or one it catches.\<close>

fun base_class :: "exn_class \<Rightarrow> exn_class option" where
  "base_class CommerceBatchError = Some ValueError"
| "base_class CommerceRunnerBusyError = Some RuntimeError"
| "base_class CommercePipelineError = Some RuntimeError"
| "base_class CommerceGoldGateError = Some ValueError"
| "base_class CommerceJournalError = Some OSError"
| "base_class CommerceAlertError = Some ValueError"
| "base_class CommerceLandingError = Some ValueError"
| "base_class CommerceBronzeError = Some ValueError"
| "base_class CommerceFixtureError = Some ValueError"
| "base_class InjectedCommerceInterruption = Some RuntimeError"
| "base_class ExecutionContractError = Some ValueError"
| "base_class PlanningContractError = Some ValueError"
| "base_class MetadataContractError = Some RuntimeError"
| "base_class ReportSchemaError = Some RuntimeError"
| "base_class AccessPolicyError = Some ValueError"
| "base_class BreakGlassError = Some ValueError"
| "base_class LocationManifestError = Some ValueError"
| "base_class PayloadValidationError = Some ValueError"
| "base_class OpenMeteoError = Some RuntimeError"
| "base_class TrinoQueryError = Some RuntimeError"
| "base_class TrinoProtocolError = Some RuntimeError"
| "base_class TrinoQueryTimeoutError = Some TrinoProtocolError"
| "base_class TrinoPageLimitError = Some TrinoProtocolError"
| "base_class JSONDecodeError = Some ValueError"
| "base_class UnicodeError = Some ValueError"
| "base_class ReleaseContractError = Some ValueError"
| "base_class FileExistsError = Some OSError"
| "base_class RangerAdminError = Some RuntimeError"
| "base_class HttpTimeoutError = Some HttpTransportError"
| "base_class _ = None"

text \<open>\<open>isinstance(error, c)\<close>: three levels are enough for the table above.\<close>

definition is_a :: "exn_class \<Rightarrow> exn_class \<Rightarrow> bool" where
  "is_a c d = (c = d \<or> base_class c = Some d \<or>
     (case base_class c of None \<Rightarrow> False | Some b \<Rightarrow> base_class b = Some d))"

section \<open>The error monad\<close>

type_synonym 'a result = "pyexn + 'a"

primrec bindE :: "('e + 'a) \<Rightarrow> ('a \<Rightarrow> 'e + 'b) \<Rightarrow> 'e + 'b" where
  "bindE (Inl e) f = Inl e"
| "bindE (Inr x) f = f x"

definition raise :: "exn_class \<Rightarrow> string \<Rightarrow> 'a result" where
  "raise c m = Inl (Exn c m)"

text \<open>\<open>try: m except classes as e: h e\<close>\<close>

definition catchE :: "'a result \<Rightarrow> (exn_class \<Rightarrow> bool) \<Rightarrow> (pyexn \<Rightarrow> 'a result) \<Rightarrow> 'a result" where
  "catchE m p h = (case m of Inl e \<Rightarrow> if p (class_of e) then h e else Inl e | Inr x \<Rightarrow> Inr x)"

fun mapE :: "('a \<Rightarrow> 'e + 'b) \<Rightarrow> 'a list \<Rightarrow> 'e + 'b list" where
  "mapE f [] = Inr []"
| "mapE f (x # xs) = bindE (f x) (\<lambda>y. bindE (mapE f xs) (\<lambda>ys. Inr (y # ys)))"

lemma bindE_eq_Inr [result_simps]: "bindE m f = Inr y \<longleftrightarrow> (\<exists>x. m = Inr x \<and> f x = Inr y)"
  by (cases m) auto

lemma bindE_eq_Inl [result_simps]:
  "bindE m f = Inl e \<longleftrightarrow> m = Inl e \<or> (\<exists>x. m = Inr x \<and> f x = Inl e)"
  by (cases m) auto

lemma raise_neq [simp]: "raise c m \<noteq> Inr x" "Inr x \<noteq> raise c m"
  by (auto simp: raise_def)

lemma raise_eq_Inl [simp]: "raise c m = Inl e \<longleftrightarrow> e = Exn c m"
  by (auto simp: raise_def)

lemma bindE_raise [simp]: "bindE (raise c m) f = raise c m"
  by (simp add: raise_def)

lemma catchE_Inr [simp]: "catchE (Inr x) p h = Inr x"
  by (simp add: catchE_def)

lemma catchE_eq_Inr [result_simps]:
  "catchE m p h = Inr x \<longleftrightarrow> m = Inr x \<or> (\<exists>e. m = Inl e \<and> p (class_of e) \<and> h e = Inr x)"
  by (auto simp: catchE_def split: sum.splits if_splits)

lemma bindE_cong [fundef_cong]:
  "m = m' \<Longrightarrow> (\<And>x. m' = Inr x \<Longrightarrow> f x = f' x) \<Longrightarrow> bindE m f = bindE m' f'"
  by (cases m') auto

lemma mapE_Inr_iff: "mapE f xs = Inr ys \<longleftrightarrow> list_all2 (\<lambda>x y. f x = Inr y) xs ys"
  by (induction xs arbitrary: ys) (auto simp: result_simps list_all2_Cons1)

lemma mapE_append:
  "mapE f (xs @ ys) = bindE (mapE f xs) (\<lambda>us. bindE (mapE f ys) (\<lambda>vs. Inr (us @ vs)))"
proof (induction xs)
  case Nil
  then show ?case by (cases "mapE f ys") auto
next
  case (Cons x xs)
  then show ?case by (cases "f x"; cases "mapE f xs"; cases "mapE f ys") auto
qed

lemma mapE_length: "mapE f xs = Inr ys \<Longrightarrow> length ys = length xs"
  by (auto simp: mapE_Inr_iff dest: list_all2_lengthD)

section \<open>Values\<close>

text \<open>
  A float is a rational, an infinity or NaN: only its value and its comparisons matter to the
  program, so the two zeros are one.
\<close>

datatype pyfloat = Fin rat | Inf bool | NaN

datatype pyval =
    PNone
  | PBool bool
  | PInt int
  | PFloat pyfloat
  | PStr string
  | PList "pyval list"
  | PTuple "pyval list"
  | PDict "(string \<times> pyval) list"

type_synonym pydict = "(string \<times> pyval) list"

primrec is_dict :: "pyval \<Rightarrow> bool" where
  "is_dict PNone = False" | "is_dict (PBool b) = False" | "is_dict (PInt i) = False"
| "is_dict (PFloat x) = False" | "is_dict (PStr s) = False" | "is_dict (PList xs) = False"
| "is_dict (PTuple xs) = False" | "is_dict (PDict d) = True"

text \<open>\<open>d.get(k)\<close>, which is \<open>None\<close> for an absent key, and \<open>d[k]\<close>.\<close>

definition get :: "pydict \<Rightarrow> string \<Rightarrow> pyval" where
  "get d k = (case map_of d k of None \<Rightarrow> PNone | Some v \<Rightarrow> v)"

definition item :: "pydict \<Rightarrow> string \<Rightarrow> pyval result" where
  "item d k = (case map_of d k of None \<Rightarrow> raise KeyError k | Some v \<Rightarrow> Inr v)"

text \<open>\<open>d[k] = v\<close>: an existing key keeps its place, a new one goes last.\<close>

fun dict_set :: "('k \<times> 'v) list \<Rightarrow> 'k \<Rightarrow> 'v \<Rightarrow> ('k \<times> 'v) list" where
  "dict_set [] k v = [(k, v)]"
| "dict_set ((k', v') # d) k v = (if k' = k then (k, v) # d else (k', v') # dict_set d k v)"

text \<open>\<open>{**a, **b}\<close>\<close>

definition dict_merge :: "('k \<times> 'v) list \<Rightarrow> ('k \<times> 'v) list \<Rightarrow> ('k \<times> 'v) list" where
  "dict_merge a b = fold (\<lambda>(k, v) d. dict_set d k v) b a"

lemma map_of_dict_set [simp]: "map_of (dict_set d k v) = (map_of d)(k \<mapsto> v)"
  by (induction d) auto

lemma keys_dict_set: "fst ` set (dict_set d k v) = insert k (fst ` set d)"
proof (induction d)
  case Nil
  then show ?case by simp
next
  case (Cons p d)
  then show ?case by (cases p) (simp add: insert_commute)
qed

lemma distinct_dict_set:
  "distinct (map fst d) \<Longrightarrow> distinct (map fst (dict_set d k v))"
proof (induction d)
  case Nil
  then show ?case by simp
next
  case (Cons p d)
  moreover have "fst ` set (dict_set d k v) = insert k (fst ` set d)"
    by (rule keys_dict_set)
  ultimately show ?case by (cases p) auto
qed

lemma get_dict_set: "get (dict_set d k v) k' = (if k' = k then v else get d k')"
  by (simp add: get_def)

lemma length_dict_set:
  "length (dict_set d k v) = (if k \<in> fst ` set d then length d else Suc (length d))"
proof (induction d)
  case Nil
  then show ?case by simp
next
  case (Cons p d)
  then show ?case by (cases p) simp
qed

lemma item_eq_Inr [result_simps]: "item d k = Inr v \<longleftrightarrow> map_of d k = Some v"
  by (simp add: item_def split: option.split)

subsection \<open>Equality and truth\<close>

text \<open>
  Python's \<open>==\<close>: booleans, integers and floats compare by value, NaN equals nothing,
  dictionaries compare as sets of items, and values of other types differ.
\<close>

fun num_of :: "pyval \<Rightarrow> pyfloat option" where
  "num_of (PBool b) = Some (Fin (if b then 1 else 0))"
| "num_of (PInt i) = Some (Fin (of_int i))"
| "num_of (PFloat x) = Some x"
| "num_of _ = None"

fun float_eq :: "pyfloat \<Rightarrow> pyfloat \<Rightarrow> bool" where
  "float_eq (Fin a) (Fin b) = (a = b)"
| "float_eq (Inf a) (Inf b) = (a = b)"
| "float_eq _ _ = False"

fun float_le :: "pyfloat \<Rightarrow> pyfloat \<Rightarrow> bool" where
  "float_le (Fin a) (Fin b) = (a \<le> b)"
| "float_le NaN _ = False"
| "float_le _ NaN = False"
| "float_le (Inf a) y = (\<not> a \<or> y = Inf True)"
| "float_le (Fin a) (Inf b) = b"

fun float_lt :: "pyfloat \<Rightarrow> pyfloat \<Rightarrow> bool" where
  "float_lt NaN _ = False"
| "float_lt _ NaN = False"
| "float_lt x y = (\<not> float_le y x)"

lemma size_snd_le: "(k, v) \<in> set d \<Longrightarrow> size v < Suc (size_list (size_prod (\<lambda>x. 0) size) d)"
  by (induction d) auto

function (sequential) py_eq :: "pyval \<Rightarrow> pyval \<Rightarrow> bool" where
  "py_eq PNone PNone = True"
| "py_eq (PStr s) (PStr t) = (s = t)"
| "py_eq (PList xs) (PList ys) =
     (length xs = length ys \<and> list_all (\<lambda>(x, y). py_eq x y) (zip xs ys))"
| "py_eq (PTuple xs) (PTuple ys) =
     (length xs = length ys \<and> list_all (\<lambda>(x, y). py_eq x y) (zip xs ys))"
| "py_eq (PDict d) (PDict e) =
     (length d = length e \<and>
      list_all (\<lambda>(k, v). case map_of e k of None \<Rightarrow> False | Some w \<Rightarrow> py_eq v w) d)"
| "py_eq v w = (case (num_of v, num_of w) of (Some x, Some y) \<Rightarrow> float_eq x y | _ \<Rightarrow> False)"
  by pat_completeness auto
termination
proof (relation "measure (\<lambda>(v, w). size v)", goal_cases)
  case 1
  then show ?case by simp
next
  case (2 xs ys z x y)
  then have "x \<in> set xs" by (auto dest: set_zip_leftD)
  then have "size x < Suc (size_list size xs)" by (induction xs) auto
  with 2 show ?case by auto
next
  case (3 xs ys z x y)
  then have "x \<in> set xs" by (auto dest: set_zip_leftD)
  then have "size x < Suc (size_list size xs)" by (induction xs) auto
  with 3 show ?case by auto
next
  case (4 d e z k v w)
  then show ?case by (auto dest: size_snd_le)
qed

text \<open>\<open>bool(v)\<close>\<close>

primrec truthy :: "pyval \<Rightarrow> bool" where
  "truthy PNone = False"
| "truthy (PBool b) = b"
| "truthy (PInt i) = (i \<noteq> 0)"
| "truthy (PFloat x) = (\<not> float_eq x (Fin 0))"
| "truthy (PStr s) = (s \<noteq> [])"
| "truthy (PList xs) = (xs \<noteq> [])"
| "truthy (PTuple xs) = (xs \<noteq> [])"
| "truthy (PDict d) = (d \<noteq> [])"

lemma py_eq_str [simp]: "py_eq v (PStr s) \<longleftrightarrow> v = PStr s"
  by (cases v) (auto split: option.splits)

lemma py_eq_None [simp]: "py_eq v PNone \<longleftrightarrow> v = PNone"
  by (cases v) (auto split: option.splits)

lemma py_eq_int [simp]: "py_eq (PInt i) (PInt j) \<longleftrightarrow> i = j"
  by simp

definition is_str :: "pyval \<Rightarrow> bool" where
  "is_str v = (case v of PStr s \<Rightarrow> True | _ \<Rightarrow> False)"

definition the_str :: "pyval \<Rightarrow> string" where
  "the_str v = (case v of PStr s \<Rightarrow> s | _ \<Rightarrow> [])"

text \<open>\<open>isinstance(v, str) and v\<close>\<close>

definition nonempty_str :: "pyval \<Rightarrow> bool" where
  "nonempty_str v = (is_str v \<and> the_str v \<noteq> [])"

text \<open>\<open>type(v) is int\<close>: a \<open>bool\<close> is not one.\<close>

definition exact_int :: "pyval \<Rightarrow> bool" where
  "exact_int v = (case v of PInt i \<Rightarrow> True | _ \<Rightarrow> False)"

definition the_int :: "pyval \<Rightarrow> int" where
  "the_int v = (case v of PInt i \<Rightarrow> i | PBool b \<Rightarrow> (if b then 1 else 0) | _ \<Rightarrow> 0)"

definition the_dict :: "pyval \<Rightarrow> pydict" where
  "the_dict v = (case v of PDict d \<Rightarrow> d | _ \<Rightarrow> [])"

text \<open>\<open>v[k]\<close>, \<open>v.get(k)\<close> and iteration over a value of unknown type.\<close>

definition subscript :: "pyval \<Rightarrow> string \<Rightarrow> pyval result" where
  "subscript v k = (case v of PDict d \<Rightarrow> item d k | _ \<Rightarrow> raise TypeError k)"

definition get_attr :: "pyval \<Rightarrow> string \<Rightarrow> pyval option result" where
  "get_attr v k = (case v of PDict d \<Rightarrow> Inr (map_of d k) | _ \<Rightarrow> raise AttributeError ''get'')"

definition iterate :: "pyval \<Rightarrow> pyval list result" where
  "iterate v = (case v of PList xs \<Rightarrow> Inr xs | PTuple xs \<Rightarrow> Inr xs | PDict d \<Rightarrow> Inr (map (PStr \<circ> fst) d)
     | PStr s \<Rightarrow> Inr (map (\<lambda>c. PStr [c]) s) | _ \<Rightarrow> raise TypeError [])"

text \<open>A value that can be a key or an element of a set.\<close>

fun can_hash :: "pyval \<Rightarrow> bool" where
  "can_hash (PList xs) = False"
| "can_hash (PDict d) = False"
| "can_hash (PTuple xs) = list_all can_hash xs"
| "can_hash _ = True"

text \<open>\<open>isinstance(v, (list, tuple))\<close>, and its elements.\<close>

definition is_seq :: "pyval \<Rightarrow> bool" where
  "is_seq v = (case v of PList xs \<Rightarrow> True | PTuple xs \<Rightarrow> True | _ \<Rightarrow> False)"

definition is_list :: "pyval \<Rightarrow> bool" where
  "is_list v = (case v of PList xs \<Rightarrow> True | _ \<Rightarrow> False)"

definition elems :: "pyval \<Rightarrow> pyval list" where
  "elems v = (case v of PList xs \<Rightarrow> xs | PTuple xs \<Rightarrow> xs | _ \<Rightarrow> [])"

lemma is_str_iff: "is_str v \<longleftrightarrow> (\<exists>s. v = PStr s)"
  by (cases v) (auto simp: is_str_def)

lemma is_dict_iff: "is_dict v \<longleftrightarrow> (\<exists>d. v = PDict d)"
  by (cases v) auto

lemma exact_int_iff: "exact_int v \<longleftrightarrow> (\<exists>i. v = PInt i)"
  by (cases v) (auto simp: exact_int_def)

lemma is_list_iff: "is_list v \<longleftrightarrow> (\<exists>xs. v = PList xs)"
  by (cases v) (auto simp: is_list_def)

lemma selectors [simp]:
  "is_str (PStr s)" "the_str (PStr s) = s" "exact_int (PInt i)" "the_int (PInt i) = i"
  "the_dict (PDict d) = d" "is_list (PList xs)" "elems (PList xs) = xs" "elems (PTuple xs) = xs"
  "is_seq (PList xs)" "is_seq (PTuple xs)"
  by (simp_all add: is_str_def the_str_def exact_int_def the_int_def the_dict_def is_list_def
      elems_def is_seq_def)

section \<open>Strings\<close>

fun dec_nat :: "nat \<Rightarrow> string" where
  "dec_nat n = (if n < 10 then [char_of (48 + n)] else dec_nat (n div 10) @ [char_of (48 + n mod 10)])"

declare dec_nat.simps [simp del]

definition dec_int :: "int \<Rightarrow> string" where
  "dec_int i = (if i < 0 then CHR ''-'' # dec_nat (nat (- i)) else dec_nat (nat i))"

text \<open>\<open>f"{n:0wd}"\<close> for a non-negative \<open>n\<close>\<close>

definition pad_nat :: "nat \<Rightarrow> nat \<Rightarrow> string" where
  "pad_nat w n = replicate (w - length (dec_nat n)) (CHR ''0'') @ dec_nat n"

definition is_hex_char :: "char \<Rightarrow> bool" where
  "is_hex_char c = (let n = of_char c :: nat in 48 \<le> n \<and> n \<le> 57 \<or> 97 \<le> n \<and> n \<le> 102)"

text \<open>\<open>re.fullmatch(r"[0-9a-f]{n}", s)\<close>\<close>

definition is_hex :: "nat \<Rightarrow> string \<Rightarrow> bool" where
  "is_hex n s = (length s = n \<and> list_all is_hex_char s)"

definition is_ascii_digit :: "char \<Rightarrow> bool" where
  "is_ascii_digit c = (let n = of_char c :: nat in 48 \<le> n \<and> n \<le> 57)"

text \<open>\<open>s.isdigit()\<close>, true of the superscripts two, three and one as well, and false of the
  empty string.\<close>

definition is_digit_str :: "string \<Rightarrow> bool" where
  "is_digit_str s = (s \<noteq> [] \<and>
     list_all (\<lambda>c. is_ascii_digit c \<or> of_char c \<in> {178, 179, 185 :: nat}) s)"

fun starts_with :: "string \<Rightarrow> string \<Rightarrow> bool" where
  "starts_with [] s = True"
| "starts_with (p # ps) [] = False"
| "starts_with (p # ps) (c # s) = (p = c \<and> starts_with ps s)"

definition ends_with :: "string \<Rightarrow> string \<Rightarrow> bool" where
  "ends_with suf s = starts_with (rev suf) (rev s)"

definition remove_suffix :: "string \<Rightarrow> string \<Rightarrow> string" where
  "remove_suffix suf s = (if suf \<noteq> [] \<and> ends_with suf s then take (length s - length suf) s else s)"

definition remove_prefix :: "string \<Rightarrow> string \<Rightarrow> string" where
  "remove_prefix pre s = (if starts_with pre s then drop (length pre) s else s)"

fun replace_fuel :: "nat \<Rightarrow> string \<Rightarrow> string \<Rightarrow> string \<Rightarrow> string" where
  "replace_fuel n old new [] = []"
| "replace_fuel 0 old new s = s"
| "replace_fuel (Suc n) old new (c # s) =
     (if starts_with old (c # s)
      then new @ replace_fuel n old new (drop (length old) (c # s))
      else c # replace_fuel n old new s)"

text \<open>\<open>s.replace(old, new)\<close> for a non-empty \<open>old\<close>; every step consumes a character, so
  the length of \<open>s\<close> is enough fuel.\<close>

definition replace :: "string \<Rightarrow> string \<Rightarrow> string \<Rightarrow> string" where
  "replace old new s = replace_fuel (length s) old new s"

fun split_char :: "char \<Rightarrow> string \<Rightarrow> string list" where
  "split_char d [] = [[]]"
| "split_char d (c # s) =
     (if c = d then [] # split_char d s
      else (case split_char d s of [] \<Rightarrow> [[c]] | p # ps \<Rightarrow> (c # p) # ps))"

fun join :: "string \<Rightarrow> string list \<Rightarrow> string" where
  "join sep [] = []"
| "join sep [s] = s"
| "join sep (s # t # ts) = s @ sep @ join sep (t # ts)"

definition strip_chars :: "(char \<Rightarrow> bool) \<Rightarrow> string \<Rightarrow> string" where
  "strip_chars p s = rev (dropWhile p (rev (dropWhile p s)))"

text \<open>\<open>str.strip()\<close> removes Python's white space: tab to carriage return, the four
  separators, space, next line and no-break space.\<close>

definition is_space :: "char \<Rightarrow> bool" where
  "is_space c = (let n = of_char c :: nat in
     9 \<le> n \<and> n \<le> 13 \<or> 28 \<le> n \<and> n \<le> 32 \<or> n = 133 \<or> n = 160)"

definition strip :: "string \<Rightarrow> string" where
  "strip s = strip_chars is_space s"

text \<open>\<open>str.lower\<close> of a character below 256.\<close>

definition lower_latin :: "char \<Rightarrow> char" where
  "lower_latin c = (let n = of_char c :: nat in
     if 65 \<le> n \<and> n \<le> 90 \<or> 192 \<le> n \<and> n \<le> 222 \<and> n \<noteq> 215 then char_of (n + 32) else c)"

definition strip_slash :: "string \<Rightarrow> string" where
  "strip_slash s = strip_chars (\<lambda>c. c = CHR ''/'') s"

lemma replace_char: "replace [q] new v = concat (map (\<lambda>c. if c = q then new else [c]) v)"
proof -
  have "replace_fuel (length v) [q] new v = concat (map (\<lambda>c. if c = q then new else [c]) v)"
    by (induction v) auto
  then show ?thesis by (simp add: replace_def)
qed

lemma starts_with_iff: "starts_with p s \<longleftrightarrow> (\<exists>t. s = p @ t)"
  by (induction p s rule: starts_with.induct) auto

lemma ends_with_iff: "ends_with q s \<longleftrightarrow> (\<exists>t. s = t @ q)"
proof
  assume "ends_with q s"
  then obtain t where "rev s = rev q @ t" by (auto simp: ends_with_def starts_with_iff)
  then have "s = rev t @ q" by (metis rev_append rev_rev_ident)
  then show "\<exists>t. s = t @ q" by blast
next
  assume "\<exists>t. s = t @ q"
  then show "ends_with q s" by (auto simp: ends_with_def starts_with_iff)
qed

lemma remove_suffix_append: "q \<noteq> [] \<Longrightarrow> remove_suffix q (t @ q) = t"
  by (auto simp: remove_suffix_def ends_with_iff)

lemma split_char_nonempty [simp]: "split_char d s \<noteq> []"
  by (induction s) (auto split: list.splits)

lemma join_split_char: "join [d] (split_char d s) = s"
proof (induction s)
  case Nil
  then show ?case by simp
next
  case (Cons c s)
  then show ?case
    by (cases "split_char d s"; cases "tl (split_char d s)") (auto split: list.splits)
qed

lemma no_sep_in_split: "p \<in> set (split_char d s) \<Longrightarrow> d \<notin> set p"
proof (induction s arbitrary: p)
  case Nil
  then show ?case by simp
next
  case (Cons c s)
  then show ?case by (cases "split_char d s") (auto split: if_splits list.splits)
qed

lemma is_hex_length: "is_hex n s \<Longrightarrow> length s = n"
  by (simp add: is_hex_def)

end
