(* ===== verification/Py_Float.thy ===== *)
theory Py_Float
  imports Py_Value "HOL-Library.Log_Nat"
begin

text \<open>
  Python floats: IEEE-754 binary64 with round to nearest, ties to even. A finite float is the
  rational it denotes; the operations the program uses (true division of integers, product of
  an integer and a float, \<open>round(x, 4)\<close>, \<open>int(x)\<close>, \<open>math.ceil\<close>) round with
  \<open>round_double\<close>.
\<close>

definition round_half_even :: "rat \<Rightarrow> int" where
  "round_half_even q =
     (let f = \<lfloor>q\<rfloor>; r = q - of_int f in
      if r < 1/2 then f else if r > 1/2 then f + 1 else if even f then f else f + 1)"

text \<open>The exponent of the unit in the last place of a rational \<open>n / d\<close> with positive
  \<open>n\<close> and \<open>d\<close>: the largest \<open>e\<close> with \<open>2 ^ 52 * 2 ^ e \<le> n / d\<close>, and at least the
  exponent of the subnormals.\<close>

definition pow2 :: "int \<Rightarrow> rat" where
  "pow2 e = (if 0 \<le> e then 2 ^ nat e else 1 / 2 ^ nat (- e))"

definition ulp_exponent :: "rat \<Rightarrow> int" where
  "ulp_exponent q =
     (let (n, d) = quotient_of q; e = bitlen n - bitlen d - 53;
          e' = (if pow2 (e + 53) \<le> q then e + 1 else e)
      in max (- 1074) e')"

definition round_pos :: "rat \<Rightarrow> rat" where
  "round_pos q = (let e = ulp_exponent q in of_int (round_half_even (q / pow2 e)) * pow2 e)"

definition round_double :: "rat \<Rightarrow> rat" where
  "round_double q = (if q = 0 then 0 else if 0 < q then round_pos q else - round_pos (- q))"

definition max_double :: rat where
  "max_double = pow2 1024 - pow2 971"

text \<open>\<open>a / b\<close> on integers, \<open>OverflowError\<close> when the quotient does not fit.\<close>

definition int_truediv :: "int \<Rightarrow> int \<Rightarrow> rat result" where
  "int_truediv a b =
     (if b = 0 then raise OtherException ''division by zero''
      else (let r = round_double (of_int a / of_int b) in
        if \<bar>r\<bar> > max_double then raise OverflowError ''integer division result too large for a float''
        else Inr r))"

text \<open>\<open>a * x\<close> with an integer \<open>a\<close> (converted first) and a finite float \<open>x\<close>; a product
  out of range is an infinity, which \<open>int\<close> refuses.\<close>

definition int_times_float_to_int :: "int \<Rightarrow> rat \<Rightarrow> int result" where
  "int_times_float_to_int a x =
     (let fa = round_double (of_int a) in
      if \<bar>fa\<bar> > max_double then raise OverflowError ''int too large to convert to float''
      else (let p = round_double (fa * x) in
        if \<bar>p\<bar> > max_double then raise OverflowError ''cannot convert float infinity to integer''
        else Inr (if 0 \<le> p then \<lfloor>p\<rfloor> else \<lceil>p\<rceil>)))"

text \<open>\<open>round(x, 4)\<close>: the decimal with four places nearest to \<open>x\<close> (ties to even on the exact
  value), read back as a float.\<close>

definition round4 :: "rat \<Rightarrow> rat" where
  "round4 x = round_double (of_int (round_half_even (x * 10000)) / 10000)"

lemma round_half_even_of_int [simp]: "round_half_even (of_int i) = i"
  by (simp add: round_half_even_def)

lemma round_half_even_bounds: "\<bar>of_int (round_half_even q) - q\<bar> \<le> 1/2"
proof -
  have "of_int \<lfloor>q\<rfloor> \<le> q" "q < of_int \<lfloor>q\<rfloor> + 1" by linarith+
  then show ?thesis unfolding round_half_even_def Let_def by (auto simp: abs_le_iff)
qed

lemma round_half_even_nonneg: "0 \<le> q \<Longrightarrow> 0 \<le> round_half_even q"
  unfolding round_half_even_def Let_def by (auto simp: zero_le_floor)

lemma round_half_even_mono:
  assumes "p \<le> q"
  shows "round_half_even p \<le> round_half_even q"
proof (cases "\<lfloor>p\<rfloor> = \<lfloor>q\<rfloor>")
  case True
  then show ?thesis using assms unfolding round_half_even_def Let_def by auto
next
  case False
  with floor_mono [OF assms] have "\<lfloor>p\<rfloor> + 1 \<le> \<lfloor>q\<rfloor>" by simp
  moreover have "round_half_even p \<le> \<lfloor>p\<rfloor> + 1" unfolding round_half_even_def Let_def by auto
  moreover have "\<lfloor>q\<rfloor> \<le> round_half_even q" unfolding round_half_even_def Let_def by auto
  ultimately show ?thesis by linarith
qed

lemma pow2_pos [simp]: "0 < pow2 e"
  by (simp add: pow2_def)

lemma round_pos_nonneg: "0 \<le> q \<Longrightarrow> 0 \<le> round_pos q"
  unfolding round_pos_def Let_def
  by (intro mult_nonneg_nonneg)
    (auto intro!: round_half_even_nonneg divide_nonneg_nonneg simp: less_imp_le)

lemma round_double_nonneg: "0 \<le> q \<Longrightarrow> 0 \<le> round_double q"
  using round_pos_nonneg [of q] by (auto simp: round_double_def)

text \<open>The largest finite double, written out for evaluation.\<close>

lemma max_double_code [code]:
  "max_double = 179769313486231570814527423731704356798070567525844996598917476803157260780028538760589558632766878171540458953514382464234321326889464182768467546703537516986049910576551282076245490090389328944075868508455133942304583236903222948165808559332123348274797826204144723168738177180919299881250404026184124858368"
  by (simp add: max_double_def pow2_def)

end
