(* ===== verification/Py_Time.thy ===== *)
theory Py_Time
  imports Py_Float
begin

text \<open>
  Python's \<open>datetime\<close>: a local time as microseconds since the start of year 1, with an
  optional offset from UTC in microseconds. \<open>fromisoformat\<close> follows the standard
  library's own reference implementation, \<open>isoformat\<close> its format.
\<close>

record pydt =
  dt_local :: int
  dt_offset :: "int option"

definition day_us :: int where "day_us = 86400000000"
definition max_us :: int where "max_us = 3652059 * day_us"

text \<open>The instant of an aware datetime; comparisons of aware datetimes compare it.\<close>

definition dt_utc :: "pydt \<Rightarrow> int" where
  "dt_utc t = dt_local t - (case dt_offset t of None \<Rightarrow> 0 | Some z \<Rightarrow> z)"

definition is_aware :: "pydt \<Rightarrow> bool" where
  "is_aware t = (dt_offset t \<noteq> None)"

text \<open>\<open>t.astimezone(UTC)\<close>\<close>

definition to_utc :: "pydt \<Rightarrow> pydt result" where
  "to_utc t = (if 0 \<le> dt_utc t \<and> dt_utc t < max_us
     then Inr \<lparr>dt_local = dt_utc t, dt_offset = Some 0\<rparr>
     else raise OverflowError ''date value out of range'')"

text \<open>\<open>t + timedelta\<close> and \<open>t - timedelta\<close>\<close>

definition dt_add :: "pydt \<Rightarrow> int \<Rightarrow> pydt result" where
  "dt_add t us = (if 0 \<le> dt_local t + us \<and> dt_local t + us < max_us
     then Inr (t\<lparr>dt_local := dt_local t + us\<rparr>)
     else raise OverflowError ''date value out of range'')"

section \<open>The calendar\<close>

definition is_leap :: "int \<Rightarrow> bool" where
  "is_leap y = (y mod 4 = 0 \<and> (y mod 100 \<noteq> 0 \<or> y mod 400 = 0))"

definition days_before_year :: "int \<Rightarrow> int" where
  "days_before_year y = (y - 1) * 365 + (y - 1) div 4 - (y - 1) div 100 + (y - 1) div 400"

definition days_before_month :: "bool \<Rightarrow> int \<Rightarrow> int" where
  "days_before_month leap m =
     (if m \<le> 1 then 0 else if m = 2 then 31
      else (if leap then 1 else 0) +
        (if m = 3 then 59 else if m = 4 then 90 else if m = 5 then 120 else if m = 6 then 151
         else if m = 7 then 181 else if m = 8 then 212 else if m = 9 then 243
         else if m = 10 then 273 else if m = 11 then 304 else if m = 12 then 334 else 365))"

definition days_in_month :: "int \<Rightarrow> int \<Rightarrow> int" where
  "days_in_month y m = days_before_month (is_leap y) (m + 1) - days_before_month (is_leap y) m"

definition ymd_to_ord :: "int \<Rightarrow> int \<Rightarrow> int \<Rightarrow> int" where
  "ymd_to_ord y m d = days_before_year y + days_before_month (is_leap y) m + d"

definition month_of :: "bool \<Rightarrow> int \<Rightarrow> int" where
  "month_of leap n =
     (if n < days_before_month leap 2 then 1 else if n < days_before_month leap 3 then 2
      else if n < days_before_month leap 4 then 3 else if n < days_before_month leap 5 then 4
      else if n < days_before_month leap 6 then 5 else if n < days_before_month leap 7 then 6
      else if n < days_before_month leap 8 then 7 else if n < days_before_month leap 9 then 8
      else if n < days_before_month leap 10 then 9 else if n < days_before_month leap 11 then 10
      else if n < days_before_month leap 12 then 11 else 12)"

definition ord_to_ymd :: "int \<Rightarrow> int \<times> int \<times> int" where
  "ord_to_ymd ord =
     (let n = ord - 1; n400 = n div 146097; n = n mod 146097;
          n100 = n div 36524; n = n mod 36524;
          n4 = n div 1461; n = n mod 1461;
          n1 = n div 365; n = n mod 365;
          year = n400 * 400 + n100 * 100 + n4 * 4 + n1 + 1
      in if n1 = 4 \<or> n100 = 4 then (year - 1, 12, 31)
         else (let leap = (n1 = 3 \<and> (n4 \<noteq> 24 \<or> n100 = 3)); m = month_of leap n
               in (year, m, n - days_before_month leap m + 1)))"

section \<open>isoformat\<close>

definition iso_date :: "int \<Rightarrow> string" where
  "iso_date us = (let (y, m, d) = ord_to_ymd (us div day_us + 1) in
     pad_nat 4 (nat y) @ ''-'' @ pad_nat 2 (nat m) @ ''-'' @ pad_nat 2 (nat d))"

definition iso_clock :: "int \<Rightarrow> string" where
  "iso_clock us = (let s = us div 1000000; f = us mod 1000000 in
     pad_nat 2 (nat (s div 3600)) @ '':'' @ pad_nat 2 (nat (s div 60 mod 60)) @ '':'' @
     pad_nat 2 (nat (s mod 60)) @ (if f = 0 then [] else CHR ''.'' # pad_nat 6 (nat f)))"

definition iso_offset :: "int \<Rightarrow> string" where
  "iso_offset z = (let a = \<bar>z\<bar>; s = a div 1000000; f = a mod 1000000 in
     (if z < 0 then ''-'' else ''+'') @
     pad_nat 2 (nat (s div 3600)) @ '':'' @ pad_nat 2 (nat (s div 60 mod 60)) @
     (if s mod 60 = 0 \<and> f = 0 then [] else CHR '':'' # pad_nat 2 (nat (s mod 60))) @
     (if f = 0 then [] else CHR ''.'' # pad_nat 6 (nat f)))"

definition isoformat :: "pydt \<Rightarrow> string" where
  "isoformat t = iso_date (dt_local t) @ ''T'' @ iso_clock (dt_local t mod day_us) @
     (case dt_offset t of None \<Rightarrow> [] | Some z \<Rightarrow> iso_offset z)"

section \<open>fromisoformat\<close>

definition digit_val :: "char \<Rightarrow> int" where
  "digit_val c = int (of_char c :: nat) - 48"

text \<open>Exactly \<open>n\<close> digits at the front of \<open>s\<close>.\<close>

definition take_digits :: "nat \<Rightarrow> string \<Rightarrow> int option" where
  "take_digits n s = (if n \<le> length s \<and> list_all is_ascii_digit (take n s)
     then Some (foldl (\<lambda>a c. 10 * a + digit_val c) 0 (take n s)) else None)"

definition char_is :: "string \<Rightarrow> nat \<Rightarrow> char \<Rightarrow> bool" where
  "char_is s i c = (i < length s \<and> s ! i = c)"

definition iso_week_to_ord :: "int \<Rightarrow> int \<Rightarrow> int \<Rightarrow> int option" where
  "iso_week_to_ord y w d =
     (let first = ymd_to_ord y 1 1; wd = (first + 6) mod 7;
          long = (wd = 3 \<or> wd = 2 \<and> is_leap y);
          monday = (if wd > 3 then first - wd + 7 else first - wd)
      in if 1 \<le> y \<and> 1 \<le> w \<and> (w < 53 \<or> w = 53 \<and> long) \<and> 1 \<le> d \<and> d \<le> 7
         then Some (monday + (w - 1) * 7 + d - 1) else None)"

text \<open>The ordinal of a date string of 7, 8 or 10 characters.\<close>

definition parse_iso_date :: "string \<Rightarrow> int option" where
  "parse_iso_date s =
     Option.bind (take_digits 4 s) (\<lambda>y.
       let sep = char_is s 4 (CHR ''-''); p = 4 + (if sep then 1 else 0) in
       if char_is s p (CHR ''W'') then
         Option.bind (take_digits 2 (drop (p + 1) s)) (\<lambda>w.
           let q = p + 3 in
           if length s \<le> q then iso_week_to_ord y w 1
           else if char_is s q (CHR ''-'') \<noteq> sep then None
           else Option.bind (take_digits 1 (drop (q + (if sep then 1 else 0)) s))
             (\<lambda>d. iso_week_to_ord y w d))
       else
         Option.bind (take_digits 2 (drop p s)) (\<lambda>m.
           let q = p + 2 in
           if char_is s q (CHR ''-'') \<noteq> sep then None
           else Option.bind (take_digits 2 (drop (q + (if sep then 1 else 0)) s)) (\<lambda>d.
             if 1 \<le> y \<and> 1 \<le> m \<and> m \<le> 12 \<and> 1 \<le> d \<and> d \<le> days_in_month y m
             then Some (ymd_to_ord y m d) else None)))"

definition date_separator_pos :: "string \<Rightarrow> nat option" where
  "date_separator_pos s =
     (let n = length s in
      if n = 7 then Some 7
      else if char_is s 4 (CHR ''-'') then
        (if char_is s 5 (CHR ''W'') then
           (if n > 8 \<and> char_is s 8 (CHR ''-'') then
              (if n = 9 then None
               else if n > 10 \<and> is_ascii_digit (s ! 10) then Some 8 else Some 10)
            else Some 8)
         else Some 10)
      else if char_is s 4 (CHR ''W'') then
        (let idx = 7 + length (takeWhile is_ascii_digit (drop 7 s)) in
         if idx < 9 then Some idx else if idx mod 2 = 0 then Some 7 else Some 8)
      else Some 8)"

text \<open>Hours, minutes, seconds and fraction: microseconds, and whether every component is a
  digit group in its place. The separator after the hours decides for the others.\<close>

definition parse_fraction :: "string \<Rightarrow> int option" where
  "parse_fraction s =
     (case s of [] \<Rightarrow> Some 0
      | c # r \<Rightarrow>
        if c \<noteq> CHR ''.'' \<and> c \<noteq> CHR '','' then None
        else (let k = min 6 (length r) in
          if k = 0 \<or> \<not> list_all is_ascii_digit (drop k r) then None
          else map_option (\<lambda>v. v * 10 ^ (6 - k)) (take_digits k r)))"

definition parse_clock :: "string \<Rightarrow> (int \<times> int \<times> int \<times> int) option" where
  "parse_clock s =
     Option.bind (take_digits 2 s) (\<lambda>h.
       let r = drop 2 s; sep = char_is r 0 (CHR '':'') in
       if r = [] then Some (h, 0, 0, 0)
       else
         Option.bind (take_digits 2 (if sep then drop 1 r else r)) (\<lambda>m.
           let r2 = drop 2 (if sep then drop 1 r else r) in
           if r2 = [] then Some (h, m, 0, 0)
           else if sep \<and> \<not> char_is r2 0 (CHR '':'') then None
           else
             Option.bind (take_digits 2 (if sep then drop 1 r2 else r2)) (\<lambda>sec.
               map_option (\<lambda>f. (h, m, sec, f))
                 (parse_fraction (drop 2 (if sep then drop 1 r2 else r2))))))"

definition find_char :: "char \<Rightarrow> string \<Rightarrow> nat option" where
  "find_char c s = (if c \<in> set s then Some (length (takeWhile (\<lambda>x. x \<noteq> c) s)) else None)"

definition clock_us :: "int \<times> int \<times> int \<times> int \<Rightarrow> int" where
  "clock_us t = (case t of (h, m, s, f) \<Rightarrow> ((h * 60 + m) * 60 + s) * 1000000 + f)"

definition parse_offset :: "string \<Rightarrow> nat \<Rightarrow> int option" where
  "parse_offset s p =
     (if s ! p = CHR ''Z'' \<and> length s = p + 1 then Some 0
      else (let z = drop (p + 1) s in
        if length z \<in> {0, 1, 3} then None
        else Option.bind (parse_clock z) (\<lambda>c.
          let us = clock_us c in
          if us < day_us then Some (if s ! p = CHR ''-'' then - us else us) else None)))"

text \<open>The time of day and the offset of a time string.\<close>

definition parse_iso_time :: "string \<Rightarrow> (int \<times> int option) option" where
  "parse_iso_time s =
     (if length s < 2 then None
      else (let p = (case find_char (CHR ''-'') s of Some i \<Rightarrow> Some i
                     | None \<Rightarrow> (case find_char (CHR ''+'') s of Some i \<Rightarrow> Some i
                                 | None \<Rightarrow> find_char (CHR ''Z'') s));
                clock = (case p of None \<Rightarrow> s | Some i \<Rightarrow> take i s)
            in Option.bind (parse_clock clock) (\<lambda>(h, m, sec, f).
                 if h < 24 \<and> m < 60 \<and> sec < 60 then
                   (case p of None \<Rightarrow> Some (clock_us (h, m, sec, f), None)
                    | Some i \<Rightarrow> map_option (\<lambda>z. (clock_us (h, m, sec, f), Some z))
                        (parse_offset s i))
                 else None)))"

definition fromisoformat :: "string \<Rightarrow> pydt option" where
  "fromisoformat s =
     (if length s < 7 then None
      else Option.bind (date_separator_pos s) (\<lambda>p.
        Option.bind (parse_iso_date (take p s)) (\<lambda>ord.
          let t = drop (p + 1) s in
          if t = [] then
            (if p < length s then None else Some \<lparr>dt_local = (ord - 1) * day_us, dt_offset = None\<rparr>)
          else map_option (\<lambda>(us, z). \<lparr>dt_local = (ord - 1) * day_us + us, dt_offset = z\<rparr>)
            (parse_iso_time t))))"

lemma to_utc_aware: "to_utc t = Inr u \<Longrightarrow> is_aware u \<and> dt_utc u = dt_utc t"
  by (auto simp: to_utc_def is_aware_def dt_utc_def split: if_splits)

end
