(* ===== verification/World_IO.thy ===== *)
theory World_IO
  imports Py_Time
begin

text \<open>
  The effects of the commerce runner. An action takes the world, its clock and the two files of
  the batch planner, and returns nothing (it never returns), or an exception or a value with
  the world after it. Every call of a client, of a budget check or of the disk is an oracle of
  the clock, which ticks at the call: the S3 service, the time budget and disk faults may
  behave differently at every call.
\<close>

text \<open>What a path that exists holds: bytes that cannot be read or are no JSON text (with the
  exception that reading them raises), or the document that \<open>json.loads\<close> returns.\<close>

datatype fdoc = NotReadable exn_class | Doc pyval

record world =
  w_tick :: nat
  w_checkpoint :: "fdoc option"
  w_active :: "fdoc option"

text \<open>An action over any state \<open>'s\<close> and any errors \<open>'e\<close>; \<open>'a io\<close> is one of the runner.\<close>

type_synonym ('e, 'a, 's) act = "'s \<Rightarrow> (('e + 'a) \<times> 's) option"
type_synonym 'a io = "world \<Rightarrow> ('a result \<times> world) option"

definition bind_io :: "('e, 'a, 's) act \<Rightarrow> ('a \<Rightarrow> ('e, 'b, 's) act) \<Rightarrow> ('e, 'b, 's) act" where
  "bind_io m f w =
     (case m w of None \<Rightarrow> None
      | Some (Inl e, w') \<Rightarrow> Some (Inl e, w')
      | Some (Inr x, w') \<Rightarrow> f x w')"

definition return_io :: "'a \<Rightarrow> ('e, 'a, 's) act" where
  "return_io x w = Some (Inr x, w)"

definition lift_io :: "('e + 'a) \<Rightarrow> ('e, 'a, 's) act" where
  "lift_io r w = Some (r, w)"

definition raise_io :: "exn_class \<Rightarrow> string \<Rightarrow> (pyexn, 'a, 's) act" where
  "raise_io c m w = Some (Inl (Exn c m), w)"

definition tick :: "world \<Rightarrow> world" where
  "tick w = w\<lparr>w_tick := Suc (w_tick w)\<rparr>"

text \<open>An oracle call.\<close>

definition call_io :: "(nat \<Rightarrow> 'a result) \<Rightarrow> 'a io" where
  "call_io f w = Some (f (w_tick w), tick w)"

text \<open>\<open>try: m except p as e: h e\<close>\<close>

definition catch_io ::
    "(pyexn, 'a, 's) act \<Rightarrow> (exn_class \<Rightarrow> bool) \<Rightarrow> (pyexn \<Rightarrow> (pyexn, 'a, 's) act) \<Rightarrow> (pyexn, 'a, 's) act" where
  "catch_io m p h w =
     (case m w of None \<Rightarrow> None
      | Some (Inl e, w') \<Rightarrow> if p (class_of e) then h e w' else Some (Inl e, w')
      | Some (Inr x, w') \<Rightarrow> Some (Inr x, w'))"

text \<open>A handler that also sees and may change the errors: \<open>try: m except as e: h e\<close>\<close>

definition handle_io :: "('e, 'a, 's) act \<Rightarrow> ('e \<Rightarrow> ('f, 'a, 's) act) \<Rightarrow> ('f, 'a, 's) act" where
  "handle_io m h w =
     (case m w of None \<Rightarrow> None
      | Some (Inl e, w') \<Rightarrow> h e w'
      | Some (Inr x, w') \<Rightarrow> Some (Inr x, w'))"

text \<open>\<open>try: m finally: f\<close>\<close>

definition finally_io :: "('e, 'a, 's) act \<Rightarrow> ('e, 'b, 's) act \<Rightarrow> ('e, 'a, 's) act" where
  "finally_io m f s =
     (case m s of None \<Rightarrow> None
      | Some (r, s') \<Rightarrow> (case f s' of None \<Rightarrow> None
          | Some (Inl e, s'') \<Rightarrow> Some (Inl e, s'')
          | Some (Inr _, s'') \<Rightarrow> Some (r, s'')))"

primrec mapM_io :: "('a \<Rightarrow> ('e, 'b, 's) act) \<Rightarrow> 'a list \<Rightarrow> ('e, 'b list, 's) act" where
  "mapM_io f [] = return_io []"
| "mapM_io f (x # xs) = bind_io (f x) (\<lambda>y. bind_io (mapM_io f xs) (\<lambda>ys. return_io (y # ys)))"

named_theorems io_simps \<open>inversion of the results of actions\<close>

lemma bind_io_Inr [io_simps]:
  "bind_io m f w = Some (Inr y, w') \<longleftrightarrow> (\<exists>x u. m w = Some (Inr x, u) \<and> f x u = Some (Inr y, w'))"
  by (auto simp: bind_io_def split: option.splits sum.splits)

lemma bind_io_Inl [io_simps]:
  "bind_io m f w = Some (Inl e, w') \<longleftrightarrow>
     m w = Some (Inl e, w') \<or> (\<exists>x u. m w = Some (Inr x, u) \<and> f x u = Some (Inl e, w'))"
  by (auto simp: bind_io_def split: option.splits sum.splits)

lemma bind_io_None [io_simps]:
  "bind_io m f w = None \<longleftrightarrow> m w = None \<or> (\<exists>x u. m w = Some (Inr x, u) \<and> f x u = None)"
  by (auto simp: bind_io_def split: option.splits sum.splits)

lemma bind_io_Some:
  "bind_io m f w = Some (r, w') \<longleftrightarrow>
     (\<exists>e. m w = Some (Inl e, w') \<and> r = Inl e) \<or>
     (\<exists>x u. m w = Some (Inr x, u) \<and> f x u = Some (r, w'))"
  by (auto simp: bind_io_def split: option.splits sum.splits)

lemma bind_io_step: "m w = Some (Inr x, u) \<Longrightarrow> bind_io m f w = f x u"
  by (simp add: bind_io_def)

lemma bind_io_stop: "m w = Some (Inl e, u) \<Longrightarrow> bind_io m f w = Some (Inl e, u)"
  by (simp add: bind_io_def)

lemma bind_io_assoc: "bind_io (bind_io m f) g = bind_io m (\<lambda>x. bind_io (f x) g)"
  by (rule ext) (simp add: bind_io_def split: option.split sum.split)

lemma bind_io_return: "bind_io (return_io x) f = f x"
  by (rule ext) (simp add: bind_io_def return_io_def)

lemma bind_io_case_prod: "bind_io (case x of (a, b) \<Rightarrow> f a b) g = (case x of (a, b) \<Rightarrow> bind_io (f a b) g)"
  by (cases x) simp

lemma return_io_iff [io_simps]: "return_io x w = Some (r, w') \<longleftrightarrow> r = Inr x \<and> w' = w"
  by (auto simp: return_io_def)

lemma lift_io_iff [io_simps]: "lift_io r w = Some (s, w') \<longleftrightarrow> r = s \<and> w' = w"
  by (auto simp: lift_io_def)

lemma raise_io_iff [io_simps]: "raise_io c m w = Some (r, w') \<longleftrightarrow> r = Inl (Exn c m) \<and> w' = w"
  by (auto simp: raise_io_def)

lemma call_io_iff [io_simps]: "call_io f w = Some (r, w') \<longleftrightarrow> f (w_tick w) = r \<and> w' = tick w"
  by (auto simp: call_io_def)

lemma catch_io_Inr [io_simps]:
  "catch_io m p h w = Some (Inr x, w') \<longleftrightarrow>
     m w = Some (Inr x, w') \<or>
     (\<exists>e u. m w = Some (Inl e, u) \<and> p (class_of e) \<and> h e u = Some (Inr x, w'))"
  by (auto simp: catch_io_def split: option.splits sum.splits if_splits)

lemma handle_io_Inr [io_simps]:
  "handle_io m h w = Some (Inr x, w') \<longleftrightarrow>
     m w = Some (Inr x, w') \<or> (\<exists>e u. m w = Some (Inl e, u) \<and> h e u = Some (Inr x, w'))"
  by (auto simp: handle_io_def split: option.splits sum.splits)

lemma handle_io_Inl [io_simps]:
  "handle_io m h w = Some (Inl f, w') \<longleftrightarrow> (\<exists>e u. m w = Some (Inl e, u) \<and> h e u = Some (Inl f, w'))"
  by (auto simp: handle_io_def split: option.splits sum.splits)

lemma finally_io_Inr [io_simps]:
  "finally_io m f s = Some (Inr x, s') \<longleftrightarrow>
     (\<exists>u y. m s = Some (Inr x, u) \<and> f u = Some (Inr y, s'))"
  by (auto simp: finally_io_def split: option.splits sum.splits)

lemma io_not_None [io_simps]:
  "return_io x w \<noteq> None" "lift_io r w \<noteq> None" "raise_io c m w \<noteq> None" "call_io f w \<noteq> None"
  by (auto simp: return_io_def lift_io_def raise_io_def call_io_def)

section \<open>Relations that actions respect\<close>

text \<open>An action obeys a relation between the states before and after it. Every component states
  what its actions leave alone, or only let grow, as such a relation; a composed action obeys it
  as soon as its parts do.\<close>

definition obeys :: "('s \<Rightarrow> 's \<Rightarrow> bool) \<Rightarrow> ('e, 'a, 's) act \<Rightarrow> bool" where
  "obeys rel m \<longleftrightarrow> (\<forall>s r s'. m s = Some (r, s') \<longrightarrow> rel s s')"

lemma obeysD: "obeys rel m \<Longrightarrow> m s = Some (r, s') \<Longrightarrow> rel s s'"
  by (simp add: obeys_def)

locale action_relation =
  fixes rel :: "'s \<Rightarrow> 's \<Rightarrow> bool"
  assumes rel_refl: "rel s s"
    and rel_trans: "rel s t \<Longrightarrow> rel t u \<Longrightarrow> rel s u"
begin

lemma obeys_basic: "obeys rel (return_io x)" "obeys rel (lift_io r)" "obeys rel (raise_io c m)"
  by (auto simp: obeys_def return_io_def lift_io_def raise_io_def rel_refl)

lemma obeys_bind: "obeys rel m \<Longrightarrow> (\<And>x. obeys rel (f x)) \<Longrightarrow> obeys rel (bind_io m f)"
  unfolding obeys_def bind_io_Some by (blast intro: rel_trans)

lemma obeys_lift: "(\<And>x. r = Inr x \<Longrightarrow> obeys rel (f x)) \<Longrightarrow> obeys rel (bind_io (lift_io r) f)"
  by (cases r) (simp_all add: obeys_def bind_io_def lift_io_def rel_refl)

lemma obeys_catch: "obeys rel m \<Longrightarrow> (\<And>e. obeys rel (h e)) \<Longrightarrow> obeys rel (catch_io m p h)"
  unfolding obeys_def catch_io_def
  by (auto split: option.splits sum.splits if_splits; blast intro: rel_trans)

lemma obeys_handle: "obeys rel m \<Longrightarrow> (\<And>e. obeys rel (h e)) \<Longrightarrow> obeys rel (handle_io m h)"
  unfolding obeys_def handle_io_def
  by (auto split: option.splits sum.splits; blast intro: rel_trans)

lemma obeys_finally: "obeys rel m \<Longrightarrow> obeys rel f \<Longrightarrow> obeys rel (finally_io m f)"
  unfolding obeys_def finally_io_def
  by (auto split: option.splits sum.splits; blast intro: rel_trans)

lemma obeys_mapM: "(\<And>x. obeys rel (f x)) \<Longrightarrow> obeys rel (mapM_io f xs)"
  by (induction xs) (simp_all add: obeys_basic obeys_bind)

end

section \<open>Actions that leave the files alone\<close>

definition same_files :: "world \<Rightarrow> world \<Rightarrow> bool" where
  "same_files w w' \<longleftrightarrow> w_checkpoint w' = w_checkpoint w \<and> w_active w' = w_active w"

interpretation files: action_relation same_files
  by unfold_locales (auto simp: same_files_def)

definition keeps_files :: "'a io \<Rightarrow> bool" where
  "keeps_files m \<longleftrightarrow> obeys same_files m"

lemma keeps_files_iff: "keeps_files m \<longleftrightarrow> (\<forall>w r w'. m w = Some (r, w') \<longrightarrow> same_files w w')"
  by (simp add: keeps_files_def obeys_def)

lemma same_files_refl [simp]: "same_files w w"
  by (rule files.rel_refl)

lemma same_files_trans: "same_files u v \<Longrightarrow> same_files v w \<Longrightarrow> same_files u w"
  by (rule files.rel_trans)

lemma same_files_tick [simp]: "same_files w (tick w)"
  by (simp add: same_files_def tick_def)

lemma tick_fields [simp]:
  "w_checkpoint (tick w) = w_checkpoint w" "w_active (tick w) = w_active w"
  "w_tick (tick w) = Suc (w_tick w)"
  by (simp_all add: tick_def)

lemma keeps_filesD: "keeps_files m \<Longrightarrow> m w = Some (r, w') \<Longrightarrow> same_files w w'"
  by (simp add: keeps_files_def obeysD)

lemma keeps_files_basic [simp, intro]:
  "keeps_files (return_io x)" "keeps_files (lift_io r)" "keeps_files (raise_io c m)"
  "keeps_files (call_io f)"
  by (auto simp: keeps_files_def files.obeys_basic) (auto simp: obeys_def io_simps)

lemma keeps_files_bind [intro]:
  "keeps_files m \<Longrightarrow> (\<And>x. keeps_files (f x)) \<Longrightarrow> keeps_files (bind_io m f)"
  unfolding keeps_files_def by (rule files.obeys_bind)

lemma keeps_files_catch [intro]:
  "keeps_files m \<Longrightarrow> (\<And>e. keeps_files (h e)) \<Longrightarrow> keeps_files (catch_io m p h)"
  unfolding keeps_files_def by (rule files.obeys_catch)

lemma keeps_files_mapM [intro]: "(\<And>x. keeps_files (f x)) \<Longrightarrow> keeps_files (mapM_io f xs)"
  unfolding keeps_files_def by (rule files.obeys_mapM)

lemma mapM_io_append:
  "mapM_io f (xs @ ys) w =
     bind_io (mapM_io f xs) (\<lambda>us. bind_io (mapM_io f ys) (\<lambda>vs. return_io (us @ vs))) w"
proof (induction xs arbitrary: w)
  case Nil
  then show ?case
    by (auto simp: bind_io_def return_io_def split: option.splits sum.splits)
next
  case (Cons x xs)
  then show ?case
    by (auto simp: bind_io_def return_io_def split: option.splits sum.splits)
qed

lemma mapM_io_Inr_list_all2:
  assumes "mapM_io f xs w = Some (Inr ys, w')"
    and "\<And>x u y u'. f x u = Some (Inr y, u') \<Longrightarrow> P x y"
  shows "list_all2 P xs ys"
  using assms(1)
proof (induction xs arbitrary: w ys)
  case Nil
  then show ?case by (simp add: io_simps)
next
  case (Cons x xs)
  then show ?case by (auto simp: io_simps dest: assms(2))
qed

end
