(* ===== verification/Runner_Lock.thy ===== *)
theory Runner_Lock
  imports World_IO
begin

text \<open>
  \<open>commerce_runner_lock.py\<close>: the advisory lock that a runner and every mutation of the
  checkpoint hold. What the operating system answers to the non-blocking lock request is an
  outcome: acquired, held by another process (\<open>EACCES\<close> or \<open>EAGAIN\<close>), or another error.
\<close>

datatype lock_outcome = Acquired | HeldElsewhere | LockFault

definition commerce_runner_lock :: "(nat \<Rightarrow> lock_outcome) \<Rightarrow> string \<Rightarrow> 'a io \<Rightarrow> 'a io" where
  "commerce_runner_lock os path body w =
     (case os (w_tick w) of
        Acquired \<Rightarrow> body (tick w)
      | HeldElsewhere \<Rightarrow> raise_io CommerceRunnerBusyError
          (''another commerce runner holds '' @ path @ ''; wait for it to finish'') (tick w)
      | LockFault \<Rightarrow> raise_io OSError [] (tick w))"

text \<open>The same around an action of another state: the lock request has its outcome as an argument.\<close>

definition runner_lock_around :: "lock_outcome \<Rightarrow> string \<Rightarrow> (pyexn, 'a, 's) act \<Rightarrow> (pyexn, 'a, 's) act" where
  "runner_lock_around outcome path body =
     (case outcome of
        Acquired \<Rightarrow> body
      | HeldElsewhere \<Rightarrow> raise_io CommerceRunnerBusyError
          (''another commerce runner holds '' @ path @ ''; wait for it to finish'')
      | LockFault \<Rightarrow> raise_io OSError [])"

lemma commerce_runner_lock_around:
  "commerce_runner_lock os path body w = runner_lock_around (os (w_tick w)) path body (tick w)"
  by (simp add: commerce_runner_lock_def runner_lock_around_def split: lock_outcome.split)

lemma runner_lock_Inr [io_simps]:
  "commerce_runner_lock os path body w = Some (Inr x, w') \<longleftrightarrow>
     os (w_tick w) = Acquired \<and> body (tick w) = Some (Inr x, w')"
  by (auto simp: commerce_runner_lock_def raise_io_def split: lock_outcome.splits)

lemma runner_lock_busy:
  "os (w_tick w) = HeldElsewhere \<Longrightarrow>
     commerce_runner_lock os path body w =
       Some (Inl (Exn CommerceRunnerBusyError
         (''another commerce runner holds '' @ path @ ''; wait for it to finish'')), tick w)"
  by (simp add: commerce_runner_lock_def raise_io_def)

end
