(* ===== verification/Py_Hash.thy ===== *)
theory Py_Hash
  imports Py_Value "HOL-Library.Word"
begin

unbundle bit_operations_syntax

text \<open>
  \<open>hashlib.sha256(body).hexdigest()\<close> on bytes, after FIPS 180-4, and \<open>str.encode("utf-8")\<close>.
  The program compares digests and cuts them to identifiers; nothing here assumes that digests
  of different bytes differ.
\<close>

type_synonym w32 = "32 word"

definition sha_k :: "w32 list" where
  "sha_k = [
    1116352408, 1899447441, 3049323471, 3921009573, 961987163, 1508970993, 2453635748, 2870763221,
    3624381080, 310598401, 607225278, 1426881987, 1925078388, 2162078206, 2614888103, 3248222580,
    3835390401, 4022224774, 264347078, 604807628, 770255983, 1249150122, 1555081692, 1996064986,
    2554220882, 2821834349, 2952996808, 3210313671, 3336571891, 3584528711, 113926993, 338241895,
    666307205, 773529912, 1294757372, 1396182291, 1695183700, 1986661051, 2177026350, 2456956037,
    2730485921, 2820302411, 3259730800, 3345764771, 3516065817, 3600352804, 4094571909, 275423344,
    430227734, 506948616, 659060556, 883997877, 958139571, 1322822218, 1537002063, 1747873779,
    1955562222, 2024104815, 2227730452, 2361852424, 2428436474, 2756734187, 3204031479, 3329325298]"

definition rotr :: "nat \<Rightarrow> w32 \<Rightarrow> w32" where
  "rotr n x = (drop_bit n x) OR (push_bit (32 - n) x)"

definition big_sigma0 :: "w32 \<Rightarrow> w32" where
  "big_sigma0 x = rotr 2 x XOR rotr 13 x XOR rotr 22 x"
definition big_sigma1 :: "w32 \<Rightarrow> w32" where
  "big_sigma1 x = rotr 6 x XOR rotr 11 x XOR rotr 25 x"
definition small_sigma0 :: "w32 \<Rightarrow> w32" where
  "small_sigma0 x = rotr 7 x XOR rotr 18 x XOR drop_bit 3 x"
definition small_sigma1 :: "w32 \<Rightarrow> w32" where
  "small_sigma1 x = rotr 17 x XOR rotr 19 x XOR drop_bit 10 x"

text \<open>The message schedule, newest word first.\<close>

fun schedule :: "nat \<Rightarrow> w32 list \<Rightarrow> w32 list" where
  "schedule 0 ws = ws"
| "schedule (Suc n) ws =
     schedule n ((small_sigma1 (ws ! 1) + ws ! 6 + small_sigma0 (ws ! 14) + ws ! 15) # ws)"

datatype sha_state = Sha w32 w32 w32 w32 w32 w32 w32 w32

fun sha_round :: "w32 \<times> w32 \<Rightarrow> sha_state \<Rightarrow> sha_state" where
  "sha_round (k, w) (Sha a b c d e f g h) =
     (let t1 = h + big_sigma1 e + ((e AND f) XOR (NOT e AND g)) + k + w;
          t2 = big_sigma0 a + ((a AND b) XOR (a AND c) XOR (b AND c))
      in Sha (t1 + t2) a b c (d + t1) e f g)"

fun sha_add :: "sha_state \<Rightarrow> sha_state \<Rightarrow> sha_state" where
  "sha_add (Sha a b c d e f g h) (Sha a' b' c' d' e' f' g' h') =
     Sha (a + a') (b + b') (c + c') (d + d') (e + e') (f + f') (g + g') (h + h')"

definition sha_block :: "sha_state \<Rightarrow> w32 list \<Rightarrow> sha_state" where
  "sha_block s ws = sha_add s (fold sha_round (zip sha_k (rev (schedule 48 (rev ws)))) s)"

definition sha_init :: sha_state where
  "sha_init = Sha 1779033703 3144134277 1013904242 2773480762 1359893119 2600822924 528734635 1541459225"

definition be_word :: "int list \<Rightarrow> w32" where
  "be_word bs = of_int (foldl (\<lambda>a b. 256 * a + b) 0 bs)"

fun sha_chunks :: "nat \<Rightarrow> nat \<Rightarrow> 'a list \<Rightarrow> 'a list list" where
  "sha_chunks 0 n xs = []"
| "sha_chunks (Suc k) n xs = take n xs # sha_chunks k n (drop n xs)"

definition be_bytes :: "nat \<Rightarrow> int \<Rightarrow> int list" where
  "be_bytes k n = map (\<lambda>i. n div 256 ^ (k - 1 - i) mod 256) [0..<k]"

definition sha_pad :: "int list \<Rightarrow> int list" where
  "sha_pad bs = (let n = length bs in
     bs @ [128] @ replicate ((119 - n mod 64) mod 64) 0 @ be_bytes 8 (8 * int n))"

definition sha_digest :: "int list \<Rightarrow> w32 list" where
  "sha_digest bs =
     (let p = sha_pad bs; blocks = sha_chunks (length p div 64) 64 p in
      case foldl (\<lambda>s b. sha_block s (map be_word (sha_chunks 16 4 b))) sha_init blocks of
        Sha a b c d e f g h \<Rightarrow> [a, b, c, d, e, f, g, h])"

definition hex_digit :: "int \<Rightarrow> char" where
  "hex_digit n = (if n < 10 then char_of (48 + n) else char_of (87 + n))"

definition hex_word :: "w32 \<Rightarrow> string" where
  "hex_word w = map (\<lambda>i. hex_digit (uint w div 16 ^ (7 - i) mod 16)) [0..<8]"

definition sha256_hex :: "string \<Rightarrow> string" where
  "sha256_hex body = concat (map hex_word (sha_digest (map of_char body)))"

definition utf8 :: "string \<Rightarrow> string" where
  "utf8 s = concat (map (\<lambda>c. let n = of_char c :: nat in
     if n < 128 then [c] else [char_of (192 + n div 64), char_of (128 + n mod 64)]) s)"

lemma hex_digits_hex: "list_all (\<lambda>n. is_hex_char (hex_digit n)) [0..15]"
  by code_simp

lemma is_hex_char_hex_digit:
  assumes "0 \<le> n" "n < 16"
  shows "is_hex_char (hex_digit n)"
proof -
  have "n \<in> set [0..15]" using assms by simp
  then show ?thesis using hex_digits_hex unfolding list_all_iff by blast
qed

lemma hex_word_hex: "is_hex 8 (hex_word w)"
  by (simp add: is_hex_def hex_word_def list_all_iff is_hex_char_hex_digit)

lemma is_hex_concat:
  "list_all (\<lambda>s. is_hex k s) ss \<Longrightarrow> is_hex (k * length ss) (concat ss)"
  by (induction ss) (auto simp: is_hex_def)

text \<open>A digest is 64 lowercase hexadecimal characters, whatever the bytes.\<close>

lemma sha256_hex_hex: "is_hex 64 (sha256_hex body)"
proof -
  have "length (sha_digest bs) = 8" for bs
    by (simp add: sha_digest_def Let_def split: sha_state.split)
  then show ?thesis
    using is_hex_concat [of 8 "map hex_word (sha_digest (map of_char body))"]
    by (simp add: sha256_hex_def list_all_iff hex_word_hex)
qed

lemma is_hex_take: "is_hex n s \<Longrightarrow> k \<le> n \<Longrightarrow> is_hex k (take k s)"
  by (auto simp: is_hex_def list_all_iff dest: in_set_takeD)

end
