(* ===== verification/Commerce_Source.thy ===== *)
theory Commerce_Source
  imports Runner_Lock Py_Hash "HOL-Library.Product_Lexorder"
begin

text \<open>
  The reading half of \<open>ingestion/commerce_batches.py\<close>: budgeted S3 reads, the manifest of
  one committed batch, and the discovery of all committed batches.
\<close>

section \<open>Data\<close>

record commerce_batch =
  cb_id :: string
  cb_at :: string
  cb_sha :: string
  cb_path :: string
  cb_committed_at :: "pydt option"
  cb_semantics :: pyval

definition as_dict :: "commerce_batch \<Rightarrow> (string \<times> string) list" where
  "as_dict b = [(''batch_at'', cb_at b), (''batch_id'', cb_id b),
     (''manifest_sha256'', cb_sha b), (''path'', cb_path b)]"

text \<open>
  The S3 client is not part of the program: its calls are oracles of the clock. A read ends in
  time, at the very end of the time its caller waits, or later.
\<close>

datatype 'a read = InTime "'a result" | AtExpiry "'a result" | Late "'a result"

primrec outcome :: "'a read \<Rightarrow> 'a result" where
  "outcome (InTime r) = r"
| "outcome (AtExpiry r) = r"
| "outcome (Late r) = r"

record list_item =
  li_key :: string
  li_modified :: "pydt option"

record list_page =
  lp_contents :: "list_item list"
  lp_truncated :: bool
  lp_next :: "string option"

text \<open>A body is read in chunks: \<open>read_body\<close> answers \<open>body_stream.read(size)\<close>.
  \<open>json_loads\<close> is the decoder of JSON texts.\<close>

record s3_client =
  list_objects_v2 :: "nat \<Rightarrow> string \<Rightarrow> string option \<Rightarrow> list_page read"
  get_object :: "nat \<Rightarrow> string \<Rightarrow> (string \<times> string) list read"
  read_body :: "nat \<Rightarrow> string \<Rightarrow> int \<Rightarrow> string read"
  json_loads :: "string \<Rightarrow> pyval result"

type_synonym budget = "(nat \<Rightarrow> rat option result) option"

record planner =
  pl_bucket :: string
  pl_prefix :: string
  pl_state_path :: string
  pl_workers :: nat

definition max_commerce_manifest_bytes :: int where
  "max_commerce_manifest_bytes = 1024 * 1024"

text \<open>The constructor; the number of workers is any value of the caller.\<close>

definition new_planner :: "string \<Rightarrow> string \<Rightarrow> string \<Rightarrow> pyval \<Rightarrow> planner result" where
  "new_planner bucket state_path prefix workers =
     (if bucket = [] then raise ValueError ''bucket must not be empty''
      else if \<not> exact_int workers \<or> \<not> (1 \<le> the_int workers \<and> the_int workers \<le> 8)
      then raise CommerceBatchError ''manifest_read_workers must be an integer between 1 and 8''
      else Inr \<lparr>pl_bucket = bucket, pl_prefix = strip_slash prefix,
                pl_state_path = state_path, pl_workers = nat (the_int workers)\<rparr>)"

section \<open>Budgeted reads\<close>

definition budget_check :: "budget \<Rightarrow> rat option io" where
  "budget_check b = (case b of None \<Rightarrow> return_io None | Some chk \<Rightarrow> call_io chk)"

definition read_call :: "(nat \<Rightarrow> 'a read) \<Rightarrow> 'a read io" where
  "read_call act = call_io (\<lambda>n. Inr (act n))"

definition read_with_budget :: "budget \<Rightarrow> (nat \<Rightarrow> 'a read) \<Rightarrow> 'a io" where
  "read_with_budget b act =
     bind_io (budget_check b) (\<lambda>remaining.
     bind_io (read_call act) (\<lambda>r.
       case remaining of
         None \<Rightarrow> lift_io (outcome r)
       | Some seconds \<Rightarrow>
          (case r of
             InTime (Inr x) \<Rightarrow> bind_io (budget_check b) (\<lambda>_. return_io x)
           | InTime (Inl e) \<Rightarrow>
               if class_of e = FutureTimeoutError
               then bind_io (budget_check b) (\<lambda>_. lift_io (Inl e))
               else lift_io (Inl e)
           | AtExpiry x \<Rightarrow> bind_io (budget_check b) (\<lambda>_. raise_io FutureTimeoutError [])
           | Late x \<Rightarrow> bind_io (budget_check b)
               (\<lambda>_. raise_io CommerceBatchError ''commerce S3 read exceeded run time budget''))))"

section \<open>One manifest\<close>

definition required_tables :: "string list" where
  "required_tables = [''customers'', ''orders'', ''payments'', ''products'']"

definition same_keys :: "pydict \<Rightarrow> string list \<Rightarrow> bool" where
  "same_keys d ks = (list_all (\<lambda>k. k \<in> set ks) (map fst d) \<and> list_all (\<lambda>k. k \<in> set (map fst d)) ks)"

definition valid_table_entry :: "string \<Rightarrow> pyval \<Rightarrow> bool" where
  "valid_table_entry name details =
     (is_dict details \<and>
      (let d = the_dict details; checksum = get d ''sha256''; rows = get d ''rows'' in
       py_eq (get d ''file'') (PStr (name @ ''.jsonl'')) \<and> exact_int rows \<and> 1 \<le> the_int rows \<and>
       is_str checksum \<and> is_hex 64 (the_str checksum)))"

definition valid_table_inventory :: "pyval \<Rightarrow> bool" where
  "valid_table_inventory tables =
     (is_dict tables \<and> same_keys (the_dict tables) required_tables \<and>
      list_all (\<lambda>(name, details). valid_table_entry name details) (the_dict tables))"

text \<open>The loop that reads a body: at most one byte more than the limit is asked for.\<close>

partial_function (option) read_chunks ::
    "s3_client \<Rightarrow> budget \<Rightarrow> string \<Rightarrow> int \<Rightarrow> string list \<Rightarrow> world \<Rightarrow> (string list result \<times> world) option"
where
  "read_chunks c b key remaining chunks w =
     (if remaining = 0 then Some (Inr chunks, w)
      else (case read_with_budget b (\<lambda>n. read_body c n key remaining) w of
          None \<Rightarrow> None
        | Some (Inl e, w') \<Rightarrow> Some (Inl e, w')
        | Some (Inr chunk, w') \<Rightarrow>
            if chunk = [] then Some (Inr chunks, w')
            else read_chunks c b key (remaining - int (length chunk)) (chunks @ [chunk]) w'))"

definition utc_iso_z :: "pydt \<Rightarrow> string result" where
  "utc_iso_z t = bindE (to_utc t) (\<lambda>u. Inr (replace ''+00:00'' ''Z'' (isoformat u)))"

definition parse_batch_at :: "pyval \<Rightarrow> string result" where
  "parse_batch_at v =
     (if \<not> is_str v then raise ValueError ''batch_at must be a timestamp string''
      else case fromisoformat (replace ''Z'' ''+00:00'' (the_str v)) of
          None \<Rightarrow> raise ValueError ''Invalid isoformat string''
        | Some t \<Rightarrow> if \<not> is_aware t then raise ValueError ''batch_at must have a timezone''
            else utc_iso_z t)"

definition manifest_batch_at :: "s3_client \<Rightarrow> string \<Rightarrow> (pyval \<times> string) result" where
  "manifest_batch_at c body =
     bindE (json_loads c body) (\<lambda>manifest.
     bindE (subscript manifest ''config'') (\<lambda>config.
     bindE (subscript config ''batch_at'') (\<lambda>stamp.
     bindE (parse_batch_at stamp) (\<lambda>normalized. Inr (manifest, normalized)))))"

definition caught_by_manifest :: "exn_class \<Rightarrow> bool" where
  "caught_by_manifest k = (is_a k JSONDecodeError \<or> is_a k KeyError \<or> is_a k TypeError \<or>
     is_a k ValueError \<or> is_a k OverflowError)"

definition good_marker :: "(string \<times> string) list \<Rightarrow> string \<Rightarrow> string \<Rightarrow> bool" where
  "good_marker metadata batch_id checksum =
     (map_of metadata ''commit-marker'' = Some ''true'' \<and>
      map_of metadata ''source'' = Some ''commerce'' \<and>
      map_of metadata ''batch-id'' = Some batch_id \<and>
      map_of metadata ''sha256'' = Some checksum)"

definition decode_manifest ::
    "s3_client \<Rightarrow> planner \<Rightarrow> string \<Rightarrow> string \<Rightarrow> pydt option \<Rightarrow> (string \<times> string) list \<Rightarrow> string
     \<Rightarrow> commerce_batch result" where
  "decode_manifest c p batch_id key committed_at metadata body =
     (if int (length body) > max_commerce_manifest_bytes
      then raise CommerceBatchError (''commerce manifest exceeds 1 MiB: '' @ key)
      else let checksum = sha256_hex body in
      if \<not> good_marker metadata batch_id checksum
      then raise CommerceBatchError (''invalid commerce commit marker: '' @ key)
      else bindE (catchE (manifest_batch_at c body) caught_by_manifest
          (\<lambda>e. raise CommerceBatchError (''invalid commerce manifest: '' @ key)))
        (\<lambda>(manifest, normalized). let m = the_dict manifest in
          if \<not> exact_int (get m ''schema_version'') \<or> the_int (get m ''schema_version'') \<noteq> 1
             \<or> \<not> py_eq (get m ''batch_id'') (PStr batch_id)
             \<or> \<not> valid_table_inventory (get m ''tables'')
          then raise CommerceBatchError (''invalid commerce manifest: '' @ key)
          else Inr \<lparr>cb_id = batch_id, cb_at = normalized, cb_sha = checksum,
                 cb_path = ''s3://'' @ pl_bucket p @ ''/'' @ remove_suffix ''manifest.json'' key,
                 cb_committed_at = (case committed_at of None \<Rightarrow> None
                   | Some t \<Rightarrow> if is_aware t then Some t else None),
                 cb_semantics = get (the_dict (get m ''config'')) ''source_semantics''\<rparr>))"

definition read_manifest ::
    "s3_client \<Rightarrow> planner \<Rightarrow> budget \<Rightarrow> string \<times> string \<times> pydt option \<Rightarrow> commerce_batch io" where
  "read_manifest c p b entry =
     (case entry of (batch_id, key, committed_at) \<Rightarrow>
       bind_io (read_with_budget b (\<lambda>n. get_object c n key)) (\<lambda>metadata.
       bind_io (read_chunks c b key (max_commerce_manifest_bytes + 1) []) (\<lambda>chunks.
         lift_io (decode_manifest c p batch_id key committed_at metadata (concat chunks)))))"

section \<open>Discovery\<close>

definition source_root :: "planner \<Rightarrow> string" where
  "source_root p = join ''/'' (filter (\<lambda>part. part \<noteq> []) [pl_prefix p, ''source=commerce''])"

text \<open>The group of the manifest pattern, which is anchored on both sides.\<close>

definition match_manifest_key :: "string \<Rightarrow> string \<Rightarrow> string option" where
  "match_manifest_key base key =
     (let pre = base @ ''/batch_id=''; rest = drop (length pre) key in
      if starts_with pre key \<and> is_hex 16 (take 16 rest) \<and> drop 16 rest = ''/manifest.json''
      then Some (take 16 rest) else None)"

definition item_keys :: "string \<Rightarrow> list_item \<Rightarrow> (string \<times> string \<times> pydt option) list" where
  "item_keys base i = (case match_manifest_key base (li_key i) of
     None \<Rightarrow> [] | Some batch_id \<Rightarrow> [(batch_id, li_key i, li_modified i)])"

definition page_keys :: "string \<Rightarrow> list_page \<Rightarrow> (string \<times> string \<times> pydt option) list" where
  "page_keys base page = concat (map (item_keys base) (lp_contents page))"

text \<open>The token of the next page, if there is one; a token seen before is refused.\<close>

definition next_token :: "list_page \<Rightarrow> string list \<Rightarrow> string option result" where
  "next_token page seen =
     (if \<not> lp_truncated page then Inr None
      else case lp_next page of
          None \<Rightarrow> raise CommerceBatchError ''S3 listing is truncated without a continuation token''
        | Some token \<Rightarrow>
           if token = []
           then raise CommerceBatchError ''S3 listing is truncated without a continuation token''
           else if token \<in> set seen
           then raise CommerceBatchError ''S3 listing returned a repeated continuation token''
           else Inr (Some token))"

partial_function (option) list_manifest_keys ::
    "s3_client \<Rightarrow> budget \<Rightarrow> string \<Rightarrow> string option \<Rightarrow> string list \<Rightarrow> (string \<times> string \<times> pydt option) list
     \<Rightarrow> world \<Rightarrow> ((string \<times> string \<times> pydt option) list result \<times> world) option"
where
  "list_manifest_keys c b base continuation seen keys w =
     (case read_with_budget b (\<lambda>n. list_objects_v2 c n (base @ ''/'') continuation) w of
        None \<Rightarrow> None
      | Some (Inl e, w') \<Rightarrow> Some (Inl e, w')
      | Some (Inr page, w') \<Rightarrow>
         (case next_token page seen of
            Inl e \<Rightarrow> Some (Inl e, w')
          | Inr None \<Rightarrow> Some (Inr (keys @ page_keys base page), w')
          | Inr (Some token) \<Rightarrow>
              list_manifest_keys c b base (Some token) (token # seen)
                (keys @ page_keys base page) w'))"

text \<open>A group of concurrent reads: each read is made, and the first failure in the order of
  the keys is the one that reaches the caller.\<close>

primrec collect_io :: "('a \<Rightarrow> 'b io) \<Rightarrow> 'a list \<Rightarrow> 'b result list io" where
  "collect_io f [] = return_io []"
| "collect_io f (x # xs) = (\<lambda>w. case f x w of None \<Rightarrow> None
     | Some (r, w') \<Rightarrow> bind_io (collect_io f xs) (\<lambda>rs. return_io (r # rs)) w')"

function read_groups :: "('a \<Rightarrow> 'b io) \<Rightarrow> nat \<Rightarrow> 'a list \<Rightarrow> 'b list io" where
  "read_groups f workers entries =
     (if entries = [] \<or> workers = 0 then return_io []
      else bind_io (collect_io f (take workers entries)) (\<lambda>rs.
           bind_io (lift_io (mapE id rs)) (\<lambda>group.
           bind_io (read_groups f workers (drop workers entries)) (\<lambda>rest.
             return_io (group @ rest)))))"
  by pat_completeness auto
termination
  by (relation "measure (\<lambda>(f, k, es). length es)") auto

declare read_groups.simps [simp del]

definition effective_at :: "string \<Rightarrow> int result" where
  "effective_at s = (case fromisoformat (replace ''Z'' ''+00:00'' s) of
     None \<Rightarrow> raise ValueError ''Invalid isoformat string'' | Some t \<Rightarrow> Inr (dt_utc t))"

definition sort_batches :: "commerce_batch list \<Rightarrow> commerce_batch list result" where
  "sort_batches bs =
     bindE (mapE (\<lambda>b. effective_at (cb_at b)) bs) (\<lambda>ts.
       Inr (map snd (sort_key (\<lambda>(t, b). (t, cb_id b)) (zip ts bs))))"

definition discover :: "s3_client \<Rightarrow> planner \<Rightarrow> budget \<Rightarrow> commerce_batch list io" where
  "discover c p b =
     bind_io (list_manifest_keys c b (source_root p) None [] []) (\<lambda>keys.
     bind_io (if pl_workers p = 1 \<or> length keys < 2
              then mapM_io (read_manifest c p b) keys
              else read_groups (read_manifest c p b) (pl_workers p) keys)
       (\<lambda>batches. lift_io (sort_batches batches)))"

section \<open>Reads leave the files alone\<close>

lemma keeps_files_budget_check [simp, intro]: "keeps_files (budget_check b)"
  by (auto simp: budget_check_def split: option.split)

lemma keeps_files_read [simp, intro]: "keeps_files (read_with_budget b act)"
  unfolding read_with_budget_def read_call_def
  by (intro keeps_files_bind) (auto split: option.splits read.splits sum.splits)

lemma read_with_budget_returns [simp]: "read_with_budget b act w \<noteq> None"
  by (auto simp: read_with_budget_def read_call_def budget_check_def bind_io_def call_io_def
      return_io_def lift_io_def raise_io_def split: option.splits read.splits sum.splits)

text \<open>What a read returns is what the service answered.\<close>

lemma read_with_budget_Inr:
  assumes "read_with_budget b act w = Some (Inr x, w')"
  shows "\<exists>n. outcome (act n) = Inr x"
  using assms
  by (auto simp: read_with_budget_def read_call_def io_simps
      split: option.splits read.splits sum.splits if_splits) (metis outcome.simps)+

lemma read_with_budget_cases:
  obtains q w' where "read_with_budget b act w = Some (q, w')" "same_files w w'"
  by (metis keeps_filesD keeps_files_read not_None_eq old.prod.exhaust read_with_budget_returns)

lemma read_chunks_same_files:
  assumes ret: "read_chunks c b key remaining acc w = Some r"
  shows "same_files w (snd r)"
proof (rule read_chunks.raw_induct
    [where P = "\<lambda>c b key remaining acc w r. same_files w (snd r)", OF _ ret])
  fix f c b key remaining acc w r
  assume IH: "\<And>c b key remaining acc w r. f c b key remaining acc w = Some r \<Longrightarrow> same_files w (snd r)"
    and eq: "(if remaining = 0 then Some (Inr acc, w)
      else (case read_with_budget b (\<lambda>n. read_body c n key remaining) w of
          None \<Rightarrow> None
        | Some (Inl e, w') \<Rightarrow> Some (Inl e, w')
        | Some (Inr chunk, w') \<Rightarrow>
            if chunk = [] then Some (Inr acc, w')
            else f c b key (remaining - int (length chunk)) (acc @ [chunk]) w')) = Some r"
  obtain q w' where read: "read_with_budget b (\<lambda>n. read_body c n key remaining) w = Some (q, w')"
    and w': "same_files w w'" by (rule read_with_budget_cases)
  show "same_files w (snd r)"
  proof (cases "remaining = 0")
    case True
    with eq show ?thesis by auto
  next
    case False
    with eq read consider "same_files w' (snd r)"
      by (auto split: sum.splits if_splits) (blast dest: IH)
    then show ?thesis using w' by (blast intro: same_files_trans)
  qed
qed

text \<open>Every listed key is that of a manifest under the planner's root.\<close>

definition manifest_entry :: "string \<Rightarrow> string \<times> string \<times> pydt option \<Rightarrow> bool" where
  "manifest_entry base e = (case e of (batch_id, key, t) \<Rightarrow>
     is_hex 16 batch_id \<and> key = base @ ''/batch_id='' @ batch_id @ ''/manifest.json'')"

lemma match_manifest_key_Some:
  assumes "match_manifest_key base key = Some batch_id"
  shows "is_hex 16 batch_id \<and> key = base @ ''/batch_id='' @ batch_id @ ''/manifest.json''"
proof -
  let ?pre = "base @ ''/batch_id=''"
  from assms have pre: "starts_with ?pre key" and hex: "is_hex 16 batch_id"
    and id: "batch_id = take 16 (drop (length ?pre) key)"
    and rest: "drop 16 (drop (length ?pre) key) = ''/manifest.json''"
    by (auto simp: match_manifest_key_def Let_def split: if_splits)
  from pre obtain t where t: "key = ?pre @ t" by (auto simp: starts_with_iff)
  have "t = take 16 t @ drop 16 t" by simp
  with id rest t have "t = batch_id @ ''/manifest.json''" by simp
  with t hex show ?thesis by simp
qed

lemma match_manifest_key_complete:
  "is_hex 16 batch_id \<Longrightarrow>
     match_manifest_key base (base @ ''/batch_id='' @ batch_id @ ''/manifest.json'') = Some batch_id"
  by (auto simp: match_manifest_key_def Let_def starts_with_iff is_hex_def)

lemma page_keys_entries: "list_all (manifest_entry base) (page_keys base page)"
proof -
  have "manifest_entry base e" if "e \<in> set (page_keys base page)" for e
  proof -
    from that obtain i where i: "e \<in> set (item_keys base i)"
      by (auto simp: page_keys_def)
    show ?thesis
    proof (cases "match_manifest_key base (li_key i)")
      case None
      with i show ?thesis by (simp add: item_keys_def)
    next
      case (Some batch_id)
      from match_manifest_key_Some [OF this] i Some show ?thesis
        by (simp add: manifest_entry_def item_keys_def)
    qed
  qed
  then show ?thesis by (simp add: list_all_iff)
qed

lemma list_manifest_keys_spec:
  assumes ret: "list_manifest_keys c b base cont seen keys w = Some r"
  shows "same_files w (snd r) \<and> (list_all (manifest_entry base) keys \<longrightarrow>
     (\<forall>ks. fst r = Inr ks \<longrightarrow> list_all (manifest_entry base) ks))"
proof (rule list_manifest_keys.raw_induct
    [where P = "\<lambda>c b base cont seen keys w r. same_files w (snd r) \<and>
       (list_all (manifest_entry base) keys \<longrightarrow>
       (\<forall>ks. fst r = Inr ks \<longrightarrow> list_all (manifest_entry base) ks))", OF _ ret])
  fix f c b base cont seen keys w r
  assume IH: "\<And>c b base cont seen keys w r. f c b base cont seen keys w = Some r \<Longrightarrow>
      same_files w (snd r) \<and> (list_all (manifest_entry base) keys \<longrightarrow>
       (\<forall>ks. fst r = Inr ks \<longrightarrow> list_all (manifest_entry base) ks))"
    and eq: "(case read_with_budget b (\<lambda>n. list_objects_v2 c n (base @ ''/'') cont) w of
        None \<Rightarrow> None
      | Some (Inl e, w') \<Rightarrow> Some (Inl e, w')
      | Some (Inr page, w') \<Rightarrow>
         (case next_token page seen of
            Inl e \<Rightarrow> Some (Inl e, w')
          | Inr None \<Rightarrow> Some (Inr (keys @ page_keys base page), w')
          | Inr (Some token) \<Rightarrow>
              f c b base (Some token) (token # seen) (keys @ page_keys base page) w')) = Some r"
  obtain q w' where read: "read_with_budget b (\<lambda>n. list_objects_v2 c n (base @ ''/'') cont) w = Some (q, w')"
    and w': "same_files w w'" by (rule read_with_budget_cases)
  from eq read have "same_files w' (snd r)"
    by (auto split: sum.splits option.splits dest: IH)
  with w' have "same_files w (snd r)" by (rule same_files_trans)
  moreover have "\<forall>ks. fst r = Inr ks \<longrightarrow> list_all (manifest_entry base) ks"
    if "list_all (manifest_entry base) keys"
    using eq read that by (auto simp: page_keys_entries split: sum.splits option.splits dest: IH)
  ultimately show "same_files w (snd r) \<and> (list_all (manifest_entry base) keys \<longrightarrow>
       (\<forall>ks. fst r = Inr ks \<longrightarrow> list_all (manifest_entry base) ks))" by blast
qed

section \<open>Concurrent and serial manifest reads agree\<close>

lemma collect_io_no_error: "collect_io f xs w \<noteq> Some (Inl e, w')"
  by (induction xs arbitrary: w)
    (auto simp: io_simps split: option.splits)

lemma mapM_io_collect:
  "mapM_io f xs w = Some (Inr ys, w') \<longleftrightarrow>
     (\<exists>rs. collect_io f xs w = Some (Inr rs, w') \<and> mapE id rs = Inr ys)"
proof (induction xs arbitrary: w ys)
  case Nil
  then show ?case by (auto simp: io_simps)
next
  case (Cons x xs)
  show ?case
  proof (cases "f x w")
    case None
    then show ?thesis by (auto simp: io_simps)
  next
    case (Some p)
    obtain r u where p: "p = (r, u)" by (cases p)
    show ?thesis
    proof (cases r)
      case (Inl e)
      with Some p show ?thesis by (auto simp: io_simps result_simps)
    next
      case (Inr y)
      with Some p Cons.IH [of u] show ?thesis
        by (auto simp: io_simps result_simps)
    qed
  qed
qed

lemma read_groups_iff_mapM:
  assumes "0 < k"
  shows "read_groups f k xs w = Some (Inr ys, w') \<longleftrightarrow> mapM_io f xs w = Some (Inr ys, w')"
  using assms
proof (induction f k xs arbitrary: w ys w' rule: read_groups.induct)
  case (1 f k xs)
  show ?case
  proof (cases "xs = []")
    case True
    then show ?thesis by (subst read_groups.simps) simp
  next
    case False
    have IH: "read_groups f k (drop k xs) u = Some (Inr zs, w') \<longleftrightarrow>
        mapM_io f (drop k xs) u = Some (Inr zs, w')" for u zs
      using "1.IH" False "1.prems" by auto
    have "read_groups f k xs w = Some (Inr ys, w') \<longleftrightarrow>
        (\<exists>us u vs. mapM_io f (take k xs) w = Some (Inr us, u) \<and>
           mapM_io f (drop k xs) u = Some (Inr vs, w') \<and> ys = us @ vs)"
      using False "1.prems"
      by (subst read_groups.simps) (auto simp: io_simps mapM_io_collect [of f "take k xs"] IH)
    also have "\<dots> \<longleftrightarrow> mapM_io f (take k xs @ drop k xs) w = Some (Inr ys, w')"
      by (subst mapM_io_append) (auto simp: io_simps)
    finally show ?thesis by simp
  qed
qed

section \<open>Facts about discovery\<close>

lemma keeps_files_collect: "(\<And>x. keeps_files (f x)) \<Longrightarrow> keeps_files (collect_io f xs)"
proof (induction xs)
  case Nil
  then show ?case by simp
next
  case (Cons x xs)
  then have tail: "keeps_files (bind_io (collect_io f xs) (\<lambda>rs. return_io (r # rs)))" for r
    by (intro keeps_files_bind) auto
  show ?case unfolding keeps_files_iff
    using keeps_filesD [OF tail] keeps_filesD [OF Cons.prems]
    by (fastforce split: option.splits intro: same_files_trans)
qed

lemma keeps_files_read_groups: "(\<And>x. keeps_files (f x)) \<Longrightarrow> keeps_files (read_groups f k xs)"
proof (induction f k xs rule: read_groups.induct)
  case (1 f k xs)
  show ?case
  proof (cases "xs = [] \<or> k = 0")
    case True
    then show ?thesis by (subst read_groups.simps) auto
  next
    case False
    then show ?thesis
      by (subst read_groups.simps)
        (use 1 in \<open>auto intro!: keeps_files_bind keeps_files_collect\<close>)
  qed
qed

lemma keeps_files_read_manifest [simp]: "keeps_files (read_manifest c p b e)"
proof -
  have "keeps_files (read_chunks c b key n acc)" for key n acc
    unfolding keeps_files_iff using read_chunks_same_files by fastforce
  then show ?thesis by (cases e) (auto simp: read_manifest_def intro!: keeps_files_bind)
qed

lemma keeps_files_discover [simp]: "keeps_files (discover c p b)"
proof -
  have "keeps_files (list_manifest_keys c b base cont seen keys)" for base cont seen keys
    unfolding keeps_files_iff using list_manifest_keys_spec by fastforce
  then show ?thesis
    unfolding discover_def by (auto intro!: keeps_files_bind keeps_files_read_groups keeps_files_mapM)
qed

text \<open>What a discovered batch is: its identity is the key's, its digest that of the bytes read.\<close>

definition batch_of_key :: "planner \<Rightarrow> commerce_batch \<Rightarrow> bool" where
  "batch_of_key p b \<longleftrightarrow> is_hex 16 (cb_id b) \<and> is_hex 64 (cb_sha b) \<and>
     cb_path b = ''s3://'' @ pl_bucket p @ ''/'' @ source_root p @ ''/batch_id='' @ cb_id b @ ''/'' \<and>
     (case cb_committed_at b of None \<Rightarrow> True | Some t \<Rightarrow> is_aware t)"

lemma decode_manifest_Inr:
  assumes "decode_manifest c p batch_id key t metadata body = Inr x"
  shows "cb_id x = batch_id" "cb_sha x = sha256_hex body"
    "cb_path x = ''s3://'' @ pl_bucket p @ ''/'' @ remove_suffix ''manifest.json'' key"
    "int (length body) \<le> max_commerce_manifest_bytes"
    "good_marker metadata batch_id (cb_sha x)"
    "case cb_committed_at x of None \<Rightarrow> True | Some t \<Rightarrow> is_aware t"
    "\<exists>v. parse_batch_at v = Inr (cb_at x)"
  using assms unfolding decode_manifest_def
  by (auto simp: Let_def result_simps manifest_batch_at_def split: if_splits option.splits prod.splits)

lemma remove_manifest_suffix:
  "remove_suffix ''manifest.json'' (base @ ''/batch_id='' @ i @ ''/manifest.json'') =
     base @ ''/batch_id='' @ i @ ''/''"
  using remove_suffix_append [of "''manifest.json''" "base @ ''/batch_id='' @ i @ ''/''"] by simp

lemma read_manifest_Inr:
  assumes "read_manifest c p b e w = Some (Inr x, w')" "manifest_entry (source_root p) e"
  shows "batch_of_key p x" "cb_id x = fst e" "\<exists>v. parse_batch_at v = Inr (cb_at x)"
proof -
  obtain i key t where e: "e = (i, key, t)" by (cases e) auto
  from assms(1) e obtain md body where d: "decode_manifest c p i key t md body = Inr x"
    by (auto simp: read_manifest_def io_simps)
  note f = decode_manifest_Inr [OF d]
  from assms(2) e have "is_hex 16 i" and key: "key = source_root p @ ''/batch_id='' @ i @ ''/manifest.json''"
    by (auto simp: manifest_entry_def)
  moreover have "cb_path x = ''s3://'' @ pl_bucket p @ ''/'' @ source_root p @ ''/batch_id='' @ i @ ''/''"
    by (simp only: f(3) key remove_manifest_suffix)
  ultimately show "batch_of_key p x"
    using f(1,2,6) by (simp add: batch_of_key_def sha256_hex_hex)
  show "cb_id x = fst e" using f e by simp
  show "\<exists>v. parse_batch_at v = Inr (cb_at x)" using f by blast
qed

definition order_key :: "commerce_batch \<Rightarrow> int \<times> string" where
  "order_key b = ((case effective_at (cb_at b) of Inl e \<Rightarrow> 0 | Inr t \<Rightarrow> t), cb_id b)"

lemma sort_batches_Inr:
  assumes "sort_batches bs = Inr cs"
  shows "cs = sort_key order_key bs" "\<forall>b \<in> set bs. \<exists>t. effective_at (cb_at b) = Inr t"
proof -
  from assms obtain ts where ts: "mapE (\<lambda>b. effective_at (cb_at b)) bs = Inr ts"
    and cs: "cs = map snd (sort_key (\<lambda>(t, b). (t, cb_id b)) (zip ts bs))"
    by (auto simp: sort_batches_def result_simps)
  from ts have l2: "list_all2 (\<lambda>b t. effective_at (cb_at b) = Inr t) bs ts"
    by (simp add: mapE_Inr_iff)
  then show "\<forall>b \<in> set bs. \<exists>t. effective_at (cb_at b) = Inr t"
    by (auto simp: list_all2_conv_all_nth in_set_conv_nth)
  from l2 have z: "zip ts bs = map (\<lambda>b. (fst (order_key b), b)) bs"
    by (induction rule: list_all2_induct) (auto simp: order_key_def)
  have ins: "insort_key (\<lambda>(t, b). (t, cb_id b)) (fst (order_key x), x) (map (\<lambda>b. (fst (order_key b), b)) xs) =
      map (\<lambda>b. (fst (order_key b), b)) (insort_key order_key x xs)" for x xs
    by (induction xs) (auto simp: order_key_def)
  have "sort_key (\<lambda>(t, b). (t, cb_id b)) (map (\<lambda>b. (fst (order_key b), b)) xs) =
      map (\<lambda>b. (fst (order_key b), b)) (sort_key order_key xs)" for xs
    by (induction xs) (simp_all add: ins)
  then show "cs = sort_key order_key bs" by (simp add: cs z comp_def)
qed

lemma discover_Inr:
  assumes "discover c p b w = Some (Inr bs, w')"
  shows "sorted (map order_key bs)" "\<forall>x \<in> set bs. batch_of_key p x"
    "\<forall>x \<in> set bs. (\<exists>t. effective_at (cb_at x) = Inr t) \<and> (\<exists>v. parse_batch_at v = Inr (cb_at x))"
proof -
  from assms obtain keys u us where
    keys: "list_manifest_keys c b (source_root p) None [] [] w = Some (Inr keys, u)" and
    us: "(if pl_workers p = 1 \<or> length keys < 2 then mapM_io (read_manifest c p b) keys
              else read_groups (read_manifest c p b) (pl_workers p) keys) u = Some (Inr us, w')" and
    srt: "sort_batches us = Inr bs"
    by (auto simp: discover_def io_simps)
  have entries: "list_all (manifest_entry (source_root p)) keys"
    using list_manifest_keys_spec [OF keys] by simp
  have "set us = {} \<or> mapM_io (read_manifest c p b) keys u = Some (Inr us, w')"
  proof (cases "pl_workers p")
    case 0
    then show ?thesis using us
      by (auto simp: read_groups.simps [of _ 0] io_simps split: if_splits)
  next
    case (Suc k)
    then show ?thesis using us by (auto simp: read_groups_iff_mapM split: if_splits)
  qed
  then have "\<forall>x \<in> set us. \<exists>e \<in> set keys. \<exists>v v'. read_manifest c p b e v = Some (Inr x, v')"
  proof
    assume "mapM_io (read_manifest c p b) keys u = Some (Inr us, w')"
    then have "list_all2 (\<lambda>e x. \<exists>v v'. read_manifest c p b e v = Some (Inr x, v')) keys us"
      by (rule mapM_io_Inr_list_all2) blast
    then show ?thesis by (induction rule: list_all2_induct) auto
  qed auto
  then have all: "\<forall>x \<in> set us. batch_of_key p x \<and> (\<exists>v. parse_batch_at v = Inr (cb_at x))"
    using entries by (auto simp: list_all_iff dest: read_manifest_Inr)
  note s = sort_batches_Inr [OF srt]
  show "sorted (map order_key bs)" by (simp add: s(1))
  show "\<forall>x \<in> set bs. batch_of_key p x" using all by (simp add: s(1))
  show "\<forall>x \<in> set bs. (\<exists>t. effective_at (cb_at x) = Inr t) \<and> (\<exists>v. parse_batch_at v = Inr (cb_at x))"
    using all s by auto
qed

text \<open>The number of workers only chooses between serial and grouped reads.\<close>

lemma source_root_workers [simp]: "source_root (p\<lparr>pl_workers := k\<rparr>) = source_root p"
  by (simp add: source_root_def)

lemma read_manifest_workers [simp]: "read_manifest c (p\<lparr>pl_workers := k\<rparr>) b = read_manifest c p b"
proof -
  have "pl_bucket (p\<lparr>pl_workers := k\<rparr>) = pl_bucket p" by simp
  then have "decode_manifest c (p\<lparr>pl_workers := k\<rparr>) = decode_manifest c p"
    unfolding decode_manifest_def by metis
  then show ?thesis unfolding read_manifest_def by metis
qed

lemma discover_workers:
  assumes "0 < k"
  shows "discover c (p\<lparr>pl_workers := k\<rparr>) b w = Some (Inr bs, w') \<longleftrightarrow>
    discover c (p\<lparr>pl_workers := 1\<rparr>) b w = Some (Inr bs, w')"
proof -
  let ?serial = "mapM_io (read_manifest c p b)"
  have eq: "(if k = 1 \<or> length keys < 2 then ?serial keys
        else read_groups (read_manifest c p b) k keys) u = Some (Inr xs, v) \<longleftrightarrow>
      ?serial keys u = Some (Inr xs, v)" for keys u xs v
    by (simp only: read_groups_iff_mapM [OF assms] split: if_split) simp
  have sel: "pl_workers (p\<lparr>pl_workers := j\<rparr>) = j" for j by simp
  show ?thesis
    by (simp only: discover_def bind_io_Inr sel eq read_manifest_workers source_root_workers
        simp_thms if_True)
qed

section \<open>Discovery returns\<close>

text \<open>
  What the code relies on in the service: continuation tokens come from a finite set (a listing
  of a finite bucket), and a body read returns at most the bytes asked for.
\<close>

definition finite_tokens :: "s3_client \<Rightarrow> string set \<Rightarrow> bool" where
  "finite_tokens c T \<longleftrightarrow> finite T \<and> (\<forall>n prefix cont page token.
     outcome (list_objects_v2 c n prefix cont) = Inr page \<longrightarrow> lp_next page = Some token \<longrightarrow> token \<in> T)"

definition bounded_reads :: "s3_client \<Rightarrow> bool" where
  "bounded_reads c \<longleftrightarrow> (\<forall>n key size chunk. 0 \<le> size \<longrightarrow>
     outcome (read_body c n key size) = Inr chunk \<longrightarrow> int (length chunk) \<le> size)"

lemma next_token_Some:
  "next_token page seen = Inr (Some t) \<Longrightarrow> lp_next page = Some t \<and> t \<notin> set seen"
  by (auto simp: next_token_def split: if_splits option.splits)

lemma list_manifest_keys_returns:
  assumes "finite_tokens c T" "set seen \<subseteq> T"
  shows "list_manifest_keys c b base cont seen keys w \<noteq> None"
  using assms(2)
proof (induction "card (T - set seen)" arbitrary: cont seen keys w rule: less_induct)
  case less
  obtain q w' where read: "read_with_budget b (\<lambda>n. list_objects_v2 c n (base @ ''/'') cont) w = Some (q, w')"
    by (rule read_with_budget_cases)
  show ?case
  proof (cases "\<exists>page token. q = Inr page \<and> next_token page seen = Inr (Some token)")
    case False
    then show ?thesis
      by (subst list_manifest_keys.simps) (auto simp: read split: sum.splits option.splits)
  next
    case True
    then obtain page token where q: "q = Inr page" and t: "next_token page seen = Inr (Some token)"
      by blast
    from read q obtain n where "outcome (list_objects_v2 c n (base @ ''/'') cont) = Inr page"
      by (auto dest: read_with_budget_Inr)
    with next_token_Some [OF t] assms(1) have tok: "token \<in> T" "token \<notin> set seen" "finite T"
      by (auto simp: finite_tokens_def)
    then have "T - set (token # seen) \<subset> T - set seen" by auto
    then have "card (T - set (token # seen)) < card (T - set seen)"
      using tok(3) by (intro psubset_card_mono) auto
    from less.hyps [OF this] less.prems tok(1) show ?thesis
      by (subst list_manifest_keys.simps) (simp add: read q t)
  qed
qed

lemma read_chunks_returns:
  assumes "bounded_reads c" "0 \<le> remaining"
  shows "read_chunks c b key remaining acc w \<noteq> None"
  using assms(2)
proof (induction "nat remaining" arbitrary: remaining acc w rule: less_induct)
  case less
  obtain q w' where read: "read_with_budget b (\<lambda>n. read_body c n key remaining) w = Some (q, w')"
    by (rule read_with_budget_cases)
  show ?case
  proof (cases "remaining \<noteq> 0 \<and> (\<exists>chunk. q = Inr chunk \<and> chunk \<noteq> [])")
    case False
    then show ?thesis by (subst read_chunks.simps) (auto simp: read split: sum.splits)
  next
    case True
    then obtain chunk where q: "q = Inr chunk" "chunk \<noteq> []" and r0: "remaining \<noteq> 0" by blast
    from read q(1) assms(1) have len: "int (length chunk) \<le> remaining"
      using less.prems by (auto simp: bounded_reads_def dest: read_with_budget_Inr)
    moreover have "0 < length chunk" using q(2) by simp
    ultimately have "nat (remaining - int (length chunk)) < nat remaining" using r0 by linarith
    from less.hyps [OF this] len show ?thesis
      by (subst read_chunks.simps) (simp add: read q r0)
  qed
qed

lemma mapM_io_returns: "(\<And>x w. f x w \<noteq> None) \<Longrightarrow> mapM_io f xs w \<noteq> None"
proof (induction xs arbitrary: w)
  case Nil
  then show ?case by (simp add: io_simps)
next
  case (Cons x xs)
  have "f x w \<noteq> None" and "mapM_io f xs u \<noteq> None" for u using Cons by blast+
  then show ?case by (auto simp: io_simps simp del: not_None_eq)
qed

lemma collect_io_returns: "(\<And>x w. f x w \<noteq> None) \<Longrightarrow> collect_io f xs w \<noteq> None"
proof (induction xs arbitrary: w)
  case Nil
  then show ?case by (simp add: io_simps)
next
  case (Cons x xs)
  obtain r u where "f x w = Some (r, u)" using Cons.prems by fastforce
  moreover have "collect_io f xs u \<noteq> None" using Cons by blast
  ultimately show ?case by (auto simp: io_simps)
qed

lemma read_groups_returns: "(\<And>x w. f x w \<noteq> None) \<Longrightarrow> read_groups f k xs w \<noteq> None"
proof (induction f k xs arbitrary: w rule: read_groups.induct)
  case (1 f k xs)
  show ?case
  proof (cases "xs = [] \<or> k = 0")
    case True
    then show ?thesis by (subst read_groups.simps) (auto simp: io_simps)
  next
    case False
    moreover have "read_groups f k (drop k xs) u \<noteq> None" for u using 1 False by blast
    moreover have "collect_io f (take k xs) w \<noteq> None" using 1(2) by (rule collect_io_returns)
    ultimately show ?thesis by (subst read_groups.simps) (auto simp: io_simps)
  qed
qed

lemma read_manifest_returns: "bounded_reads c \<Longrightarrow> read_manifest c p b e w \<noteq> None"
  using read_chunks_returns [of c "max_commerce_manifest_bytes + 1"]
  by (cases e) (auto simp: read_manifest_def io_simps max_commerce_manifest_bytes_def)

lemma discover_returns:
  assumes "finite_tokens c T" "bounded_reads c"
  shows "discover c p b w \<noteq> None"
proof -
  have k: "list_manifest_keys c b base None [] [] w \<noteq> None" for base w
    using list_manifest_keys_returns [OF assms(1)] by simp
  have r: "read_manifest c p b e w \<noteq> None" for e w
    using assms(2) by (rule read_manifest_returns)
  show ?thesis unfolding discover_def
    by (auto simp: io_simps k read_groups_returns [OF r] mapM_io_returns [OF r] simp del: not_None_eq)
qed

end
