(* ===== verification/Py_Reload.thy ===== *)
theory Py_Reload
  imports Py_Value
begin

text \<open>
  Documents that are written as JSON with sorted keys and read back: tuples become lists and the
  keys of every dictionary come in order; nothing else changes.
\<close>

text \<open>What \<open>json.loads\<close> returns for \<open>json.dumps(v, sort_keys=True)\<close>.\<close>

function json_reload :: "pyval \<Rightarrow> pyval" where
  "json_reload PNone = PNone"
| "json_reload (PBool b) = PBool b"
| "json_reload (PInt i) = PInt i"
| "json_reload (PFloat x) = PFloat x"
| "json_reload (PStr s) = PStr s"
| "json_reload (PList xs) = PList (map json_reload xs)"
| "json_reload (PTuple xs) = PList (map json_reload xs)"
| "json_reload (PDict d) = PDict (sort_key fst (map (\<lambda>(k, v). (k, json_reload v)) d))"
  by pat_completeness auto
termination
  by (relation "measure size") (auto simp: less_Suc_eq_le size_list_estimation' dest: size_snd_le)

section \<open>Dictionaries after a write\<close>

lemma map_of_filter_key: "map_of (filter (\<lambda>p. fst p = k) d) k = map_of d k"
  by (induction d) auto

lemma map_of_sort_key_fst: "map_of (sort_key fst d) k = map_of d k"
proof -
  have "map_of (sort_key fst d) k = map_of (filter (\<lambda>p. fst p = k) (sort_key fst d)) k"
    by (simp add: map_of_filter_key)
  also have "filter (\<lambda>p. fst p = k) (sort_key fst d) = filter (\<lambda>p. fst p = k) d"
    by (rule sort_key_stable)
  finally show ?thesis by (simp add: map_of_filter_key)
qed

lemma map_of_map_snd: "map_of (map (\<lambda>(k, v). (k, f v)) d) k = map_option f (map_of d k)"
  by (induction d) auto

definition reload_dict :: "pydict \<Rightarrow> pydict" where
  "reload_dict d = sort_key fst (map (\<lambda>(k, v). (k, json_reload v)) d)"

lemma json_reload_dict [simp]: "json_reload (PDict d) = PDict (reload_dict d)"
  by (simp add: reload_dict_def)

declare json_reload.simps(8) [simp del]

lemma map_of_reload_dict [simp]: "map_of (reload_dict d) k = map_option json_reload (map_of d k)"
  by (simp add: reload_dict_def map_of_sort_key_fst map_of_map_snd)

lemma get_reload_dict [simp]: "get (reload_dict d) k = json_reload (get d k)"
  by (auto simp: get_def split: option.split)

lemma set_reload_dict: "set (reload_dict d) = (\<lambda>(k, v). (k, json_reload v)) ` set d"
  by (simp add: reload_dict_def)

lemma length_reload_dict [simp]: "length (reload_dict d) = length d"
  by (simp add: reload_dict_def)

lemma json_reload_str [simp]: "json_reload v = PStr s \<longleftrightarrow> v = PStr s"
  by (cases v) auto

lemma is_str_reload [simp]: "is_str (json_reload v) = is_str v"
  by (auto simp: is_str_iff)

lemma is_dict_reload [simp]: "is_dict (json_reload v) = is_dict v"
  by (cases v) auto

lemma the_dict_reload [simp]: "the_dict (json_reload v) = reload_dict (the_dict v)"
  by (cases v) (auto simp: the_dict_def reload_dict_def)

end
