(* ===== verification/Commerce_Batches.thy ===== *)
theory Commerce_Batches
  imports Commerce_Source Py_Reload
begin

text \<open>
  The planning half of \<open>ingestion/commerce_batches.py\<close>: the checkpoint and reservation
  files, planning, reserving and committing one batch, and the two freshness checks.
\<close>

section \<open>The checkpoint file\<close>

definition read_json :: "fdoc \<Rightarrow> pyval result" where
  "read_json f = (case f of NotReadable k \<Rightarrow> raise k [] | Doc v \<Rightarrow> Inr v)"

definition empty_state :: pydict where
  "empty_state = [(''schema_version'', PInt 1), (''processed_batches'', PDict [])]"

definition valid_state_entry :: "string \<times> pyval \<Rightarrow> bool" where
  "valid_state_entry e = (case e of (batch_id, details) \<Rightarrow>
     is_hex 16 batch_id \<and> is_dict details \<and>
     is_str (get (the_dict details) ''manifest_sha256'') \<and>
     is_str (get (the_dict details) ''batch_at''))"

definition load_state :: "fdoc option \<Rightarrow> pydict result" where
  "load_state file =
     (case file of None \<Rightarrow> Inr empty_state
      | Some f \<Rightarrow>
        bindE (catchE (read_json f) (\<lambda>k. is_a k OSError \<or> is_a k JSONDecodeError)
            (\<lambda>e. raise CommerceBatchError (''commerce checkpoint is unreadable: '' @ message_of e)))
          (\<lambda>state. let d = the_dict state in
            if \<not> is_dict state \<or> \<not> exact_int (get d ''schema_version'')
               \<or> the_int (get d ''schema_version'') \<noteq> 1 \<or> \<not> is_dict (get d ''processed_batches'')
            then raise CommerceBatchError ''commerce checkpoint has an unsupported structure''
            else if \<not> list_all valid_state_entry (the_dict (get d ''processed_batches''))
            then raise CommerceBatchError ''commerce checkpoint has an unsupported structure''
            else Inr d))"

definition processed :: "pydict \<Rightarrow> pydict" where
  "processed state = the_dict (get state ''processed_batches'')"

definition is_processed :: "pydict \<Rightarrow> string \<Rightarrow> bool" where
  "is_processed state batch_id = (map_of (processed state) batch_id \<noteq> None)"

text \<open>\<open>{batch.batch_id: batch for batch in batches}\<close>\<close>

definition by_id :: "commerce_batch list \<Rightarrow> (string \<times> commerce_batch) list" where
  "by_id bs = fold (\<lambda>b d. dict_set d (cb_id b) b) bs []"

definition verify_entry :: "(string \<times> commerce_batch) list \<Rightarrow> string \<times> pyval \<Rightarrow> unit result" where
  "verify_entry batches e = (case e of (batch_id, details) \<Rightarrow>
     (case map_of batches batch_id of
        None \<Rightarrow> raise CommerceBatchError (''processed batch commit marker is missing: '' @ batch_id)
      | Some batch \<Rightarrow>
          if \<not> py_eq (get (the_dict details) ''manifest_sha256'') (PStr (cb_sha batch))
          then raise CommerceBatchError (''committed manifest changed after processing: '' @ batch_id)
          else if \<not> py_eq (get (the_dict details) ''batch_at'') (PStr (cb_at batch))
          then raise CommerceBatchError
            (''checkpoint batch timestamp differs from committed manifest: '' @ batch_id)
          else Inr ()))"

definition verify_processed_content ::
    "pydict \<Rightarrow> (string \<times> commerce_batch) list \<Rightarrow> unit list result" where
  "verify_processed_content state batches = mapE (verify_entry batches) (processed state)"

definition doc_of :: "(string \<times> string) list \<Rightarrow> pyval" where
  "doc_of d = PDict (map (\<lambda>(k, s). (k, PStr s)) d)"

definition active_batch ::
    "fdoc option \<Rightarrow> pydict \<Rightarrow> (string \<times> commerce_batch) list \<Rightarrow> commerce_batch option result" where
  "active_batch file state batches =
     (case file of None \<Rightarrow> Inr None
      | Some f \<Rightarrow>
        bindE (catchE (read_json f) (\<lambda>k. is_a k OSError \<or> is_a k JSONDecodeError)
            (\<lambda>e. raise CommerceBatchError ''commerce active batch is unreadable''))
          (\<lambda>reservation. let d = the_dict reservation; recorded = get d ''batch'' in
            if \<not> is_dict reservation \<or> \<not> exact_int (get d ''schema_version'')
               \<or> the_int (get d ''schema_version'') \<noteq> 1 \<or> \<not> is_dict recorded
               \<or> \<not> is_str (get (the_dict recorded) ''batch_id'')
            then raise CommerceBatchError ''commerce active batch has an unsupported structure''
            else (case map_of batches (the_str (get (the_dict recorded) ''batch_id'')) of
                None \<Rightarrow> raise CommerceBatchError
                  ''committed manifest changed or missing for active batch''
              | Some batch \<Rightarrow>
                  if \<not> py_eq (doc_of (as_dict batch)) recorded
                  then raise CommerceBatchError
                    ''committed manifest changed or missing for active batch''
                  else Inr (if is_processed state (cb_id batch) then None else Some batch))))"

section \<open>Planning\<close>

record plan_report =
  pr_batches :: "(string \<times> string) list list"
  pr_committed :: nat
  pr_mode :: string
  pr_processed :: nat
  pr_selected :: nat

text \<open>What \<open>plan\<close> decides once the batches, the checkpoint and the reservation are read.\<close>

definition incremental_selection ::
    "commerce_batch list \<Rightarrow> pydict \<Rightarrow> commerce_batch option \<Rightarrow> commerce_batch list" where
  "incremental_selection batches state active =
     (let selected = filter (\<lambda>b. \<not> is_processed state (cb_id b)) batches in
      case active of None \<Rightarrow> selected
      | Some a \<Rightarrow> a # filter (\<lambda>b. b \<noteq> a) selected)"

definition plan_selection ::
    "nat \<Rightarrow> string list \<Rightarrow> commerce_batch list \<Rightarrow> pydict \<Rightarrow> commerce_batch option
     \<Rightarrow> plan_report result" where
  "plan_selection max_batches replay_batches batches state active =
     (let ids = by_id batches;
          report = (\<lambda>selected mode. \<lparr>pr_batches = map as_dict selected,
            pr_committed = length batches, pr_mode = mode,
            pr_processed = length (processed state), pr_selected = length selected\<rparr>)
      in if replay_batches \<noteq> [] then
           (let missing = filter (\<lambda>i. map_of ids i = None) replay_batches in
            if missing \<noteq> [] then raise CommerceBatchError
              (''replay batch is not committed: '' @ join '', '' missing)
            else Inr (report (List.map_filter (\<lambda>i. map_of ids i) replay_batches) ''replay''))
         else Inr (report (take max_batches (incremental_selection batches state active))
                ''incremental''))"

text \<open>Discovery, checkpoint and reservation, in the order every operation reads them.\<close>

record planner_view =
  pv_ordered :: "commerce_batch list"
  pv_state :: pydict
  pv_active :: "commerce_batch option"

definition load_checked_state :: "commerce_batch list \<Rightarrow> pydict io" where
  "load_checked_state batches w =
     lift_io (bindE (load_state (w_checkpoint w)) (\<lambda>state.
       bindE (verify_processed_content state (by_id batches)) (\<lambda>_. Inr state))) w"

definition view :: "s3_client \<Rightarrow> planner \<Rightarrow> budget \<Rightarrow> planner_view io" where
  "view c p b =
     bind_io (discover c p b) (\<lambda>batches.
     bind_io (load_checked_state batches) (\<lambda>state w.
       lift_io (bindE (active_batch (w_active w) state (by_id batches)) (\<lambda>active.
         Inr \<lparr>pv_ordered = batches, pv_state = state, pv_active = active\<rparr>)) w))"

definition plan :: "s3_client \<Rightarrow> planner \<Rightarrow> budget \<Rightarrow> int \<Rightarrow> string list \<Rightarrow> plan_report io" where
  "plan c p b max_batches replay_batches =
     (if max_batches < 1 then raise_io CommerceBatchError ''max_batches must be positive''
      else if int (length replay_batches) > max_batches
      then raise_io CommerceBatchError ''replay batch count exceeds max_batches''
      else if \<not> distinct replay_batches
      then raise_io CommerceBatchError ''replay batches must be unique''
      else bind_io (view c p b) (\<lambda>v. lift_io
        (plan_selection (nat max_batches) replay_batches (pv_ordered v) (pv_state v) (pv_active v))))"

text \<open>\<open>selected["batch_id"]\<close>\<close>

definition str_item :: "(string \<times> string) list \<Rightarrow> string \<Rightarrow> string result" where
  "str_item d k = (case map_of d k of None \<Rightarrow> raise KeyError k | Some s \<Rightarrow> Inr s)"

text \<open>\<open>batches.get(selected["batch_id"])\<close> and its manifest check\<close>

definition selected_batch ::
    "(string \<times> commerce_batch) list \<Rightarrow> (string \<times> string) list \<Rightarrow> commerce_batch result" where
  "selected_batch batches selected =
     bindE (str_item selected ''batch_id'') (\<lambda>i.
       case map_of batches i of
         None \<Rightarrow> raise CommerceBatchError ''committed manifest changed before execution''
       | Some batch \<Rightarrow> bindE (str_item selected ''manifest_sha256'') (\<lambda>sha.
           if cb_sha batch \<noteq> sha
           then raise CommerceBatchError ''committed manifest changed before execution''
           else Inr batch))"

definition latest_effective :: "int \<Rightarrow> pydict \<Rightarrow> int result" where
  "latest_effective default_at entries =
     bindE (mapE (\<lambda>(k, details). effective_at (the_str (get (the_dict details) ''batch_at''))) entries)
       (\<lambda>ts. Inr (if ts = [] then default_at else Max (set ts)))"

definition execution_options ::
    "s3_client \<Rightarrow> planner \<Rightarrow> budget \<Rightarrow> (string \<times> string) list \<Rightarrow> (string \<times> string) list io" where
  "execution_options c p b selected =
     bind_io (discover c p b) (\<lambda>batches.
     bind_io (load_checked_state batches) (\<lambda>state.
     bind_io (lift_io (selected_batch (by_id batches) selected)) (\<lambda>batch. lift_io
       (if \<not> py_eq (cb_semantics batch) (PStr ''full_snapshot'') then Inr []
        else bindE (effective_at (cb_at batch)) (\<lambda>effective.
          bindE (latest_effective effective (processed state)) (\<lambda>latest.
            Inr [(''customer_history_mode'',
              if effective < latest then ''rebuild'' else ''forward'')]))))))"

section \<open>Reserving and committing\<close>

record os_env =
  os_lock :: "nat \<Rightarrow> lock_outcome"
  os_disk :: "nat \<Rightarrow> pyexn option"

definition disk_call :: "os_env \<Rightarrow> unit io" where
  "disk_call os = call_io (\<lambda>n. case os_disk os n of None \<Rightarrow> Inr () | Some e \<Rightarrow> Inl e)"

datatype target = CheckpointFile | ActiveFile

definition put_file :: "target \<Rightarrow> fdoc option \<Rightarrow> unit io" where
  "put_file t f w = Some (Inr (), case t of
     CheckpointFile \<Rightarrow> w\<lparr>w_checkpoint := f\<rparr> | ActiveFile \<Rightarrow> w\<lparr>w_active := f\<rparr>)"

text \<open>A temporary file is written and synced, the guard runs, and one rename publishes it. The
  removal of the temporary file, which the rename has consumed, is not given a fault of its own.\<close>

definition write_state :: "os_env \<Rightarrow> target \<Rightarrow> pydict \<Rightarrow> rat option io \<Rightarrow> unit io" where
  "write_state os t state before_replace =
     bind_io (disk_call os) (\<lambda>_.
     bind_io before_replace (\<lambda>_.
     bind_io (disk_call os) (\<lambda>_.
       put_file t (Some (Doc (json_reload (PDict state)))))))"

definition lock_path :: "planner \<Rightarrow> string" where
  "lock_path p = pl_state_path p @ ''.lock''"

definition busy_as_batch_error :: "planner \<Rightarrow> 'a io \<Rightarrow> 'a io" where
  "busy_as_batch_error p m = catch_io m (\<lambda>k. is_a k CommerceRunnerBusyError)
     (\<lambda>e. raise_io CommerceBatchError (''commerce checkpoint is busy: '' @ pl_state_path p))"

definition reservation :: "commerce_batch \<Rightarrow> pydict" where
  "reservation batch = [(''schema_version'', PInt 1), (''batch'', doc_of (as_dict batch))]"

definition pending :: "commerce_batch list \<Rightarrow> pydict \<Rightarrow> commerce_batch list" where
  "pending ordered state = filter (\<lambda>b. \<not> is_processed state (cb_id b)) ordered"

definition begin_locked ::
    "s3_client \<Rightarrow> planner \<Rightarrow> budget \<Rightarrow> os_env \<Rightarrow> (string \<times> string) list \<Rightarrow> unit io" where
  "begin_locked c p b os selected =
     bind_io (view c p b) (\<lambda>v.
     bind_io (lift_io (selected_batch (by_id (pv_ordered v)) selected)) (\<lambda>batch.
       let waiting = pending (pv_ordered v) (pv_state v) in
       if waiting = [] \<or> batch \<noteq> (case pv_active v of Some a \<Rightarrow> a | None \<Rightarrow> hd waiting)
       then raise_io CommerceBatchError ''selected batch is no longer next for execution''
       else if pv_active v = None
       then write_state os ActiveFile (reservation batch) (return_io None)
       else return_io ()))"

definition begin_batch ::
    "s3_client \<Rightarrow> planner \<Rightarrow> budget \<Rightarrow> os_env \<Rightarrow> (string \<times> string) list \<Rightarrow> unit io" where
  "begin_batch c p b os selected =
     busy_as_batch_error p
       (commerce_runner_lock (os_lock os) (lock_path p) (begin_locked c p b os selected))"

record commit_result =
  cr_batch_id :: string
  cr_created :: bool
  cr_state :: string

definition processed_entry :: "commerce_batch \<Rightarrow> pyval" where
  "processed_entry batch =
     PDict [(''batch_at'', PStr (cb_at batch)), (''manifest_sha256'', PStr (cb_sha batch))]"

definition mark_processed :: "pydict \<Rightarrow> commerce_batch \<Rightarrow> pydict" where
  "mark_processed state batch =
     dict_set state ''processed_batches''
       (PDict (dict_set (processed state) (cb_id batch) (processed_entry batch)))"

definition unlink_active :: "os_env \<Rightarrow> unit io" where
  "unlink_active os = bind_io (disk_call os) (\<lambda>_. put_file ActiveFile None)"

text \<open>\<open>_commit_locked\<close> once the batches are discovered and the checkpoint is verified.\<close>

definition commit_checked ::
    "planner \<Rightarrow> budget \<Rightarrow> os_env \<Rightarrow> string \<Rightarrow> string option \<Rightarrow> commerce_batch list \<Rightarrow> commerce_batch
     \<Rightarrow> pydict \<Rightarrow> commit_result io" where
  "commit_checked p b os batch_id expected ordered batch state =
     (if (case expected of None \<Rightarrow> False | Some sha \<Rightarrow> cb_sha batch \<noteq> sha)
      then raise_io CommerceBatchError ''committed manifest changed during processing''
      else
     bind_io (\<lambda>w. lift_io (active_batch (w_active w) state (by_id ordered)) w) (\<lambda>active.
       if is_processed state batch_id
       then return_io \<lparr>cr_batch_id = batch_id, cr_created = False, cr_state = pl_state_path p\<rparr>
       else
       (case (case active of Some a \<Rightarrow> [a] | None \<Rightarrow> pending ordered state) of
          [] \<Rightarrow> raise_io StopIteration []
        | next_batch # _ \<Rightarrow>
          if cb_id next_batch \<noteq> batch_id
          then raise_io CommerceBatchError
            (''cannot skip earlier unprocessed batch: '' @ cb_id next_batch)
          else
     bind_io (write_state os CheckpointFile (mark_processed state batch) (budget_check b)) (\<lambda>_.
     bind_io (if active \<noteq> None then unlink_active os else return_io ()) (\<lambda>_.
       return_io \<lparr>cr_batch_id = batch_id, cr_created = True, cr_state = pl_state_path p\<rparr>)))))"

definition commit_locked ::
    "s3_client \<Rightarrow> planner \<Rightarrow> budget \<Rightarrow> os_env \<Rightarrow> string \<Rightarrow> string option \<Rightarrow> commit_result io" where
  "commit_locked c p b os batch_id expected =
     bind_io (discover c p b) (\<lambda>ordered.
       case map_of (by_id ordered) batch_id of
         None \<Rightarrow> raise_io CommerceBatchError (''batch is not committed: '' @ batch_id)
       | Some batch \<Rightarrow> bind_io (load_checked_state ordered)
           (\<lambda>state. commit_checked p b os batch_id expected ordered batch state))"

definition commit ::
    "s3_client \<Rightarrow> planner \<Rightarrow> budget \<Rightarrow> os_env \<Rightarrow> string \<Rightarrow> string option \<Rightarrow> commit_result io" where
  "commit c p b os batch_id expected =
     busy_as_batch_error p
       (commerce_runner_lock (os_lock os) (lock_path p) (commit_locked c p b os batch_id expected))"

section \<open>Freshness\<close>

text \<open>\<open>max(0, math.ceil(delta.total_seconds()))\<close> for a difference in microseconds\<close>

definition age_in_seconds :: "int \<Rightarrow> int" where
  "age_in_seconds us = max 0 \<lceil>round_double (of_int us / 1000000)\<rceil>"

text \<open>\<open>max\<close> and \<open>min\<close> with a key keep the first of equal elements.\<close>

fun first_max :: "('a \<Rightarrow> int) \<Rightarrow> 'a \<Rightarrow> 'a list \<Rightarrow> 'a" where
  "first_max f m [] = m"
| "first_max f m (x # xs) = first_max f (if f m < f x then x else m) xs"

record freshness_report =
  fr_status :: string
  fr_reason :: "string option"
  fr_pending :: "nat option"
  fr_batch_id :: "string option"
  fr_committed_at :: "string option"
  fr_age_seconds :: "int option"
  fr_max_age_seconds :: int

definition timestamped :: "commerce_batch list \<Rightarrow> (pydt \<times> commerce_batch) list" where
  "timestamped bs = concat (map (\<lambda>b. case cb_committed_at b of None \<Rightarrow> [] | Some t \<Rightarrow> [(t, b)]) bs)"

definition checked_freshness_arguments :: "int \<Rightarrow> pydt \<Rightarrow> unit io" where
  "checked_freshness_arguments max_age observed_at =
     (if max_age < 1 then raise_io CommerceBatchError ''max_age_seconds must be positive''
      else if \<not> is_aware observed_at
      then raise_io CommerceBatchError ''observation time must include a timezone''
      else return_io ())"

definition source_freshness_of ::
    "commerce_batch list \<Rightarrow> int \<Rightarrow> pydt \<Rightarrow> freshness_report result" where
  "source_freshness_of batches max_age observed_at =
     (if batches = [] then Inr \<lparr>fr_status = ''stale'', fr_reason = Some ''no_committed_batches'',
         fr_pending = None, fr_batch_id = None, fr_committed_at = None, fr_age_seconds = None,
         fr_max_age_seconds = max_age\<rparr>
      else let stamped = timestamped batches in
      if length stamped \<noteq> length batches
      then raise CommerceBatchError ''S3 listing is missing a committed manifest timestamp''
      else let (committed_at, latest) = first_max (\<lambda>x. dt_utc (fst x)) (hd stamped) (tl stamped);
               age = age_in_seconds (dt_utc observed_at - dt_utc committed_at);
               stale = age > max_age
           in bindE (utc_iso_z committed_at) (\<lambda>text.
              Inr \<lparr>fr_status = (if stale then ''stale'' else ''ready''),
                fr_reason = (if stale then Some ''age_limit_exceeded'' else None),
                fr_pending = None, fr_batch_id = Some (cb_id latest), fr_committed_at = Some text,
                fr_age_seconds = Some age, fr_max_age_seconds = max_age\<rparr>))"

definition check_source_freshness ::
    "s3_client \<Rightarrow> planner \<Rightarrow> budget \<Rightarrow> int \<Rightarrow> pydt \<Rightarrow> freshness_report io" where
  "check_source_freshness c p b max_age observed_at =
     bind_io (checked_freshness_arguments max_age observed_at) (\<lambda>_.
     bind_io (discover c p b) (\<lambda>batches. lift_io (source_freshness_of batches max_age observed_at)))"

definition backlog_freshness_of ::
    "commerce_batch list \<Rightarrow> int \<Rightarrow> pydt \<Rightarrow> freshness_report result" where
  "backlog_freshness_of waiting max_age observed_at =
     (if waiting = [] then Inr \<lparr>fr_status = ''ready'', fr_reason = None,
         fr_pending = Some 0, fr_batch_id = None, fr_committed_at = None, fr_age_seconds = None,
         fr_max_age_seconds = max_age\<rparr>
      else let stamped = timestamped waiting in
      if length stamped \<noteq> length waiting
      then raise CommerceBatchError ''S3 listing is missing a committed manifest timestamp''
      else let (committed_at, oldest) = first_max (\<lambda>x. - dt_utc (fst x)) (hd stamped) (tl stamped);
               age = age_in_seconds (dt_utc observed_at - dt_utc committed_at);
               stale = age > max_age
           in bindE (utc_iso_z committed_at) (\<lambda>text.
              Inr \<lparr>fr_status = (if stale then ''stale'' else ''ready''),
                fr_reason = (if stale then Some ''pending_age_limit_exceeded'' else None),
                fr_pending = Some (length waiting), fr_batch_id = Some (cb_id oldest),
                fr_committed_at = Some text, fr_age_seconds = Some age,
                fr_max_age_seconds = max_age\<rparr>))"

definition check_backlog_freshness ::
    "s3_client \<Rightarrow> planner \<Rightarrow> budget \<Rightarrow> int \<Rightarrow> pydt \<Rightarrow> freshness_report io" where
  "check_backlog_freshness c p b max_age observed_at =
     bind_io (checked_freshness_arguments max_age observed_at) (\<lambda>_.
     bind_io (discover c p b) (\<lambda>batches.
     bind_io (load_checked_state batches) (\<lambda>state.
       lift_io (backlog_freshness_of (pending batches state) max_age observed_at))))"

section \<open>State entries after a write\<close>

lemma valid_state_entry_reload:
  "valid_state_entry (k, json_reload v) \<longleftrightarrow> valid_state_entry (k, v)"
  by (simp add: valid_state_entry_def)

lemma verify_entry_reload:
  "verify_entry bs (k, json_reload v) = verify_entry bs (k, v)"
  by (simp add: verify_entry_def split: option.split)

section \<open>Valid checkpoint states\<close>

definition valid_state :: "pydict \<Rightarrow> bool" where
  "valid_state d \<longleftrightarrow> get d ''schema_version'' = PInt 1 \<and> is_dict (get d ''processed_batches'') \<and>
     list_all valid_state_entry (processed d)"

lemma load_state_Inr:
  "load_state src = Inr d \<longleftrightarrow>
     (src = None \<and> d = empty_state) \<or> (\<exists>v. src = Some (Doc v) \<and> v = PDict d \<and> valid_state d)"
proof (cases src)
  case None
  then show ?thesis by (auto simp: load_state_def)
next
  case (Some f)
  show ?thesis
  proof (cases f)
    case (NotReadable k)
    with Some show ?thesis
      by (auto simp: load_state_def read_json_def catchE_def raise_def)
  next
    case (Doc v)
    show ?thesis
    proof (cases "is_dict v")
      case True
      then obtain d' where "v = PDict d'" by (auto simp: is_dict_iff)
      with Some Doc show ?thesis
        by (auto simp: load_state_def read_json_def catchE_def raise_def valid_state_def processed_def
            exact_int_iff Let_def split: if_splits)
    next
      case False
      with Some Doc show ?thesis
        by (auto simp: load_state_def read_json_def catchE_def raise_def Let_def)
    qed
  qed
qed

lemma valid_empty_state [simp]: "valid_state empty_state"
  by (simp add: valid_state_def empty_state_def processed_def get_def)

lemma load_state_valid: "load_state file = Inr d \<Longrightarrow> valid_state d"
  by (auto simp: load_state_Inr)

text \<open>A state that was written is the state that is read, up to the order of its keys.\<close>

lemma processed_reload: "processed (reload_dict d) = reload_dict (processed d)"
  by (simp add: processed_def)

lemma load_written_state:
  assumes "valid_state d"
  shows "load_state (Some (Doc (json_reload (PDict d)))) = Inr (reload_dict d)"
proof -
  have "valid_state (reload_dict d)"
    using assms
    by (auto simp: valid_state_def processed_reload list_all_iff set_reload_dict valid_state_entry_reload)
  then show ?thesis by (simp add: load_state_Inr)
qed

lemma processed_mark [simp]:
  "processed (mark_processed d b) = dict_set (processed d) (cb_id b) (processed_entry b)"
  by (simp add: mark_processed_def processed_def get_dict_set)

lemma set_dict_set: "set (dict_set d k v) \<subseteq> insert (k, v) (set d)"
proof (induction d)
  case Nil
  then show ?case by simp
next
  case (Cons p d)
  then show ?case by (cases p) (simp, blast)
qed

lemma valid_entry_of_batch: "is_hex 16 (cb_id b) \<Longrightarrow> valid_state_entry (cb_id b, processed_entry b)"
  by (simp add: valid_state_entry_def processed_entry_def get_def)

lemma valid_mark_processed:
  "valid_state d \<Longrightarrow> is_hex 16 (cb_id b) \<Longrightarrow> valid_state (mark_processed d b)"
  using set_dict_set [of "processed d" "cb_id b" "processed_entry b"] valid_entry_of_batch [of b]
  by (auto simp: valid_state_def list_all_iff mark_processed_def get_dict_set processed_def)

lemma is_processed_reload_mark:
  "is_processed (reload_dict (mark_processed d b)) i \<longleftrightarrow> i = cb_id b \<or> is_processed d i"
  by (simp add: is_processed_def processed_reload)

section \<open>Batches by identifier\<close>

lemma map_of_by_id:
  "map_of (by_id bs) i = map_of (rev (map (\<lambda>b. (cb_id b, b)) bs)) i"
proof -
  have "map_of (fold (\<lambda>b d. dict_set d (cb_id b) b) bs d) i =
      (map_of d ++ map_of (rev (map (\<lambda>b. (cb_id b, b)) bs))) i" for d
    by (induction bs arbitrary: d) (auto simp: map_add_def split: option.splits)
  from this [of "[]"] show ?thesis by (simp add: by_id_def)
qed

lemma by_id_Some: "map_of (by_id bs) i = Some b \<Longrightarrow> b \<in> set bs \<and> cb_id b = i"
  by (auto simp: map_of_by_id dest: map_of_SomeD)

lemma by_id_None: "map_of (by_id bs) i = None \<longleftrightarrow> i \<notin> cb_id ` set bs"
  by (auto simp: map_of_by_id map_of_eq_None_iff image_iff)

lemma by_id_distinct:
  "distinct (map cb_id bs) \<Longrightarrow> b \<in> set bs \<Longrightarrow> map_of (by_id bs) (cb_id b) = Some b"
  unfolding map_of_by_id by (rule map_of_is_SomeI) (auto simp: comp_def simp flip: rev_map)

section \<open>What the operations do to the files\<close>

lemma view_Inr:
  assumes "view c p b w = Some (Inr v, w')"
  shows "discover c p b w = Some (Inr (pv_ordered v), w')" "same_files w w'"
    "load_state (w_checkpoint w) = Inr (pv_state v)"
    "\<exists>us. verify_processed_content (pv_state v) (by_id (pv_ordered v)) = Inr us"
    "active_batch (w_active w) (pv_state v) (by_id (pv_ordered v)) = Inr (pv_active v)"
proof -
  from assms obtain bs state us active where
    d: "discover c p b w = Some (Inr bs, w')" and l: "load_state (w_checkpoint w') = Inr state"
    and vs: "verify_processed_content state (by_id bs) = Inr us"
    and a: "active_batch (w_active w') state (by_id bs) = Inr active"
    and v: "v = \<lparr>pv_ordered = bs, pv_state = state, pv_active = active\<rparr>"
    by (auto simp: view_def load_checked_state_def io_simps result_simps)
  have sf: "same_files w w'" using d by (rule keeps_filesD [OF keeps_files_discover])
  show "discover c p b w = Some (Inr (pv_ordered v), w')" "same_files w w'" using d v sf by simp_all
  show "load_state (w_checkpoint w) = Inr (pv_state v)"
    "\<exists>us. verify_processed_content (pv_state v) (by_id (pv_ordered v)) = Inr us"
    "active_batch (w_active w) (pv_state v) (by_id (pv_ordered v)) = Inr (pv_active v)"
    using l vs a v sf by (auto simp: same_files_def)
qed

lemma keeps_files_view [simp]: "keeps_files (view c p b)"
proof -
  have "keeps_files (load_checked_state bs)" for bs
    by (auto simp: keeps_files_iff load_checked_state_def io_simps)
  moreover have "keeps_files (\<lambda>w. lift_io (f w) w)" for f :: "world \<Rightarrow> 'x result"
    by (auto simp: keeps_files_iff io_simps)
  ultimately show ?thesis unfolding view_def by (intro keeps_files_bind) auto
qed

lemma keeps_files_plan: "keeps_files (plan c p b n replay)"
  by (auto simp: plan_def intro: keeps_files_bind)

lemma keeps_files_checked_arguments [simp]: "keeps_files (checked_freshness_arguments m t)"
  by (auto simp: checked_freshness_arguments_def)

lemma keeps_files_source_freshness: "keeps_files (check_source_freshness c p b m t)"
  by (auto simp: check_source_freshness_def intro!: keeps_files_bind)

lemma keeps_files_load_checked [simp]: "keeps_files (load_checked_state bs)"
  by (auto simp: keeps_files_iff load_checked_state_def io_simps)

lemma keeps_files_backlog_freshness: "keeps_files (check_backlog_freshness c p b m t)"
  by (auto simp: check_backlog_freshness_def intro!: keeps_files_bind)

lemma keeps_files_execution_options: "keeps_files (execution_options c p b sel)"
  by (auto simp: execution_options_def intro!: keeps_files_bind)

text \<open>A write either leaves the files as they were or replaces its target as a whole.\<close>

lemma keeps_files_disk [simp]: "keeps_files (disk_call os)"
  by (simp add: disk_call_def)

lemma put_file_iff [io_simps]:
  "put_file t f w = Some (r, w') \<longleftrightarrow> r = Inr () \<and> w' = (case t of
     CheckpointFile \<Rightarrow> w\<lparr>w_checkpoint := f\<rparr> | ActiveFile \<Rightarrow> w\<lparr>w_active := f\<rparr>)"
  by (auto simp: put_file_def)

definition replaced :: "target \<Rightarrow> fdoc option \<Rightarrow> world \<Rightarrow> world \<Rightarrow> bool" where
  "replaced t f w w' \<longleftrightarrow> (case t of
     CheckpointFile \<Rightarrow> w_checkpoint w' = f \<and> w_active w' = w_active w
   | ActiveFile \<Rightarrow> w_active w' = f \<and> w_checkpoint w' = w_checkpoint w)"

lemma write_state_result:
  assumes "write_state os t d guard w = Some (r, w')" "keeps_files guard"
  shows "(\<exists>e. r = Inl e) \<and> same_files w w' \<or>
    r = Inr () \<and> replaced t (Some (Doc (json_reload (PDict d)))) w w'"
proof -
  let ?f = "Some (Doc (json_reload (PDict d)))"
  have k: "keeps_files (bind_io (disk_call os) (\<lambda>_. bind_io guard (\<lambda>_. disk_call os)))"
    using assms(2) by (auto intro!: keeps_files_bind)
  have split: "write_state os t d guard =
      bind_io (bind_io (disk_call os) (\<lambda>_. bind_io guard (\<lambda>_. disk_call os))) (\<lambda>_. put_file t ?f)"
    by (rule ext) (auto simp: write_state_def bind_io_def split: option.splits sum.splits)
  from assms(1)[unfolded split] consider
      e where "bind_io (disk_call os) (\<lambda>_. bind_io guard (\<lambda>_. disk_call os)) w = Some (Inl e, w')" "r = Inl e"
    | u where "bind_io (disk_call os) (\<lambda>_. bind_io guard (\<lambda>_. disk_call os)) w = Some (Inr (), u)"
        "put_file t ?f u = Some (r, w')"
    unfolding bind_io_Some by (auto simp: bind_io_Some)
  then show ?thesis
  proof cases
    case 1
    then show ?thesis using keeps_filesD [OF k] by blast
  next
    case 2
    from keeps_filesD [OF k 2(1)] 2(2) show ?thesis
      by (auto simp: io_simps replaced_def same_files_def split: target.splits)
  qed
qed

lemma unlink_active_result:
  assumes "unlink_active os w = Some (r, w')"
  shows "(\<exists>e. r = Inl e) \<and> same_files w w' \<or> r = Inr () \<and> replaced ActiveFile None w w'"
  using assms
  by (auto simp: unlink_active_def bind_io_Some io_simps replaced_def same_files_def disk_call_def
      split: option.splits)

text \<open>
  The result of \<open>commit\<close>. \<open>commit_ready\<close> is what must hold before the checkpoint is
  written: the batch is committed in storage with the expected manifest, the recorded batches
  still agree with storage, and the batch is the reserved one or else the oldest waiting one.
\<close>

definition commit_ready ::
    "planner \<Rightarrow> commerce_batch list \<Rightarrow> pydict \<Rightarrow> commerce_batch option \<Rightarrow> commerce_batch
     \<Rightarrow> string option \<Rightarrow> bool" where
  "commit_ready p ordered state active batch expected \<longleftrightarrow>
     map_of (by_id ordered) (cb_id batch) = Some batch \<and>
     (\<exists>us. verify_processed_content state (by_id ordered) = Inr us) \<and>
     (expected = None \<or> expected = Some (cb_sha batch)) \<and>
     \<not> is_processed state (cb_id batch) \<and>
     cb_id batch = cb_id (case active of Some a \<Rightarrow> a | None \<Rightarrow> hd (pending ordered state)) \<and>
     (active = None \<longrightarrow> pending ordered state \<noteq> [])"

definition written :: "pydict \<Rightarrow> fdoc option" where
  "written d = Some (Doc (json_reload (PDict d)))"

text \<open>The three outcomes: nothing changed and an error, nothing changed because the batch is
  recorded already, or the checkpoint advanced by this batch. A fault when the reservation is
  removed is an error after the checkpoint advanced.\<close>

definition commit_outcome ::
    "s3_client \<Rightarrow> planner \<Rightarrow> budget \<Rightarrow> string \<Rightarrow> string option \<Rightarrow> world \<Rightarrow> world
     \<Rightarrow> commit_result result \<Rightarrow> world \<Rightarrow> bool" where
  "commit_outcome c p b i expected w0 w r w' \<longleftrightarrow>
     (\<exists>e. r = Inl e) \<and> same_files w w' \<or>
     (\<exists>x state. r = Inr x \<and> \<not> cr_created x \<and> cr_batch_id x = i \<and> same_files w w' \<and>
        load_state (w_checkpoint w) = Inr state \<and> is_processed state i) \<or>
     (\<exists>ordered u state active batch.
        discover c p b w0 = Some (Inr ordered, u) \<and> load_state (w_checkpoint w) = Inr state \<and>
        active_batch (w_active w) state (by_id ordered) = Inr active \<and> cb_id batch = i \<and>
        commit_ready p ordered state active batch expected \<and>
        w_checkpoint w' = written (mark_processed state batch) \<and>
        (r = Inr \<lparr>cr_batch_id = i, cr_created = True, cr_state = pl_state_path p\<rparr> \<and>
           w_active w' = (if active = None then w_active w else None) \<or>
         (\<exists>e. r = Inl e) \<and> active \<noteq> None \<and> w_active w' = w_active w))"

lemma commit_outcome_same:
  "(\<exists>e. r = Inl e) \<Longrightarrow> same_files w w' \<Longrightarrow> commit_outcome c p b i expected w0 w r w'"
  by (auto simp: commit_outcome_def)

lemma publish_outcome:
  assumes ret: "bind_io (write_state os CheckpointFile (mark_processed state batch) (budget_check b))
      (\<lambda>_. bind_io (if active \<noteq> None then unlink_active os else return_io ()) (\<lambda>_.
        return_io \<lparr>cr_batch_id = cb_id batch, cr_created = True, cr_state = pl_state_path p\<rparr>)) u
      = Some (r, w')"
    and uw: "same_files w u"
    and ctx: "discover c p b w0 = Some (Inr ordered, v)" "load_state (w_checkpoint w) = Inr state"
      "active_batch (w_active w) state (by_id ordered) = Inr active"
      "commit_ready p ordered state active batch expected"
  shows "commit_outcome c p b (cb_id batch) expected w0 w r w'"
proof -
  let ?x = "\<lparr>cr_batch_id = cb_id batch, cr_created = True, cr_state = pl_state_path p\<rparr>"
  from ret consider
      e where "write_state os CheckpointFile (mark_processed state batch) (budget_check b) u = Some (Inl e, w')" "r = Inl e"
    | v' where "write_state os CheckpointFile (mark_processed state batch) (budget_check b) u = Some (Inr (), v')"
        "bind_io (if active \<noteq> None then unlink_active os else return_io ()) (\<lambda>_. return_io ?x) v' = Some (r, w')"
    by (auto simp: bind_io_Some)
  then show ?thesis
  proof cases
    case 1
    with write_state_result [OF 1(1)] have "same_files u w'" by auto
    with uw 1(2) show ?thesis by (blast intro: commit_outcome_same same_files_trans)
  next
    case 2
    from write_state_result [OF 2(1)]
    have v': "w_checkpoint v' = written (mark_processed state batch)" "w_active v' = w_active w"
      using uw by (auto simp: replaced_def written_def same_files_def)
    have "w_checkpoint w' = written (mark_processed state batch) \<and>
        (r = Inr ?x \<and> w_active w' = (if active = None then w_active w else None) \<or>
         (\<exists>e. r = Inl e) \<and> active \<noteq> None \<and> w_active w' = w_active w)"
    proof (cases active)
      case None
      with 2(2) v' show ?thesis by (auto simp: bind_io_Some io_simps)
    next
      case (Some a)
      with 2(2) consider e where "unlink_active os v' = Some (Inl e, w')" "r = Inl e"
        | "unlink_active os v' = Some (Inr (), w')" "r = Inr ?x"
        by (auto simp: bind_io_Some io_simps)
      then show ?thesis
        using Some v' by cases (auto dest!: unlink_active_result simp: same_files_def replaced_def)
    qed
    then show ?thesis using ctx by (auto simp: commit_outcome_def)
  qed
qed

lemma commit_checked_outcome:
  assumes ret: "commit_checked p b os i expected ordered batch state u = Some (r, w')"
    and wu: "same_files w u" and disc: "discover c p b w0 = Some (Inr ordered, v)"
    and batch: "map_of (by_id ordered) i = Some batch"
    and state: "load_state (w_checkpoint w) = Inr state"
    and vs: "verify_processed_content state (by_id ordered) = Inr us"
  shows "commit_outcome c p b i expected w0 w r w'"
proof (cases "(expected = None \<or> expected = Some (cb_sha batch)) \<and>
    (\<exists>active. active_batch (w_active u) state (by_id ordered) = Inr active)")
  case False
  then show ?thesis using ret wu
    by (auto simp: commit_checked_def bind_io_Some io_simps intro: commit_outcome_same
        split: if_splits option.splits)
next
  case True
  then obtain active where exp: "expected = None \<or> expected = Some (cb_sha batch)"
    and au: "active_batch (w_active u) state (by_id ordered) = Inr active" by blast
  from batch have bi: "cb_id batch = i" by (auto dest: by_id_Some)
  have act: "active_batch (w_active w) state (by_id ordered) = Inr active"
    using wu au by (simp add: same_files_def)
  let ?nexts = "case active of Some a \<Rightarrow> [a] | None \<Rightarrow> pending ordered state"
  have exp': "\<not> (case expected of None \<Rightarrow> False | Some sha \<Rightarrow> cb_sha batch \<noteq> sha)"
    using exp by (auto split: option.splits)
  have base: "(if is_processed state i
       then return_io \<lparr>cr_batch_id = i, cr_created = False, cr_state = pl_state_path p\<rparr>
       else (case ?nexts of
          [] \<Rightarrow> raise_io StopIteration []
        | next_batch # _ \<Rightarrow>
          if cb_id next_batch \<noteq> i
          then raise_io CommerceBatchError (''cannot skip earlier unprocessed batch: '' @ cb_id next_batch)
          else
     bind_io (write_state os CheckpointFile (mark_processed state batch) (budget_check b)) (\<lambda>_.
     bind_io (if active \<noteq> None then unlink_active os else return_io ()) (\<lambda>_.
       return_io \<lparr>cr_batch_id = i, cr_created = True, cr_state = pl_state_path p\<rparr>)))) u = Some (r, w')"
    using ret exp' au by (simp add: commit_checked_def bind_io_def lift_io_def)
  show ?thesis
  proof (cases "is_processed state i")
    case True
    with base wu state show ?thesis by (auto simp: io_simps commit_outcome_def)
  next
    case np: False
    show ?thesis
    proof (cases "?nexts \<noteq> [] \<and> cb_id (hd ?nexts) = i")
      case False
      then show ?thesis
        using base wu np by (cases ?nexts) (auto simp: io_simps intro: commit_outcome_same)
    next
      case True
      then obtain n ns where n: "?nexts = n # ns" "cb_id n = i" by (cases ?nexts) auto
      have ready: "commit_ready p ordered state active batch expected"
        using True batch bi vs exp np by (auto simp: commit_ready_def split: option.splits)
      have pub: "bind_io (write_state os CheckpointFile (mark_processed state batch) (budget_check b))
          (\<lambda>_. bind_io (if active \<noteq> None then unlink_active os else return_io ()) (\<lambda>_.
            return_io \<lparr>cr_batch_id = cb_id batch, cr_created = True, cr_state = pl_state_path p\<rparr>)) u
          = Some (r, w')"
        using base np n bi by simp
      from publish_outcome [OF pub wu disc state act ready] bi show ?thesis by simp
    qed
  qed
qed

lemma commit_locked_outcome:
  assumes ret: "commit_locked c p b os i expected w = Some (r, w')"
  shows "commit_outcome c p b i expected w w r w'"
proof -
  consider e where "discover c p b w = Some (Inl e, w')" "r = Inl e"
    | ordered u where "discover c p b w = Some (Inr ordered, u)"
    using ret unfolding commit_locked_def bind_io_Some by blast
  then show ?thesis
  proof cases
    case 1
    then show ?thesis using keeps_filesD [OF keeps_files_discover 1(1)]
      by (auto intro: commit_outcome_same)
  next
    case 2
    then have wu: "same_files w u" by (rule keeps_filesD [OF keeps_files_discover])
    show ?thesis
    proof (cases "map_of (by_id ordered) i")
      case None
      with ret 2 wu show ?thesis
        by (auto simp: commit_locked_def bind_io_step io_simps intro: commit_outcome_same)
    next
      case (Some batch)
      with ret 2 have "bind_io (load_checked_state ordered)
          (\<lambda>state. commit_checked p b os i expected ordered batch state) u = Some (r, w')"
        by (simp add: commit_locked_def bind_io_step)
      then consider e where "load_checked_state ordered u = Some (Inl e, w')" "r = Inl e"
        | state v where "load_checked_state ordered u = Some (Inr state, v)"
          "commit_checked p b os i expected ordered batch state v = Some (r, w')"
        unfolding bind_io_Some by blast
      then show ?thesis
      proof cases
        case 1
        with wu show ?thesis
          by (auto simp: load_checked_state_def io_simps intro: commit_outcome_same)
      next
        case chk: 2
        then obtain us where "load_state (w_checkpoint w) = Inr state" "v = u"
          "verify_processed_content state (by_id ordered) = Inr us"
          using wu by (auto simp: load_checked_state_def io_simps result_simps same_files_def)
        with chk(2) commit_checked_outcome [OF _ wu 2 Some] show ?thesis by blast
      qed
    qed
  qed
qed

lemma locked_outcome:
  assumes "busy_as_batch_error p (commerce_runner_lock lk path body) w = Some (r, w')"
  shows "(\<exists>e. r = Inl e) \<and> same_files w w' \<or> body (tick w) = Some (r, w') \<or>
    (\<exists>e e'. r = Inl e \<and> body (tick w) = Some (Inl e', w'))"
  using assms
  by (auto simp: busy_as_batch_error_def catch_io_def commerce_runner_lock_def raise_io_def
      split: option.splits sum.splits if_splits lock_outcome.splits)

lemma commit_outcome_tick:
  "commit_outcome c p b i expected w0 (tick w) r w' \<Longrightarrow> commit_outcome c p b i expected w0 w r w'"
  unfolding commit_outcome_def same_files_def tick_fields .

lemma commit_outcome_error:
  "commit_outcome c p b i expected w0 w (Inl e) w' \<Longrightarrow> commit_outcome c p b i expected w0 w (Inl e') w'"
  by (auto simp: commit_outcome_def)

lemma commit_result:
  assumes "commit c p b os i expected w = Some (r, w')"
  shows "commit_outcome c p b i expected (tick w) w r w'"
  using locked_outcome [OF assms[unfolded commit_def]]
  by (blast intro: commit_outcome_same commit_outcome_tick commit_outcome_error
      dest: commit_locked_outcome)

definition begin_outcome ::
    "s3_client \<Rightarrow> planner \<Rightarrow> budget \<Rightarrow> (string \<times> string) list \<Rightarrow> world \<Rightarrow> world
     \<Rightarrow> unit result \<Rightarrow> world \<Rightarrow> bool" where
  "begin_outcome c p b selected w0 w r w' \<longleftrightarrow>
     (\<exists>e. r = Inl e) \<and> same_files w w' \<or>
     (r = Inr () \<and> w_checkpoint w' = w_checkpoint w \<and>
      (\<exists>ordered u state active batch.
        discover c p b w0 = Some (Inr ordered, u) \<and> load_state (w_checkpoint w) = Inr state \<and>
        active_batch (w_active w) state (by_id ordered) = Inr active \<and>
        selected_batch (by_id ordered) selected = Inr batch \<and> pending ordered state \<noteq> [] \<and>
        batch = (case active of Some a \<Rightarrow> a | None \<Rightarrow> hd (pending ordered state)) \<and>
        w_active w' = (if active = None then written (reservation batch) else w_active w)))"

lemma begin_outcome_same:
  "(\<exists>e. r = Inl e) \<Longrightarrow> same_files w w' \<Longrightarrow> begin_outcome c p b sel w0 w r w'"
  by (auto simp: begin_outcome_def)

lemma begin_locked_outcome:
  assumes ret: "begin_locked c p b os sel w = Some (r, w')"
  shows "begin_outcome c p b sel w w r w'"
proof -
  consider e where "view c p b w = Some (Inl e, w')" "r = Inl e"
    | v u where "view c p b w = Some (Inr v, u)"
    using ret unfolding begin_locked_def bind_io_Some by blast
  then show ?thesis
  proof cases
    case 1
    then show ?thesis using keeps_filesD [OF keeps_files_view 1(1)] by (auto intro: begin_outcome_same)
  next
    case 2
    note v = view_Inr [OF 2]
    let ?waiting = "pending (pv_ordered v) (pv_state v)"
    show ?thesis
    proof (cases "selected_batch (by_id (pv_ordered v)) sel")
      case (Inl e)
      with ret 2 v(2) show ?thesis
        by (auto simp: begin_locked_def bind_io_step bind_io_Some io_simps intro: begin_outcome_same)
    next
      case (Inr batch)
      let ?next = "case pv_active v of Some a \<Rightarrow> a | None \<Rightarrow> hd ?waiting"
      show ?thesis
      proof (cases "?waiting = [] \<or> batch \<noteq> ?next")
        case True
        with ret 2 v(2) Inr show ?thesis
          by (auto simp: begin_locked_def bind_io_step bind_io_Some io_simps Let_def
              intro: begin_outcome_same)
      next
        case ok: False
        have base: "(if pv_active v = None
            then write_state os ActiveFile (reservation batch) (return_io None)
            else return_io ()) u = Some (r, w')"
          using ret 2 Inr ok by (simp add: begin_locked_def bind_io_step bind_io_def lift_io_def Let_def)
        show ?thesis
        proof (cases "pv_active v = None")
          case True
          with base have "write_state os ActiveFile (reservation batch) (return_io None) u = Some (r, w')"
            by simp
          from write_state_result [OF this] True show ?thesis
            using v ok Inr
            by (auto simp: begin_outcome_def replaced_def written_def same_files_def)
        next
          case False
          with base v ok Inr show ?thesis
            by (auto simp: begin_outcome_def io_simps same_files_def)
        qed
      qed
    qed
  qed
qed

lemma begin_result:
  assumes "begin_batch c p b os sel w = Some (r, w')"
  shows "begin_outcome c p b sel (tick w) w r w'"
proof -
  have t: "begin_outcome c p b sel w0 (tick w) r w' \<Longrightarrow> begin_outcome c p b sel w0 w r w'" for w0 r
    unfolding begin_outcome_def same_files_def tick_fields .
  have e: "begin_outcome c p b sel w0 w (Inl e) w' \<Longrightarrow> begin_outcome c p b sel w0 w (Inl e') w'" for w0 e e'
    by (auto simp: begin_outcome_def)
  show ?thesis using locked_outcome [OF assms[unfolded begin_batch_def]]
    by (blast intro: begin_outcome_same t e dest: begin_locked_outcome)
qed

section \<open>Reservations\<close>

lemma py_eq_doc_reload: "py_eq (doc_of (as_dict b)) (json_reload (doc_of (as_dict b)))"
  by (simp add: doc_of_def as_dict_def)

lemma active_of_reservation:
  assumes "map_of ids (cb_id b) = Some b"
  shows "active_batch (written (reservation b)) state ids =
    Inr (if is_processed state (cb_id b) then None else Some b)"
proof -
  have "get (reload_dict (reservation b)) ''batch'' = json_reload (doc_of (as_dict b))"
    by (simp add: reservation_def get_def)
  moreover have "get (reload_dict (reservation b)) ''schema_version'' = PInt 1"
    by (simp add: reservation_def get_def)
  moreover have "is_dict (json_reload (doc_of (as_dict b)))" by (simp add: doc_of_def)
  moreover have "get (the_dict (json_reload (doc_of (as_dict b)))) ''batch_id'' = PStr (cb_id b)"
    by (simp add: doc_of_def as_dict_def get_def)
  ultimately show ?thesis
    using assms py_eq_doc_reload [of b]
    by (simp add: active_batch_def written_def read_json_def catchE_def raise_def Let_def)
qed

text \<open>Only the last test of a readable intent depends on the checkpoint: an intent whose batch is
  recorded there is ignored.\<close>

lemma active_batch_other_state:
  assumes "active_batch file state ids = Inr (Some a)"
  shows "active_batch file state' ids = Inr (if is_processed state' (cb_id a) then None else Some a)"
proof -
  let ?read = "\<lambda>f. catchE (read_json f) (\<lambda>k. is_a k OSError \<or> is_a k JSONDecodeError)
    (\<lambda>e. raise CommerceBatchError ''commerce active batch is unreadable'')"
  from assms obtain f where f: "file = Some f" by (auto simp: active_batch_def split: option.splits)
  with assms obtain v where v: "?read f = Inr v" by (auto simp: active_batch_def bindE_eq_Inr)
  show ?thesis using assms unfolding active_batch_def f option.case v bindE.simps
    by (auto simp: Let_def raise_def split: if_splits option.splits)
qed

lemma active_after_checkpoint:
  assumes "active_batch file state ids = Inr (Some a)"
  shows "active_batch file (reload_dict (mark_processed state a)) ids = Inr None"
  using active_batch_other_state [OF assms] by (simp add: is_processed_reload_mark)

lemma py_eq_str_left [simp]: "py_eq (PStr s) v \<longleftrightarrow> v = PStr s"
  by (cases v) (auto split: option.splits)

lemma py_eq_as_dict:
  "py_eq (doc_of (as_dict b)) (PDict d) \<Longrightarrow>
     map_of d ''batch_at'' = Some (PStr (cb_at b)) \<and> map_of d ''batch_id'' = Some (PStr (cb_id b)) \<and>
     map_of d ''manifest_sha256'' = Some (PStr (cb_sha b)) \<and> map_of d ''path'' = Some (PStr (cb_path b))"
  by (auto simp: doc_of_def as_dict_def split: option.splits)

text \<open>An intent names one content: whoever reads the file accepts a batch with that content.\<close>

lemma active_batch_Inr:
  assumes "active_batch f state ids = Inr act"
  shows "f = None \<and> act = None \<or>
    (\<exists>d r a. f = Some (Doc (PDict d)) \<and> get d ''batch'' = PDict r \<and>
       map_of ids (the_str (get r ''batch_id'')) = Some a \<and> py_eq (doc_of (as_dict a)) (PDict r) \<and>
       act = (if is_processed state (cb_id a) then None else Some a))"
  using assms
  by (auto simp: active_batch_def catchE_def read_json_def raise_def Let_def is_dict_iff is_str_iff
       split: option.splits fdoc.splits if_splits)

lemma active_batch_content:
  assumes "active_batch f state ids = Inr (Some a)" "active_batch f state' ids' = Inr act"
  shows "\<exists>b. as_dict b = as_dict a \<and> act = (if is_processed state' (cb_id a) then None else Some b)"
proof -
  obtain d r where f: "f = Some (Doc (PDict d))" "get d ''batch'' = PDict r"
      "py_eq (doc_of (as_dict a)) (PDict r)"
    using active_batch_Inr [OF assms(1)] by (auto split: if_splits)
  obtain b where b: "py_eq (doc_of (as_dict b)) (PDict r)"
      "act = (if is_processed state' (cb_id b) then None else Some b)"
    using active_batch_Inr [OF assms(2)] f by auto
  from py_eq_as_dict [OF f(3)] py_eq_as_dict [OF b(1)] have "as_dict b = as_dict a" "cb_id b = cb_id a"
    by (auto simp: as_dict_def)
  with b(2) show ?thesis by auto
qed

lemma selected_batch_Inr:
  assumes "selected_batch ids sel = Inr b"
  shows "\<exists>i. str_item sel ''batch_id'' = Inr i \<and> map_of ids i = Some b \<and>
    str_item sel ''manifest_sha256'' = Inr (cb_sha b)"
  using assms by (auto simp: selected_batch_def result_simps raise_def split: option.splits if_splits)

lemma retry_after_begin:
  assumes beg: "begin_batch c p b os sel w = Some (Inr (), w1)" and sf: "same_files w1 w2"
    and pl: "plan c' p b' n [] w2 = Some (Inr rep, w3)"
  shows "\<exists>batch rest. pr_batches rep = as_dict batch # rest \<and> pr_mode rep = ''incremental'' \<and>
    str_item sel ''batch_id'' = Inr (cb_id batch) \<and> str_item sel ''manifest_sha256'' = Inr (cb_sha batch)"
proof -
  from begin_result [OF beg] obtain ordered u state active batch where
    st: "load_state (w_checkpoint w) = Inr state" and ck: "w_checkpoint w1 = w_checkpoint w"
    and act: "active_batch (w_active w) state (by_id ordered) = Inr active"
    and sel: "selected_batch (by_id ordered) sel = Inr batch"
    and pen: "pending ordered state \<noteq> []"
    and batch: "batch = (case active of Some a \<Rightarrow> a | None \<Rightarrow> hd (pending ordered state))"
    and w1: "w_active w1 = (if active = None then written (reservation batch) else w_active w)"
    unfolding begin_outcome_def by blast
  have bid: "map_of (by_id ordered) (cb_id batch) = Some batch"
    and s: "str_item sel ''batch_id'' = Inr (cb_id batch)" "str_item sel ''manifest_sha256'' = Inr (cb_sha batch)"
    using selected_batch_Inr [OF sel] by_id_Some by blast+
  have "hd (pending ordered state) \<in> set (pending ordered state)" using pen by simp
  then have np: "\<not> is_processed state (cb_id batch)"
    using batch act active_batch_Inr [OF act] by (auto simp: pending_def split: option.splits if_splits)
  have a1: "active_batch (w_active w1) state (by_id ordered) = Inr (Some batch)"
    using w1 act batch np active_of_reservation [OF bid, of state] by (auto split: option.splits)
  from pl obtain v where n: "1 \<le> n" and v: "view c' p b' w2 = Some (Inr v, w3)"
    and rep: "plan_selection (nat n) [] (pv_ordered v) (pv_state v) (pv_active v) = Inr rep"
    by (auto simp: plan_def io_simps split: if_splits)
  have st2: "pv_state v = state" using view_Inr(3) [OF v] sf ck st by (simp add: same_files_def)
  have "active_batch (w_active w1) state (by_id (pv_ordered v)) = Inr (pv_active v)"
    using view_Inr(5) [OF v] sf st2 by (simp add: same_files_def)
  from active_batch_content [OF a1 this] np obtain a where a: "as_dict a = as_dict batch" "pv_active v = Some a"
    by auto
  obtain m where "nat n = Suc m" using n by (cases "nat n") auto
  then show ?thesis using rep a s
    by (auto simp: plan_selection_def Let_def incremental_selection_def)
qed

section \<open>Runs of the planner\<close>

text \<open>
  A step is one planner call with any client, budget, disk and lock, that returns a value or
  raises. A crash inside a call leaves files that a disk fault at the same point leaves.
\<close>

inductive planner_step :: "world \<Rightarrow> world \<Rightarrow> bool" where
  planned: "plan c p b n replay w = Some (r, w') \<Longrightarrow> planner_step w w'"
| began: "begin_batch c p b os sel w = Some (r, w') \<Longrightarrow> planner_step w w'"
| committed: "commit c p b os i expected w = Some (r, w') \<Longrightarrow> planner_step w w'"

inductive planner_steps :: "world \<Rightarrow> world \<Rightarrow> bool" where
  none: "planner_steps w w"
| more: "planner_steps u v \<Longrightarrow> planner_step v w \<Longrightarrow> planner_steps u w"

definition recorded :: "world \<Rightarrow> string set" where
  "recorded w = (case load_state (w_checkpoint w) of Inl e \<Rightarrow> {} | Inr state \<Rightarrow> {i. is_processed state i})"

definition loadable :: "world \<Rightarrow> bool" where
  "loadable w \<longleftrightarrow> (\<exists>state. load_state (w_checkpoint w) = Inr state)"

lemma recorded_same_files: "same_files w w' \<Longrightarrow> recorded w' = recorded w \<and> loadable w' = loadable w"
  by (simp add: recorded_def loadable_def same_files_def)

lemma recorded_after_mark:
  assumes "load_state (w_checkpoint w) = Inr state" "is_hex 16 (cb_id batch)"
    "w_checkpoint w' = written (mark_processed state batch)"
  shows "recorded w' = insert (cb_id batch) (recorded w)" "loadable w'"
proof -
  have "valid_state (mark_processed state batch)"
    using assms load_state_valid valid_mark_processed by blast
  then have l: "load_state (w_checkpoint w') = Inr (reload_dict (mark_processed state batch))"
    using assms(3) load_written_state by (simp add: written_def)
  then show "loadable w'" by (simp add: loadable_def)
  show "recorded w' = insert (cb_id batch) (recorded w)"
    using l assms(1) by (auto simp: recorded_def is_processed_reload_mark)
qed

lemma commit_ready_hex:
  assumes "commit_ready p ordered state active batch expected"
    "discover c p b w = Some (Inr ordered, u)"
  shows "is_hex 16 (cb_id batch)"
proof -
  from assms(1) have "map_of (by_id ordered) (cb_id batch) = Some batch"
    unfolding commit_ready_def by blast
  then have "batch \<in> set ordered" by (auto dest: by_id_Some)
  with discover_Inr(2) [OF assms(2)] show ?thesis by (auto simp: batch_of_key_def)
qed

lemma commit_recorded:
  assumes "commit c p b os i expected w = Some (r, w')" "loadable w"
  shows "loadable w' \<and> (recorded w' = recorded w \<or> recorded w' = insert i (recorded w) \<and> i \<notin> recorded w)"
proof -
  from commit_result [OF assms(1)] consider "same_files w w'"
    | ordered u state active batch where
      "discover c p b (tick w) = Some (Inr ordered, u)" "load_state (w_checkpoint w) = Inr state"
      "commit_ready p ordered state active batch expected" "cb_id batch = i"
      "w_checkpoint w' = written (mark_processed state batch)"
    unfolding commit_outcome_def by blast
  then show ?thesis
  proof cases
    case 1
    with recorded_same_files [OF 1] assms(2) show ?thesis by simp
  next
    case 2
    from 2(3) have "\<not> is_processed state (cb_id batch)" unfolding commit_ready_def by blast
    with 2(2,4) have "i \<notin> recorded w" by (simp add: recorded_def)
    with recorded_after_mark [OF 2(2) commit_ready_hex [OF 2(3) 2(1)] 2(5)] 2(4) show ?thesis by simp
  qed
qed

lemma planner_step_invariant:
  assumes "planner_step w w'" "loadable w"
  shows "loadable w' \<and> recorded w \<subseteq> recorded w'"
  using assms
proof (induction rule: planner_step.induct)
  case (planned c p b n replay w r w')
  with recorded_same_files [OF keeps_filesD [OF keeps_files_plan planned(1)]] show ?case by simp
next
  case (began c p b os sel w r w')
  from begin_result [OF began(1)] have "w_checkpoint w' = w_checkpoint w"
    by (auto simp: begin_outcome_def same_files_def)
  with began(2) show ?case by (simp add: loadable_def recorded_def)
next
  case (committed c p b os i expected w r w')
  from commit_recorded [OF committed] show ?case by auto
qed

lemma planner_steps_invariant:
  "planner_steps w w' \<Longrightarrow> loadable w \<Longrightarrow> loadable w' \<and> recorded w \<subseteq> recorded w'"
  by (induction rule: planner_steps.induct) (use planner_step_invariant in blast)+

lemma commit_success:
  assumes "commit c p b os i expected w = Some (Inr x, w')"
  shows "loadable w \<and> loadable w' \<and> recorded w' = insert i (recorded w) \<and>
    (cr_created x \<longleftrightarrow> i \<notin> recorded w) \<and> cr_batch_id x = i"
proof -
  from commit_result [OF assms] consider
      state where "\<not> cr_created x" "cr_batch_id x = i" "same_files w w'"
        "load_state (w_checkpoint w) = Inr state" "is_processed state i"
    | ordered u state active batch where
        "x = \<lparr>cr_batch_id = i, cr_created = True, cr_state = pl_state_path p\<rparr>"
        "discover c p b (tick w) = Some (Inr ordered, u)" "load_state (w_checkpoint w) = Inr state"
        "commit_ready p ordered state active batch expected" "cb_id batch = i"
        "w_checkpoint w' = written (mark_processed state batch)"
    unfolding commit_outcome_def by blast
  then show ?thesis
  proof cases
    case 1
    with recorded_same_files [OF 1(3)] show ?thesis
      by (auto simp: loadable_def recorded_def)
  next
    case 2
    from 2(4) have "\<not> is_processed state (cb_id batch)" unfolding commit_ready_def by blast
    then have "i \<notin> recorded w" using 2(3,5) by (simp add: recorded_def)
    with recorded_after_mark [OF 2(3) commit_ready_hex [OF 2(4) 2(2)] 2(6)] 2(1,3,5) show ?thesis
      by (simp add: loadable_def)
  qed
qed

lemma commit_failure:
  assumes "commit c p b os i expected w = Some (Inl e, w')"
  shows "same_files w w' \<or>
    (\<exists>ordered state batch. w_checkpoint w' = written (mark_processed state batch) \<and> cb_id batch = i \<and>
       w_active w' = w_active w \<and> load_state (w_checkpoint w') = Inr (reload_dict (mark_processed state batch)) \<and>
       active_batch (w_active w') (reload_dict (mark_processed state batch)) (by_id ordered) = Inr None)"
proof -
  from commit_result [OF assms] consider "same_files w w'"
    | ordered u state a batch where
        "discover c p b (tick w) = Some (Inr ordered, u)" "load_state (w_checkpoint w) = Inr state"
        "active_batch (w_active w) state (by_id ordered) = Inr (Some a)"
        "commit_ready p ordered state (Some a) batch expected" "cb_id batch = i"
        "w_checkpoint w' = written (mark_processed state batch)" "w_active w' = w_active w"
    unfolding commit_outcome_def by blast
  then show ?thesis
  proof cases
    case 2
    from 2(4) have ba: "cb_id a = cb_id batch" unfolding commit_ready_def by simp
    have "valid_state (mark_processed state batch)"
      using load_state_valid [OF 2(2)] commit_ready_hex [OF 2(4) 2(1)] by (rule valid_mark_processed)
    then have "load_state (w_checkpoint w') = Inr (reload_dict (mark_processed state batch))"
      using 2(6) load_written_state by (simp add: written_def)
    moreover have "active_batch (w_active w') (reload_dict (mark_processed state batch)) (by_id ordered) = Inr None"
      using active_batch_other_state [OF 2(3)] 2(7) ba by (simp add: is_processed_reload_mark)
    ultimately show ?thesis using 2 by blast
  qed simp
qed

section \<open>What a plan selects\<close>

lemma map_filter_all:
  "\<forall>x \<in> set xs. f x \<noteq> None \<Longrightarrow> List.map_filter f xs = map (\<lambda>x. the (f x)) xs"
  by (induction xs) (auto simp: List.map_filter_simps)

lemma plan_selection_replay:
  assumes "plan_selection m replay ordered state active = Inr rep" "replay \<noteq> []"
  shows "map (\<lambda>d. map_of d ''batch_id'') (pr_batches rep) = map Some replay"
    "pr_selected rep = length replay"
proof -
  have all: "\<forall>i \<in> set replay. map_of (by_id ordered) i \<noteq> None"
    using assms by (auto simp: plan_selection_def Let_def filter_empty_conv split: if_splits)
  then have rep: "pr_batches rep = map (\<lambda>i. as_dict (the (map_of (by_id ordered) i))) replay"
    "pr_selected rep = length replay"
    using assms by (auto simp: plan_selection_def Let_def map_filter_all split: if_splits)
  then show "pr_selected rep = length replay" by simp
  show "map (\<lambda>d. map_of d ''batch_id'') (pr_batches rep) = map Some replay"
    using all rep(1) by (auto simp: as_dict_def comp_def) (metis by_id_Some option.sel)
qed

lemma plan_result:
  assumes "plan c p b n replay w = Some (Inr rep, w')"
  shows "int (pr_selected rep) \<le> n \<and> pr_selected rep = length (pr_batches rep) \<and>
    (replay = [] \<longrightarrow> (\<forall>d \<in> set (pr_batches rep). \<exists>x. d = as_dict x \<and> cb_id x \<notin> recorded w)) \<and>
    (replay \<noteq> [] \<longrightarrow> map (\<lambda>d. map_of d ''batch_id'') (pr_batches rep) = map Some replay)"
proof -
  from assms obtain v where n: "1 \<le> n" "int (length replay) \<le> n"
    and v: "view c p b w = Some (Inr v, w')"
    and rep: "plan_selection (nat n) replay (pv_ordered v) (pv_state v) (pv_active v) = Inr rep"
    by (auto simp: plan_def io_simps split: if_splits)
  show ?thesis
  proof (cases "replay = []")
    case False
    from plan_selection_replay [OF rep False] n False show ?thesis
      by (metis length_map)
  next
    case True
    let ?sel = "take (nat n) (incremental_selection (pv_ordered v) (pv_state v) (pv_active v))"
    have sel: "\<not> is_processed (pv_state v) (cb_id x)" if "x \<in> set ?sel" for x
      using in_set_takeD [OF that] active_batch_Inr [OF view_Inr(5) [OF v]]
      by (auto simp: incremental_selection_def Let_def split: option.splits if_splits)
    have "recorded w = {i. is_processed (pv_state v) i}" by (simp add: recorded_def view_Inr(3) [OF v])
    moreover have "pr_batches rep = map as_dict ?sel" "pr_selected rep = length ?sel"
      using rep True by (auto simp: plan_selection_def Let_def)
    moreover have "int (length ?sel) \<le> n" using n(1) by simp
    ultimately show ?thesis using True sel by auto
  qed
qed

section \<open>What the freshness checks report\<close>

lemma first_max_max:
  "first_max f m xs \<in> insert m (set xs) \<and> (\<forall>x \<in> insert m (set xs). f x \<le> f (first_max f m xs))"
proof (induction f m xs rule: first_max.induct)
  case (2 f m x xs)
  then show ?case by (cases "f m < f x") auto
qed simp

lemma timestamped_all:
  assumes "length (timestamped bs) = length bs"
  shows "timestamped bs = map (\<lambda>b. (the (cb_committed_at b), b)) bs" "\<forall>b \<in> set bs. cb_committed_at b \<noteq> None"
proof -
  have le: "length (timestamped bs) \<le> length bs" for bs
    by (induction bs) (auto simp: timestamped_def split: option.splits)
  have "timestamped bs = map (\<lambda>b. (the (cb_committed_at b), b)) bs \<and> (\<forall>b \<in> set bs. cb_committed_at b \<noteq> None)"
    using assms
  proof (induction bs)
    case Nil
    then show ?case by (simp add: timestamped_def)
  next
    case (Cons x xs)
    then show ?case using le [of xs]
      by (cases "cb_committed_at x") (auto simp: timestamped_def)
  qed
  then show "timestamped bs = map (\<lambda>b. (the (cb_committed_at b), b)) bs" "\<forall>b \<in> set bs. cb_committed_at b \<noteq> None"
    by blast+
qed

lemma backlog_freshness_of_result:
  assumes "backlog_freshness_of waiting m now = Inr rep"
  shows "fr_pending rep = Some (length waiting) \<and>
    (fr_status rep = ''stale'' \<longleftrightarrow> (\<exists>age. fr_age_seconds rep = Some age \<and> m < age)) \<and>
    (waiting \<noteq> [] \<longrightarrow> (\<exists>x \<in> set waiting. \<exists>t.
       cb_committed_at x = Some t \<and> fr_batch_id rep = Some (cb_id x) \<and>
       fr_age_seconds rep = Some (age_in_seconds (dt_utc now - dt_utc t)) \<and>
       (\<forall>y \<in> set waiting. \<exists>t'. cb_committed_at y = Some t' \<and> dt_utc t \<le> dt_utc t')))"
proof (cases "waiting = []")
  case True
  with assms show ?thesis by (auto simp: backlog_freshness_of_def)
next
  case False
  let ?st = "timestamped waiting" and ?f = "\<lambda>x :: pydt \<times> commerce_batch. - dt_utc (fst x)"
  let ?o = "first_max ?f (hd ?st) (tl ?st)"
  from assms False have len: "length ?st = length waiting"
    by (auto simp: backlog_freshness_of_def Let_def raise_def split: if_splits)
  note all = timestamped_all [OF len]
  have ne: "?st \<noteq> []" using all(1) False by simp
  then have set: "insert (hd ?st) (set (tl ?st)) = set ?st" by (cases ?st) auto
  from first_max_max [of ?f "hd ?st" "tl ?st"] have o: "?o \<in> set ?st" "\<forall>x \<in> set ?st. ?f x \<le> ?f ?o"
    unfolding set by blast+
  from o(1) all obtain x where x: "x \<in> set waiting" "?o = (the (cb_committed_at x), x)" by auto
  then obtain t where t: "cb_committed_at x = Some t" using all(2) by auto
  have min: "\<forall>y \<in> set waiting. \<exists>t'. cb_committed_at y = Some t' \<and> dt_utc t \<le> dt_utc t'"
  proof
    fix y assume y: "y \<in> set waiting"
    then obtain t' where t': "cb_committed_at y = Some t'" using all(2) by auto
    with y have "(t', y) \<in> set ?st" unfolding all(1) by force
    with o(2) x(2) t t' show "\<exists>t'. cb_committed_at y = Some t' \<and> dt_utc t \<le> dt_utc t'" by fastforce
  qed
  have "fr_pending rep = Some (length waiting) \<and> fr_batch_id rep = Some (cb_id x) \<and>
      fr_age_seconds rep = Some (age_in_seconds (dt_utc now - dt_utc t)) \<and>
      (fr_status rep = ''stale'' \<longleftrightarrow> m < age_in_seconds (dt_utc now - dt_utc t))"
    using assms False len x(2) t
    by (cases "m < age_in_seconds (dt_utc now - dt_utc t)") (auto simp: backlog_freshness_of_def Let_def result_simps)
  then show ?thesis using x(1) t min by auto
qed

lemma backlog_freshness_result:
  assumes "check_backlog_freshness c p b m now w = Some (Inr rep, w')"
  shows "\<exists>ordered state u.
    discover c p b w = Some (Inr ordered, u) \<and> load_state (w_checkpoint w) = Inr state \<and>
    fr_pending rep = Some (length (pending ordered state)) \<and>
    (fr_status rep = ''stale'' \<longleftrightarrow> (\<exists>age. fr_age_seconds rep = Some age \<and> m < age)) \<and>
    (pending ordered state \<noteq> [] \<longrightarrow> (\<exists>x \<in> set (pending ordered state). \<exists>t.
       cb_committed_at x = Some t \<and> fr_batch_id rep = Some (cb_id x) \<and>
       fr_age_seconds rep = Some (age_in_seconds (dt_utc now - dt_utc t)) \<and>
       (\<forall>y \<in> set (pending ordered state). \<exists>t'. cb_committed_at y = Some t' \<and> dt_utc t \<le> dt_utc t')))"
proof -
  from assms obtain ordered u state us where d: "discover c p b w = Some (Inr ordered, u)"
    and l: "load_state (w_checkpoint u) = Inr state"
    and r: "backlog_freshness_of (pending ordered state) m now = Inr rep"
    by (auto simp: check_backlog_freshness_def checked_freshness_arguments_def load_checked_state_def
        io_simps result_simps split: if_splits)
  have "load_state (w_checkpoint w) = Inr state"
    using l keeps_filesD [OF keeps_files_discover d] by (simp add: same_files_def)
  with d backlog_freshness_of_result [OF r] show ?thesis by blast
qed

end
