(* ===== verification/Planner_Interface.thy ===== *)
theory Planner_Interface
  imports Commerce_Batches
begin

text \<open>
  What the pipeline asks of a batch planner, as the operations it calls and the laws it relies
  on, and the planner of \<open>ingestion/commerce_batches.py\<close> as the provider of both. The
  pipeline looks two of the operations up at run time, so they may be missing.
\<close>

record planner_ops =
  po_has_budget :: bool
  po_plan :: "budget \<Rightarrow> plan_report io"
  po_begin :: "(budget \<Rightarrow> (string \<times> string) list \<Rightarrow> unit io) option"
  po_options :: "(budget \<Rightarrow> (string \<times> string) list \<Rightarrow> (string \<times> string) list io) option"
  po_commit :: "budget \<Rightarrow> string \<Rightarrow> string option \<Rightarrow> commit_result io"

definition keeps_checkpoint :: "'a io \<Rightarrow> bool" where
  "keeps_checkpoint m \<longleftrightarrow> (\<forall>w r w'. m w = Some (r, w') \<longrightarrow> w_checkpoint w' = w_checkpoint w)"

lemma keeps_files_checkpoint: "keeps_files m \<Longrightarrow> keeps_checkpoint m"
  by (auto simp: keeps_files_iff keeps_checkpoint_def same_files_def)

text \<open>Only a commit may change the checkpoint, and then it adds the batch it was asked for.\<close>

locale batch_planner =
  fixes ops :: planner_ops
  assumes plan_keeps: "keeps_checkpoint (po_plan ops b)"
    and plan_distinct: "po_plan ops b w = Some (Inr rep, w') \<Longrightarrow> d \<in> set (pr_batches rep) \<Longrightarrow>
      \<exists>i sha. map_of d ''batch_id'' = Some i \<and> map_of d ''manifest_sha256'' = Some sha"
    and begin_keeps: "po_begin ops = Some f \<Longrightarrow> keeps_checkpoint (f b sel)"
    and options_keep: "po_options ops = Some g \<Longrightarrow> keeps_checkpoint (g b sel)"
    and options_mode: "po_options ops = Some g \<Longrightarrow> g b sel w = Some (Inr opts, w') \<Longrightarrow>
      map fst opts \<in> {[], [''customer_history_mode'']}"
    and commit_adds: "po_commit ops b i sha w = Some (r, w') \<Longrightarrow> loadable w \<Longrightarrow>
      loadable w' \<and> (w_checkpoint w' = w_checkpoint w \<or>
        recorded w' = insert i (recorded w) \<and> i \<notin> recorded w)"
    and commit_success: "po_commit ops b i sha w = Some (Inr x, w') \<Longrightarrow> cr_batch_id x = i \<and> i \<in> recorded w'"

definition lake_ops :: "s3_client \<Rightarrow> planner \<Rightarrow> os_env \<Rightarrow> planner_ops" where
  "lake_ops c p os = \<lparr>po_has_budget = True, po_plan = (\<lambda>b. plan c p b 1 []),
     po_begin = Some (\<lambda>b. begin_batch c p b os), po_options = Some (\<lambda>b. execution_options c p b),
     po_commit = (\<lambda>b. commit c p b os)\<rparr>"

lemma begin_keeps_checkpoint: "keeps_checkpoint (begin_batch c p b os sel)"
  unfolding keeps_checkpoint_def by (auto dest!: begin_result simp: begin_outcome_def same_files_def)

lemma commit_adds_batch:
  assumes "commit c p b os i expected w = Some (r, w')" "loadable w"
  shows "loadable w' \<and> (w_checkpoint w' = w_checkpoint w \<or>
    recorded w' = insert i (recorded w) \<and> i \<notin> recorded w)"
proof -
  from commit_result [OF assms(1)] consider "same_files w w'"
    | ordered u state active batch where
      "discover c p b (tick w) = Some (Inr ordered, u)" "load_state (w_checkpoint w) = Inr state"
      "commit_ready p ordered state active batch expected" "cb_id batch = i"
      "w_checkpoint w' = written (mark_processed state batch)"
    unfolding commit_outcome_def by blast
  then show ?thesis
  proof cases
    case 1
    with recorded_same_files [OF 1] assms(2) show ?thesis by (simp add: same_files_def)
  next
    case 2
    from 2(3) have "\<not> is_processed state (cb_id batch)" unfolding commit_ready_def by blast
    with 2(2,4) have "i \<notin> recorded w" by (simp add: recorded_def)
    with recorded_after_mark [OF 2(2) commit_ready_hex [OF 2(3) 2(1)] 2(5)] 2(4) show ?thesis by simp
  qed
qed

lemma execution_options_keys:
  assumes "execution_options c p b sel w = Some (Inr opts, w')"
  shows "map fst opts \<in> {[], [''customer_history_mode'']}"
  using assms by (auto simp: execution_options_def io_simps result_simps split: if_splits)

lemma plan_batches_items:
  assumes "plan c p b n replay w = Some (Inr rep, w')" "d \<in> set (pr_batches rep)"
  shows "\<exists>x. d = as_dict x"
  using assms by (auto simp: plan_def io_simps plan_selection_def Let_def split: if_splits)

interpretation lake: batch_planner "lake_ops c p os" for c p os
proof
  show "keeps_checkpoint (po_plan (lake_ops c p os) b)" for b
    by (simp add: lake_ops_def keeps_files_checkpoint keeps_files_plan)
next
  fix b w rep w' d
  assume "po_plan (lake_ops c p os) b w = Some (Inr rep, w')" "d \<in> set (pr_batches rep)"
  then show "\<exists>i sha. map_of d ''batch_id'' = Some i \<and> map_of d ''manifest_sha256'' = Some sha"
    using plan_batches_items by (fastforce simp: lake_ops_def as_dict_def)
next
  show "po_begin (lake_ops c p os) = Some f \<Longrightarrow> keeps_checkpoint (f b sel)" for f b sel
    by (auto simp: lake_ops_def begin_keeps_checkpoint)
next
  show "po_options (lake_ops c p os) = Some g \<Longrightarrow> keeps_checkpoint (g b sel)" for g b sel
    by (auto simp: lake_ops_def keeps_files_checkpoint keeps_files_execution_options)
next
  show "po_options (lake_ops c p os) = Some g \<Longrightarrow> g b sel w = Some (Inr opts, w') \<Longrightarrow>
      map fst opts \<in> {[], [''customer_history_mode'']}" for g b sel w opts w'
    by (auto simp: lake_ops_def dest!: execution_options_keys)
next
  show "po_commit (lake_ops c p os) b i sha w = Some (r, w') \<Longrightarrow> loadable w \<Longrightarrow>
      loadable w' \<and> (w_checkpoint w' = w_checkpoint w \<or>
        recorded w' = insert i (recorded w) \<and> i \<notin> recorded w)" for b i sha w r w'
    using commit_adds_batch by (simp add: lake_ops_def)
next
  show "po_commit (lake_ops c p os) b i sha w = Some (Inr x, w') \<Longrightarrow> cr_batch_id x = i \<and> i \<in> recorded w'"
    for b i sha w x w'
    using Commerce_Batches.commit_success by (auto simp: lake_ops_def)
qed

end
