(* ===== verification/Run_Journal.thy ===== *)
theory Run_Journal
  imports Commerce_Batches
begin

text \<open>
  \<open>commerce_run_journal.py\<close>, the append-only evidence of runs and of the containers they
  own, and \<open>commerce_journal_inspection.py\<close>, its read-only report. A journal is a list of
  rows in the order of their sequence numbers.
\<close>

section \<open>State\<close>

record run_event =
  ev_sequence :: nat
  ev_run_id :: string
  ev_recorded_at :: string
  ev_batch_id :: "string option"
  ev_sha :: "string option"
  ev_phase :: string
  ev_event :: string
  ev_error_type :: "exn_class option"

record container_event =
  ce_sequence :: nat
  ce_run_id :: string
  ce_recorded_at :: string
  ce_batch_id :: string
  ce_sha :: string
  ce_service :: string
  ce_container :: string
  ce_project :: string
  ce_event :: string

text \<open>The state of a run: the world, the two tables of the journal file, and the journal
  object's phase and batch.\<close>

record run_state =
  rs_world :: world
  rs_events :: "run_event list"
  rs_containers :: "container_event list"
  rs_phase :: string
  rs_batch :: "(string \<times> string) list"

type_synonym 'a run = "(pyexn, 'a, run_state) act"

definition in_world :: "'a io \<Rightarrow> 'a run" where
  "in_world m s = (case m (rs_world s) of None \<Rightarrow> None
     | Some (r, w') \<Rightarrow> Some (r, s\<lparr>rs_world := w'\<rparr>))"

definition call_run :: "(nat \<Rightarrow> 'a result) \<Rightarrow> 'a run" where
  "call_run f = in_world (call_io f)"

text \<open>The machine under the journal: the clock's time stamps, a fault of creating the directory,
  and whether SQLite refuses a write.\<close>

record journal_env =
  je_run_id :: string
  je_now :: "nat \<Rightarrow> string"
  je_mkdir :: "nat \<Rightarrow> pyexn option"
  je_sqlite_fails :: "nat \<Rightarrow> bool"

definition mkdir_call :: "journal_env \<Rightarrow> unit run" where
  "mkdir_call j = call_run (\<lambda>n. case je_mkdir j n of None \<Rightarrow> Inr () | Some e \<Rightarrow> Inl e)"

definition sqlite_call :: "journal_env \<Rightarrow> string \<Rightarrow> string run" where
  "sqlite_call j message = call_run (\<lambda>n.
     if je_sqlite_fails j n then raise CommerceJournalError message else Inr (je_now j n))"

definition next_sequence :: "nat list \<Rightarrow> nat" where
  "next_sequence seqs = Suc (foldl max 0 seqs)"

section \<open>Recording\<close>

definition append_event ::
    "journal_env \<Rightarrow> string \<Rightarrow> string \<Rightarrow> exn_class option \<Rightarrow> string \<Rightarrow> unit run" where
  "append_event j phase event error_type now s =
     Some (Inr (), s\<lparr>rs_events := rs_events s @
       [\<lparr>ev_sequence = next_sequence (map ev_sequence (rs_events s)), ev_run_id = je_run_id j,
         ev_recorded_at = now, ev_batch_id = map_of (rs_batch s) ''batch_id'',
         ev_sha = map_of (rs_batch s) ''manifest_sha256'', ev_phase = phase, ev_event = event,
         ev_error_type = error_type\<rparr>]\<rparr>)"

definition set_phase :: "string \<Rightarrow> (string \<times> string) list option \<Rightarrow> unit run" where
  "set_phase phase batch s = Some (Inr (), s\<lparr>rs_phase := phase,
     rs_batch := (case batch of None \<Rightarrow> rs_batch s | Some b \<Rightarrow> b)\<rparr>)"

definition record_event ::
    "journal_env \<Rightarrow> string \<Rightarrow> string \<Rightarrow> (string \<times> string) list option \<Rightarrow> exn_class option \<Rightarrow> unit run" where
  "record_event j phase event batch error_type =
     bind_io (set_phase phase batch) (\<lambda>_.
     bind_io (mkdir_call j) (\<lambda>_.
     bind_io (sqlite_call j ''commerce journal write failed'') (append_event j phase event error_type)))"

text \<open>The batch's identity is read for the row, so a batch without it raises \<open>KeyError\<close>.\<close>

definition append_container ::
    "journal_env \<Rightarrow> string \<Rightarrow> string \<Rightarrow> string \<Rightarrow> (string \<times> string) list \<Rightarrow> string \<Rightarrow> string \<Rightarrow> unit run" where
  "append_container j service container event batch project now =
     bind_io (lift_io (str_item batch ''batch_id'')) (\<lambda>i.
     bind_io (lift_io (str_item batch ''manifest_sha256'')) (\<lambda>sha s.
       Some (Inr (), s\<lparr>rs_containers := rs_containers s @
         [\<lparr>ce_sequence = next_sequence (map ce_sequence (rs_containers s)), ce_run_id = je_run_id j,
           ce_recorded_at = now, ce_batch_id = i, ce_sha = sha, ce_service = service,
           ce_container = container, ce_project = project, ce_event = event\<rparr>]\<rparr>)))"

definition record_container ::
    "journal_env \<Rightarrow> string \<Rightarrow> string \<Rightarrow> string \<Rightarrow> (string \<times> string) list \<Rightarrow> string \<Rightarrow> unit run" where
  "record_container j service container event batch project =
     bind_io (mkdir_call j) (\<lambda>_.
     bind_io (sqlite_call j ''commerce container journal write failed'')
       (append_container j service container event batch project))"

section \<open>Inspection\<close>

record run_summary =
  rv_run_id :: string
  rv_first_sequence :: nat
  rv_last_sequence :: nat
  rv_event_count :: nat
  rv_checkpoint_completed :: nat
  rv_started_at :: string
  rv_last_recorded_at :: string
  rv_phase :: string
  rv_event :: string
  rv_error_type :: "exn_class option"
  rv_batch_id :: "string option"
  rv_sha :: "string option"
  rv_outcome :: string
  rv_observation :: "string option"

text \<open>The outcome that the last row of a run tells.\<close>

definition outcome_of :: "string \<Rightarrow> string \<Rightarrow> string" where
  "outcome_of phase event =
     (if phase = ''run'' \<and> event \<in> set [''ready'', ''idle''] then event
      else if event = ''failed'' then ''failed'' else ''unfinished'')"

text \<open>One group of the query, with its first and its last row.\<close>

definition summary_of :: "run_event list \<Rightarrow> run_summary" where
  "summary_of rows = (let f = hd rows; l = last rows in
     \<lparr>rv_run_id = ev_run_id f, rv_first_sequence = ev_sequence f, rv_last_sequence = ev_sequence l,
      rv_event_count = length rows,
      rv_checkpoint_completed =
        length (filter (\<lambda>e. ev_phase e = ''checkpoint'' \<and> ev_event e = ''completed'') rows),
      rv_started_at = ev_recorded_at f, rv_last_recorded_at = ev_recorded_at l,
      rv_phase = ev_phase l, rv_event = ev_event l, rv_error_type = ev_error_type l,
      rv_batch_id = ev_batch_id l, rv_sha = ev_sha l,
      rv_outcome = outcome_of (ev_phase l) (ev_event l), rv_observation = None\<rparr>)"

text \<open>\<open>GROUP BY run_id ORDER BY last_sequence DESC LIMIT n\<close>\<close>

definition recent_runs :: "nat \<Rightarrow> run_event list \<Rightarrow> run_summary list" where
  "recent_runs limit rows =
     (let ordered = sort_key ev_sequence rows;
          groups = map (\<lambda>i. filter (\<lambda>e. ev_run_id e = i) ordered) (remdups (map ev_run_id ordered))
      in take limit (rev (sort_key rv_last_sequence (map summary_of groups))))"

definition observation_of :: "pydict \<Rightarrow> run_summary \<Rightarrow> string" where
  "observation_of entries r =
     (case (rv_batch_id r, rv_sha r) of
        (Some i, Some sha) \<Rightarrow>
          (case map_of entries i of
             None \<Rightarrow> ''not_recorded''
           | Some entry \<Rightarrow> if py_eq (get (the_dict entry) ''manifest_sha256'') (PStr sha)
               then ''matching_manifest'' else ''different_manifest'')
      | _ \<Rightarrow> ''not_batch_bound'')"

record inspection =
  in_scope :: string
  in_limit :: int
  in_runs :: "run_summary list"

text \<open>The journal is the rows, or the error of opening or querying it; the checkpoint is given
  when the caller asks for the comparison.\<close>

definition inspect_journal ::
    "run_event list option \<Rightarrow> pyval \<Rightarrow> fdoc option option \<Rightarrow> inspection result" where
  "inspect_journal table limit checkpoint =
     (if \<not> exact_int limit \<or> \<not> (1 \<le> the_int limit \<and> the_int limit \<le> 100)
      then raise ValueError ''limit must be an integer between 1 and 100''
      else (case table of
          None \<Rightarrow> raise CommerceJournalError ''cannot inspect commerce journal''
        | Some rows \<Rightarrow>
           let runs = recent_runs (nat (the_int limit)) rows in
           (case checkpoint of
              None \<Rightarrow> Inr \<lparr>in_scope = ''diagnostic_journal_not_checkpoint_or_liveness'',
                in_limit = the_int limit, in_runs = runs\<rparr>
            | Some c \<Rightarrow> bindE (load_state c) (\<lambda>state.
                Inr \<lparr>in_scope = ''diagnostic_journal_and_checkpoint_not_atomic_or_liveness'',
                  in_limit = the_int limit,
                  in_runs = map (\<lambda>r. r\<lparr>rv_observation := Some (observation_of (processed state) r)\<rparr>) runs\<rparr>))))"

section \<open>What recording does\<close>

definition journal_healthy :: "journal_env \<Rightarrow> bool" where
  "journal_healthy j \<longleftrightarrow> (\<forall>n. je_mkdir j n = None \<and> \<not> je_sqlite_fails j n)"

lemma in_world_Some [io_simps]:
  "in_world m s = Some (r, s') \<longleftrightarrow> (\<exists>w'. m (rs_world s) = Some (r, w') \<and> s' = s\<lparr>rs_world := w'\<rparr>)"
  by (auto simp: in_world_def split: option.splits)

lemma in_world_None [io_simps]: "in_world m s = None \<longleftrightarrow> m (rs_world s) = None"
  by (auto simp: in_world_def split: option.splits)

lemma call_run_Some [io_simps]:
  "call_run f s = Some (r, s') \<longleftrightarrow> f (w_tick (rs_world s)) = r \<and> s' = s\<lparr>rs_world := tick (rs_world s)\<rparr>"
  by (auto simp: call_run_def io_simps)

lemma call_run_None [simp]: "call_run f s \<noteq> None"
  by (simp add: call_run_def io_simps)

lemma record_event_returns [simp]: "record_event j p e b x s \<noteq> None"
  by (auto simp: record_event_def bind_io_None set_phase_def mkdir_call_def sqlite_call_def
      append_event_def io_simps)

text \<open>A healthy journal gains exactly one row, of this run, phase and event.\<close>

lemma record_event_healthy:
  assumes "journal_healthy j" "record_event j phase event batch err s = Some (r, s')"
  shows "r = Inr ()" "\<exists>e. rs_events s' = rs_events s @ [e] \<and> ev_run_id e = je_run_id j \<and>
      ev_phase e = phase \<and> ev_event e = event \<and> ev_error_type e = err \<and>
      ev_sequence e = next_sequence (map ev_sequence (rs_events s)) \<and>
      ev_batch_id e = map_of (rs_batch s') ''batch_id'' \<and> ev_sha e = map_of (rs_batch s') ''manifest_sha256''"
    "rs_phase s' = phase" "rs_batch s' = (case batch of None \<Rightarrow> rs_batch s | Some b \<Rightarrow> b)"
    "same_files (rs_world s) (rs_world s')" "rs_containers s' = rs_containers s"
  using assms
  by (auto simp: record_event_def journal_healthy_def bind_io_Some set_phase_def mkdir_call_def
      sqlite_call_def append_event_def call_run_Some same_files_def)

lemma record_event_files:
  assumes "record_event j phase event batch err s = Some (r, s')"
  shows "same_files (rs_world s) (rs_world s')"
  using assms
  by (auto simp: record_event_def bind_io_Some set_phase_def mkdir_call_def sqlite_call_def
      append_event_def call_run_Some same_files_def)

section \<open>What the inspection reports\<close>

lemma rows_of_run:
  assumes "i \<in> ev_run_id ` set rows"
  shows "filter (\<lambda>e. ev_run_id e = i) (sort_key ev_sequence rows) \<noteq> []"
  using assms by (auto simp: filter_empty_conv)

lemma sorted_last:
  assumes "sorted (map f xs)" "xs \<noteq> []" "x \<in> set xs"
  shows "f x \<le> f (last xs)"
  using assms by (induction xs) (auto split: if_splits)

lemma recent_runs_sorted:
  "sorted_wrt (\<lambda>r r'. rv_last_sequence r' \<le> rv_last_sequence r) (recent_runs n rows)"
proof -
  have "sorted_wrt (\<lambda>r r'. rv_last_sequence r' \<le> rv_last_sequence r) (rev (sort_key rv_last_sequence xs))"
    for xs :: "run_summary list"
    using sorted_sort_key [of rv_last_sequence xs] unfolding sorted_wrt_rev sorted_map by simp
  then show ?thesis by (simp add: recent_runs_def Let_def sorted_wrt_take)
qed

text \<open>Every reported run is told by its own last row.\<close>

lemma recent_runs_last_row:
  assumes "r \<in> set (recent_runs n rows)"
  shows "\<exists>e \<in> set rows. ev_run_id e = rv_run_id r \<and> rv_last_sequence r = ev_sequence e \<and>
    rv_outcome r = outcome_of (ev_phase e) (ev_event e) \<and>
    rv_error_type r = ev_error_type e \<and> rv_batch_id r = ev_batch_id e \<and> rv_sha r = ev_sha e \<and>
    (\<forall>e' \<in> set rows. ev_run_id e' = rv_run_id r \<longrightarrow> ev_sequence e' \<le> ev_sequence e)"
proof -
  let ?rows = "\<lambda>i. filter (\<lambda>e. ev_run_id e = i) (sort_key ev_sequence rows)"
  obtain i where i: "i \<in> ev_run_id ` set rows" and r: "r = summary_of (?rows i)"
  proof -
    from assms obtain i where "i \<in> ev_run_id ` set rows" "r = summary_of (?rows i)"
      by (auto simp: recent_runs_def Let_def dest!: in_set_takeD) blast
    then show thesis by (rule that)
  qed
  note ne = rows_of_run [OF i]
  note l = last_in_set [OF ne] and h = hd_in_set [OF ne]
  have id: "rv_run_id r = i" using h by (simp add: r summary_of_def Let_def)
  have "sorted (map ev_sequence (?rows i))" by (rule sorted_filter) simp
  then have "ev_sequence e' \<le> ev_sequence (last (?rows i))" if "e' \<in> set rows" "ev_run_id e' = i" for e'
    using sorted_last [OF _ ne, of ev_sequence e'] that by simp
  then show ?thesis using l id
    by (intro bexI [of _ "last (?rows i)"]) (auto simp: r summary_of_def Let_def)
qed

lemma recent_runs_distinct: "distinct (map rv_run_id (recent_runs n rows))"
proof -
  let ?rows = "\<lambda>i. filter (\<lambda>e. ev_run_id e = i) (sort_key ev_sequence rows)"
  let ?ids = "remdups (map ev_run_id (sort_key ev_sequence rows))"
  have "rv_run_id (summary_of (?rows i)) = i" if "i \<in> set ?ids" for i
  proof -
    from that have "i \<in> ev_run_id ` set rows" by simp
    from hd_in_set [OF rows_of_run [OF this]] show ?thesis by (simp add: summary_of_def Let_def)
  qed
  then have "map rv_run_id (map summary_of (map ?rows ?ids)) = ?ids" unfolding map_map comp_def by (rule map_idI)
  then have "distinct (map rv_run_id (map summary_of (map ?rows ?ids)))" by (metis distinct_remdups)
  then have "distinct (map rv_run_id (sort_key rv_last_sequence (map summary_of (map ?rows ?ids))))"
    by (metis (no_types) distinct_map distinct_sort set_sort)
  then show ?thesis
    unfolding recent_runs_def Let_def
    by (metis (no_types) distinct_rev distinct_take rev_map take_map)
qed

end
