(* ===== verification/Py_Parse.thy ===== *)
theory Py_Parse
  imports Py_Float
begin

text \<open>\<open>int(s)\<close> and \<open>float(s)\<close> on strings, as the settings in the environment are read.\<close>

section \<open>Digits\<close>

definition digits_val :: "string \<Rightarrow> int" where
  "digits_val s = foldl (\<lambda>a c. 10 * a + (int (of_char c :: nat) - 48)) 0 s"

definition all_digits :: "string \<Rightarrow> bool" where
  "all_digits s = (s \<noteq> [] \<and> list_all is_ascii_digit s)"

text \<open>An underscore may stand between two digits only.\<close>

fun underscores_ok :: "bool \<Rightarrow> string \<Rightarrow> bool" where
  "underscores_ok after_digit [] = True"
| "underscores_ok after_digit (c # s) =
     (if c = CHR ''_''
      then after_digit \<and> (case s of [] \<Rightarrow> False | d # _ \<Rightarrow> is_ascii_digit d) \<and> underscores_ok False s
      else underscores_ok (is_ascii_digit c) s)"

definition drop_underscores :: "string \<Rightarrow> string option" where
  "drop_underscores s = (if underscores_ok False s then Some (filter (\<lambda>c. c \<noteq> CHR ''_'') s) else None)"

definition split_sign :: "string \<Rightarrow> int \<times> string" where
  "split_sign s = (case s of [] \<Rightarrow> (1, [])
     | c # t \<Rightarrow> if c = CHR ''-'' then (-1, t) else if c = CHR ''+'' then (1, t) else (1, s))"

text \<open>\<open>int(s)\<close>; None where it raises \<open>ValueError\<close>. More than 4300 digits are refused.\<close>

definition int_of_str :: "string \<Rightarrow> int option" where
  "int_of_str s = (let (sg, t) = split_sign (strip s) in
     case drop_underscores t of None \<Rightarrow> None
     | Some ds \<Rightarrow> if all_digits ds \<and> length ds \<le> 4300 then Some (sg * digits_val ds) else None)"

section \<open>Floats\<close>

definition lower_char :: "char \<Rightarrow> char" where
  "lower_char c = (let n = of_char c :: nat in if 65 \<le> n \<and> n \<le> 90 then char_of (n + 32) else c)"

text \<open>The part before the first character with \<open>p\<close>, and what follows it if there is one.\<close>

definition split_at :: "(char \<Rightarrow> bool) \<Rightarrow> string \<Rightarrow> string \<times> string option" where
  "split_at p s = (takeWhile (\<lambda>c. \<not> p c) s,
     case dropWhile (\<lambda>c. \<not> p c) s of [] \<Rightarrow> None | _ # t \<Rightarrow> Some t)"

definition pow10 :: "int \<Rightarrow> rat" where
  "pow10 e = (if 0 \<le> e then 10 ^ nat e else 1 / 10 ^ nat (- e))"

text \<open>An unsigned decimal literal as its exact value.\<close>

definition decimal_of :: "string \<Rightarrow> rat option" where
  "decimal_of s =
     (let (mantissa, exponent) = split_at (\<lambda>c. c = CHR ''e'') s;
          (whole, frac) = split_at (\<lambda>c. c = CHR ''.'') mantissa;
          frac = (case frac of None \<Rightarrow> [] | Some f \<Rightarrow> f);
          ds = whole @ frac
      in if \<not> all_digits ds then None
         else (case exponent of
             None \<Rightarrow> Some (of_int (digits_val ds) * pow10 (- int (length frac)))
           | Some x \<Rightarrow> (let (sg, xs) = split_sign x in
               if all_digits xs
               then Some (of_int (digits_val ds) * pow10 (sg * digits_val xs - int (length frac)))
               else None)))"

definition float_of_rat :: "rat \<Rightarrow> pyfloat" where
  "float_of_rat q = (let r = round_double q in
     if r > max_double then Inf False else if r < - max_double then Inf True else Fin r)"

text \<open>\<open>float(s)\<close>; None where it raises \<open>ValueError\<close>.\<close>

definition float_of_str :: "string \<Rightarrow> pyfloat option" where
  "float_of_str s =
     (case drop_underscores (strip s) of None \<Rightarrow> None
      | Some t \<Rightarrow> (let (sg, u) = split_sign t; l = map lower_char u in
          if l = ''inf'' \<or> l = ''infinity'' then Some (Inf (sg < 0))
          else if l = ''nan'' then Some NaN
          else map_option (\<lambda>q. float_of_rat (of_int sg * q)) (decimal_of l)))"

text \<open>\<open>x - y\<close> of finite floats, far from the ends of the range\<close>

definition float_sub :: "rat \<Rightarrow> rat \<Rightarrow> rat" where
  "float_sub x y = round_double (x - y)"

definition float_add :: "rat \<Rightarrow> rat \<Rightarrow> rat" where
  "float_add x y = round_double (x + y)"

end
