(* ===== verification/Gold_Gate.thy ===== *)
theory Gold_Gate
  imports Run_Journal Py_Parse
begin

text \<open>
  \<open>commerce_gold_gate.py\<close>: the check of one batch in the daily gold table and its bounded
  retry. The query engine is not part of the program: a query is an action of the caller that
  returns rows or fails, and a failure carries the status code of the HTTP response that caused
  it, if one did.
\<close>

type_synonym gate_error = "pyexn \<times> nat option"
type_synonym 'a gate = "(gate_error, 'a, run_state) act"

definition gold_table :: string where
  "gold_table = ''lakehouse.gold.commerce_daily''"

record gold_report =
  gr_batch_id :: string
  gr_days :: int
  gr_orders :: int
  gr_revenue :: int

definition gold_report_dict :: "gold_report \<Rightarrow> pydict" where
  "gold_report_dict r = [(''status'', PStr ''ready''), (''table'', PStr gold_table),
     (''batch_id'', PStr (gr_batch_id r)), (''days'', PInt (gr_days r)),
     (''orders'', PInt (gr_orders r)), (''captured_revenue_cents'', PInt (gr_revenue r))]"

definition gate_raise :: "exn_class \<Rightarrow> string \<Rightarrow> gate_error + 'a" where
  "gate_raise k m = Inl (Exn k m, None)"

text \<open>\<open>isinstance(value, int)\<close> without the booleans\<close>

definition non_negative_int :: "pyval \<Rightarrow> string \<Rightarrow> gate_error + int" where
  "non_negative_int v name =
     (if \<not> exact_int v \<or> the_int v < 0
      then gate_raise CommerceGoldGateError (''Trino commerce gold field '' @ name @ '' is invalid'')
      else Inr (the_int v))"

definition gold_query :: "string \<Rightarrow> string" where
  "gold_query batch_id =
     ''SELECT count(*) AS days, '' @
     ''coalesce(sum(order_count), 0) AS orders, '' @
     ''coalesce(sum(captured_revenue_cents), 0) AS captured_revenue_cents, '' @
     ''count_if(order_count IS NULL OR order_count <= 0 OR '' @
     ''captured_revenue_cents IS NULL OR captured_revenue_cents < 0) AS invalid_days '' @
     ''FROM '' @ gold_table @ '' WHERE source_batch_id = '' @ [CHR 0x27] @ batch_id @ [CHR 0x27]"

definition gold_report_of :: "string \<Rightarrow> pyval list \<Rightarrow> gate_error + gold_report" where
  "gold_report_of batch_id rows =
     (case rows of
        [PDict row] \<Rightarrow>
          bindE (non_negative_int (get row ''days'') ''days'') (\<lambda>days.
          bindE (non_negative_int (get row ''orders'') ''orders'') (\<lambda>orders.
          bindE (non_negative_int (get row ''captured_revenue_cents'') ''captured_revenue_cents'') (\<lambda>revenue.
          bindE (non_negative_int (get row ''invalid_days'') ''invalid_days'') (\<lambda>invalid.
            if days = 0 \<or> orders = 0 \<or> invalid \<noteq> 0
            then gate_raise CommerceGoldGateError
              (''commerce gold batch is not ready: days='' @ dec_int days @ '', orders='' @ dec_int orders @
               '', invalid_days='' @ dec_int invalid)
            else Inr \<lparr>gr_batch_id = batch_id, gr_days = days, gr_orders = orders, gr_revenue = revenue\<rparr>))))
      | _ \<Rightarrow> gate_raise CommerceGoldGateError ''Trino returned an unexpected commerce gold result'')"

definition check_commerce_gold :: "(string \<Rightarrow> pyval list gate) \<Rightarrow> string \<Rightarrow> gold_report gate" where
  "check_commerce_gold query batch_id =
     (if \<not> is_hex 16 batch_id
      then lift_io (gate_raise CommerceGoldGateError ''batch ID must be 16 lowercase hexadecimal characters'')
      else bind_io (query (gold_query batch_id)) (\<lambda>rows. lift_io (gold_report_of batch_id rows)))"

definition finite_number :: "pyval \<Rightarrow> rat option" where
  "finite_number v = (case v of PInt i \<Rightarrow> Some (of_int i) | PFloat (Fin q) \<Rightarrow> Some q | _ \<Rightarrow> None)"

definition validate_commerce_gold_retry :: "pyval \<Rightarrow> pyval \<Rightarrow> gate_error + unit" where
  "validate_commerce_gold_retry attempts delay =
     (if \<not> exact_int attempts \<or> \<not> (1 \<le> the_int attempts \<and> the_int attempts \<le> 5)
      then gate_raise CommerceGoldGateError ''attempts must be an integer between 1 and 5''
      else if (case delay of PInt i \<Rightarrow> max_double < round_double \<bar>of_int i\<bar> | _ \<Rightarrow> False)
      then gate_raise OverflowError ''int too large to convert to float''
      else (case finite_number delay of
          None \<Rightarrow> gate_raise CommerceGoldGateError ''delay_seconds must be finite and between 0 and 60''
        | Some d \<Rightarrow> if 0 \<le> d \<and> d \<le> 60 then Inr ()
            else gate_raise CommerceGoldGateError ''delay_seconds must be finite and between 0 and 60''))"

text \<open>Only the transport's failures and the protocol's that a busy server caused are retried.\<close>

definition gate_caught :: "gate_error \<Rightarrow> bool" where
  "gate_caught e = (is_a (class_of (fst e)) HttpTransportError \<or> is_a (class_of (fst e)) TrinoProtocolError)"

definition gate_retryable :: "gate_error \<Rightarrow> bool" where
  "gate_retryable e = (is_a (class_of (fst e)) HttpTransportError \<or>
     (case snd e of None \<Rightarrow> False | Some code \<Rightarrow> code \<in> set [429, 502, 503, 504]))"

text \<open>The loop, with the number of attempts that are left; it returns or raises before none is.\<close>

fun gate_attempts ::
    "(string \<Rightarrow> pyval list gate) \<Rightarrow> (rat \<Rightarrow> unit gate) \<Rightarrow> string \<Rightarrow> rat \<Rightarrow> nat \<Rightarrow> gold_report gate" where
  "gate_attempts query sleep batch_id delay 0 =
     lift_io (gate_raise AssertionError ''commerce gold retry loop exhausted unexpectedly'')"
| "gate_attempts query sleep batch_id delay (Suc left) =
     handle_io (check_commerce_gold query batch_id) (\<lambda>e.
       if gate_caught e \<and> gate_retryable e \<and> left \<noteq> 0
       then bind_io (sleep delay) (\<lambda>_. gate_attempts query sleep batch_id delay left)
       else lift_io (Inl e))"

definition check_commerce_gold_with_retry ::
    "(string \<Rightarrow> pyval list gate) \<Rightarrow> (rat \<Rightarrow> unit gate) \<Rightarrow> string \<Rightarrow> pyval \<Rightarrow> pyval \<Rightarrow> gold_report gate" where
  "check_commerce_gold_with_retry query sleep batch_id attempts delay =
     bind_io (lift_io (validate_commerce_gold_retry attempts delay)) (\<lambda>_.
       gate_attempts query sleep batch_id (the (finite_number delay)) (nat (the_int attempts)))"

section \<open>What a passed gate means\<close>

lemma non_negative_int_Inr: "non_negative_int v name = Inr i \<longleftrightarrow> v = PInt i \<and> 0 \<le> i"
  by (cases v) (auto simp: non_negative_int_def gate_raise_def exact_int_def the_int_def)

definition gold_row_ready :: "string \<Rightarrow> pydict \<Rightarrow> gold_report \<Rightarrow> bool" where
  "gold_row_ready batch_id row rep \<longleftrightarrow>
     gr_batch_id rep = batch_id \<and> get row ''days'' = PInt (gr_days rep) \<and> 0 < gr_days rep \<and>
     get row ''orders'' = PInt (gr_orders rep) \<and> 0 < gr_orders rep \<and>
     get row ''captured_revenue_cents'' = PInt (gr_revenue rep) \<and> 0 \<le> gr_revenue rep \<and>
     get row ''invalid_days'' = PInt 0"

lemma gold_report_of_Inr:
  "gold_report_of batch_id rows = Inr rep \<Longrightarrow> \<exists>row. rows = [PDict row] \<and> gold_row_ready batch_id row rep"
  by (auto simp: gold_report_of_def gate_raise_def result_simps non_negative_int_Inr gold_row_ready_def
      split: list.splits pyval.splits if_splits)

lemma check_commerce_gold_Inr:
  assumes "check_commerce_gold query batch_id s = Some (Inr rep, s')"
  shows "is_hex 16 batch_id \<and> (\<exists>row. query (gold_query batch_id) s = Some (Inr [PDict row], s') \<and>
    gold_row_ready batch_id row rep)"
  using assms
  by (auto simp: check_commerce_gold_def io_simps gate_raise_def split: if_splits dest!: gold_report_of_Inr)

lemma gate_attempts_Inr:
  assumes "gate_attempts query sleep batch_id delay n s = Some (Inr rep, s')"
  shows "is_hex 16 batch_id \<and> (\<exists>row u. query (gold_query batch_id) u = Some (Inr [PDict row], s') \<and>
    gold_row_ready batch_id row rep)"
  using assms
proof (induction n arbitrary: s)
  case 0
  then show ?case by (simp add: io_simps gate_raise_def)
next
  case (Suc left)
  from Suc(2) consider "check_commerce_gold query batch_id s = Some (Inr rep, s')"
    | e v where "gate_caught e" "gate_retryable e" "left \<noteq> 0"
        "gate_attempts query sleep batch_id delay left v = Some (Inr rep, s')"
    by (auto simp: io_simps split: if_splits)
  then show ?case
  proof cases
    case 1
    then show ?thesis using check_commerce_gold_Inr by blast
  next
    case 2
    then show ?thesis using Suc.IH by blast
  qed
qed

text \<open>The number of queries is bounded by the number of attempts.\<close>

text \<open>An action that always returns and counts itself.\<close>

definition counts :: "(run_state \<Rightarrow> nat) \<Rightarrow> nat \<Rightarrow> ('e, 'a, run_state) act \<Rightarrow> bool" where
  "counts f k m \<longleftrightarrow> (\<forall>s. \<exists>r s'. m s = Some (r, s') \<and> f s' \<le> f s + k)"

lemma countsD: "counts f k m \<Longrightarrow> \<exists>r s'. m s = Some (r, s') \<and> f s' \<le> f s + k"
  by (simp add: counts_def)

lemma gate_attempts_counts:
  assumes "\<And>sql. counts f 1 (query sql)" "counts f 0 (sleep delay)"
  shows "\<exists>r s'. gate_attempts query sleep batch_id delay n s = Some (r, s') \<and> f s' \<le> f s + n"
proof (induction n arbitrary: s)
  case 0
  then show ?case by (simp add: lift_io_def)
next
  case (Suc n)
  have "\<exists>r u. check_commerce_gold query batch_id s = Some (r, u) \<and> f u \<le> f s + 1"
  proof (cases "is_hex 16 batch_id")
    case False
    then show ?thesis by (simp add: check_commerce_gold_def lift_io_def)
  next
    case True
    from countsD [OF assms(1), of "gold_query batch_id" s] obtain q u where
      "query (gold_query batch_id) s = Some (q, u)" "f u \<le> f s + 1" by blast
    then show ?thesis using True
      by (cases q) (auto simp: check_commerce_gold_def bind_io_def lift_io_def)
  qed
  then obtain r u where r: "check_commerce_gold query batch_id s = Some (r, u)" "f u \<le> f s + 1" by blast
  show ?case
  proof (cases "\<exists>e. r = Inl e \<and> gate_caught e \<and> gate_retryable e \<and> n \<noteq> 0")
    case False
    then show ?thesis using r by (cases r) (auto simp: handle_io_def lift_io_def)
  next
    case True
    from countsD [OF assms(2), of u] obtain q v where v: "sleep delay u = Some (q, v)" "f v \<le> f u" by auto
    show ?thesis
    proof (cases q)
      case (Inl e)
      then show ?thesis using True r v by (auto simp: handle_io_def bind_io_def)
    next
      case (Inr x)
      with Suc [of v] True r v show ?thesis by (fastforce simp: handle_io_def bind_io_def)
    qed
  qed
qed

end
