(* ===== verification/Commerce_Pipeline.thy ===== *)
theory Commerce_Pipeline
  imports Planner_Interface Gold_Gate
begin

text \<open>
  \<open>commerce_pipeline.py\<close>: one run of the commerce pipeline over one batch, its time
  budget, its stages in Docker, its verification and its checkpoint. Docker, the clocks and the
  query engine are oracles of the world's clock. The text of an exception leaves out the number
  of seconds of a timeout.
\<close>

section \<open>Settings and the run budget\<close>

definition commerce_stages :: "string list" where
  "commerce_stages = [''bronze-input-sync'', ''spark-commerce-bronze'', ''spark-commerce-payment-silver'',
     ''spark-commerce-order-silver'', ''spark-commerce-product-silver'',
     ''spark-commerce-customer-silver'', ''spark-commerce-customer-scd2'', ''spark-commerce-daily-gold'']"

definition current_stage :: string where
  "current_stage = ''spark-commerce-current-gold''"

definition cleanup_grace_seconds :: int where
  "cleanup_grace_seconds = 35"

definition cycle_deadline_env :: string where
  "cycle_deadline_env = ''LAKEOPS_COMMERCE_CYCLE_DEADLINE''"

text \<open>The three timeouts of the environment are read alike.\<close>

definition timeout_setting :: "(string \<times> string) list \<Rightarrow> string \<Rightarrow> string \<Rightarrow> int result" where
  "timeout_setting vars setting fallback =
     (case int_of_str (case map_of vars setting of None \<Rightarrow> fallback | Some s \<Rightarrow> s) of
        None \<Rightarrow> raise CommercePipelineError (setting @ '' must be an integer'')
      | Some t \<Rightarrow> if \<not> (1 \<le> t \<and> t \<le> 86400)
          then raise CommercePipelineError (setting @ '' must be between 1 and 86400'') else Inr t)"

definition commerce_run_timeout_seconds :: "(string \<times> string) list \<Rightarrow> int result" where
  "commerce_run_timeout_seconds vars = timeout_setting vars ''COMMERCE_RUN_TIMEOUT_SECONDS'' ''3600''"

definition commerce_query_timeout_seconds :: "(string \<times> string) list \<Rightarrow> int result" where
  "commerce_query_timeout_seconds vars = timeout_setting vars ''COMMERCE_QUERY_TIMEOUT_SECONDS'' ''120''"

definition exhausted :: "'a result" where
  "exhausted = raise CommercePipelineError ''commerce run time budget exhausted; checkpoint not advanced''"

text \<open>What is left until the deadline at clock \<open>n\<close>; the clock may raise itself.\<close>

definition remaining_budget_seconds :: "rat \<Rightarrow> (nat \<Rightarrow> rat result) \<Rightarrow> nat \<Rightarrow> rat option result" where
  "remaining_budget_seconds deadline clock n =
     bindE (clock n) (\<lambda>t. let remaining = float_sub deadline t in
       if remaining \<le> 0 then exhausted else Inr (Some remaining))"

definition commerce_remaining_seconds :: "budget \<Rightarrow> rat option run" where
  "commerce_remaining_seconds b = in_world (budget_check b)"

section \<open>One stage in Docker\<close>

datatype proc = ExitedZero | ExitedNonZero | ProcTimedOut | ProcInterrupted | CannotStart
datatype removal = Removed | RemovalFailed | RemovalInterrupted

record stage_env =
  se_vars :: "(string \<times> string) list"
  se_uuid :: "nat \<Rightarrow> string"
  se_run :: "nat \<Rightarrow> string list \<Rightarrow> (string \<times> string) list \<Rightarrow> rat \<Rightarrow> proc"
  se_remove :: "nat \<Rightarrow> string \<Rightarrow> removal"

definition stage_environment ::
    "(string \<times> string) list \<Rightarrow> string \<Rightarrow> (string \<times> string) list \<Rightarrow> string \<Rightarrow> (string \<times> string) list result" where
  "stage_environment vars service batch bucket =
     bindE (str_item batch ''batch_id'') (\<lambda>i.
     bindE (str_item batch ''manifest_sha256'') (\<lambda>sha.
       let e = dict_merge vars [(''COMMERCE_BATCH_ID'', i), (''COMMERCE_MANIFEST_SHA256'', sha),
                 (''LAKEHOUSE_BUCKET'', bucket)];
           e = (if service = ''bronze-input-sync'' then dict_set e ''COMMERCE_SYNC_SCOPE'' ''selected'' else e)
       in Inr (case map_of batch ''customer_history_mode'' of
            None \<Rightarrow> e
          | Some mode \<Rightarrow> if service = ''spark-commerce-customer-scd2''
              then dict_set e ''COMMERCE_CUSTOMER_HISTORY_MODE'' mode else e)))"

definition stage_command ::
    "journal_env option \<Rightarrow> (string \<times> string) list \<Rightarrow> string \<Rightarrow> string \<Rightarrow> string list result" where
  "stage_command journal batch container service =
     bindE (case journal of None \<Rightarrow> Inr []
       | Some j \<Rightarrow> bindE (str_item batch ''batch_id'') (\<lambda>i.
           bindE (str_item batch ''manifest_sha256'') (\<lambda>sha. Inr
             [''--label'', ''lakehouse.ops.run_id='' @ je_run_id j,
              ''--label'', ''lakehouse.ops.batch_id='' @ i,
              ''--label'', ''lakehouse.ops.manifest_sha256='' @ sha])))
       (\<lambda>labels. Inr ([''docker'', ''compose'', ''--profile'', ''catalog'', ''--profile'', ''compute'',
          ''run'', ''--rm'', ''--no-deps''] @ labels @ [''--name'', container, service]))"

definition ownership ::
    "journal_env option \<Rightarrow> string \<Rightarrow> string \<Rightarrow> (string \<times> string) list \<Rightarrow> (string \<times> string) list \<Rightarrow> string \<Rightarrow> unit run" where
  "ownership journal service container batch environment event =
     (case journal of None \<Rightarrow> return_io ()
      | Some j \<Rightarrow> record_container j service container event batch
          (case map_of environment ''COMPOSE_PROJECT_NAME'' of None \<Rightarrow> [] | Some s \<Rightarrow> s))"

text \<open>A stage that timed out or was interrupted has its container removed.\<close>

definition stage_cleanup ::
    "stage_env \<Rightarrow> string \<Rightarrow> string \<Rightarrow> bool \<Rightarrow> (string \<Rightarrow> unit run) \<Rightarrow> unit run" where
  "stage_cleanup se service container interrupted own =
     bind_io (call_run (\<lambda>n. Inr (se_remove se n container))) (\<lambda>removal.
       case removal of
         RemovalInterrupted \<Rightarrow> raise_io KeyboardInterrupt []
       | RemovalFailed \<Rightarrow> bind_io (own ''cleanup_unconfirmed'') (\<lambda>_. raise_io CommercePipelineError
           (''commerce stage '' @ (if interrupted then ''interrupted'' else ''timed out'') @ '': '' @ service @
            ''; container cleanup unconfirmed: '' @ container))
       | Removed \<Rightarrow> bind_io (own (if interrupted then ''interrupted_removed'' else ''timeout_removed'')) (\<lambda>_.
           if interrupted then raise_io KeyboardInterrupt []
           else raise_io CommercePipelineError
             (''commerce stage timed out: '' @ service @ ''; container removed: '' @ container)))"

text \<open>From the launch of the prepared command to its last ownership row.\<close>

definition stage_launch ::
    "stage_env \<Rightarrow> string \<Rightarrow> string \<Rightarrow> (string \<Rightarrow> unit run) \<Rightarrow> string list \<Rightarrow> (string \<times> string) list \<Rightarrow> rat \<Rightarrow> unit run" where
  "stage_launch se service container own command environment timeout =
     bind_io (call_run (\<lambda>n. Inr (se_run se n command environment timeout))) (\<lambda>outcome.
       case outcome of
         ExitedZero \<Rightarrow> own ''completed''
       | ProcTimedOut \<Rightarrow> stage_cleanup se service container False own
       | ProcInterrupted \<Rightarrow> stage_cleanup se service container True own
       | ExitedNonZero \<Rightarrow> bind_io (own ''failed'')
           (\<lambda>_. raise_io CommercePipelineError (''commerce stage failed: '' @ service))
       | CannotStart \<Rightarrow> bind_io (own ''failed'')
           (\<lambda>_. raise_io CommercePipelineError (''commerce stage failed: '' @ service)))"

definition run_compose_stage ::
    "stage_env \<Rightarrow> budget \<Rightarrow> journal_env option \<Rightarrow> string \<Rightarrow> string \<Rightarrow> (string \<times> string) list \<Rightarrow> unit run" where
  "run_compose_stage se b journal bucket service batch =
     bind_io (lift_io (timeout_setting (se_vars se) ''COMMERCE_STAGE_TIMEOUT_SECONDS'' ''1800'')) (\<lambda>setting.
     bind_io (commerce_remaining_seconds b) (\<lambda>remaining.
     let timeout = (case remaining of None \<Rightarrow> of_int setting | Some r \<Rightarrow> min (of_int setting) r) in
     bind_io (call_run (\<lambda>n. Inr (''lakeops-commerce-'' @ se_uuid se n))) (\<lambda>container.
     bind_io (lift_io (stage_environment (se_vars se) service batch bucket)) (\<lambda>environment.
     bind_io (lift_io (stage_command journal batch container service)) (\<lambda>command.
     let own = ownership journal service container batch environment in
     bind_io (own ''launch_intent'') (\<lambda>_.
       stage_launch se service container own command environment timeout))))))"

section \<open>One run\<close>

record run_env =
  re_vars :: "(string \<times> string) list"
  re_clock :: "nat \<Rightarrow> rat"
  re_monotonic :: "nat \<Rightarrow> rat"
  re_sleep :: "nat \<Rightarrow> rat \<Rightarrow> pyexn option"
  re_query :: "nat \<Rightarrow> string \<Rightarrow> gate_error + pyval list"

record durations =
  du_planning :: rat
  du_stages :: "(string \<times> rat) list"
  du_verification :: rat
  du_checkpoint :: rat
  du_total :: rat

record run_report =
  rr_status :: string
  rr_batch_id :: "string option"
  rr_completed :: "string list"
  rr_verification :: "gold_report option"
  rr_checkpoint :: "commit_result option"
  rr_durations :: "durations option"

definition idle_report :: run_report where
  "idle_report = \<lparr>rr_status = ''idle'', rr_batch_id = None, rr_completed = [], rr_verification = None,
     rr_checkpoint = None, rr_durations = None\<rparr>"

definition journaled :: "journal_env option \<Rightarrow> string \<Rightarrow> string \<Rightarrow> (string \<times> string) list option \<Rightarrow> exn_class option \<Rightarrow> unit run" where
  "journaled journal phase event batch err =
     (case journal of None \<Rightarrow> return_io () | Some j \<Rightarrow> record_event j phase event batch err)"

definition read_clock :: "run_env \<Rightarrow> rat run" where
  "read_clock env = call_run (\<lambda>n. Inr (re_clock env n))"

text \<open>The batch of a plan, with its reservation and its options; None when nothing waits.\<close>

definition plan_phase ::
    "run_env \<Rightarrow> planner_ops \<Rightarrow> budget \<Rightarrow> ((string \<times> string) list \<times> (string \<times> string) list) option run" where
  "plan_phase env ops b =
     (let pb = (if po_has_budget ops then b else None) in
     bind_io (in_world (po_plan ops pb)) (\<lambda>rep.
     bind_io (commerce_remaining_seconds b) (\<lambda>_.
       case pr_batches rep of
         [] \<Rightarrow> return_io None
       | batch # _ \<Rightarrow>
         bind_io (case po_begin ops of None \<Rightarrow> return_io () | Some f \<Rightarrow> in_world (f pb batch)) (\<lambda>_.
         bind_io (case po_options ops of None \<Rightarrow> return_io [] | Some g \<Rightarrow> in_world (g pb batch)) (\<lambda>options.
           return_io (Some (dict_merge batch options, options)))))))"

definition stages_of :: "(string \<times> string) list \<Rightarrow> string list" where
  "stages_of options = (if options = [] then commerce_stages else commerce_stages @ [current_stage])"

primrec run_stages ::
    "run_env \<Rightarrow> budget \<Rightarrow> journal_env option \<Rightarrow> (string \<Rightarrow> (string \<times> string) list \<Rightarrow> unit run)
     \<Rightarrow> (string \<times> string) list \<Rightarrow> string list \<Rightarrow> rat \<Rightarrow> ((string \<times> rat) list \<times> rat) run" where
  "run_stages env b journal stage batch [] last_at = return_io ([], last_at)"
| "run_stages env b journal stage batch (service # rest) last_at =
     bind_io (commerce_remaining_seconds b) (\<lambda>_.
     bind_io (journaled journal service ''started'' None None) (\<lambda>_.
     bind_io (stage service batch) (\<lambda>_.
     bind_io (journaled journal service ''completed'' None None) (\<lambda>_.
     bind_io (read_clock env) (\<lambda>now.
     bind_io (run_stages env b journal stage batch rest now) (\<lambda>(seconds, finished).
       return_io ((service, float_sub now last_at) # seconds, finished)))))))"

definition gate_of :: "'a run \<Rightarrow> 'a gate" where
  "gate_of m s = (case m s of None \<Rightarrow> None
     | Some (Inl e, s') \<Rightarrow> Some (Inl (e, None), s') | Some (Inr x, s') \<Rightarrow> Some (Inr x, s'))"

definition bounded_query :: "run_env \<Rightarrow> budget \<Rightarrow> string \<Rightarrow> pyval list gate" where
  "bounded_query env b sql =
     bind_io (gate_of (commerce_remaining_seconds b)) (\<lambda>_ s.
       Some (re_query env (w_tick (rs_world s)) sql, s\<lparr>rs_world := tick (rs_world s)\<rparr>))"

definition bounded_sleep :: "run_env \<Rightarrow> budget \<Rightarrow> rat \<Rightarrow> unit gate" where
  "bounded_sleep env b seconds =
     bind_io (gate_of (commerce_remaining_seconds b)) (\<lambda>remaining.
     bind_io (gate_of (call_run (\<lambda>n.
         case re_sleep env n (case remaining of None \<Rightarrow> seconds | Some r \<Rightarrow> min seconds r) of
           None \<Rightarrow> Inr () | Some e \<Rightarrow> Inl e))) (\<lambda>_.
     bind_io (gate_of (commerce_remaining_seconds b)) (\<lambda>_. return_io ())))"

definition caught_by_verification :: "exn_class \<Rightarrow> bool" where
  "caught_by_verification k = (is_a k CommerceGoldGateError \<or> is_a k HttpTransportError \<or>
     is_a k HttpStatusError \<or> is_a k TrinoProtocolError \<or> is_a k TrinoQueryError)"

definition verify_phase ::
    "run_env \<Rightarrow> budget \<Rightarrow> journal_env option \<Rightarrow> string \<Rightarrow> pyval \<Rightarrow> pyval \<Rightarrow> gold_report run" where
  "verify_phase env b journal batch_id attempts delay =
     handle_io
       (bind_io (gate_of (journaled journal ''verification'' ''started'' None None)) (\<lambda>_.
         check_commerce_gold_with_retry (bounded_query env b) (bounded_sleep env b) batch_id attempts delay))
       (\<lambda>e. if caught_by_verification (class_of (fst e))
          then raise_io CommercePipelineError ''commerce stage failed: verify-commerce-gold''
          else lift_io (Inl (fst e)))"

definition checkpoint_phase ::
    "planner_ops \<Rightarrow> budget \<Rightarrow> journal_env option \<Rightarrow> string \<Rightarrow> (string \<times> string) list \<Rightarrow> commit_result run" where
  "checkpoint_phase ops b journal batch_id batch =
     bind_io (commerce_remaining_seconds b) (\<lambda>_.
     bind_io (journaled journal ''verification'' ''completed'' None None) (\<lambda>_.
     bind_io (journaled journal ''checkpoint'' ''started'' None None) (\<lambda>_.
     bind_io (commerce_remaining_seconds b) (\<lambda>_.
     bind_io (lift_io (str_item batch ''manifest_sha256'')) (\<lambda>sha.
     bind_io (in_world (po_commit ops (if po_has_budget ops then b else None) batch_id (Some sha))) (\<lambda>x.
     bind_io (journaled journal ''checkpoint'' ''completed'' None None) (\<lambda>_. return_io x)))))))"

definition run_batch_body ::
    "run_env \<Rightarrow> planner_ops \<Rightarrow> budget \<Rightarrow> journal_env option
     \<Rightarrow> (string \<Rightarrow> (string \<times> string) list \<Rightarrow> unit run) \<Rightarrow> pyval \<Rightarrow> pyval \<Rightarrow> run_report run" where
  "run_batch_body env ops b journal stage attempts delay =
     bind_io (read_clock env) (\<lambda>started.
     bind_io (plan_phase env ops b) (\<lambda>planned.
       case planned of
         None \<Rightarrow> return_io idle_report
       | Some (batch, options) \<Rightarrow>
         bind_io (lift_io (str_item batch ''batch_id'')) (\<lambda>batch_id.
         bind_io (journaled journal ''planning'' ''selected'' (Some batch) None) (\<lambda>_.
         bind_io (read_clock env) (\<lambda>planned_at.
         bind_io (run_stages env b journal stage batch (stages_of options) planned_at) (\<lambda>(seconds, staged_at).
         bind_io (verify_phase env b journal batch_id attempts delay) (\<lambda>verification.
         bind_io (read_clock env) (\<lambda>verified_at.
         bind_io (checkpoint_phase ops b journal batch_id batch) (\<lambda>checkpoint.
         bind_io (read_clock env) (\<lambda>finished.
           return_io \<lparr>rr_status = ''ready'', rr_batch_id = Some batch_id, rr_completed = map fst seconds,
             rr_verification = Some verification, rr_checkpoint = Some checkpoint,
             rr_durations = Some \<lparr>du_planning = float_sub planned_at started, du_stages = seconds,
               du_verification = float_sub verified_at staged_at,
               du_checkpoint = float_sub finished verified_at,
               du_total = float_sub finished started\<rparr>\<rparr>))))))))))"

text \<open>The deadline of a run: its own timeout, cut to what an enclosing cycle has left, whose clock
  every later check reads again.\<close>

definition inherited_deadline :: "(string \<times> string) list \<Rightarrow> rat option result" where
  "inherited_deadline vars =
     (case map_of vars cycle_deadline_env of
        None \<Rightarrow> Inr None
      | Some s \<Rightarrow> (case float_of_str s of
          Some (Fin q) \<Rightarrow> Inr (Some q)
        | _ \<Rightarrow> raise CommercePipelineError ''invalid inherited commerce cycle deadline''))"

definition inherited_clock :: "run_env \<Rightarrow> rat \<Rightarrow> nat \<Rightarrow> rat result" where
  "inherited_clock env cycle_deadline n =
     (if cycle_deadline \<le> re_monotonic env n then exhausted else Inr (re_clock env n))"

definition run_budget :: "run_env \<Rightarrow> budget run" where
  "run_budget env =
     bind_io (lift_io (commerce_run_timeout_seconds (re_vars env))) (\<lambda>timeout.
     bind_io (read_clock env) (\<lambda>started.
     bind_io (lift_io (inherited_deadline (re_vars env))) (\<lambda>inherited.
       case inherited of
         None \<Rightarrow> return_io (Some (remaining_budget_seconds (float_add started (of_int timeout))
             (\<lambda>n. Inr (re_clock env n))))
       | Some cycle_deadline \<Rightarrow>
         bind_io (call_run (\<lambda>n. Inr (re_monotonic env n))) (\<lambda>now.
         let remaining = float_sub cycle_deadline now in
         if remaining \<le> 0 then lift_io exhausted
         else return_io (Some (remaining_budget_seconds
           (min (float_add started (of_int timeout)) (float_add started remaining))
           (inherited_clock env cycle_deadline)))))))"

definition run_commerce_batch ::
    "run_env \<Rightarrow> planner_ops \<Rightarrow> journal_env option
     \<Rightarrow> (budget \<Rightarrow> string \<Rightarrow> (string \<times> string) list \<Rightarrow> unit run) \<Rightarrow> pyval \<Rightarrow> pyval \<Rightarrow> run_report run" where
  "run_commerce_batch env ops journal stage attempts delay =
     bind_io (handle_io (lift_io (validate_commerce_gold_retry attempts delay)) (\<lambda>e. lift_io (Inl (fst e)))) (\<lambda>_.
     bind_io (run_budget env) (\<lambda>b.
     bind_io (handle_io
       (bind_io (journaled journal ''planning'' ''started'' None None) (\<lambda>_.
          run_batch_body env ops b journal (stage b) attempts delay))
       (\<lambda>e s. bind_io (journaled journal (rs_phase s) ''failed'' None (Some (class_of e)))
          (\<lambda>_. lift_io (Inl e)) s)) (\<lambda>report.
     bind_io (journaled journal ''run'' (rr_status report) None None) (\<lambda>_. return_io report))))"

section \<open>Only a commit changes the checkpoint\<close>

definition checkpoint_of :: "run_state \<Rightarrow> fdoc option" where
  "checkpoint_of s = w_checkpoint (rs_world s)"

interpretation same_checkpoint: action_relation "\<lambda>s s'. checkpoint_of s' = checkpoint_of s"
  by unfold_locales simp_all

definition steady :: "('e, 'a, run_state) act \<Rightarrow> bool" where
  "steady m \<longleftrightarrow> obeys (\<lambda>s s'. checkpoint_of s' = checkpoint_of s) m"

named_theorems steady_intros \<open>actions that leave the checkpoint alone\<close>

lemma steady_iff: "steady m \<longleftrightarrow> (\<forall>s r s'. m s = Some (r, s') \<longrightarrow> checkpoint_of s' = checkpoint_of s)"
  by (simp add: steady_def obeys_def)

lemma steadyD: "steady m \<Longrightarrow> m s = Some (r, s') \<Longrightarrow> checkpoint_of s' = checkpoint_of s"
  unfolding steady_def by (rule obeysD)

lemma steady_bind [steady_intros]:
  "steady m \<Longrightarrow> (\<And>x. steady (f x)) \<Longrightarrow> steady (bind_io m f)"
  unfolding steady_def by (rule same_checkpoint.obeys_bind)

lemma steady_basic [steady_intros]: "steady (return_io x)" "steady (lift_io r)"
  "steady (raise_io k m :: (pyexn, 'a, run_state) act)"
  unfolding steady_def by (rule same_checkpoint.obeys_basic)+

lemma steady_in_world [steady_intros]: "keeps_checkpoint m \<Longrightarrow> steady (in_world m)"
  by (auto simp: steady_iff keeps_checkpoint_def in_world_Some checkpoint_of_def)

lemma steady_call [steady_intros]: "steady (call_run f)"
  by (auto simp: steady_iff call_run_Some checkpoint_of_def)

lemma steady_remaining [steady_intros]: "steady (commerce_remaining_seconds b)"
  unfolding commerce_remaining_seconds_def
  by (intro steady_intros keeps_files_checkpoint keeps_files_budget_check)

lemma steady_journaled [steady_intros]: "steady (journaled journal p e x err)"
proof (cases journal)
  case None
  then show ?thesis by (simp add: journaled_def steady_intros)
next
  case (Some j)
  then show ?thesis
    using record_event_files by (fastforce simp: journaled_def steady_iff checkpoint_of_def same_files_def)
qed

lemma steady_handle [steady_intros]:
  "steady m \<Longrightarrow> (\<And>e. steady (h e)) \<Longrightarrow> steady (handle_io m h)"
  unfolding steady_def by (rule same_checkpoint.obeys_handle)

lemma steady_gate_of [steady_intros]: "steady m \<Longrightarrow> steady (gate_of m)"
  unfolding steady_iff gate_of_def by (auto split: option.splits sum.splits)

lemma steady_clock [steady_intros]: "steady (read_clock env)"
  by (simp add: read_clock_def steady_intros)

lemma steady_query [steady_intros]: "steady (bounded_query env b sql)"
  unfolding bounded_query_def
  by (intro steady_intros) (auto simp: steady_iff checkpoint_of_def)

lemma steady_sleep [steady_intros]: "steady (bounded_sleep env b seconds)"
  unfolding bounded_sleep_def by (intro steady_intros)

lemma steady_gate_attempts: "steady (gate_attempts (bounded_query env b) (bounded_sleep env b) i d n)"
proof (induction n)
  case 0
  then show ?case by (simp add: steady_intros)
next
  case (Suc n)
  have "steady (check_commerce_gold (bounded_query env b) i)"
    by (auto simp: check_commerce_gold_def intro!: steady_intros)
  then show ?case using Suc by (auto intro!: steady_intros)
qed

lemma steady_verify [steady_intros]: "steady (verify_phase env b journal i attempts delay)"
  unfolding verify_phase_def check_commerce_gold_with_retry_def
  by (intro steady_intros steady_gate_attempts) (auto intro: steady_intros)

lemma steady_stages [steady_intros]:
  assumes "\<And>svc. steady (stage svc batch)"
  shows "steady (run_stages env b journal stage batch services t)"
  using assms by (induction services arbitrary: t) (auto intro!: steady_intros split: prod.splits)

context batch_planner
begin

lemma steady_plan [steady_intros]: "steady (plan_phase env ops b)"
  unfolding plan_phase_def Let_def
  by (intro steady_intros plan_keeps)
    (auto split: list.splits option.splits intro!: steady_intros intro: begin_keeps options_keep)

end

text \<open>What the stages and the verification leave behind when they succeed.\<close>

lemma run_stages_Inr:
  assumes "run_stages env b journal stage batch services t s = Some (Inr (seconds, t'), s')"
  shows "map fst seconds = services \<and> (\<forall>svc \<in> set services. \<exists>u v. stage svc batch u = Some (Inr (), v))"
  using assms
proof (induction services arbitrary: t s seconds)
  case Nil
  then show ?case by (simp add: io_simps)
next
  case (Cons svc rest)
  then show ?case by (fastforce simp: io_simps split: prod.splits)
qed

lemma verify_phase_Inr:
  assumes "verify_phase env b journal i attempts delay s = Some (Inr rep, s')"
  shows "is_hex 16 i \<and> (\<exists>n row. re_query env n (gold_query i) = Inr [PDict row] \<and> gold_row_ready i row rep)"
proof -
  from assms obtain u where
    "check_commerce_gold_with_retry (bounded_query env b) (bounded_sleep env b) i attempts delay u = Some (Inr rep, s')"
    by (auto simp: verify_phase_def io_simps split: if_splits)
  then obtain n where "gate_attempts (bounded_query env b) (bounded_sleep env b) i
      (the (finite_number delay)) n u = Some (Inr rep, s')"
    by (auto simp: check_commerce_gold_with_retry_def io_simps)
  from gate_attempts_Inr [OF this] show ?thesis
    by (auto simp: bounded_query_def io_simps)
qed

lemma checkpoint_of_files:
  "checkpoint_of s' = checkpoint_of s \<Longrightarrow> recorded (rs_world s') = recorded (rs_world s) \<and>
     loadable (rs_world s') = loadable (rs_world s)"
  by (simp add: checkpoint_of_def recorded_def loadable_def)

context batch_planner
begin

lemma commit_phase:
  assumes ret: "checkpoint_phase ops b journal i batch s = Some (r, s')" and load: "loadable (rs_world s)"
  shows "checkpoint_of s' = checkpoint_of s \<or>
    loadable (rs_world s') \<and> recorded (rs_world s') = insert i (recorded (rs_world s)) \<and> i \<notin> recorded (rs_world s)"
    "r = Inr x \<Longrightarrow> cr_batch_id x = i \<and> i \<in> recorded (rs_world s')"
proof -
  let ?pre = "bind_io (commerce_remaining_seconds b) (\<lambda>_.
     bind_io (journaled journal ''verification'' ''completed'' None None) (\<lambda>_.
     bind_io (journaled journal ''checkpoint'' ''started'' None None) (\<lambda>_.
     bind_io (commerce_remaining_seconds b) (\<lambda>_. lift_io (str_item batch ''manifest_sha256'')))))"
  let ?commit = "\<lambda>sha. in_world (po_commit ops (if po_has_budget ops then b else None) i (Some sha))"
  let ?post = "\<lambda>x. bind_io (journaled journal ''checkpoint'' ''completed'' None None) (\<lambda>_. return_io x)"
  have pre: "steady ?pre" by (intro steady_intros)
  have post: "steady (?post x)" for x by (intro steady_intros)
  have "checkpoint_phase ops b journal i batch s = bind_io ?pre (\<lambda>sha. bind_io (?commit sha) ?post) s"
    by (simp add: checkpoint_phase_def bind_io_def split: option.splits sum.splits)
  with ret consider e where "?pre s = Some (Inl e, s')" "r = Inl e"
    | sha u e where "?pre s = Some (Inr sha, u)" "?commit sha u = Some (Inl e, s')" "r = Inl e"
    | sha u x v where "?pre s = Some (Inr sha, u)" "?commit sha u = Some (Inr x, v)" "?post x v = Some (r, s')"
    by (auto simp: bind_io_Some)
  then have "(checkpoint_of s' = checkpoint_of s \<or>
    loadable (rs_world s') \<and> recorded (rs_world s') = insert i (recorded (rs_world s)) \<and> i \<notin> recorded (rs_world s))
    \<and> (r = Inr x \<longrightarrow> cr_batch_id x = i \<and> i \<in> recorded (rs_world s'))"
  proof cases
    case 1
    then show ?thesis using steadyD [OF pre] by auto
  next
    case 2
    have su: "checkpoint_of u = checkpoint_of s" using steadyD [OF pre 2(1)] .
    have lu: "loadable (rs_world u)" using checkpoint_of_files [OF su] load by simp
    from 2(2) obtain w' where w': "po_commit ops (if po_has_budget ops then b else None) i (Some sha) (rs_world u) = Some (Inl e, w')"
      "rs_world s' = w'" by (auto simp: in_world_Some)
    from commit_adds [OF w'(1) lu] checkpoint_of_files [OF su] su w'(2) 2(3) show ?thesis
      by (auto simp: checkpoint_of_def)
  next
    case 3
    have su: "checkpoint_of u = checkpoint_of s" using steadyD [OF pre 3(1)] .
    have sv: "checkpoint_of s' = checkpoint_of v" using steadyD [OF post 3(3)] .
    have lu: "loadable (rs_world u)" using checkpoint_of_files [OF su] load by simp
    from 3(2) obtain w' where w': "po_commit ops (if po_has_budget ops then b else None) i (Some sha) (rs_world u) = Some (Inr x, w')"
      "rs_world v = w'" by (auto simp: in_world_Some)
    have "r = Inr y \<Longrightarrow> y = x" for y using 3(3) by (auto simp: io_simps)
    with commit_adds [OF w'(1) lu] commit_success [OF w'(1)] checkpoint_of_files [OF su]
      checkpoint_of_files [OF sv] su sv w'(2) show ?thesis
      by (auto simp: checkpoint_of_def)
  qed
  then show "checkpoint_of s' = checkpoint_of s \<or>
    loadable (rs_world s') \<and> recorded (rs_world s') = insert i (recorded (rs_world s)) \<and> i \<notin> recorded (rs_world s)"
    "r = Inr x \<Longrightarrow> cr_batch_id x = i \<and> i \<in> recorded (rs_world s')" by blast+
qed

end

text \<open>What a run that reached its checkpoint has behind it.\<close>

definition run_evidence ::
    "run_env \<Rightarrow> (string \<Rightarrow> (string \<times> string) list \<Rightarrow> unit run) \<Rightarrow> string \<Rightarrow> string list \<Rightarrow> gold_report \<Rightarrow> bool" where
  "run_evidence env stage i services rep \<longleftrightarrow>
     set commerce_stages \<subseteq> set services \<and> is_hex 16 i \<and>
     (\<exists>batch. str_item batch ''batch_id'' = Inr i \<and>
        (\<forall>svc \<in> set services. \<exists>u v. stage svc batch u = Some (Inr (), v))) \<and>
     (\<exists>n row. re_query env n (gold_query i) = Inr [PDict row] \<and> gold_row_ready i row rep)"

definition body_outcome ::
    "run_env \<Rightarrow> (string \<Rightarrow> (string \<times> string) list \<Rightarrow> unit run) \<Rightarrow> run_state \<Rightarrow> run_report result \<Rightarrow> run_state \<Rightarrow> bool" where
  "body_outcome env stage s r s' \<longleftrightarrow>
     (checkpoint_of s' = checkpoint_of s \<or>
      (\<exists>i services rep. run_evidence env stage i services rep \<and> loadable (rs_world s') \<and>
         recorded (rs_world s') = insert i (recorded (rs_world s)) \<and> i \<notin> recorded (rs_world s))) \<and>
     (\<forall>rep. r = Inr rep \<longrightarrow> rep = idle_report \<and> checkpoint_of s' = checkpoint_of s \<or>
        (\<exists>i gold. rr_status rep = ''ready'' \<and> rr_batch_id rep = Some i \<and> rr_verification rep = Some gold \<and>
           run_evidence env stage i (rr_completed rep) gold \<and> i \<in> recorded (rs_world s')))"

lemma body_outcome_error:
  "checkpoint_of s' = checkpoint_of s \<Longrightarrow> body_outcome env stage s (Inl e) s'"
  by (simp add: body_outcome_def)

lemma body_outcome_from:
  "checkpoint_of u = checkpoint_of s \<Longrightarrow> body_outcome env stage u r s' \<Longrightarrow> body_outcome env stage s r s'"
  using checkpoint_of_files [of u s] by (simp add: body_outcome_def)

text \<open>A first step that leaves the checkpoint alone can be dropped.\<close>

lemma peel:
  assumes "steady m" "bind_io m f s = Some (r, s')"
    and "\<And>x u. m s = Some (Inr x, u) \<Longrightarrow> f x u = Some (r, s') \<Longrightarrow> body_outcome env stage u r s'"
  shows "body_outcome env stage s r s'"
  using assms(2) unfolding bind_io_Some
  by (elim disjE exE conjE) (auto intro: body_outcome_error body_outcome_from assms(3) dest: steadyD [OF assms(1)])

lemma commerce_stages_of: "set commerce_stages \<subseteq> set (stages_of options)"
  by (auto simp: stages_of_def)

context batch_planner
begin

lemma body_result:
  assumes ret: "run_batch_body env ops b journal stage attempts delay s = Some (r, s')"
    and stage: "\<And>svc batch. steady (stage svc batch)" and load: "loadable (rs_world s)"
  shows "body_outcome env stage s r s'"
proof (rule peel [OF steady_clock ret [unfolded run_batch_body_def]])
  fix started u
  assume u: "read_clock env s = Some (Inr started, u)"
  let ?rest = "\<lambda>batch_id batch seconds staged_at planned_at verification.
         bind_io (read_clock env) (\<lambda>verified_at.
         bind_io (checkpoint_phase ops b journal batch_id batch) (\<lambda>checkpoint.
         bind_io (read_clock env) (\<lambda>finished.
           return_io \<lparr>rr_status = ''ready'', rr_batch_id = Some batch_id, rr_completed = map fst seconds,
             rr_verification = Some verification, rr_checkpoint = Some checkpoint,
             rr_durations = Some \<lparr>du_planning = float_sub planned_at started, du_stages = seconds,
               du_verification = float_sub verified_at staged_at,
               du_checkpoint = float_sub finished verified_at,
               du_total = float_sub finished started\<rparr>\<rparr>)))"
  have final: "body_outcome env stage v r s'"
    if rest: "?rest i batch seconds staged_at planned_at gold v = Some (r, s')" and lv: "loadable (rs_world v)"
      and i: "str_item batch ''batch_id'' = Inr i"
      and stages: "run_stages env b journal stage batch (stages_of options) t s1 = Some (Inr (seconds, staged_at), s2)"
      and gold: "verify_phase env b journal i attempts delay s3 = Some (Inr gold, s4)"
    for i batch seconds staged_at planned_at gold v options t s1 s2 s3 s4
  proof -
    have ev: "run_evidence env stage i (map fst seconds) gold"
      using i run_stages_Inr [OF stages] verify_phase_Inr [OF gold] commerce_stages_of
      unfolding run_evidence_def by metis
    from rest obtain verified_at v1 where v1: "read_clock env v = Some (Inr verified_at, v1)"
      and rest1: "bind_io (checkpoint_phase ops b journal i batch) (\<lambda>checkpoint.
         bind_io (read_clock env) (\<lambda>finished.
           return_io \<lparr>rr_status = ''ready'', rr_batch_id = Some i, rr_completed = map fst seconds,
             rr_verification = Some gold, rr_checkpoint = Some checkpoint,
             rr_durations = Some \<lparr>du_planning = float_sub planned_at started, du_stages = seconds,
               du_verification = float_sub verified_at staged_at,
               du_checkpoint = float_sub finished verified_at,
               du_total = float_sub finished started\<rparr>\<rparr>)) v1 = Some (r, s')"
      by (auto simp: bind_io_Some read_clock_def call_run_Some)
    have sv: "checkpoint_of v1 = checkpoint_of v" using steadyD [OF steady_clock v1] .
    have l1: "loadable (rs_world v1)" using checkpoint_of_files [OF sv] lv by simp
    from rest1 consider e where "checkpoint_phase ops b journal i batch v1 = Some (Inl e, s')" "r = Inl e"
      | x v2 rep where "checkpoint_phase ops b journal i batch v1 = Some (Inr x, v2)" "checkpoint_of s' = checkpoint_of v2"
        "r = Inr rep" "rr_status rep = ''ready''" "rr_batch_id rep = Some i" "rr_completed rep = map fst seconds"
        "rr_verification rep = Some gold"
      by (auto simp: bind_io_Some read_clock_def call_run_Some io_simps checkpoint_of_def)
    then show ?thesis
    proof cases
      case 1
      from commit_phase(1) [OF 1(1) l1] ev 1(2) have "body_outcome env stage v1 r s'"
        unfolding body_outcome_def by blast
      then show ?thesis by (rule body_outcome_from [OF sv])
    next
      case 2
      note c = commit_phase(1) [OF 2(1) l1] commit_phase(2) [OF 2(1) l1 refl]
      have "checkpoint_of s' = checkpoint_of v1 \<or>
          loadable (rs_world s') \<and> recorded (rs_world s') = insert i (recorded (rs_world v1)) \<and> i \<notin> recorded (rs_world v1)"
        "i \<in> recorded (rs_world s')"
        using c checkpoint_of_files [OF 2(2)] 2(2) by auto
      then have "body_outcome env stage v1 r s'"
        using ev 2(3-7) unfolding body_outcome_def by auto
      then show ?thesis by (rule body_outcome_from [OF sv])
    qed
  qed
  assume rest: "bind_io (plan_phase env ops b) (\<lambda>planned.
       case planned of
         None \<Rightarrow> return_io idle_report
       | Some (batch, options) \<Rightarrow>
         bind_io (lift_io (str_item batch ''batch_id'')) (\<lambda>batch_id.
         bind_io (journaled journal ''planning'' ''selected'' (Some batch) None) (\<lambda>_.
         bind_io (read_clock env) (\<lambda>planned_at.
         bind_io (run_stages env b journal stage batch (stages_of options) planned_at) (\<lambda>(seconds, staged_at).
         bind_io (verify_phase env b journal batch_id attempts delay)
           (?rest batch_id batch seconds staged_at planned_at)))))) u = Some (r, s')"
  have lu: "loadable (rs_world u)"
    using checkpoint_of_files [OF steadyD [OF steady_clock u]] load by simp
  show "body_outcome env stage u r s'"
  proof (rule peel [OF steady_plan rest])
    fix planned v
    assume p: "plan_phase env ops b u = Some (Inr planned, v)"
    have lv: "loadable (rs_world v)" using checkpoint_of_files [OF steadyD [OF steady_plan p]] lu by simp
    assume q: "(case planned of
         None \<Rightarrow> return_io idle_report
       | Some (batch, options) \<Rightarrow>
         bind_io (lift_io (str_item batch ''batch_id'')) (\<lambda>batch_id.
         bind_io (journaled journal ''planning'' ''selected'' (Some batch) None) (\<lambda>_.
         bind_io (read_clock env) (\<lambda>planned_at.
         bind_io (run_stages env b journal stage batch (stages_of options) planned_at) (\<lambda>(seconds, staged_at).
         bind_io (verify_phase env b journal batch_id attempts delay)
           (?rest batch_id batch seconds staged_at planned_at)))))) v = Some (r, s')"
    show "body_outcome env stage v r s'"
    proof (cases planned)
      case None
      with q show ?thesis by (simp add: io_simps body_outcome_def)
    next
      case (Some bo)
      obtain batch options where bo: "bo = (batch, options)" by (cases bo)
      let ?front = "bind_io (lift_io (str_item batch ''batch_id'')) (\<lambda>batch_id.
         bind_io (journaled journal ''planning'' ''selected'' (Some batch) None) (\<lambda>_.
         bind_io (read_clock env) (\<lambda>planned_at.
         bind_io (run_stages env b journal stage batch (stages_of options) planned_at) (\<lambda>(seconds, staged_at).
         bind_io (verify_phase env b journal batch_id attempts delay) (\<lambda>gold.
           return_io (batch_id, planned_at, seconds, staged_at, gold))))))"
      have front: "steady ?front"
        by (intro steady_intros stage) (auto split: prod.splits intro!: steady_intros)
      have "bind_io ?front (\<lambda>(batch_id, planned_at, seconds, staged_at, gold).
          ?rest batch_id batch seconds staged_at planned_at gold) v = Some (r, s')"
        using q unfolding Some bo option.case prod.case bind_io_assoc bind_io_return bind_io_case_prod .
      then show ?thesis
      proof (rule peel [OF front])
        fix x v1
        assume f: "?front v = Some (Inr x, v1)"
          and g: "(case x of (batch_id, planned_at, seconds, staged_at, gold) \<Rightarrow>
            ?rest batch_id batch seconds staged_at planned_at gold) v1 = Some (r, s')"
        obtain i planned_at seconds staged_at gold where x: "x = (i, planned_at, seconds, staged_at, gold)"
          by (cases x) auto
        from f x obtain s1 s2 where "str_item batch ''batch_id'' = Inr i"
          "run_stages env b journal stage batch (stages_of options) planned_at s1 = Some (Inr (seconds, staged_at), s2)"
          "verify_phase env b journal i attempts delay s2 = Some (Inr gold, v1)"
          by (auto simp: io_simps split: prod.splits)
        moreover have "loadable (rs_world v1)"
          using checkpoint_of_files [OF steadyD [OF front f]] lv by simp
        ultimately show "body_outcome env stage v1 r s'"
          using g x final by auto
      qed
    qed
  qed
qed

end

lemma body_outcome_error_to:
  "body_outcome env stage s (Inl e) u \<Longrightarrow> checkpoint_of s' = checkpoint_of u \<Longrightarrow> body_outcome env stage s (Inl e') s'"
  using checkpoint_of_files [of s' u] by (simp add: body_outcome_def)

lemma body_outcome_after:
  "body_outcome env stage s (Inr rep) u \<Longrightarrow> checkpoint_of s' = checkpoint_of u \<Longrightarrow> r = Inr rep \<or> (\<exists>e. r = Inl e) \<Longrightarrow>
     body_outcome env stage s r s'"
  using checkpoint_of_files [of s' u] by (auto simp: body_outcome_def)

lemma steady_run_budget: "steady (run_budget env)"
  unfolding run_budget_def Let_def
  by (intro steady_intros) (auto split: option.splits intro!: steady_intros)

text \<open>The guarded part of a run and its last journal row.\<close>

definition guarded_body ::
    "run_env \<Rightarrow> planner_ops \<Rightarrow> journal_env option
     \<Rightarrow> (budget \<Rightarrow> string \<Rightarrow> (string \<times> string) list \<Rightarrow> unit run) \<Rightarrow> pyval \<Rightarrow> pyval \<Rightarrow> budget \<Rightarrow> run_report run" where
  "guarded_body env ops journal stage attempts delay b =
     handle_io
       (bind_io (journaled journal ''planning'' ''started'' None None) (\<lambda>_.
          run_batch_body env ops b journal (stage b) attempts delay))
       (\<lambda>e s. bind_io (journaled journal (rs_phase s) ''failed'' None (Some (class_of e)))
          (\<lambda>_. lift_io (Inl e)) s)"

lemma run_commerce_batch_split:
  assumes "run_commerce_batch env ops journal stage attempts delay s = Some (r, s')"
  shows "(\<exists>e. r = Inl e) \<and> checkpoint_of s' = checkpoint_of s \<and> rs_events s' = rs_events s \<or>
    (\<exists>b u. checkpoint_of u = checkpoint_of s \<and> rs_events u = rs_events s \<and>
       bind_io (guarded_body env ops journal stage attempts delay b) (\<lambda>report.
         bind_io (journaled journal ''run'' (rr_status report) None None) (\<lambda>_. return_io report)) u = Some (r, s'))"
proof -
  let ?valid = "handle_io (lift_io (validate_commerce_gold_retry attempts delay)) (\<lambda>e. lift_io (Inl (fst e)))"
  let ?pre = "bind_io ?valid (\<lambda>_. run_budget env) :: budget run"
  have pre: "steady ?pre" by (intro steady_intros steady_run_budget)
  have ev: "rs_events u = rs_events s" if "?pre s = Some (q, u)" for q u
    using that
    by (auto simp: bind_io_Some handle_io_def lift_io_def run_budget_def read_clock_def call_run_Some
        return_io_def Let_def split: sum.splits option.splits if_splits)
  have "run_commerce_batch env ops journal stage attempts delay s =
      bind_io ?pre (\<lambda>b. bind_io (guarded_body env ops journal stage attempts delay b) (\<lambda>report.
         bind_io (journaled journal ''run'' (rr_status report) None None) (\<lambda>_. return_io report))) s"
    unfolding run_commerce_batch_def guarded_body_def bind_io_assoc by (rule refl)
  with assms consider e where "?pre s = Some (Inl e, s')" "r = Inl e"
    | b u where "?pre s = Some (Inr b, u)" "bind_io (guarded_body env ops journal stage attempts delay b) (\<lambda>report.
         bind_io (journaled journal ''run'' (rr_status report) None None) (\<lambda>_. return_io report)) u = Some (r, s')"
    by (auto simp: bind_io_Some)
  then show ?thesis using steadyD [OF pre] ev by cases blast+
qed

lemma guarded_split:
  assumes "bind_io (handle_io m (\<lambda>e s. bind_io (fail e s) (\<lambda>_. lift_io (Inl e)) s))
      (\<lambda>x. bind_io (fin x) (\<lambda>_. return_io x)) u = Some (r, s')"
  shows "(\<exists>e v e'. m u = Some (Inl e, v) \<and> fail e v v = Some (Inl e', s') \<and> r = Inl e') \<or>
    (\<exists>e v y. m u = Some (Inl e, v) \<and> fail e v v = Some (Inr y, s') \<and> r = Inl e) \<or>
    (\<exists>x v e'. m u = Some (Inr x, v) \<and> fin x v = Some (Inl e', s') \<and> r = Inl e') \<or>
    (\<exists>x v y. m u = Some (Inr x, v) \<and> fin x v = Some (Inr y, s') \<and> r = Inr x)"
  using assms by (auto simp: bind_io_def handle_io_def lift_io_def return_io_def split: option.splits sum.splits)

context batch_planner
begin

lemma run_result:
  assumes ret: "run_commerce_batch env ops journal stage attempts delay s = Some (r, s')"
    and stage: "\<And>b svc batch. steady (stage b svc batch)" and load: "loadable (rs_world s)"
  shows "\<exists>b. body_outcome env (stage b) s r s'"
  using run_commerce_batch_split [OF ret]
proof (elim disjE exE conjE)
  fix e assume "r = Inl e" "checkpoint_of s' = checkpoint_of s"
  then show ?thesis by (blast intro: body_outcome_error)
next
  fix b u
  assume su: "checkpoint_of u = checkpoint_of s"
    and g: "bind_io (guarded_body env ops journal stage attempts delay b) (\<lambda>report.
         bind_io (journaled journal ''run'' (rr_status report) None None) (\<lambda>_. return_io report)) u = Some (r, s')"
  let ?body = "bind_io (journaled journal ''planning'' ''started'' None None) (\<lambda>_.
          run_batch_body env ops b journal (stage b) attempts delay)"
  have lu: "loadable (rs_world u)" using checkpoint_of_files [OF su] load by simp
  have body: "body_outcome env (stage b) u q v" if q: "?body u = Some (q, v)" for q v
  proof (rule peel [OF steady_journaled q])
    fix x u1
    assume j: "journaled journal ''planning'' ''started'' None None u = Some (Inr x, u1)"
    assume "run_batch_body env ops b journal (stage b) attempts delay u1 = Some (q, v)"
    then show "body_outcome env (stage b) u1 q v"
      using stage by (rule body_result) (use checkpoint_of_files [OF steadyD [OF steady_journaled j]] lu in simp)
  qed
  from g consider
      e v where "?body u = Some (Inl e, v)" "checkpoint_of s' = checkpoint_of v" "\<exists>e'. r = Inl e'"
    | rep v where "?body u = Some (Inr rep, v)" "checkpoint_of s' = checkpoint_of v" "r = Inr rep \<or> (\<exists>e. r = Inl e)"
    using guarded_split [OF g [unfolded guarded_body_def]]
    by (elim disjE exE conjE) (auto dest!: steadyD [OF steady_journaled])
  then have "body_outcome env (stage b) u r s'"
  proof cases
    case 1
    then show ?thesis using body_outcome_error_to [OF body [OF 1(1)] 1(2)] by blast
  next
    case 2
    show ?thesis by (rule body_outcome_after [OF body [OF 2(1)] 2(2,3)])
  qed
  then show ?thesis using body_outcome_from [OF su] by blast
qed

end

section \<open>What the journal tells of a run\<close>

definition logs :: "journal_env \<Rightarrow> ('e, 'a, run_state) act \<Rightarrow> bool" where
  "logs j m \<longleftrightarrow> (\<forall>s r s'. m s = Some (r, s') \<longrightarrow>
     (\<exists>evs. rs_events s' = rs_events s @ evs \<and> (\<forall>e \<in> set evs. ev_run_id e = je_run_id j)))"

named_theorems logs_intros \<open>actions that only append rows of their own run\<close>

lemma logsD: "logs j m \<Longrightarrow> m s = Some (r, s') \<Longrightarrow>
    \<exists>evs. rs_events s' = rs_events s @ evs \<and> (\<forall>e \<in> set evs. ev_run_id e = je_run_id j)"
  by (simp add: logs_def)

lemma logs_bind [logs_intros]:
  assumes "logs j m" "\<And>x. logs j (f x)"
  shows "logs j (bind_io m f)"
  unfolding logs_def bind_io_Some
proof (intro allI impI, elim disjE exE conjE)
  fix s r s' e assume "m s = Some (Inl e, s')"
  then show "\<exists>evs. rs_events s' = rs_events s @ evs \<and> (\<forall>e \<in> set evs. ev_run_id e = je_run_id j)"
    by (rule logsD [OF assms(1)])
next
  fix s r s' x u assume "m s = Some (Inr x, u)" "f x u = Some (r, s')"
  from logsD [OF assms(1) this(1)] logsD [OF assms(2) this(2)]
  show "\<exists>evs. rs_events s' = rs_events s @ evs \<and> (\<forall>e \<in> set evs. ev_run_id e = je_run_id j)" by fastforce
qed

lemma logs_basic [logs_intros]: "logs j (return_io x)" "logs j (lift_io r)" "logs j (raise_io c m)"
  by (auto simp: logs_def io_simps)

lemma logs_in_world [logs_intros]: "logs j (in_world m)"
  by (auto simp: logs_def in_world_Some)

lemma logs_call [logs_intros]: "logs j (call_run f)"
  by (auto simp: logs_def call_run_Some)

lemma logs_remaining [logs_intros]: "logs j (commerce_remaining_seconds b)"
  by (simp add: commerce_remaining_seconds_def logs_intros)

lemma logs_clock [logs_intros]: "logs j (read_clock env)"
  by (simp add: read_clock_def logs_intros)

lemma logs_journaled [logs_intros]: "logs j (journaled (Some j) p e x err)"
proof -
  have "logs j (set_phase p x)" by (auto simp: logs_def set_phase_def)
  moreover have "logs j (append_event j p e err now)" for now by (auto simp: logs_def append_event_def)
  ultimately show ?thesis
    by (simp add: journaled_def record_event_def mkdir_call_def sqlite_call_def logs_intros)
qed

lemma logs_handle [logs_intros]:
  assumes "logs j m" "\<And>e. logs j (h e)"
  shows "logs j (handle_io m h)"
proof -
  have "handle_io m h = (\<lambda>s. case m s of None \<Rightarrow> None | Some (Inl e, u) \<Rightarrow> h e u | Some (Inr x, u) \<Rightarrow> Some (Inr x, u))"
    by (rule ext) (simp add: handle_io_def)
  moreover have "\<exists>evs. rs_events s' = rs_events s @ evs \<and> (\<forall>e \<in> set evs. ev_run_id e = je_run_id j)"
    if "m s = Some (Inl e, u)" "h e u = Some (r, s')" for s e u r s'
    using logsD [OF assms(1) that(1)] logsD [OF assms(2) that(2)] by fastforce
  ultimately show ?thesis using logsD [OF assms(1)] unfolding logs_def
    by (auto split: option.splits sum.splits)
qed

lemma logs_gate_of [logs_intros]: "logs j m \<Longrightarrow> logs j (gate_of m)"
  unfolding logs_def gate_of_def by (auto split: option.splits sum.splits)

lemma logs_verify [logs_intros]: "logs j (verify_phase env b (Some j) i attempts delay)"
proof -
  have q: "logs j (bounded_query env b sql)" for sql
    unfolding bounded_query_def by (intro logs_intros) (auto simp: logs_def)
  have sl: "logs j (bounded_sleep env b d)" for d
    unfolding bounded_sleep_def by (intro logs_intros)
  have "logs j (gate_attempts (bounded_query env b) (bounded_sleep env b) i d n)" for d n
  proof (induction n)
    case 0
    then show ?case by (simp add: logs_intros)
  next
    case (Suc n)
    have "logs j (check_commerce_gold (bounded_query env b) i)"
      by (auto simp: check_commerce_gold_def intro!: logs_intros q)
    then show ?case using Suc sl by (auto intro!: logs_intros)
  qed
  then show ?thesis
    unfolding verify_phase_def check_commerce_gold_with_retry_def
    by (intro logs_intros) (auto intro: logs_intros)
qed

lemma logs_stages [logs_intros]:
  assumes "\<And>svc. logs j (stage svc batch)"
  shows "logs j (run_stages env b (Some j) stage batch services t)"
  using assms by (induction services arbitrary: t) (auto intro!: logs_intros split: prod.splits)

lemma logs_body:
  assumes "\<And>svc batch. logs j (stage svc batch)"
  shows "logs j (run_batch_body env ops b (Some j) stage attempts delay)"
  unfolding run_batch_body_def plan_phase_def checkpoint_phase_def Let_def using assms
  by (auto intro!: logs_intros split: option.splits list.splits prod.splits)

text \<open>The last row of a journaled run is its outcome.\<close>

lemma run_last_row:
  assumes ret: "run_commerce_batch env ops (Some j) stage attempts delay s = Some (r, s')"
    and stage: "\<And>b svc batch. logs j (stage b svc batch)" and healthy: "journal_healthy j"
  shows "(\<exists>e. r = Inl e) \<and> rs_events s' = rs_events s \<or>
    (\<exists>evs e. rs_events s' = rs_events s @ evs @ [e] \<and> (\<forall>x \<in> set (evs @ [e]). ev_run_id x = je_run_id j) \<and>
       ev_sequence e = next_sequence (map ev_sequence (rs_events s @ evs)) \<and>
       (case r of Inl x \<Rightarrow> ev_event e = ''failed'' \<and> ev_error_type e = Some (class_of x)
        | Inr rep \<Rightarrow> ev_phase e = ''run'' \<and> ev_event e = rr_status rep))"
  using run_commerce_batch_split [OF ret]
proof (elim disjE exE conjE)
  fix e assume "r = Inl e" "rs_events s' = rs_events s"
  then show ?thesis by blast
next
  fix b u
  assume su: "rs_events u = rs_events s"
    and g: "bind_io (guarded_body env ops (Some j) stage attempts delay b) (\<lambda>report.
         bind_io (journaled (Some j) ''run'' (rr_status report) None None) (\<lambda>_. return_io report)) u = Some (r, s')"
  let ?body = "bind_io (journaled (Some j) ''planning'' ''started'' None None) (\<lambda>_.
          run_batch_body env ops b (Some j) (stage b) attempts delay)"
  have body: "logs j ?body" by (intro logs_intros logs_body stage)
  from g consider
      e v where "?body u = Some (Inl e, v)" "r = Inl e" "record_event j (rs_phase v) ''failed'' None (Some (class_of e)) v = Some (Inr (), s')"
    | rep v where "?body u = Some (Inr rep, v)" "r = Inr rep" "record_event j ''run'' (rr_status rep) None None v = Some (Inr (), s')"
    using guarded_split [OF g [unfolded guarded_body_def]] unfolding journaled_def option.case
    by (elim disjE exE conjE) (auto dest: record_event_healthy(1) [OF healthy])
  then show ?thesis
  proof cases
    case 1
    obtain evs where evs: "rs_events v = rs_events s @ evs" "\<forall>e \<in> set evs. ev_run_id e = je_run_id j"
      using logsD [OF body 1(1)] su by auto
    from record_event_healthy(2) [OF healthy 1(3)] evs 1(2) show ?thesis by fastforce
  next
    case 2
    obtain evs where evs: "rs_events v = rs_events s @ evs" "\<forall>e \<in> set evs. ev_run_id e = je_run_id j"
      using logsD [OF body 2(1)] su by auto
    from record_event_healthy(2) [OF healthy 2(3)] evs 2(2) show ?thesis by fastforce
  qed
qed

section \<open>Stages own their containers\<close>

lemma record_container_healthy:
  assumes "journal_healthy j" "record_container j svc container event batch project s = Some (r, s')"
    "str_item batch ''batch_id'' = Inr i" "str_item batch ''manifest_sha256'' = Inr sha"
  shows "r = Inr () \<and> (\<exists>e. rs_containers s' = rs_containers s @ [e] \<and> ce_event e = event \<and>
    ce_container e = container \<and> ce_service e = svc \<and> ce_batch_id e = i \<and> ce_sha e = sha \<and> ce_run_id e = je_run_id j)"
  using assms
  by (auto simp: record_container_def journal_healthy_def bind_io_Some mkdir_call_def sqlite_call_def
      append_container_def call_run_Some lift_io_def)

lemma steady_record_container [steady_intros]: "steady (record_container j svc container event batch project)"
  by (auto simp: record_container_def mkdir_call_def sqlite_call_def append_container_def
      intro!: steady_intros) (auto simp: steady_iff checkpoint_of_def)

lemma steady_ownership [steady_intros]: "steady (ownership journal svc container batch environment event)"
  by (auto simp: ownership_def intro: steady_intros split: option.splits)

lemma steady_compose_stage [steady_intros]: "steady (run_compose_stage se b journal bucket svc batch)"
  by (auto simp: run_compose_stage_def stage_launch_def stage_cleanup_def Let_def intro!: steady_intros
      split: proc.splits removal.splits)

lemma logs_record_container [logs_intros]: "logs j (record_container j' svc container event batch project)"
  by (auto simp: record_container_def mkdir_call_def sqlite_call_def append_container_def
      intro!: logs_intros) (auto simp: logs_def)

lemma logs_ownership [logs_intros]: "logs j (ownership journal svc container batch environment event)"
  by (auto simp: ownership_def intro: logs_intros split: option.splits)

lemma logs_compose_stage [logs_intros]: "logs j (run_compose_stage se b journal bucket svc batch)"
  by (auto simp: run_compose_stage_def stage_launch_def stage_cleanup_def Let_def intro!: logs_intros
      split: proc.splits removal.splits)

lemma stage_environment_Inr:
  assumes "stage_environment vars svc batch bucket = Inr e"
  shows "\<exists>i sha. str_item batch ''batch_id'' = Inr i \<and> str_item batch ''manifest_sha256'' = Inr sha \<and>
    map_of e ''COMMERCE_BATCH_ID'' = Some i \<and> map_of e ''COMMERCE_MANIFEST_SHA256'' = Some sha"
proof -
  from assms obtain i sha where i: "str_item batch ''batch_id'' = Inr i" "str_item batch ''manifest_sha256'' = Inr sha"
    by (auto simp: stage_environment_def result_simps)
  show ?thesis using assms i
    by (cases "map_of batch ''customer_history_mode''")
      (auto simp: stage_environment_def Let_def dict_merge_def split: if_splits)
qed

lemma stage_cleanup_raises: "stage_cleanup se svc container interrupted own s \<noteq> Some (Inr x, s')"
  by (auto simp: stage_cleanup_def io_simps split: removal.splits if_splits)

lemma stage_launch_Inr:
  assumes "stage_launch se svc container own command environment timeout s = Some (Inr (), s')"
  shows "\<exists>n. se_run se n command environment timeout = ExitedZero"
proof -
  let ?o = "se_run se (w_tick (rs_world s)) command environment timeout"
  have "?o = ExitedZero"
    using assms unfolding stage_launch_def
    by (cases ?o) (auto simp: bind_io_Some call_run_Some stage_cleanup_raises io_simps)
  then show ?thesis ..
qed

text \<open>A stage returns only when Docker ran its service for this batch to a zero exit.\<close>

lemma compose_stage_Inr:
  assumes "run_compose_stage se b journal bucket svc batch s = Some (Inr (), s')"
  shows "\<exists>n command environment timeout i sha. se_run se n command environment timeout = ExitedZero \<and>
    last command = svc \<and> str_item batch ''batch_id'' = Inr i \<and> str_item batch ''manifest_sha256'' = Inr sha \<and>
    map_of environment ''COMMERCE_BATCH_ID'' = Some i \<and> map_of environment ''COMMERCE_MANIFEST_SHA256'' = Some sha"
proof -
  from assms obtain command environment timeout container own u where
    launch: "stage_launch se svc container own command environment timeout u = Some (Inr (), s')"
    and env: "stage_environment (se_vars se) svc batch bucket = Inr environment"
    and cmd: "stage_command journal batch container svc = Inr command"
    by (auto simp: run_compose_stage_def Let_def io_simps simp del: append.simps)
  from stage_launch_Inr [OF launch] obtain n where "se_run se n command environment timeout = ExitedZero" ..
  moreover have "last command = svc"
    using cmd by (auto simp: stage_command_def result_simps)
  ultimately show ?thesis using stage_environment_Inr [OF env] by metis
qed

text \<open>The container rows of a stage: none, or its launch and, unless the removal was interrupted,
  exactly one end.\<close>

definition owned :: "run_state \<Rightarrow> string \<Rightarrow> unit result \<Rightarrow> run_state \<Rightarrow> bool" where
  "owned s svc r s' \<longleftrightarrow>
     (\<exists>e. r = Inl e) \<and> rs_containers s' = rs_containers s \<or>
     (\<exists>l. rs_containers s' = rs_containers s @ [l] \<and> ce_event l = ''launch_intent'' \<and> ce_service l = svc \<and>
        r = Inl (Exn KeyboardInterrupt [])) \<or>
     (\<exists>l e. rs_containers s' = rs_containers s @ [l, e] \<and> ce_event l = ''launch_intent'' \<and>
        ce_service l = svc \<and> ce_service e = svc \<and> ce_container e = ce_container l \<and>
        ce_event e \<in> {''completed'', ''failed'', ''timeout_removed'', ''interrupted_removed'', ''cleanup_unconfirmed''} \<and>
        (r = Inr () \<longleftrightarrow> ce_event e = ''completed''))"

lemma stage_launch_rows:
  assumes "stage_launch se svc container own command environment timeout s = Some (r, s')"
    and own: "\<And>event u q v. own event u = Some (q, v) \<Longrightarrow> q = Inr () \<and>
      (\<exists>e. rs_containers v = rs_containers u @ [e] \<and> ce_event e = event \<and> ce_container e = container \<and> ce_service e = svc)"
  shows "r = Inl (Exn KeyboardInterrupt []) \<and> rs_containers s' = rs_containers s \<or>
    (\<exists>e. rs_containers s' = rs_containers s @ [e] \<and> ce_container e = container \<and> ce_service e = svc \<and>
        ce_event e \<in> {''completed'', ''failed'', ''timeout_removed'', ''interrupted_removed'', ''cleanup_unconfirmed''} \<and>
        (r = Inr () \<longleftrightarrow> ce_event e = ''completed''))"
proof -
  let ?w = "rs_world s"
  let ?o = "se_run se (w_tick ?w) command environment timeout" and ?d = "se_remove se (Suc (w_tick ?w)) container"
  show ?thesis using assms(1) unfolding stage_launch_def stage_cleanup_def
    by (cases ?o; cases ?d) (auto simp: bind_io_Some call_run_Some io_simps dest!: own)
qed

lemma compose_stage_rows:
  assumes healthy: "journal_healthy j"
    and ret: "run_compose_stage se b (Some j) bucket svc batch s = Some (r, s')"
  shows "owned s svc r s'"
proof -
  let ?pre = "bind_io (lift_io (timeout_setting (se_vars se) ''COMMERCE_STAGE_TIMEOUT_SECONDS'' ''1800'')) (\<lambda>setting.
     bind_io (commerce_remaining_seconds b) (\<lambda>remaining.
     let timeout = (case remaining of None \<Rightarrow> of_int setting | Some r \<Rightarrow> min (of_int setting) r) in
     bind_io (call_run (\<lambda>n. Inr (''lakeops-commerce-'' @ se_uuid se n))) (\<lambda>container.
     bind_io (lift_io (stage_environment (se_vars se) svc batch bucket)) (\<lambda>environment.
     bind_io (lift_io (stage_command (Some j) batch container svc)) (\<lambda>command.
       return_io (container, environment, command, timeout))))))"
  let ?own = "\<lambda>container environment. ownership (Some j) svc container batch environment"
  have pre: "rs_containers u = rs_containers s" if "?pre s = Some (q, u)" for q u
    using that by (auto simp: bind_io_Some io_simps Let_def commerce_remaining_seconds_def in_world_Some)
  have "run_compose_stage se b (Some j) bucket svc batch s =
      bind_io ?pre (\<lambda>(container, environment, command, timeout).
        bind_io (?own container environment ''launch_intent'') (\<lambda>_.
          stage_launch se svc container (?own container environment) command environment timeout)) s"
    unfolding run_compose_stage_def Let_def bind_io_assoc bind_io_return prod.case by (rule refl)
  with ret consider e where "?pre s = Some (Inl e, s')" "r = Inl e"
    | container environment command timeout u where
        "?pre s = Some (Inr (container, environment, command, timeout), u)"
        "bind_io (?own container environment ''launch_intent'') (\<lambda>_.
          stage_launch se svc container (?own container environment) command environment timeout) u = Some (r, s')"
    by (auto simp: bind_io_Some split: prod.splits)
  then show ?thesis
  proof cases
    case 1
    with pre show ?thesis by (simp add: owned_def)
  next
    case 2
    from 2(1) have "stage_environment (se_vars se) svc batch bucket = Inr environment"
      by (auto simp: io_simps Let_def)
    then obtain i sha where "str_item batch ''batch_id'' = Inr i" "str_item batch ''manifest_sha256'' = Inr sha"
      using stage_environment_Inr by blast
    then have own: "q = Inr () \<and> (\<exists>e. rs_containers v = rs_containers u @ [e] \<and> ce_event e = event \<and>
        ce_container e = container \<and> ce_service e = svc)"
      if "?own container environment event u = Some (q, v)" for event u q v
      using record_container_healthy [OF healthy] that by (fastforce simp: ownership_def)
    from 2(2) obtain v where l: "?own container environment ''launch_intent'' u = Some (Inr (), v)"
      and st: "stage_launch se svc container (?own container environment) command environment timeout v = Some (r, s')"
      by (auto simp: bind_io_Some dest: own)
    from own [OF l] stage_launch_rows [OF st own] pre [OF 2(1)] show ?thesis
      unfolding owned_def by fastforce
  qed
qed

end
