(* ===== verification/Demo_Lake.thy ===== *)
theory Demo_Lake
  imports Commerce_Batches
begin

text \<open>
  A concrete lake with two committed batches, listed in reverse order, on which the theorems
  about the batch planner are applied. \<open>demo_client\<close> sends a body in one chunk, on the first
  request of its stream, and then ends.
\<close>

definition demo_planner :: planner where
  "demo_planner = \<lparr>pl_bucket = ''lake'', pl_prefix = ''landing'', pl_state_path = ''batches.json'',
     pl_workers = 1\<rparr>"

definition demo_id :: "bool \<Rightarrow> string" where
  "demo_id late = replicate 16 (if late then CHR ''b'' else CHR ''a'')"

definition demo_key :: "bool \<Rightarrow> string" where
  "demo_key late = ''landing/source=commerce/batch_id='' @ demo_id late @ ''/manifest.json''"

definition demo_body :: "bool \<Rightarrow> string" where
  "demo_body late = (if late then ''{2}'' else ''{1}'')"

definition demo_stamp :: "bool \<Rightarrow> string" where
  "demo_stamp late = (if late then ''2026-01-02T00:00:00Z'' else ''2026-01-01T00:00:00Z'')"

definition demo_table :: "string \<Rightarrow> string \<times> pyval" where
  "demo_table name = (name, PDict [(''file'', PStr (name @ ''.jsonl'')), (''rows'', PInt 1),
     (''sha256'', PStr (replicate 64 CHR ''0''))])"

definition demo_manifest :: "bool \<Rightarrow> pyval" where
  "demo_manifest late = PDict [(''schema_version'', PInt 1), (''batch_id'', PStr (demo_id late)),
     (''config'', PDict [(''batch_at'', PStr (demo_stamp late)),
        (''source_semantics'', PStr ''full_snapshot'')]),
     (''tables'', PDict (map demo_table [''customers'', ''products'', ''orders'', ''payments'']))]"

definition demo_metadata :: "bool \<Rightarrow> (string \<times> string) list" where
  "demo_metadata late = [(''commit-marker'', ''true''), (''source'', ''commerce''),
     (''batch-id'', demo_id late), (''sha256'', sha256_hex (demo_body late))]"

definition demo_seen_at :: pydt where
  "demo_seen_at = \<lparr>dt_local = 63900000000000000, dt_offset = Some 0\<rparr>"

definition demo_page :: list_page where
  "demo_page = \<lparr>lp_contents = map (\<lambda>late. \<lparr>li_key = demo_key late, li_modified = Some demo_seen_at\<rparr>)
     [True, False], lp_truncated = False, lp_next = None\<rparr>"

definition demo_client :: s3_client where
  "demo_client = \<lparr>
     list_objects_v2 = (\<lambda>n prefix token. InTime (Inr demo_page)),
     get_object = (\<lambda>n key. InTime (Inr (demo_metadata (key = demo_key True)))),
     read_body = (\<lambda>n key size. InTime (Inr
       (if size = max_commerce_manifest_bytes + 1 then demo_body (key = demo_key True) else []))),
     json_loads = (\<lambda>body. Inr (demo_manifest (body = demo_body True)))\<rparr>"

definition demo_batch :: "bool \<Rightarrow> commerce_batch" where
  "demo_batch late = \<lparr>cb_id = demo_id late, cb_at = demo_stamp late,
     cb_sha = sha256_hex (demo_body late),
     cb_path = ''s3://lake/landing/source=commerce/batch_id='' @ demo_id late @ ''/'',
     cb_committed_at = Some demo_seen_at, cb_semantics = PStr ''full_snapshot''\<rparr>"

definition demo_os :: os_env where
  "demo_os = \<lparr>os_lock = (\<lambda>n. Acquired), os_disk = (\<lambda>n. None)\<rparr>"

definition demo_world :: "nat \<Rightarrow> fdoc option \<Rightarrow> fdoc option \<Rightarrow> world" where
  "demo_world n checkpoint active = \<lparr>w_tick = n, w_checkpoint = checkpoint, w_active = active\<rparr>"

lemma demo_id_hex [simp]: "is_hex 16 (demo_id late)"
  by (simp add: demo_id_def is_hex_def list_all_iff is_hex_char_def)

section \<open>Discovery of the two batches\<close>

lemma demo_parse: "parse_batch_at (PStr (demo_stamp late)) = Inr (demo_stamp late)"
proof -
  have "parse_batch_at (PStr (demo_stamp True)) = Inr (demo_stamp True)" by code_simp
  moreover have "parse_batch_at (PStr (demo_stamp False)) = Inr (demo_stamp False)" by code_simp
  ultimately show ?thesis by (cases late) simp_all
qed

lemma demo_effective:
  "effective_at (demo_stamp False) = Inr 63902822400000000"
  "effective_at (demo_stamp True) = Inr 63902908800000000"
  by code_simp+

lemma demo_key_neq: "demo_key True \<noteq> demo_key False" "(demo_body late = demo_body True) = late"
  by (auto simp: demo_key_def demo_id_def demo_body_def)

text \<open>A budget that never runs out, and a later state of the world with the same files.\<close>

definition generous :: "budget \<Rightarrow> bool" where
  "generous b \<longleftrightarrow> (\<forall>n. case b of None \<Rightarrow> True | Some chk \<Rightarrow> \<exists>q. chk n = Inr q)"

lemma generous_none [simp]: "generous None"
  by (simp add: generous_def)

definition later :: "world \<Rightarrow> world \<Rightarrow> bool" where
  "later w w' \<longleftrightarrow> (\<exists>n. w' = w\<lparr>w_tick := n\<rparr>)"

lemma later_refl [simp]: "later w w"
  unfolding later_def by (rule exI [of _ "w_tick w"]) simp

lemma later_tick [simp]: "later w (tick w)"
  by (auto simp: later_def tick_def)

lemma later_trans: "later u v \<Longrightarrow> later v w \<Longrightarrow> later u w"
  by (auto simp: later_def)

lemma later_files: "later w w' \<Longrightarrow> w_checkpoint w' = w_checkpoint w \<and> w_active w' = w_active w"
  by (auto simp: later_def)

text \<open>An action that succeeds with \<open>x\<close> and only lets time pass.\<close>

definition yields :: "'a io \<Rightarrow> 'a \<Rightarrow> bool" where
  "yields m x \<longleftrightarrow> (\<forall>w. \<exists>w'. m w = Some (Inr x, w') \<and> later w w')"

lemma yieldsD: "yields m x \<Longrightarrow> \<exists>w'. m w = Some (Inr x, w') \<and> later w w'"
  by (simp add: yields_def)

lemma yields_bind: "yields m x \<Longrightarrow> yields (f x) y \<Longrightarrow> yields (bind_io m f) y"
  unfolding yields_def bind_io_Inr by (meson later_trans)

lemma yields_return [simp]: "yields (return_io x) x" "yields (lift_io (Inr x)) x"
  by (auto simp: yields_def return_io_def lift_io_def)

lemma generous_cases:
  assumes "generous b"
  obtains "b = None" | q where "b = Some (\<lambda>n. Inr (q n))"
proof (cases b)
  case (Some chk)
  with assms have "\<forall>n. \<exists>q. chk n = Inr q" by (simp add: generous_def)
  then obtain q where "\<forall>n. chk n = Inr (q n)" by metis
  then have "chk = (\<lambda>n. Inr (q n))" by auto
  with Some that(2) show ?thesis by blast
qed (use that in blast)

lemma yields_read:
  assumes "generous b" "\<And>n. act n = InTime (Inr x)"
  shows "yields (read_with_budget b act) x"
  using assms(1)
proof (cases rule: generous_cases)
  case 1
  then show ?thesis
    by (auto simp: yields_def read_with_budget_def bind_io_def budget_check_def read_call_def call_io_def
        assms(2) return_io_def lift_io_def)
next
  case (2 q)
  have "\<exists>w'. read_with_budget b act w = Some (Inr x, w') \<and> later w w'" for w
    unfolding 2 by (cases "q (w_tick w)")
      (auto simp: read_with_budget_def bind_io_def budget_check_def read_call_def call_io_def assms(2)
        return_io_def lift_io_def later_def tick_def)
  then show ?thesis by (simp add: yields_def)
qed

lemma yields_chunks:
  assumes "generous b"
  shows "yields (read_chunks demo_client b (demo_key late) (max_commerce_manifest_bytes + 1) []) [demo_body late]"
proof -
  have d: "demo_body (demo_key late = demo_key True) = demo_body late"
    using demo_key_neq by (cases late) auto
  have len: "length (demo_body late) = 3" "demo_body late \<noteq> []" by (simp_all add: demo_body_def)
  have r1: "yields (read_with_budget b (\<lambda>n. read_body demo_client n (demo_key late) (max_commerce_manifest_bytes + 1)))
      (demo_body late)" by (rule yields_read [OF assms]) (simp add: demo_client_def d)
  have r2: "yields (read_with_budget b (\<lambda>n. read_body demo_client n (demo_key late) (max_commerce_manifest_bytes - 2))) []"
    by (rule yields_read [OF assms]) (simp add: demo_client_def)
  have "\<exists>w'. read_chunks demo_client b (demo_key late) (max_commerce_manifest_bytes + 1) [] w =
      Some (Inr [demo_body late], w') \<and> later w w'" for w
  proof -
    obtain u where u: "read_with_budget b (\<lambda>n. read_body demo_client n (demo_key late) (max_commerce_manifest_bytes + 1)) w =
        Some (Inr (demo_body late), u)" "later w u" using yieldsD [OF r1] by blast
    obtain v where v: "read_with_budget b (\<lambda>n. read_body demo_client n (demo_key late) (max_commerce_manifest_bytes - 2)) u =
        Some (Inr [], v)" "later u v" using yieldsD [OF r2] by blast
    have m: "max_commerce_manifest_bytes + 1 \<noteq> 0" "max_commerce_manifest_bytes - 2 \<noteq> 0"
      "max_commerce_manifest_bytes + 1 - 3 = max_commerce_manifest_bytes - 2"
      by (simp_all add: max_commerce_manifest_bytes_def)
    have "read_chunks demo_client b (demo_key late) (max_commerce_manifest_bytes + 1) [] w =
        read_chunks demo_client b (demo_key late) (max_commerce_manifest_bytes - 2) [demo_body late] u"
      using u(1) len m by (subst read_chunks.simps) simp
    also have "\<dots> = Some (Inr [demo_body late], v)"
      using v(1) m by (subst read_chunks.simps) simp
    finally show ?thesis using later_trans [OF u(2) v(2)] by blast
  qed
  then show ?thesis by (simp add: yields_def)
qed

lemma demo_decode:
  "decode_manifest demo_client demo_planner (demo_id late) (demo_key late) (Some demo_seen_at)
     (demo_metadata late) (demo_body late) = Inr (demo_batch late)"
proof -
  have p: "manifest_batch_at demo_client (demo_body late) = Inr (demo_manifest late, demo_stamp late)"
    by (simp add: manifest_batch_at_def demo_client_def demo_key_neq demo_manifest_def subscript_def
        item_def demo_parse)
  have m: "good_marker (demo_metadata late) (demo_id late) (sha256_hex (demo_body late))"
    by (simp add: good_marker_def demo_metadata_def)
  have t: "valid_table_inventory (get (the_dict (demo_manifest late)) ''tables'')"
    by (simp add: valid_table_inventory_def demo_manifest_def get_def demo_table_def same_keys_def
        required_tables_def valid_table_entry_def is_hex_def list_all_iff is_hex_char_def)
  have k: "remove_suffix ''manifest.json'' (demo_key late) =
      ''landing/source=commerce/batch_id='' @ demo_id late @ ''/''"
    unfolding demo_key_def using remove_manifest_suffix [of "''landing/source=commerce''" "demo_id late"]
    by simp
  have l: "int (length (demo_body late)) \<le> max_commerce_manifest_bytes"
    by (simp add: demo_body_def max_commerce_manifest_bytes_def)
  show ?thesis using l m t
    by (simp add: decode_manifest_def p catchE_def Let_def k demo_batch_def demo_planner_def)
      (simp add: demo_manifest_def get_def demo_seen_at_def is_aware_def)
qed

lemma yields_manifest:
  assumes "generous b"
  shows "yields (read_manifest demo_client demo_planner b (demo_id late, demo_key late, Some demo_seen_at)) (demo_batch late)"
proof -
  have d: "demo_metadata (demo_key late = demo_key True) = demo_metadata late"
    using demo_key_neq by (cases late) auto
  have "yields (read_with_budget b (\<lambda>n. get_object demo_client n (demo_key late))) (demo_metadata late)"
    by (rule yields_read [OF assms]) (simp add: demo_client_def d)
  moreover have "yields (lift_io (decode_manifest demo_client demo_planner (demo_id late) (demo_key late)
      (Some demo_seen_at) (demo_metadata late) (concat [demo_body late]))) (demo_batch late)"
    by (simp add: demo_decode)
  ultimately show ?thesis unfolding read_manifest_def prod.case
    by (blast intro: yields_bind yields_chunks [OF assms])
qed

lemma yields_keys:
  assumes "generous b"
  shows "yields (list_manifest_keys demo_client b (source_root demo_planner) None [] [])
    [(demo_id True, demo_key True, Some demo_seen_at), (demo_id False, demo_key False, Some demo_seen_at)]"
proof -
  have r: "source_root demo_planner = ''landing/source=commerce''"
    by (simp add: source_root_def demo_planner_def)
  have m: "match_manifest_key ''landing/source=commerce'' (demo_key late) = Some (demo_id late)" for late
    unfolding demo_key_def
    using match_manifest_key_complete [OF demo_id_hex, of "''landing/source=commerce''" late] by simp
  have pk: "page_keys ''landing/source=commerce'' demo_page =
      [(demo_id True, demo_key True, Some demo_seen_at), (demo_id False, demo_key False, Some demo_seen_at)]"
    by (simp add: page_keys_def item_keys_def demo_page_def m)
  have t: "next_token demo_page [] = Inr None" by (simp add: next_token_def demo_page_def)
  have rd: "yields (read_with_budget b (\<lambda>n. list_objects_v2 demo_client n prefix None)) demo_page" for prefix
    by (rule yields_read [OF assms]) (simp add: demo_client_def)
  have "\<exists>w'. list_manifest_keys demo_client b ''landing/source=commerce'' None [] [] w = Some (Inr
      [(demo_id True, demo_key True, Some demo_seen_at), (demo_id False, demo_key False, Some demo_seen_at)], w') \<and> later w w'" for w
    using yieldsD [OF rd, of "''landing/source=commerce/''" w]
    by (subst list_manifest_keys.simps) (auto simp: t pk)
  then show ?thesis unfolding r by (simp add: yields_def)
qed

lemma demo_discover:
  assumes "generous b"
  shows "yields (discover demo_client demo_planner b) [demo_batch False, demo_batch True]"
proof -
  let ?ks = "[(demo_id True, demo_key True, Some demo_seen_at), (demo_id False, demo_key False, Some demo_seen_at)]"
  have m: "yields (mapM_io (read_manifest demo_client demo_planner b) ?ks) [demo_batch True, demo_batch False]"
    unfolding mapM_io.simps
    by (rule yields_bind [OF yields_manifest [OF assms]] yields_bind yields_return)+
  have at: "cb_at (demo_batch late) = demo_stamp late" for late by (simp add: demo_batch_def)
  have s: "sort_batches [demo_batch True, demo_batch False] = Inr [demo_batch False, demo_batch True]"
    by (simp add: sort_batches_def at demo_effective)
  have one: "pl_workers demo_planner = 1" by (simp add: demo_planner_def)
  have srt: "yields (lift_io (sort_batches [demo_batch True, demo_batch False])) [demo_batch False, demo_batch True]"
    unfolding s by simp
  show ?thesis unfolding discover_def one simp_thms if_True
    by (rule yields_bind [OF yields_keys [OF assms]], simp, rule yields_bind [OF m [simplified]], simp add: srt)
qed

section \<open>The planner's operations on the lake\<close>

lemma demo_fields:
  "cb_id (demo_batch late) = demo_id late" "cb_committed_at (demo_batch late) = Some demo_seen_at"
  "cb_semantics (demo_batch late) = PStr ''full_snapshot''" "cb_at (demo_batch late) = demo_stamp late"
  by (simp_all add: demo_batch_def)

lemma demo_by_id: "map_of (by_id [demo_batch False, demo_batch True]) (demo_id late) = Some (demo_batch late)"
proof -
  have "demo_id True \<noteq> demo_id False" by (simp add: demo_id_def)
  then show ?thesis by (cases late) (auto simp: by_id_def demo_batch_def)
qed

lemma empty_state_facts [simp]:
  "\<not> is_processed empty_state i" "processed empty_state = []"
  "verify_processed_content empty_state ids = Inr []" "load_state None = Inr empty_state"
  by (simp_all add: is_processed_def processed_def empty_state_def get_def verify_processed_content_def
      load_state_def)

lemma demo_checked_state:
  "w_checkpoint w = None \<Longrightarrow> load_checked_state bs w = Some (Inr empty_state, w)"
  by (simp add: load_checked_state_def lift_io_def)

lemma demo_view:
  assumes "generous b" "w_checkpoint w = None" "w_active w = None"
  shows "\<exists>w'. view demo_client demo_planner b w = Some (Inr \<lparr>pv_ordered =
    [demo_batch False, demo_batch True], pv_state = empty_state, pv_active = None\<rparr>, w') \<and> later w w'"
proof -
  obtain w' where w': "discover demo_client demo_planner b w = Some (Inr [demo_batch False, demo_batch True], w')" "later w w'"
    using yieldsD [OF demo_discover [OF assms(1)]] by blast
  with later_files [OF w'(2)] assms(2,3) show ?thesis
    by (auto simp: view_def bind_io_def demo_checked_state lift_io_def active_batch_def)
qed

lemma demo_view_reserved:
  assumes "generous b" "w_checkpoint w = None" "w_active w = written (reservation (demo_batch False))"
  shows "\<exists>w'. view demo_client demo_planner b w = Some (Inr \<lparr>pv_ordered =
    [demo_batch False, demo_batch True], pv_state = empty_state, pv_active = Some (demo_batch False)\<rparr>, w') \<and> later w w'"
proof -
  obtain w' where w': "discover demo_client demo_planner b w = Some (Inr [demo_batch False, demo_batch True], w')" "later w w'"
    using yieldsD [OF demo_discover [OF assms(1)]] by blast
  have m: "map_of (by_id [demo_batch False, demo_batch True]) (cb_id (demo_batch False)) = Some (demo_batch False)"
    using demo_by_id [of False] by (simp add: demo_fields)
  from w' later_files [OF w'(2)] assms(2,3) show ?thesis
    by (auto simp: view_def bind_io_def demo_checked_state lift_io_def active_of_reservation [OF m])
qed

lemma demo_plan:
  assumes "generous b" "w_checkpoint w = None" "w_active w = None"
  shows "\<exists>rep w'. plan demo_client demo_planner b 1 [] w = Some (Inr rep, w') \<and>
    pr_batches rep = [as_dict (demo_batch False)] \<and> later w w'"
  using demo_view [OF assms] by (auto simp: plan_def bind_io_def lift_io_def plan_selection_def Let_def
      incremental_selection_def)

lemma demo_begin:
  assumes "generous b" "w_checkpoint w = None" "w_active w = None"
  shows "\<exists>w'. begin_batch demo_client demo_planner b demo_os (as_dict (demo_batch False)) w = Some (Inr (), w') \<and>
    w_checkpoint w' = None \<and> w_active w' = written (reservation (demo_batch False))"
proof -
  obtain u where v: "view demo_client demo_planner b (tick w) = Some (Inr \<lparr>pv_ordered =
      [demo_batch False, demo_batch True], pv_state = empty_state, pv_active = None\<rparr>, u)" "later (tick w) u"
    using demo_view [of b "tick w"] assms by auto
  have sel: "selected_batch (by_id [demo_batch False, demo_batch True]) (as_dict (demo_batch False)) =
      Inr (demo_batch False)"
    using demo_by_id [of False] by (simp add: selected_batch_def str_item_def as_dict_def demo_fields)
  have os: "os_lock demo_os n = Acquired" "os_disk demo_os n = None" for n by (simp_all add: demo_os_def)
  have "\<exists>w'. begin_locked demo_client demo_planner b demo_os (as_dict (demo_batch False)) (tick w) = Some (Inr (), w') \<and>
      w_checkpoint w' = None \<and> w_active w' = written (reservation (demo_batch False))"
    using v later_files [OF v(2)] assms(2)
    by (simp add: begin_locked_def bind_io_def lift_io_def sel pending_def write_state_def disk_call_def call_io_def
        os return_io_def put_file_def written_def)
  then show ?thesis
    by (auto simp: begin_batch_def busy_as_batch_error_def catch_io_def commerce_runner_lock_def os)
qed

lemma demo_options:
  assumes "generous b" "w_checkpoint w = None"
  shows "\<exists>w'. execution_options demo_client demo_planner b (as_dict (demo_batch False)) w =
    Some (Inr [(''customer_history_mode'', ''forward'')], w') \<and> later w w'"
proof -
  obtain w' where w': "discover demo_client demo_planner b w = Some (Inr [demo_batch False, demo_batch True], w')" "later w w'"
    using yieldsD [OF demo_discover [OF assms(1)]] by blast
  have sel: "selected_batch (by_id [demo_batch False, demo_batch True]) (as_dict (demo_batch False)) =
      Inr (demo_batch False)"
    using demo_by_id [of False] by (simp add: selected_batch_def str_item_def as_dict_def demo_fields)
  from w' later_files [OF w'(2)] assms(2) show ?thesis
    by (auto simp: execution_options_def bind_io_def demo_checked_state lift_io_def sel demo_fields
        demo_effective latest_effective_def)
qed

lemma demo_commit:
  assumes "generous b" "w_checkpoint w = None"
    and active: "w_active w = None \<or> w_active w = written (reservation (demo_batch False))"
    and expected: "expected = None \<or> expected = Some (cb_sha (demo_batch False))"
  shows "\<exists>w'. commit demo_client demo_planner b demo_os (demo_id False) expected w =
     Some (Inr \<lparr>cr_batch_id = demo_id False, cr_created = True, cr_state = ''batches.json''\<rparr>, w') \<and>
     w_checkpoint w' = written (mark_processed empty_state (demo_batch False)) \<and> w_active w' = None"
proof -
  obtain u where d: "discover demo_client demo_planner b (tick w) = Some (Inr [demo_batch False, demo_batch True], u)" "later (tick w) u"
    using yieldsD [OF demo_discover [OF assms(1)]] by blast
  have files: "w_checkpoint u = None" "w_active u = w_active w" using later_files [OF d(2)] assms(2) by auto
  have m: "map_of (by_id [demo_batch False, demo_batch True]) (cb_id (demo_batch False)) = Some (demo_batch False)"
    using demo_by_id [of False] by (simp add: demo_fields)
  have c: "commit_locked demo_client demo_planner b demo_os (demo_id False) expected (tick w) =
      commit_checked demo_planner b demo_os (demo_id False) expected [demo_batch False, demo_batch True]
        (demo_batch False) empty_state u"
    using files by (simp add: commit_locked_def bind_io_def d(1) demo_by_id demo_checked_state)
  have p: "pl_state_path demo_planner = ''batches.json''" by (simp add: demo_planner_def)
  have os: "os_lock demo_os n = Acquired" "os_disk demo_os n = None" for n by (simp_all add: demo_os_def)
  have e: "\<not> (case expected of None \<Rightarrow> False | Some sha \<Rightarrow> cb_sha (demo_batch False) \<noteq> sha)"
    using expected by auto
  have "\<exists>w'. commit_locked demo_client demo_planner b demo_os (demo_id False) expected (tick w) =
      Some (Inr \<lparr>cr_batch_id = demo_id False, cr_created = True, cr_state = ''batches.json''\<rparr>, w') \<and>
      w_checkpoint w' = written (mark_processed empty_state (demo_batch False)) \<and> w_active w' = None"
    using active
  proof
    assume a: "w_active w = None"
    show ?thesis unfolding c using assms(1) files a e
      by (cases rule: generous_cases) (simp_all add: budget_check_def commit_checked_def bind_io_def lift_io_def active_batch_def pending_def demo_fields
        write_state_def disk_call_def call_io_def return_io_def put_file_def p os written_def)
  next
    assume a: "w_active w = written (reservation (demo_batch False))"
    have ao: "active_batch (w_active u) empty_state (by_id [demo_batch False, demo_batch True]) = Inr (Some (demo_batch False))"
      using files a active_of_reservation [OF m] by simp
    show ?thesis unfolding c using assms(1) e
      by (cases rule: generous_cases) (simp_all add: budget_check_def commit_checked_def bind_io_def lift_io_def ao demo_fields
        write_state_def disk_call_def call_io_def return_io_def put_file_def p os written_def unlink_active_def)
  qed
  then show ?thesis
    by (auto simp: commit_def busy_as_batch_error_def catch_io_def commerce_runner_lock_def os)
qed

end
