(* ===== verification/Commerce_Properties.thy ===== *)
theory Commerce_Properties
  imports Demo_Lake
begin

text \<open>The properties of the batch planner, each with its application to the concrete lake.\<close>

section \<open>Discovery\<close>

lemma demo_world_fields [simp]:
  "w_tick (demo_world n k a) = n" "w_checkpoint (demo_world n k a) = k" "w_active (demo_world n k a) = a"
  by (simp_all add: demo_world_def)

lemma demo_recorded: "recorded (demo_world n None a) = {}" "loadable (demo_world n None a)"
  by (simp_all add: recorded_def loadable_def)



text \<open>C2: discovery always returns, whatever the service answers, when its continuation tokens
  come from a finite set and a body read never sends more than was asked for.\<close>

theorem discover_terminates:
  assumes "finite_tokens c T" "bounded_reads c"
  shows "\<exists>r w'. discover c p b w = Some (r, w')"
  using discover_returns [OF assms, of p b w] by (cases "discover c p b w") auto

lemma demo_finite_tokens: "finite_tokens demo_client {}"
  by (simp add: finite_tokens_def demo_client_def demo_page_def)

lemma demo_bounded_reads: "bounded_reads demo_client"
proof -
  have "length (demo_body late) = 3" for late by (simp add: demo_body_def)
  then show ?thesis
    by (auto simp: bounded_reads_def demo_client_def max_commerce_manifest_bytes_def split: if_splits)
qed

theorem discover_terminates_witness:
  "\<exists>r w'. discover demo_client demo_planner None (demo_world 0 None None) = Some (r, w')"
  using discover_terminates [OF demo_finite_tokens demo_bounded_reads] .



section \<open>Planning\<close>

text \<open>C4: a plan writes no file and selects at most \<open>max_batches\<close> batches; a plan without
  replay selects only batches that the checkpoint does not record.\<close>

theorem plan_is_bounded_and_read_only:
  assumes "plan c p b n replay w = Some (Inr rep, w')"
  shows "same_files w w' \<and> int (pr_selected rep) \<le> n \<and> pr_selected rep = length (pr_batches rep) \<and>
    (replay = [] \<longrightarrow> (\<forall>d \<in> set (pr_batches rep). \<exists>x. d = as_dict x \<and> cb_id x \<notin> recorded w)) \<and>
    (replay \<noteq> [] \<longrightarrow> map (\<lambda>d. map_of d ''batch_id'') (pr_batches rep) = map Some replay)"
  using plan_result [OF assms] keeps_filesD [OF keeps_files_plan assms] by simp

theorem plan_is_bounded_and_read_only_witness:
  "\<exists>rep w'. plan demo_client demo_planner None 1 [] (demo_world 0 None None) = Some (Inr rep, w') \<and>
     int (pr_selected rep) \<le> 1"
proof -
  obtain rep w' where r: "plan demo_client demo_planner None 1 [] (demo_world 0 None None) = Some (Inr rep, w')"
    using demo_plan [of None "demo_world 0 None None"] by auto
  from plan_is_bounded_and_read_only [OF r] r show ?thesis by blast
qed

section \<open>Committing\<close>

text \<open>C5: when \<open>commit\<close> reports that it created the entry, the batch was committed in storage with
  the expected manifest, every recorded batch still agreed with storage, the batch was the reserved
  one or else the oldest waiting one, and the checkpoint is the old one with this batch added; the
  reservation is gone.\<close>

theorem commit_advances_to_the_next_batch:
  assumes "commit c p b os i expected w = Some (Inr x, w')" "cr_created x"
  shows "\<exists>ordered u state active batch.
    discover c p b (tick w) = Some (Inr ordered, u) \<and> load_state (w_checkpoint w) = Inr state \<and>
    active_batch (w_active w) state (by_id ordered) = Inr active \<and> cb_id batch = i \<and>
    commit_ready p ordered state active batch expected \<and>
    w_checkpoint w' = written (mark_processed state batch) \<and>
    w_active w' = (if active = None then w_active w else None)"
  using commit_result [OF assms(1)] assms(2) unfolding commit_outcome_def by blast

theorem commit_advances_to_the_next_batch_witness:
  "\<exists>ordered state active batch. load_state None = Inr state \<and>
     commit_ready demo_planner ordered state active batch None \<and> cb_id batch = demo_id False"
proof -
  obtain x w' where c: "commit demo_client demo_planner None demo_os (demo_id False) None (demo_world 0 None None) =
      Some (Inr x, w')" "cr_created x"
    using demo_commit [of None "demo_world 0 None None" None] by auto
  from commit_advances_to_the_next_batch [OF c] show ?thesis by auto
qed

text \<open>C6: a successful commit leaves exactly the old recorded batches and this one, and it reports
  a new entry if and only if the batch was not recorded before.\<close>

theorem commit_records_exactly_once:
  assumes "commit c p b os i expected w = Some (Inr x, w')"
  shows "loadable w \<and> loadable w' \<and> recorded w' = insert i (recorded w) \<and>
    (cr_created x \<longleftrightarrow> i \<notin> recorded w) \<and> cr_batch_id x = i"
  using commit_success [OF assms] .

theorem commit_records_exactly_once_witness:
  "\<exists>x w'. commit demo_client demo_planner None demo_os (demo_id False) None (demo_world 0 None None) =
     Some (Inr x, w') \<and> recorded w' = {demo_id False} \<and> cr_created x"
proof -
  obtain x w' where c: "commit demo_client demo_planner None demo_os (demo_id False) None (demo_world 0 None None) =
      Some (Inr x, w')"
    using demo_commit [of None "demo_world 0 None None" None] by auto
  from commit_records_exactly_once [OF c] c show ?thesis by (auto simp: demo_recorded)
qed

text \<open>C7: a commit that raises leaves both files as they were, or it advanced the checkpoint to the
  reserved batch and failed to remove the reservation, which every later reader then ignores.\<close>

theorem failed_commit_is_recoverable:
  assumes "commit c p b os i expected w = Some (Inl e, w')"
  shows "same_files w w' \<or>
    (\<exists>ordered state batch. w_checkpoint w' = written (mark_processed state batch) \<and> cb_id batch = i \<and>
       w_active w' = w_active w \<and> load_state (w_checkpoint w') = Inr (reload_dict (mark_processed state batch)) \<and>
       active_batch (w_active w') (reload_dict (mark_processed state batch)) (by_id ordered) = Inr None)"
  using commit_failure [OF assms] .

theorem failed_commit_is_recoverable_witness:
  "same_files (demo_world 0 None None) (demo_world 1 None None)"
proof -
  let ?os = "demo_os\<lparr>os_lock := \<lambda>n. HeldElsewhere\<rparr>"
  have "\<exists>e. commit demo_client demo_planner None ?os (demo_id False) None (demo_world 0 None None) =
      Some (Inl e, demo_world 1 None None)"
    by (simp add: commit_def busy_as_batch_error_def catch_io_def commerce_runner_lock_def raise_io_def
        demo_world_def tick_def)
  then obtain e where "commit demo_client demo_planner None ?os (demo_id False) None (demo_world 0 None None) =
      Some (Inl e, demo_world 1 None None)" ..
  from failed_commit_is_recoverable [OF this] show ?thesis by (auto simp: demo_world_def written_def)
qed

text \<open>C8: over any run of planner operations, with any service, budget, lock and disk, a readable
  checkpoint stays readable and no recorded batch is ever lost.\<close>

theorem planner_runs_lose_no_batch:
  assumes "planner_steps w w'" "loadable w"
  shows "loadable w' \<and> recorded w \<subseteq> recorded w'"
  using planner_steps_invariant [OF assms] .

theorem planner_runs_lose_no_batch_witness:
  "\<exists>w'. planner_steps (demo_world 0 None None) w' \<and> loadable w'"
proof -
  obtain x w' where c: "commit demo_client demo_planner None demo_os (demo_id False) None (demo_world 0 None None) =
      Some (Inr x, w')"
    using demo_commit [of None "demo_world 0 None None" None] by auto
  have "planner_steps (demo_world 0 None None) w'"
    by (rule planner_steps.more [OF planner_steps.none planner_step.committed [OF c]])
  then show ?thesis using planner_runs_lose_no_batch demo_recorded(2) by blast
qed

text \<open>The checkpoint is read back as it was written: the same batches are recorded.\<close>

theorem checkpoint_roundtrip:
  assumes "valid_state d"
  shows "load_state (written d) = Inr (reload_dict d) \<and>
    (\<forall>i. is_processed (reload_dict d) i = is_processed d i)"
  using load_written_state [OF assms] by (simp add: written_def is_processed_def processed_reload)

theorem checkpoint_roundtrip_witness:
  "load_state (written (mark_processed empty_state (demo_batch True))) =
     Inr (reload_dict (mark_processed empty_state (demo_batch True)))"
proof -
  have "valid_state (mark_processed empty_state (demo_batch True))"
    by (rule valid_mark_processed) (simp_all add: demo_fields)
  then show ?thesis using checkpoint_roundtrip by blast
qed

section \<open>Reservations\<close>

text \<open>C10: once \<open>begin\<close> has returned, the next incremental plan starts with that batch, by its
  content, whatever was committed in storage meanwhile: a retry owns the batch it began.\<close>

theorem begun_batch_is_planned_first:
  assumes "begin_batch c p b os sel w = Some (Inr (), w1)" "same_files w1 w2"
    "plan c' p b' n [] w2 = Some (Inr rep, w3)"
  shows "\<exists>batch rest. pr_batches rep = as_dict batch # rest \<and> pr_mode rep = ''incremental'' \<and>
    str_item sel ''batch_id'' = Inr (cb_id batch) \<and> str_item sel ''manifest_sha256'' = Inr (cb_sha batch)"
  using retry_after_begin [OF assms] .

theorem begun_batch_is_planned_first_witness:
  "\<exists>w1 rep w3 batch rest. w_active w1 = written (reservation (demo_batch False)) \<and>
    plan demo_client demo_planner None 2 [] w1 = Some (Inr rep, w3) \<and>
    pr_batches rep = as_dict batch # rest \<and> cb_id batch = demo_id False"
proof -
  obtain w1 where b: "begin_batch demo_client demo_planner None demo_os (as_dict (demo_batch False))
      (demo_world 0 None None) = Some (Inr (), w1)" "w_checkpoint w1 = None"
      "w_active w1 = written (reservation (demo_batch False))"
    using demo_begin [of None "demo_world 0 None None"] by auto
  obtain rep w3 where r: "plan demo_client demo_planner None 2 [] w1 = Some (Inr rep, w3)"
    using demo_view_reserved [OF generous_none b(2,3)]
    by (auto simp: plan_def bind_io_def lift_io_def plan_selection_def Let_def)
  obtain batch rest where "pr_batches rep = as_dict batch # rest"
      "str_item (as_dict (demo_batch False)) ''batch_id'' = Inr (cb_id batch)"
    using begun_batch_is_planned_first [OF b(1) same_files_refl r] by blast
  then have "pr_batches rep = as_dict batch # rest \<and> cb_id batch = demo_id False"
    by (simp add: str_item_def as_dict_def demo_fields)
  with b(3) r show ?thesis by blast
qed

section \<open>Freshness\<close>

text \<open>The backlog report is about the waiting batch that was committed first, and it is stale
  exactly when the age of that batch exceeds the limit.\<close>

theorem backlog_freshness_reports_the_oldest:
  assumes "check_backlog_freshness c p b m now w = Some (Inr rep, w')"
  shows "same_files w w' \<and> (\<exists>ordered state u.
    discover c p b w = Some (Inr ordered, u) \<and> load_state (w_checkpoint w) = Inr state \<and>
    fr_pending rep = Some (length (pending ordered state)) \<and>
    (fr_status rep = ''stale'' \<longleftrightarrow> (\<exists>age. fr_age_seconds rep = Some age \<and> m < age)) \<and>
    (pending ordered state \<noteq> [] \<longrightarrow> (\<exists>x \<in> set (pending ordered state). \<exists>t.
       cb_committed_at x = Some t \<and> fr_batch_id rep = Some (cb_id x) \<and>
       fr_age_seconds rep = Some (age_in_seconds (dt_utc now - dt_utc t)) \<and>
       (\<forall>y \<in> set (pending ordered state). \<exists>t'. cb_committed_at y = Some t' \<and> dt_utc t \<le> dt_utc t'))))"
  using backlog_freshness_result [OF assms] keeps_filesD [OF keeps_files_backlog_freshness assms] by simp

theorem backlog_freshness_reports_the_oldest_witness:
  "\<exists>rep w'. check_backlog_freshness demo_client demo_planner None 60 demo_seen_at
      (demo_world 0 None None) = Some (Inr rep, w') \<and> fr_pending rep = Some 2 \<and> fr_status rep \<noteq> ''stale''"
proof -
  obtain w' where d: "discover demo_client demo_planner None (demo_world 0 None None) =
      Some (Inr [demo_batch False, demo_batch True], w')" "later (demo_world 0 None None) w'"
    using yieldsD [OF demo_discover [OF generous_none]] by blast
  have z: "age_in_seconds 0 = 0" by code_simp
  obtain stamp where u: "utc_iso_z demo_seen_at = Inr stamp"
    by (simp add: utc_iso_z_def to_utc_def demo_seen_at_def dt_utc_def max_us_def day_us_def)
  have a: "is_aware demo_seen_at" by (simp add: demo_seen_at_def is_aware_def)
  obtain rep where r: "check_backlog_freshness demo_client demo_planner None 60 demo_seen_at (demo_world 0 None None) =
      Some (Inr rep, w')" and age: "fr_age_seconds rep = Some 0"
    using later_files [OF d(2)]
    by (simp add: check_backlog_freshness_def checked_freshness_arguments_def a return_io_def bind_io_def d(1)
        demo_checked_state lift_io_def pending_def backlog_freshness_of_def timestamped_def demo_fields z u)
  from backlog_freshness_reports_the_oldest [OF r] d(1) age show ?thesis
    using r by (auto simp: pending_def)
qed

end
