(* ===== verification/Pipeline_Properties.thy ===== *)
theory Pipeline_Properties
  imports Commerce_Pipeline Commerce_Properties
begin

text \<open>The properties of a pipeline run, each with its application to a run over the concrete lake.\<close>

section \<open>The newest run of an inspection\<close>

lemma next_sequence_greater: "x \<in> set xs \<Longrightarrow> x < next_sequence xs"
proof -
  have "a \<le> foldl max a xs \<and> (\<forall>x \<in> set xs. x \<le> foldl max a xs)" for a :: nat
  proof (induction xs arbitrary: a)
    case (Cons y ys)
    from Cons [of "max a y"] show ?case by auto
  qed simp
  then show "x \<in> set xs \<Longrightarrow> x < next_sequence xs" by (simp add: next_sequence_def less_Suc_eq_le)
qed

lemma recent_runs_take: "recent_runs k rows = take k (recent_runs (length rows) rows)"
proof -
  have "length (remdups (map ev_run_id (sort_key ev_sequence rows))) \<le> length rows"
    by (metis length_map length_remdups_leq length_sort)
  then show ?thesis unfolding recent_runs_def Let_def by (simp add: take_all)
qed

lemma recent_runs_complete:
  assumes "e \<in> set rows"
  shows "\<exists>r \<in> set (recent_runs (length rows) rows). rv_run_id r = ev_run_id e"
proof -
  let ?g = "filter (\<lambda>x. ev_run_id x = ev_run_id e) (sort_key ev_sequence rows)"
  have ne: "?g \<noteq> []" using rows_of_run [of "ev_run_id e" rows] assms by simp
  have len: "length (remdups (map ev_run_id (sort_key ev_sequence rows))) \<le> length rows"
    by (metis length_map length_remdups_leq length_sort)
  have "summary_of ?g \<in> set (recent_runs (length rows) rows)"
    using assms len unfolding recent_runs_def Let_def by (simp add: take_all image_iff) blast
  moreover have "rv_run_id (summary_of ?g) = ev_run_id e"
    using hd_in_set [OF ne] by (simp add: summary_of_def Let_def)
  ultimately show ?thesis by blast
qed

lemma recent_runs_newest:
  assumes "\<forall>x \<in> set xs. ev_sequence x < ev_sequence e"
  shows "\<exists>r rest. recent_runs (Suc n) (xs @ [e]) = r # rest \<and> rv_run_id r = ev_run_id e \<and>
    rv_outcome r = outcome_of (ev_phase e) (ev_event e) \<and> rv_error_type r = ev_error_type e"
proof -
  let ?rows = "xs @ [e]" and ?full = "recent_runs (length (xs @ [e])) (xs @ [e])"
  have unique: "e' = e" if "e' \<in> set ?rows" "ev_sequence e \<le> ev_sequence e'" for e'
    using that assms by auto
  obtain r0 where r0: "r0 \<in> set ?full" "rv_run_id r0 = ev_run_id e"
    using recent_runs_complete [of e ?rows] by auto
  then obtain r rest where full: "?full = r # rest" by (cases ?full) auto
  from recent_runs_last_row [OF r0(1)] r0(2) have "ev_sequence e \<le> rv_last_sequence r0" by auto
  moreover have "rv_last_sequence r0 \<le> rv_last_sequence r"
    using r0(1) recent_runs_sorted [of "length ?rows" ?rows] unfolding full by auto
  moreover have "r \<in> set ?full" unfolding full by simp
  from recent_runs_last_row [OF this] obtain e' where e': "e' \<in> set ?rows" "ev_run_id e' = rv_run_id r"
    "rv_last_sequence r = ev_sequence e'" "rv_outcome r = outcome_of (ev_phase e') (ev_event e')"
    "rv_error_type r = ev_error_type e'" by blast
  ultimately have "e' = e" using unique by simp
  with e' full recent_runs_take [of "Suc n" ?rows] show ?thesis by auto
qed

section \<open>A run over the concrete lake\<close>

definition demo_gold_row :: pydict where
  "demo_gold_row = [(''days'', PInt 1), (''orders'', PInt 2), (''captured_revenue_cents'', PInt 300),
     (''invalid_days'', PInt 0)]"

definition demo_run_env :: run_env where
  "demo_run_env = \<lparr>re_vars = [], re_clock = (\<lambda>n. 0), re_monotonic = (\<lambda>n. 0), re_sleep = (\<lambda>n q. None),
     re_query = (\<lambda>n sql. Inr [PDict demo_gold_row])\<rparr>"

definition demo_stage_env :: stage_env where
  "demo_stage_env = \<lparr>se_vars = [], se_uuid = (\<lambda>n. ''c''), se_run = (\<lambda>n c e t. ExitedZero),
     se_remove = (\<lambda>n c. Removed)\<rparr>"

definition demo_journal :: journal_env where
  "demo_journal = \<lparr>je_run_id = ''r1'', je_now = (\<lambda>n. ''now''), je_mkdir = (\<lambda>n. None),
     je_sqlite_fails = (\<lambda>n. False)\<rparr>"

definition demo_run_state :: run_state where
  "demo_run_state = \<lparr>rs_world = demo_world 0 None None, rs_events = [], rs_containers = [],
     rs_phase = ''planning'', rs_batch = []\<rparr>"

lemma demo_journal_healthy: "journal_healthy demo_journal"
  by (simp add: journal_healthy_def demo_journal_def)

text \<open>An action that succeeds and leaves the files alone.\<close>

definition passes :: "('e, 'a, run_state) act \<Rightarrow> ('a \<Rightarrow> bool) \<Rightarrow> bool" where
  "passes m P \<longleftrightarrow> (\<forall>s. \<exists>x s'. m s = Some (Inr x, s') \<and> P x \<and> same_files (rs_world s) (rs_world s'))"

lemma passesD: "passes m P \<Longrightarrow> \<exists>x s'. m s = Some (Inr x, s') \<and> P x \<and> same_files (rs_world s) (rs_world s')"
  by (simp add: passes_def)

lemma passes_bind: "passes m P \<Longrightarrow> (\<And>x. P x \<Longrightarrow> passes (f x) Q) \<Longrightarrow> passes (bind_io m f) Q"
  unfolding passes_def bind_io_Inr by (meson same_files_trans)

lemma passes_handle: "passes m P \<Longrightarrow> passes (handle_io m h) P"
proof -
  assume m: "passes m P"
  have "\<exists>x s'. handle_io m h s = Some (Inr x, s') \<and> P x \<and> same_files (rs_world s) (rs_world s')" for s
    using passesD [OF m, of s] by (auto simp: handle_io_def)
  then show ?thesis by (simp add: passes_def)
qed

lemma passes_basic: "P x \<Longrightarrow> passes (return_io x) P" "P x \<Longrightarrow> passes (lift_io (Inr x)) P"
  by (auto simp: passes_def return_io_def lift_io_def)

lemma passes_call: "(\<And>n. \<exists>x. f n = Inr x \<and> P x) \<Longrightarrow> passes (call_run f) P"
  unfolding passes_def call_run_Some by (metis same_files_tick run_state.select_convs(1) run_state.surjective run_state.update_convs(1))

lemma passes_remaining: "generous b \<Longrightarrow> passes (commerce_remaining_seconds b) (\<lambda>_. True)"
  by (erule generous_cases)
    (auto simp: passes_def commerce_remaining_seconds_def in_world_Some budget_check_def io_simps)

lemma passes_clock: "passes (read_clock env) (\<lambda>_. True)"
  unfolding read_clock_def by (rule passes_call) simp

lemma passes_journaled:
  assumes "case journal of None \<Rightarrow> True | Some j \<Rightarrow> journal_healthy j"
  shows "passes (journaled journal phase event batch err) (\<lambda>_. True)"
proof (cases journal)
  case None
  then show ?thesis by (simp add: journaled_def passes_basic)
next
  case (Some j)
  have "\<exists>s'. record_event j phase event batch err s = Some (Inr (), s') \<and> same_files (rs_world s) (rs_world s')" for s
  proof -
    obtain r s' where r: "record_event j phase event batch err s = Some (r, s')"
      using record_event_returns [of j phase event batch err s] by fastforce
    have "journal_healthy j" using assms Some by simp
    from record_event_healthy(1,5) [OF this r] r show ?thesis by blast
  qed
  then show ?thesis by (simp add: passes_def journaled_def Some)
qed

lemma passes_ownership:
  assumes "case journal of None \<Rightarrow> True | Some j \<Rightarrow> journal_healthy j"
    "str_item batch ''batch_id'' = Inr i" "str_item batch ''manifest_sha256'' = Inr sha"
  shows "passes (ownership journal svc container batch environment event) (\<lambda>_. True)"
  using assms
  by (cases journal) (auto simp: ownership_def passes_basic passes_def record_container_def bind_io_Inr
      mkdir_call_def sqlite_call_def append_container_def call_run_Some journal_healthy_def lift_io_def return_io_def same_files_def)

lemma passes_stage:
  assumes "generous b" "case journal of None \<Rightarrow> True | Some j \<Rightarrow> journal_healthy j"
    and i: "str_item batch ''batch_id'' = Inr i" "str_item batch ''manifest_sha256'' = Inr sha"
  shows "passes (run_compose_stage demo_stage_env b journal bucket svc batch) (\<lambda>_. True)"
proof -
  have t: "timeout_setting (se_vars demo_stage_env) ''COMMERCE_STAGE_TIMEOUT_SECONDS'' ''1800'' = Inr 1800"
  proof -
    have "int_of_str ''1800'' = Some 1800" by code_simp
    then show ?thesis by (simp add: timeout_setting_def demo_stage_env_def)
  qed
  obtain e where e: "stage_environment (se_vars demo_stage_env) svc batch bucket = Inr e"
    using i by (auto simp: stage_environment_def Let_def)
  have "\<exists>cmd. stage_command journal batch container svc = Inr cmd" for container
    using i by (auto simp: stage_command_def split: option.split)
  then obtain cmd where c: "\<And>container. stage_command journal batch container svc = Inr (cmd container)" by metis
  have lift: "bind_io (lift_io (Inr x)) f = f x" for x and f :: "'x \<Rightarrow> 'y run"
    by (rule ext) (simp add: bind_io_def lift_io_def)
  have launch: "passes (stage_launch demo_stage_env svc container (ownership journal svc container batch e) cmd e timeout) (\<lambda>_. True)"
    for container cmd timeout unfolding stage_launch_def
    by (rule passes_bind [where P = "\<lambda>x. x = ExitedZero"], rule passes_call)
      (auto simp: demo_stage_env_def intro: passes_ownership [OF assms(2-4)])
  show ?thesis unfolding run_compose_stage_def t e c lift Let_def
    by (intro passes_bind [where P = "\<lambda>_. True"] passes_remaining assms passes_call
        passes_ownership [OF assms(2-4)] launch) simp
qed

lemma passes_stages:
  assumes "generous b" "case journal of None \<Rightarrow> True | Some j \<Rightarrow> journal_healthy j"
    and i: "str_item batch ''batch_id'' = Inr i" "str_item batch ''manifest_sha256'' = Inr sha"
  shows "passes (run_stages env b journal (run_compose_stage demo_stage_env b journal bucket) batch services t) (\<lambda>_. True)"
  by (induction services arbitrary: t)
    (auto intro!: passes_basic passes_bind [where P = "\<lambda>_. True"] passes_remaining passes_journaled passes_clock
      passes_stage [OF assms] assms split: prod.split)

lemma passes_verify:
  assumes "generous b" "case journal of None \<Rightarrow> True | Some j \<Rightarrow> journal_healthy j" "is_hex 16 i"
  shows "passes (verify_phase demo_run_env b journal i (PInt 1) (PFloat (Fin 2))) (\<lambda>_. True)"
proof -
  have v: "validate_commerce_gold_retry (PInt 1) (PFloat (Fin 2)) = Inr ()"
    by (simp add: validate_commerce_gold_retry_def exact_int_def the_int_def finite_number_def)
  have n: "nat (the_int (PInt 1)) = Suc 0" by (simp add: the_int_def)
  have g: "\<exists>rep. gold_report_of i [PDict demo_gold_row] = Inr rep"
    by (simp add: gold_report_of_def demo_gold_row_def get_def non_negative_int_def exact_int_def the_int_def)
  have gate: "passes m P \<Longrightarrow> passes (gate_of m) P" for m :: "'x run" and P
  proof -
    assume m: "passes m P"
    have "\<exists>x s'. gate_of m s = Some (Inr x, s') \<and> P x \<and> same_files (rs_world s) (rs_world s')" for s
      using passesD [OF m, of s] by (auto simp: gate_of_def)
    then show ?thesis by (simp add: passes_def)
  qed
  have q: "passes (bounded_query demo_run_env b sql) (\<lambda>rows. rows = [PDict demo_gold_row])" for sql
    unfolding bounded_query_def
    by (rule passes_bind [OF gate [OF passes_remaining [OF assms(1)]]]) (simp add: passes_def demo_run_env_def)
  have c: "passes (check_commerce_gold (bounded_query demo_run_env b) i) (\<lambda>_. True)"
    unfolding check_commerce_gold_def using assms(3) g by (auto intro!: passes_bind [OF q] passes_basic)
  have "passes (check_commerce_gold_with_retry (bounded_query demo_run_env b) (bounded_sleep demo_run_env b) i
      (PInt 1) (PFloat (Fin 2))) (\<lambda>_. True)"
    unfolding check_commerce_gold_with_retry_def v n gate_attempts.simps
  proof (rule passes_bind [where P = "\<lambda>_. True"], goal_cases)
    case 2
    show ?case by (rule passes_handle [OF c])
  qed (simp add: passes_basic)
  then show ?thesis unfolding verify_phase_def
    by (intro passes_handle passes_bind [OF gate [OF passes_journaled [OF assms(2)]]])
qed

lemma demo_plan_phase:
  assumes "generous b" "w_checkpoint (rs_world s) = None" "w_active (rs_world s) = None"
  shows "\<exists>s'. plan_phase demo_run_env (lake_ops demo_client demo_planner demo_os) b s = Some (Inr (Some
      (dict_merge (as_dict (demo_batch False)) [(''customer_history_mode'', ''forward'')],
       [(''customer_history_mode'', ''forward'')])), s') \<and>
    w_checkpoint (rs_world s') = None \<and> w_active (rs_world s') = written (reservation (demo_batch False))"
proof -
  let ?ops = "lake_ops demo_client demo_planner demo_os"
  obtain rep w1 where p: "plan demo_client demo_planner b 1 [] (rs_world s) = Some (Inr rep, w1)"
    "pr_batches rep = [as_dict (demo_batch False)]" "later (rs_world s) w1"
    using demo_plan [OF assms] by blast
  note f1 = later_files [OF p(3)]
  obtain x s2 where r: "commerce_remaining_seconds b (s\<lparr>rs_world := w1\<rparr>) = Some (Inr x, s2)"
    "same_files w1 (rs_world s2)" using passesD [OF passes_remaining [OF assms(1)], of "s\<lparr>rs_world := w1\<rparr>"] by auto
  have f2: "w_checkpoint (rs_world s2) = None" "w_active (rs_world s2) = None"
    using r(2) f1 assms by (auto simp: same_files_def)
  obtain w3 where b: "begin_batch demo_client demo_planner b demo_os (as_dict (demo_batch False)) (rs_world s2) = Some (Inr (), w3)"
    "w_checkpoint w3 = None" "w_active w3 = written (reservation (demo_batch False))"
    using demo_begin [OF assms(1) f2] by blast
  obtain w4 where o4: "execution_options demo_client demo_planner b (as_dict (demo_batch False)) w3 =
      Some (Inr [(''customer_history_mode'', ''forward'')], w4)" "later w3 w4"
    using demo_options [OF assms(1) b(2)] by blast
  show ?thesis using r(1) b o4 later_files [OF o4(2)]
    by (simp add: plan_phase_def lake_ops_def Let_def bind_io_def in_world_def p(1,2) return_io_def)
qed

lemma demo_run:
  assumes journal: "case journal of None \<Rightarrow> True | Some j \<Rightarrow> journal_healthy j"
  shows "\<exists>rep s'. run_commerce_batch demo_run_env (lake_ops demo_client demo_planner demo_os) journal
      (\<lambda>b. run_compose_stage demo_stage_env b journal ''lake'') (PInt 1) (PFloat (Fin 2)) demo_run_state = Some (Inr rep, s') \<and>
    rr_status rep = ''ready'' \<and>
    w_checkpoint (rs_world s') = written (mark_processed empty_state (demo_batch False))"
proof -
  let ?ops = "lake_ops demo_client demo_planner demo_os" and ?id = "demo_id False"
  let ?batch = "dict_merge (as_dict (demo_batch False)) [(''customer_history_mode'', ''forward'')]"
  let ?opts = "[(''customer_history_mode'', ''forward'')]"
  have v: "validate_commerce_gold_retry (PInt 1) (PFloat (Fin 2)) = Inr ()"
    by (simp add: validate_commerce_gold_retry_def exact_int_def the_int_def finite_number_def)
  have i: "str_item ?batch ''batch_id'' = Inr ?id" "str_item ?batch ''manifest_sha256'' = Inr (cb_sha (demo_batch False))"
    by (simp_all add: str_item_def as_dict_def dict_merge_def demo_fields)
  have t: "commerce_run_timeout_seconds (re_vars demo_run_env) = Inr 3600"
  proof -
    have "int_of_str ''3600'' = Some 3600" by code_simp
    then show ?thesis by (simp add: commerce_run_timeout_seconds_def timeout_setting_def demo_run_env_def)
  qed
  let ?b = "Some (remaining_budget_seconds (float_add 0 3600) (\<lambda>n. Inr 0))"
  have g: "generous ?b"
  proof -
    have "\<not> float_sub (float_add 0 3600) 0 \<le> 0" by code_simp
    then show ?thesis by (simp add: generous_def remaining_budget_seconds_def Let_def)
  qed
  let ?stage = "run_compose_stage demo_stage_env ?b journal ''lake''"
  have rb: "run_budget demo_run_env s = Some (Inr ?b, s\<lparr>rs_world := tick (rs_world s)\<rparr>)" for s
  proof -
    have "inherited_deadline (re_vars demo_run_env) = Inr None"
      by (simp add: inherited_deadline_def demo_run_env_def)
    then show ?thesis unfolding run_budget_def t
      by (simp add: bind_io_def lift_io_def read_clock_def call_run_def in_world_def call_io_def return_io_def)
        (simp add: demo_run_env_def)
  qed
  have jp: "\<exists>s'. journaled journal phase event batch err s = Some (Inr (), s') \<and> same_files (rs_world s) (rs_world s')"
    for phase event batch err s using passesD [OF passes_journaled [OF journal]] by fastforce
  define s0 where "s0 = demo_run_state\<lparr>rs_world := tick (rs_world demo_run_state)\<rparr>"
  have f0: "w_checkpoint (rs_world s0) = None" "w_active (rs_world s0) = None"
    by (simp_all add: s0_def demo_run_state_def)
  obtain s1 where s1: "journaled journal ''planning'' ''started'' None None s0 = Some (Inr (), s1)"
    "same_files (rs_world s0) (rs_world s1)" using jp by blast
  obtain x2 s2 where s2: "read_clock demo_run_env s1 = Some (Inr x2, s2)" "same_files (rs_world s1) (rs_world s2)"
    using passesD [OF passes_clock] by blast
  have f2: "w_checkpoint (rs_world s2) = None" "w_active (rs_world s2) = None"
    using s1(2) s2(2) f0 by (auto simp: same_files_def)
  obtain s3 where s3: "plan_phase demo_run_env ?ops ?b s2 = Some (Inr (Some (?batch, ?opts)), s3)"
    "w_checkpoint (rs_world s3) = None" "w_active (rs_world s3) = written (reservation (demo_batch False))"
    using demo_plan_phase [OF g f2] by blast
  obtain s4 where s4: "journaled journal ''planning'' ''selected'' (Some ?batch) None s3 = Some (Inr (), s4)"
    "same_files (rs_world s3) (rs_world s4)" using jp by blast
  obtain x5 s5 where s5: "read_clock demo_run_env s4 = Some (Inr x5, s5)" "same_files (rs_world s4) (rs_world s5)"
    using passesD [OF passes_clock] by blast
  obtain secs t6 s6 where s6: "run_stages demo_run_env ?b journal ?stage ?batch (stages_of ?opts) x5 s5 =
      Some (Inr (secs, t6), s6)" "same_files (rs_world s5) (rs_world s6)"
    using passesD [OF passes_stages [OF g journal i]] by (metis surj_pair)
  obtain rep7 s7 where s7: "verify_phase demo_run_env ?b journal ?id (PInt 1) (PFloat (Fin 2)) s6 = Some (Inr rep7, s7)"
    "same_files (rs_world s6) (rs_world s7)" using passesD [OF passes_verify [OF g journal demo_id_hex]] by blast
  obtain x8 s8 where s8: "read_clock demo_run_env s7 = Some (Inr x8, s8)" "same_files (rs_world s7) (rs_world s8)"
    using passesD [OF passes_clock] by blast
  obtain y9 s9 where s9: "commerce_remaining_seconds ?b s8 = Some (Inr y9, s9)" "same_files (rs_world s8) (rs_world s9)"
    using passesD [OF passes_remaining [OF g]] by blast
  obtain s10 where s10: "journaled journal ''verification'' ''completed'' None None s9 = Some (Inr (), s10)"
    "same_files (rs_world s9) (rs_world s10)" using jp by blast
  obtain s11 where s11: "journaled journal ''checkpoint'' ''started'' None None s10 = Some (Inr (), s11)"
    "same_files (rs_world s10) (rs_world s11)" using jp by blast
  obtain y12 s12 where s12: "commerce_remaining_seconds ?b s11 = Some (Inr y12, s12)" "same_files (rs_world s11) (rs_world s12)"
    using passesD [OF passes_remaining [OF g]] by blast
  have f12: "w_checkpoint (rs_world s12) = None" "w_active (rs_world s12) = written (reservation (demo_batch False))"
    using s3(2,3) s4(2) s5(2) s6(2) s7(2) s8(2) s9(2) s10(2) s11(2) s12(2) by (auto simp: same_files_def)
  obtain x13 w13 where w13: "commit demo_client demo_planner ?b demo_os ?id (Some (cb_sha (demo_batch False))) (rs_world s12) =
      Some (Inr x13, w13)" "w_checkpoint w13 = written (mark_processed empty_state (demo_batch False))"
    using demo_commit [OF g f12(1)] f12(2) by blast
  obtain s14 where s14: "journaled journal ''checkpoint'' ''completed'' None None (s12\<lparr>rs_world := w13\<rparr>) = Some (Inr (), s14)"
    "same_files w13 (rs_world s14)" using jp [of "''checkpoint''" "''completed''" None None "s12\<lparr>rs_world := w13\<rparr>"] by auto
  obtain x15 s15 where s15: "read_clock demo_run_env s14 = Some (Inr x15, s15)" "same_files (rs_world s14) (rs_world s15)"
    using passesD [OF passes_clock] by blast
  have cp: "checkpoint_phase ?ops ?b journal ?id ?batch s8 = Some (Inr x13, s14)"
    unfolding checkpoint_phase_def
    by (simp only: bind_io_step [where m = "commerce_remaining_seconds ?b", OF s9(1)]
        bind_io_step [where m = "journaled journal ''verification'' ''completed'' None None", OF s10(1)]
        bind_io_step [where m = "journaled journal ''checkpoint'' ''started'' None None", OF s11(1)]
        bind_io_step [where m = "commerce_remaining_seconds ?b", OF s12(1)])
      (simp add: bind_io_def lift_io_def i in_world_def lake_ops_def w13(1) s14(1) return_io_def)
  obtain rep where body: "run_batch_body demo_run_env ?ops ?b journal ?stage (PInt 1) (PFloat (Fin 2)) s1 = Some (Inr rep, s15)"
    "rr_status rep = ''ready''"
    unfolding run_batch_body_def
    by (simp add: bind_io_def s2(1) s3(1) lift_io_def i(1) s4(1) s5(1) s6(1) s7(1) s8(1) cp s15(1) return_io_def)
  obtain s16 where s16: "journaled journal ''run'' ''ready'' None None s15 = Some (Inr (), s16)"
    "same_files (rs_world s15) (rs_world s16)" using jp by blast
  have "run_commerce_batch demo_run_env ?ops journal (\<lambda>b. run_compose_stage demo_stage_env b journal ''lake'')
      (PInt 1) (PFloat (Fin 2)) demo_run_state = Some (Inr rep, s16)"
    unfolding run_commerce_batch_def
    by (simp add: v bind_io_def handle_io_def lift_io_def rb s0_def [symmetric] s1(1) body s16(1) return_io_def)
  moreover have "w_checkpoint (rs_world s16) = written (mark_processed empty_state (demo_batch False))"
    using w13(2) s14(2) s15(2) s16(2) by (simp add: same_files_def)
  ultimately show ?thesis using body(2) by blast
qed

section \<open>Properties of a run\<close>





text \<open>With a journal that can be written, a run that recorded anything is the first of every
  inspection of that journal, and the outcome told there is the status it returned, or failed when it
  raised.\<close>

theorem inspection_tells_the_last_run:
  assumes "run_commerce_batch env (lake_ops c p os) (Some j) (\<lambda>b. run_compose_stage se b (Some j) bucket)
      attempts delay s = Some (r, s')"
    and "loadable (rs_world s)" "journal_healthy j" "rs_events s' \<noteq> rs_events s" "1 \<le> limit" "limit \<le> 100"
  shows "\<exists>report run rest. inspect_journal (Some (rs_events s')) (PInt limit) None = Inr report \<and>
    in_runs report = run # rest \<and> rv_run_id run = je_run_id j \<and>
    rv_outcome run = (case r of Inl e \<Rightarrow> ''failed'' | Inr rep \<Rightarrow> rr_status rep)"
proof -
  obtain evs e where ev: "rs_events s' = (rs_events s @ evs) @ [e]" "ev_run_id e = je_run_id j"
    "ev_sequence e = next_sequence (map ev_sequence (rs_events s @ evs))"
    and out: "case r of Inl x \<Rightarrow> ev_event e = ''failed'' \<and> ev_error_type e = Some (class_of x)
        | Inr rep \<Rightarrow> ev_phase e = ''run'' \<and> ev_event e = rr_status rep"
    using run_last_row [OF assms(1) logs_compose_stage assms(3)] assms(4) by auto
  have "\<forall>x \<in> set (rs_events s @ evs). ev_sequence x < ev_sequence e"
    using next_sequence_greater [of _ "map ev_sequence (rs_events s @ evs)"] ev(3) by auto
  from recent_runs_newest [OF this, of "nat limit - 1"] obtain run rest where
    run: "recent_runs (nat limit) (rs_events s') = run # rest" "rv_run_id run = je_run_id j"
      "rv_outcome run = outcome_of (ev_phase e) (ev_event e)" using ev(1,2) assms(5) by (auto simp: Suc_pred')
  have "outcome_of (ev_phase e) (ev_event e) = (case r of Inl e \<Rightarrow> ''failed'' | Inr rep \<Rightarrow> rr_status rep)"
  proof (cases r)
    case (Inl x)
    with out show ?thesis by (simp add: outcome_of_def)
  next
    case (Inr rep)
    obtain b where "body_outcome env (run_compose_stage se b (Some j) bucket) s (Inr rep) s'"
      using lake.run_result [OF assms(1) steady_compose_stage assms(2)] Inr by blast
    then have "rr_status rep = ''ready'' \<or> rr_status rep = ''idle''"
      unfolding body_outcome_def by (auto simp: idle_report_def)
    with out Inr show ?thesis by (auto simp: outcome_of_def)
  qed
  with run assms(5,6) show ?thesis by (simp add: inspect_journal_def exact_int_def the_int_def Let_def)
qed

theorem inspection_tells_the_last_run_witness:
  "\<exists>rep s' report run rest. run_commerce_batch demo_run_env (lake_ops demo_client demo_planner demo_os) (Some demo_journal)
      (\<lambda>b. run_compose_stage demo_stage_env b (Some demo_journal) ''lake'') (PInt 1) (PFloat (Fin 2)) demo_run_state =
        Some (Inr rep, s') \<and>
    inspect_journal (Some (rs_events s')) (PInt 10) None = Inr report \<and> in_runs report = run # rest \<and>
    rv_outcome run = ''ready''"
proof -
  obtain rep s' where r: "run_commerce_batch demo_run_env (lake_ops demo_client demo_planner demo_os) (Some demo_journal)
      (\<lambda>b. run_compose_stage demo_stage_env b (Some demo_journal) ''lake'') (PInt 1) (PFloat (Fin 2)) demo_run_state =
        Some (Inr rep, s')"
    and k: "rr_status rep = ''ready''" using demo_run [of "Some demo_journal"] demo_journal_healthy by auto
  have "rs_events s' \<noteq> rs_events demo_run_state"
    using run_last_row [OF r logs_compose_stage demo_journal_healthy] by auto
  from inspection_tells_the_last_run [OF r _ demo_journal_healthy this, of 10] r k show ?thesis
    by (auto simp: demo_run_state_def demo_recorded)
qed



text \<open>The retry loop of the gold gate returns, and queries at most as often as it has attempts,
  for every query and every wait that return.\<close>

theorem gold_gate_attempts_bounded:
  assumes "\<And>sql. counts f 1 (query sql)" "counts f 0 (sleep delay)"
  shows "\<exists>r s'. gate_attempts query sleep batch_id delay n s = Some (r, s') \<and> f s' \<le> f s + n"
  using gate_attempts_counts [of f query sleep, OF assms] .

theorem gold_gate_attempts_bounded_witness:
  "\<exists>r s'. gate_attempts (\<lambda>sql s. Some (Inl (Exn HttpTransportError [], None), s\<lparr>rs_world := tick (rs_world s)\<rparr>))
      (\<lambda>d. return_io ()) (demo_id False) 2 5 demo_run_state = Some (r, s') \<and> w_tick (rs_world s') \<le> 5"
proof -
  have "counts (\<lambda>s. w_tick (rs_world s)) 1 (\<lambda>s. Some (Inl (Exn HttpTransportError [], None) :: gate_error + pyval list,
      s\<lparr>rs_world := tick (rs_world s)\<rparr>))"
    by (simp add: counts_def)
  moreover have "counts (\<lambda>s. w_tick (rs_world s)) 0 (return_io () :: unit gate)" by (simp add: counts_def return_io_def)
  ultimately show ?thesis
    using gold_gate_attempts_bounded [of "\<lambda>s. w_tick (rs_world s)"
      "\<lambda>sql s. Some (Inl (Exn HttpTransportError [], None), s\<lparr>rs_world := tick (rs_world s)\<rparr>)" "\<lambda>d. return_io ()" 2 "demo_id False" 5 demo_run_state]
    by (simp add: demo_run_state_def)
qed

end
