(* ===== verification/Py_Json.thy ===== *)
theory Py_Json
  imports Py_Parse World_IO Py_Hash "HOL-Library.Multiset"
begin

text \<open>
  How Python writes values as text: \<open>repr\<close> of floats and strings, \<open>str\<close>, the fixed-point
  format of floats and \<open>json.dumps\<close> with sorted keys. Documents are identified by the digest of
  their canonical text. The negative zero is written as the zero.
\<close>

section \<open>Floats\<close>

text \<open>The largest \<open>k\<close> with \<open>10 ^ k \<le> q\<close>, for a positive \<open>q\<close>.\<close>

definition decade :: "rat \<Rightarrow> int" where
  "decade q = (let (n, d) = quotient_of q;
       k = int (length (dec_nat (nat n))) - int (length (dec_nat (nat d)))
     in if pow10 k \<le> q then k else k - 1)"

text \<open>The shortest decimal \<open>m * 10 ^ e\<close> that reads back as the double \<open>q\<close>; 17 digits always do.\<close>

definition shortest_decimal :: "rat \<Rightarrow> int \<times> int" where
  "shortest_decimal q =
     (let k = decade q;
          cand = (\<lambda>p. let e = k - int p + 1 in (round_half_even (q / pow10 e), e))
      in case List.find (\<lambda>p. let (m, e) = cand p in round_double (of_int m * pow10 e) = q) [1..<17] of
           None \<Rightarrow> cand 17 | Some p \<Rightarrow> cand p)"

definition strip_zeros :: "string \<Rightarrow> string" where
  "strip_zeros s = rev (dropWhile (\<lambda>c. c = CHR ''0'') (rev s))"

definition positive_repr :: "rat \<Rightarrow> string" where
  "positive_repr q =
     (let (m, e) = shortest_decimal q; ds = dec_nat (nat m); point = int (length ds) + e;
          ds = strip_zeros ds; n = int (length ds)
      in if - 4 < point \<and> point \<le> 16 then
           (if point \<le> 0 then ''0.'' @ replicate (nat (- point)) (CHR ''0'') @ ds
            else if n \<le> point then ds @ replicate (nat (point - n)) (CHR ''0'') @ ''.0''
            else take (nat point) ds @ ''.'' @ drop (nat point) ds)
         else (let x = point - 1 in
           take 1 ds @ (if n = 1 then [] else ''.'' @ drop 1 ds) @ ''e'' @
           (if x < 0 then ''-'' else ''+'') @ pad_nat 2 (nat \<bar>x\<bar>)))"

text \<open>\<open>repr(x)\<close> of a finite float, and of any float with the names of the others.\<close>

definition finite_repr :: "rat \<Rightarrow> string" where
  "finite_repr q = (if q = 0 then ''0.0'' else if q < 0 then CHR ''-'' # positive_repr (- q) else positive_repr q)"

definition float_text :: "string \<Rightarrow> string \<Rightarrow> pyfloat \<Rightarrow> string" where
  "float_text unbounded nan x = (case x of Fin q \<Rightarrow> finite_repr q
     | Inf negative \<Rightarrow> (if negative then CHR ''-'' # unbounded else unbounded) | NaN \<Rightarrow> nan)"

text \<open>\<open>f"{x:.kf}"\<close> of a finite float\<close>

definition fixed_places :: "nat \<Rightarrow> rat \<Rightarrow> string" where
  "fixed_places k x = (let n = round_half_even (\<bar>x\<bar> * 10 ^ k) in
     (if x < 0 then ''-'' else []) @ dec_int (n div 10 ^ k) @ ''.'' @ pad_nat k (nat (n mod 10 ^ k)))"

definition fixed4 :: "rat \<Rightarrow> string" where
  "fixed4 x = fixed_places 4 x"

section \<open>\<open>str\<close> and \<open>repr\<close>\<close>

definition hex2 :: "nat \<Rightarrow> string" where
  "hex2 n = [hex_digit (int (n div 16)), hex_digit (int (n mod 16))]"

definition repr_char :: "char \<Rightarrow> char \<Rightarrow> string" where
  "repr_char quote c = (let n = of_char c :: nat in
     if c = quote \<or> c = CHR 0x5C then [CHR 0x5C, c]
     else if n = 9 then CHR 0x5C # ''t'' else if n = 10 then CHR 0x5C # ''n''
     else if n = 13 then CHR 0x5C # ''r''
     else if n < 32 \<or> (127 \<le> n \<and> n \<le> 160) \<or> n = 173 then CHR 0x5C # ''x'' @ hex2 n else [c])"

definition str_repr :: "string \<Rightarrow> string" where
  "str_repr s = (let quote = (if CHR 0x27 \<in> set s \<and> CHR 0x22 \<notin> set s then CHR 0x22 else CHR 0x27)
     in quote # concat (map (repr_char quote) s) @ [quote])"

fun py_repr :: "pyval \<Rightarrow> string" where
  "py_repr PNone = ''None''"
| "py_repr (PBool b) = (if b then ''True'' else ''False'')"
| "py_repr (PInt i) = dec_int i"
| "py_repr (PFloat x) = float_text ''inf'' ''nan'' x"
| "py_repr (PStr s) = str_repr s"
| "py_repr (PList xs) = ''['' @ join '', '' (map py_repr xs) @ '']''"
| "py_repr (PTuple xs) =
     (case xs of [x] \<Rightarrow> ''('' @ py_repr x @ '',)'' | _ \<Rightarrow> ''('' @ join '', '' (map py_repr xs) @ '')'')"
| "py_repr (PDict d) = ''{'' @ join '', '' (map (\<lambda>(k, v). str_repr k @ '': '' @ py_repr v) d) @ ''}''"

definition py_str :: "pyval \<Rightarrow> string" where
  "py_str v = (case v of PStr s \<Rightarrow> s | _ \<Rightarrow> py_repr v)"

section \<open>\<open>json.dumps\<close>\<close>

definition json_char :: "char \<Rightarrow> string" where
  "json_char c = (let n = of_char c :: nat in
     if n = 34 \<or> n = 92 then [CHR 0x5C, c]
     else if n = 8 then CHR 0x5C # ''b'' else if n = 9 then CHR 0x5C # ''t''
     else if n = 10 then CHR 0x5C # ''n'' else if n = 12 then CHR 0x5C # ''f''
     else if n = 13 then CHR 0x5C # ''r''
     else if n < 32 \<or> 127 \<le> n then CHR 0x5C # ''u00'' @ hex2 n else [c])"

definition json_str :: "string \<Rightarrow> string" where
  "json_str s = CHR 0x22 # concat (map json_char s) @ [CHR 0x22]"

text \<open>\<open>json.dumps(v, sort_keys=True, separators=(comma, colon))\<close>\<close>

fun json_text :: "string \<Rightarrow> string \<Rightarrow> pyval \<Rightarrow> string" where
  "json_text comma colon PNone = ''null''"
| "json_text comma colon (PBool b) = (if b then ''true'' else ''false'')"
| "json_text comma colon (PInt i) = dec_int i"
| "json_text comma colon (PFloat x) = float_text ''Infinity'' ''NaN'' x"
| "json_text comma colon (PStr s) = json_str s"
| "json_text comma colon (PList xs) = ''['' @ join comma (map (json_text comma colon) xs) @ '']''"
| "json_text comma colon (PTuple xs) = ''['' @ join comma (map (json_text comma colon) xs) @ '']''"
| "json_text comma colon (PDict d) =
     ''{'' @ join comma (map (\<lambda>(k, t). json_str k @ colon @ t)
       (sort_key fst (map (\<lambda>(k, v). (k, json_text comma colon v)) d))) @ ''}''"

definition canonical :: "pyval \<Rightarrow> string" where
  "canonical v = json_text '','' '':'' v"

text \<open>\<open>f"{prefix}-{digest}"\<close>, the first sixteen hexadecimal digits of the digest of the canonical text.\<close>

definition content_id :: "string \<Rightarrow> pyval \<Rightarrow> string" where
  "content_id prefix v = prefix @ ''-'' @ take 16 (sha256_hex (canonical v))"

text \<open>\<open>json.dumps(v, indent=2, ensure_ascii=False)\<close> at a depth of \<open>n\<close>.\<close>

definition json_char_plain :: "char \<Rightarrow> string" where
  "json_char_plain c = (if 127 \<le> (of_char c :: nat) then [c] else json_char c)"

definition json_str_plain :: "string \<Rightarrow> string" where
  "json_str_plain s = CHR 0x22 # concat (map json_char_plain s) @ [CHR 0x22]"

definition new_line :: "nat \<Rightarrow> string" where
  "new_line n = CHR 0x0A # replicate (2 * n) (CHR '' '')"

fun json_pretty :: "nat \<Rightarrow> pyval \<Rightarrow> string" where
  "json_pretty n PNone = ''null''"
| "json_pretty n (PBool b) = (if b then ''true'' else ''false'')"
| "json_pretty n (PInt i) = dec_int i"
| "json_pretty n (PFloat x) = float_text ''Infinity'' ''NaN'' x"
| "json_pretty n (PStr s) = json_str_plain s"
| "json_pretty n (PList xs) = (if xs = [] then ''[]'' else
     ''['' @ new_line (n + 1) @ join (CHR '','' # new_line (n + 1)) (map (json_pretty (n + 1)) xs) @ new_line n @ '']'')"
| "json_pretty n (PTuple xs) = (if xs = [] then ''[]'' else
     ''['' @ new_line (n + 1) @ join (CHR '','' # new_line (n + 1)) (map (json_pretty (n + 1)) xs) @ new_line n @ '']'')"
| "json_pretty n (PDict d) = (if d = [] then ''{}'' else
     ''{'' @ new_line (n + 1) @ join (CHR '','' # new_line (n + 1))
       (map (\<lambda>(k, v). json_str_plain k @ '': '' @ json_pretty (n + 1) v) d) @ new_line n @ ''}'')"

text \<open>Lookup in a dictionary written out, and after a merge.\<close>

lemma get_simps: "get [] k = PNone" "get ((k', v) # d) k = (if k = k' then v else get d k)"
  by (simp_all add: get_def)

lemma get_dict_merge: "k \<notin> fst ` set b \<Longrightarrow> get (dict_merge a b) k = get a k"
proof (induction b arbitrary: a)
  case Nil
  then show ?case by (simp add: dict_merge_def)
next
  case (Cons p b)
  then show ?case by (cases p) (simp add: dict_merge_def get_dict_set)
qed

text \<open>The order of the keys does not change the canonical text.\<close>

lemma canonical_permutation:
  assumes "mset d = mset e" "distinct (map fst d)"
  shows "canonical (PDict d) = canonical (PDict e)"
proof -
  let ?f = "\<lambda>(k, v). (k, json_text '','' '':'' v)"
  have f: "map fst (map ?f d) = map fst d" by (simp add: comp_def case_prod_beta)
  have "sort_key fst (map ?f d) = sort_key fst (map ?f e)"
  proof (rule sort_key_inj_key_eq)
    show "mset (map ?f d) = mset (sort_key fst (map ?f e))" using assms(1) by simp
    show "inj_on fst (set (map ?f d))" using assms(2) f by (metis distinct_map)
  qed simp
  then show ?thesis by (simp add: canonical_def)
qed

lemma content_id_length: "length (content_id prefix v) = length prefix + 17"
  using is_hex_length [OF sha256_hex_hex [of "canonical v"]] by (simp add: content_id_def)

end
