(* ===== verification/Report_Schema.thy ===== *)
theory Report_Schema
  imports Py_Json
begin

text \<open>
  \<open>report_schema.py\<close>: the check of a report against a JSON schema read from a file. The
  validator is a third-party package: what it says of a schema and of a document under a schema
  is the text of its complaint, if it has one. The text of a file error is left out.
\<close>

record schema_env =
  sc_file :: "string \<Rightarrow> fdoc option"
  sc_check :: "pyval \<Rightarrow> string option"
  sc_validate :: "pyval \<Rightarrow> pyval \<Rightarrow> string option"

definition schema_failure :: "string \<Rightarrow> 'a result" where
  "schema_failure m = raise ReportSchemaError (''report schema validation failed: '' @ m)"

definition load_report_schema :: "schema_env \<Rightarrow> string \<Rightarrow> pyval result" where
  "load_report_schema env path =
     (case sc_file env path of
        None \<Rightarrow> schema_failure []
      | Some (NotReadable k) \<Rightarrow>
          if is_a k OSError \<or> is_a k JSONDecodeError then schema_failure [] else raise k []
      | Some (Doc schema) \<Rightarrow> (case sc_check env schema of
            Some m \<Rightarrow> schema_failure m | None \<Rightarrow> Inr schema))"

definition validate_report_schema :: "schema_env \<Rightarrow> pyval \<Rightarrow> string \<Rightarrow> unit result" where
  "validate_report_schema env report path =
     bindE (load_report_schema env path) (\<lambda>schema.
       case sc_validate env schema report of Some m \<Rightarrow> schema_failure m | None \<Rightarrow> Inr ())"

text \<open>\<open>try: validate_report_schema(...) except ReportSchemaError as error: raise C(str(error))\<close>\<close>

definition checked_report :: "exn_class \<Rightarrow> schema_env \<Rightarrow> pyval \<Rightarrow> string \<Rightarrow> unit result" where
  "checked_report c env report path =
     catchE (validate_report_schema env report path) (\<lambda>k. is_a k ReportSchemaError)
       (\<lambda>e. raise c (message_of e))"

lemma validate_report_schema_Inr:
  "validate_report_schema env report path = Inr u \<longleftrightarrow>
     (\<exists>schema. sc_file env path = Some (Doc schema) \<and> sc_check env schema = None \<and>
        sc_validate env schema report = None)"
  by (auto simp: validate_report_schema_def load_report_schema_def schema_failure_def result_simps
      split: option.splits fdoc.splits if_splits)

lemma checked_report_Inr [result_simps]:
  "checked_report c env report path = Inr u \<longleftrightarrow> validate_report_schema env report path = Inr u"
  by (auto simp: checked_report_def result_simps)

end
