(* ===== verification/Maintenance_Plan.thy ===== *)
theory Maintenance_Plan
  imports Report_Schema
begin

text \<open>
  \<open>iceberg/planner.py\<close>: the plan of maintenance actions for one table from its metadata
  report and a policy. A plan only recommends: its actions name the snapshot they were planned
  for, and are identified by the digest of their content.
\<close>

section \<open>Policy and plan\<close>

record maintenance_policy =
  mp_target_size :: int
  mp_small_ratio :: pyfloat
  mp_min_data_files :: int
  mp_min_manifests :: int
  mp_max_manifest_ratio :: pyfloat
  mp_retention_hours :: int
  mp_min_keep :: int
  mp_max_expire :: int
  mp_orphans :: bool
  mp_orphan_hours :: int
  mp_max_orphans :: int

definition default_policy :: maintenance_policy where
  "default_policy = \<lparr>mp_target_size = 128 * 1024 * 1024, mp_small_ratio = Fin (1/2),
     mp_min_data_files = 4, mp_min_manifests = 8, mp_max_manifest_ratio = Fin 2,
     mp_retention_hours = 168, mp_min_keep = 3, mp_max_expire = 50, mp_orphans = False,
     mp_orphan_hours = 168, mp_max_orphans = 1000\<rparr>"

definition policy_post_init :: "maintenance_policy \<Rightarrow> unit result" where
  "policy_post_init p =
     (if mp_target_size p \<le> 0 then raise ValueError ''target_file_size_bytes must be positive''
      else if \<not> (float_lt (Fin 0) (mp_small_ratio p) \<and> float_le (mp_small_ratio p) (Fin 1))
      then raise ValueError ''small_file_ratio must be between zero and one''
      else if mp_min_data_files p \<le> 0 then raise ValueError ''min_data_files must be positive''
      else if mp_min_manifests p \<le> 0 then raise ValueError ''min_manifest_count must be positive''
      else if float_le (mp_max_manifest_ratio p) (Fin 0)
      then raise ValueError ''max_manifests_per_data_file must be positive''
      else if mp_retention_hours p < 0
      then raise ValueError ''snapshot_retention_hours must be non-negative''
      else if mp_min_keep p < 2 then raise ValueError ''min_snapshots_to_keep must be at least two''
      else if mp_max_expire p \<le> 0 then raise ValueError ''max_snapshots_to_expire must be positive''
      else if mp_orphan_hours p < 72
      then raise ValueError ''orphan_retention_hours must be at least 72''
      else if mp_max_orphans p \<le> 0 then raise ValueError ''max_orphan_files must be positive''
      else Inr ())"

definition policy_dict :: "maintenance_policy \<Rightarrow> pydict" where
  "policy_dict p =
     [(''target_file_size_bytes'', PInt (mp_target_size p)),
      (''small_file_ratio'', PFloat (mp_small_ratio p)),
      (''min_data_files'', PInt (mp_min_data_files p)),
      (''min_manifest_count'', PInt (mp_min_manifests p)),
      (''max_manifests_per_data_file'', PFloat (mp_max_manifest_ratio p)),
      (''snapshot_retention_hours'', PInt (mp_retention_hours p)),
      (''min_snapshots_to_keep'', PInt (mp_min_keep p)),
      (''max_snapshots_to_expire'', PInt (mp_max_expire p)),
      (''orphan_inspection_enabled'', PBool (mp_orphans p)),
      (''orphan_retention_hours'', PInt (mp_orphan_hours p)),
      (''max_orphan_files'', PInt (mp_max_orphans p))]"

record maintenance_plan =
  pl_schema_version :: string
  pl_plan_id :: string
  pl_status :: string
  pl_table :: string
  pl_source :: pydict
  pl_policy :: pydict
  pl_checks :: "pydict list"
  pl_actions :: "pydict list"

definition plan_as_dict :: "maintenance_plan \<Rightarrow> pydict" where
  "plan_as_dict p =
     [(''schema_version'', PStr (pl_schema_version p)), (''plan_id'', PStr (pl_plan_id p)),
      (''status'', PStr (pl_status p)), (''table'', PStr (pl_table p)),
      (''source'', PDict (pl_source p)), (''policy'', PDict (pl_policy p)),
      (''checks'', PList (map PDict (pl_checks p))), (''actions'', PList (map PDict (pl_actions p)))]"

section \<open>Reading the report\<close>

definition plan_object :: "pydict \<Rightarrow> string \<Rightarrow> pydict result" where
  "plan_object value key = (case get value key of PDict d \<Rightarrow> Inr d
     | _ \<Rightarrow> raise PlanningContractError (key @ '' must be an object''))"

definition plan_integer :: "pydict \<Rightarrow> string \<Rightarrow> int result" where
  "plan_integer value key =
     (case get value key of
        PInt i \<Rightarrow> if i < 0 then raise PlanningContractError (key @ '' must be a non-negative integer'') else Inr i
      | _ \<Rightarrow> raise PlanningContractError (key @ '' must be a non-negative integer''))"

definition plan_timestamp :: "string \<Rightarrow> pydt result" where
  "plan_timestamp value =
     (case fromisoformat (replace '' UTC'' ''+00:00'' value) of
        None \<Rightarrow> raise PlanningContractError (''invalid timestamp: '' @ value)
      | Some t \<Rightarrow> if \<not> is_aware t then raise PlanningContractError ''timestamps must include a timezone''
          else to_utc t)"

definition snapshot_entry :: "pyval \<Rightarrow> (string \<times> pydt) result" where
  "snapshot_entry value =
     (case value of
        PDict d \<Rightarrow>
          (case get d ''snapshot_id'' of
             PStr i \<Rightarrow> if \<not> is_digit_str i
               then raise PlanningContractError ''snapshot history IDs must be decimal strings''
               else (case get d ''committed_at'' of
                   PStr c \<Rightarrow> bindE (plan_timestamp c) (\<lambda>t. Inr (i, t))
                 | _ \<Rightarrow> raise PlanningContractError ''snapshot committed_at must be a string'')
           | _ \<Rightarrow> raise PlanningContractError ''snapshot history IDs must be decimal strings'')
      | _ \<Rightarrow> raise PlanningContractError ''snapshot history entries must be objects'')"

definition required_str :: "pydict \<Rightarrow> string \<Rightarrow> string \<Rightarrow> string result" where
  "required_str d key shown = (if nonempty_str (get d key) then Inr (the_str (get d key))
     else raise PlanningContractError (shown @ '' must be a non-empty string''))"

definition validate_metadata_report :: "pyval \<Rightarrow> pydict result" where
  "validate_metadata_report report =
     (case report of
        PDict d \<Rightarrow>
          if get d ''schema_version'' \<noteq> PStr ''1.0''
          then raise PlanningContractError ''unsupported metadata schema_version''
          else if get d ''status'' \<noteq> PStr ''ready''
          then raise PlanningContractError ''metadata report status must be ready''
          else bindE (required_str d ''table'' ''table'') (\<lambda>table.
            bindE (required_str d ''collected_at'' ''collected_at'') (\<lambda>collected_at.
            bindE (plan_object d ''snapshots'') (\<lambda>snapshots.
            bindE (required_str snapshots ''current_id'' ''snapshots.current_id'') (\<lambda>current.
            bindE (plan_object d ''files'') (\<lambda>_.
            bindE (plan_object d ''manifests'') (\<lambda>_. Inr
              [(''metadata_schema_version'', get d ''schema_version''),
               (''collected_at'', PStr collected_at), (''current_snapshot_id'', PStr current),
               (''table'', PStr table)]))))))
      | _ \<Rightarrow> raise PlanningContractError ''metadata report must be a JSON object'')"

section \<open>Checks and actions\<close>

definition check_dict :: "string \<Rightarrow> string \<Rightarrow> pydict \<Rightarrow> pydict \<Rightarrow> string \<Rightarrow> pydict" where
  "check_dict rule outcome observed threshold reason =
     [(''rule'', PStr rule), (''outcome'', PStr outcome), (''observed'', PDict observed),
      (''threshold'', PDict threshold), (''reason'', PStr reason)]"

definition bounded_resource :: "string \<Rightarrow> pydict" where
  "bounded_resource action_type =
     (if action_type = ''rewrite_data_files'' then [(''max_files_to_rewrite'', PInt 1000)]
      else if action_type = ''rewrite_manifests'' then [(''max_manifests_to_rewrite'', PInt 1000)]
      else [])"

definition action_dict :: "pydict \<Rightarrow> string \<Rightarrow> string \<Rightarrow> string \<Rightarrow> pydict \<Rightarrow> pydict \<Rightarrow> pydict" where
  "action_dict source action_type reason_code reason parameters additional_safety =
     (let action = [(''action_type'', PStr action_type), (''reason_code'', PStr reason_code),
            (''reason'', PStr reason), (''parameters'', PDict parameters),
            (''safety_bounds'', PDict (dict_merge (dict_merge
              [(''dry_run_required'', PBool True),
               (''expected_snapshot_id'', get source ''current_snapshot_id''),
               (''max_concurrent_jobs'', PInt 1)] (bounded_resource action_type)) additional_safety))]
      in (''action_id'', PStr (content_id ''action'' (PDict (dict_set action ''source'' (PDict source)))))
         # action)"

text \<open>The checks and the actions a plan has gathered.\<close>

type_synonym gathered = "pydict list \<times> pydict list"

definition add_check :: "gathered \<Rightarrow> pydict \<Rightarrow> gathered" where
  "add_check g c = (fst g @ [c], snd g)"

definition add_both :: "gathered \<Rightarrow> pydict \<Rightarrow> pydict \<Rightarrow> gathered" where
  "add_both g c a = (fst g @ [c], snd g @ [a])"

definition check_data_files ::
    "maintenance_policy \<Rightarrow> pydict \<Rightarrow> pydict \<Rightarrow> int \<Rightarrow> int \<Rightarrow> gathered \<Rightarrow> gathered result" where
  "check_data_files p source files data_file_count delete_file_count g =
     bindE (plan_integer files ''total_size_bytes'') (\<lambda>total.
     bindE (case mp_small_ratio p of Fin r \<Rightarrow> int_times_float_to_int (mp_target_size p) r
       | Inf _ \<Rightarrow> raise OverflowError ''cannot convert float infinity to integer''
       | NaN \<Rightarrow> raise ValueError ''cannot convert float NaN to integer'') (\<lambda>threshold.
     let average = (if data_file_count = 0 then 0 else total div data_file_count);
         observed = [(''data_file_count'', PInt data_file_count),
           (''delete_file_count'', PInt delete_file_count), (''average_size_bytes'', PInt average)];
         limits = [(''min_data_files'', PInt (mp_min_data_files p)),
           (''average_size_below_bytes'', PInt threshold)];
         reason = dec_int data_file_count @ '' data files average '' @ dec_int average @
           '' bytes, below the '' @ dec_int threshold @ ''-byte policy threshold.''
     in Inr (if delete_file_count \<noteq> 0
         then add_check g (check_dict ''small_data_files'' ''deferred'' observed limits
           ''File-size aggregates include delete files; inspect content-specific metrics.'')
         else if mp_min_data_files p \<le> data_file_count \<and> average < threshold
         then add_both g (check_dict ''small_data_files'' ''recommend'' observed limits reason)
           (action_dict source ''rewrite_data_files'' ''small_files'' reason
             [(''target_file_size_bytes'', PInt (mp_target_size p))] [])
         else add_check g (check_dict ''small_data_files'' ''healthy'' observed limits
           ''Data-file count or average size does not cross the compaction threshold.''))))"

definition check_manifests ::
    "maintenance_policy \<Rightarrow> pydict \<Rightarrow> pydict \<Rightarrow> int \<Rightarrow> gathered \<Rightarrow> gathered result" where
  "check_manifests p source manifests data_file_count g =
     bindE (plan_integer manifests ''count'') (\<lambda>manifest_count.
     bindE (int_truediv manifest_count (max data_file_count 1)) (\<lambda>ratio.
     let observed = [(''manifest_count'', PInt manifest_count),
           (''manifests_per_data_file'', PFloat (Fin (round4 ratio)))];
         limits = [(''min_manifest_count'', PInt (mp_min_manifests p)),
           (''manifests_per_data_file_at_least'', PFloat (mp_max_manifest_ratio p))];
         reason = dec_int manifest_count @ '' manifests for '' @ dec_int data_file_count @
           '' data files gives a '' @ fixed4 ratio @ '' manifest-to-file ratio.''
     in Inr (if mp_min_manifests p \<le> manifest_count \<and> float_le (mp_max_manifest_ratio p) (Fin ratio)
         then add_both g (check_dict ''manifest_density'' ''recommend'' observed limits reason)
           (action_dict source ''rewrite_manifests'' ''dense_manifests'' reason [] [])
         else add_check g (check_dict ''manifest_density'' ''healthy'' observed limits
           ''Manifest count and density remain within policy bounds.''))))"

text \<open>\<open>timedelta(hours=h)\<close> in microseconds, and the instant that many hours before.\<close>

definition timedelta_hours :: "int \<Rightarrow> int result" where
  "timedelta_hours h = (if \<bar>h div 24\<bar> \<le> 999999999 then Inr (h * 3600000000)
     else raise OverflowError ''days must have magnitude <= 999999999'')"

definition plan_cutoff :: "pydict \<Rightarrow> int \<Rightarrow> pydt result" where
  "plan_cutoff source hours =
     bindE (plan_timestamp (the_str (get source ''collected_at''))) (\<lambda>t.
     bindE (timedelta_hours hours) (\<lambda>us. dt_add t (- us)))"

definition foreign_references :: "pyval list \<Rightarrow> pyval list" where
  "foreign_references references =
     concat (map (\<lambda>r. case r of PDict d \<Rightarrow> (let name = get d ''name'' in
       if name \<noteq> PStr ''main'' then [name] else []) | _ \<Rightarrow> []) references)"

text \<open>The history in commit order, what the policy protects of it, and what may go.\<close>

definition by_commit :: "(string \<times> pydt) list \<Rightarrow> (string \<times> pydt) list" where
  "by_commit entries = sort_key (\<lambda>e. dt_utc (snd e)) entries"

definition latest :: "int \<Rightarrow> 'a list \<Rightarrow> 'a list" where
  "latest k xs = drop (length xs - nat k) xs"

definition expiry_candidates :: "maintenance_policy \<Rightarrow> pydt \<Rightarrow> (string \<times> pydt) list \<Rightarrow> string list" where
  "expiry_candidates p cutoff entries =
     (let protected = map fst (latest (mp_min_keep p) entries) in
      map fst (filter (\<lambda>e. dt_utc (snd e) < dt_utc cutoff \<and> fst e \<notin> set protected) entries))"

definition retention_limits :: "maintenance_policy \<Rightarrow> pydict" where
  "retention_limits p = [(''retention_hours'', PInt (mp_retention_hours p)),
     (''min_snapshots_to_keep'', PInt (mp_min_keep p)),
     (''max_snapshots_to_expire'', PInt (mp_max_expire p))]"

definition retain_history ::
    "maintenance_policy \<Rightarrow> pydict \<Rightarrow> (string \<times> pydt) list \<Rightarrow> gathered \<Rightarrow> gathered result" where
  "retain_history p source history g =
     (let ids = map fst history in
      if \<not> distinct ids then raise PlanningContractError ''snapshot history contains duplicate IDs''
      else bindE (plan_cutoff source (mp_retention_hours p)) (\<lambda>cutoff.
        let candidates = expiry_candidates p cutoff (by_commit history);
            observed = [(''snapshot_count'', PInt (int (length history))),
              (''eligible_snapshot_count'', PInt (int (length candidates))),
              (''cutoff'', PStr (isoformat cutoff))];
            reason = dec_nat (length candidates) @ '' snapshots are older than '' @ isoformat cutoff @
              '' after preserving the latest '' @ dec_int (mp_min_keep p) @ ''.''
        in Inr (if candidates = []
          then add_check g (check_dict ''snapshot_retention'' ''healthy'' observed (retention_limits p)
            ''No snapshots are eligible after applying age and minimum-count retention.'')
          else add_both g (check_dict ''snapshot_retention'' ''recommend'' observed (retention_limits p) reason)
            (action_dict source ''expire_snapshots'' ''retention_window'' reason
              [(''snapshot_ids'', PList (map PStr (take (nat (mp_max_expire p)) candidates)))]
              [(''max_snapshots_to_expire'', PInt (mp_max_expire p)),
               (''expected_history_snapshot_ids'', PList (map PStr ids))]))))"

definition check_snapshots ::
    "maintenance_policy \<Rightarrow> pydict \<Rightarrow> pydict \<Rightarrow> gathered \<Rightarrow> gathered result" where
  "check_snapshots p report source g =
     bindE (plan_object report ''snapshots'') (\<lambda>snapshots.
       let history = get snapshots ''history''; references = get report ''references'' in
       if \<not> is_list history \<or> \<not> is_list references
       then Inr (add_check g (check_dict ''snapshot_retention'' ''deferred''
         [(''history_available'', PBool False)] (retention_limits p)
         ''Collect snapshot history and references before planning expiration.''))
       else (let foreign = foreign_references (elems references) in
         if foreign \<noteq> []
         then Inr (add_check g (check_dict ''snapshot_retention'' ''deferred''
           [(''non_main_references'', PList (map PStr (sort (map py_str foreign))))] (retention_limits p)
           ''Snapshot expiration is deferred while non-main references exist.''))
         else bindE (mapE snapshot_entry (elems history)) (\<lambda>entries.
           retain_history p source entries g)))"

definition check_orphan_files :: "maintenance_policy \<Rightarrow> pydict \<Rightarrow> gathered \<Rightarrow> gathered result" where
  "check_orphan_files p source g =
     bindE (plan_cutoff source (mp_orphan_hours p)) (\<lambda>cutoff.
     let limits = [(''retention_hours'', PInt (mp_orphan_hours p)),
           (''max_orphan_files'', PInt (mp_max_orphans p))];
         reason = ''Inspect unreferenced files older than '' @ isoformat cutoff @
           '' before approving any deletion.''
     in Inr (add_both g
       (check_dict ''orphan_file_inventory'' ''inspect'' [(''cutoff'', PStr (isoformat cutoff))] limits reason)
       (action_dict source ''inspect_orphan_files'' ''scheduled_inventory'' reason
         [(''older_than'', PStr (isoformat cutoff))] [(''max_orphan_files'', PInt (mp_max_orphans p))])))"

section \<open>The plan\<close>

definition plan_status :: "gathered \<Rightarrow> string" where
  "plan_status g =
     (if snd g \<noteq> [] then ''maintenance_recommended''
      else if list_ex (\<lambda>c. get c ''outcome'' = PStr ''deferred'') (fst g) then ''review_required''
      else ''healthy'')"

definition gather :: "maintenance_policy \<Rightarrow> pydict \<Rightarrow> pydict \<Rightarrow> gathered result" where
  "gather p report source =
     bindE (plan_object report ''files'') (\<lambda>files.
     bindE (plan_object report ''manifests'') (\<lambda>manifests.
     bindE (plan_integer files ''count'') (\<lambda>file_count.
     bindE (plan_integer files ''delete_file_count'') (\<lambda>delete_file_count.
     let data_file_count = file_count - delete_file_count in
     if data_file_count < 0
     then raise PlanningContractError ''files.delete_file_count cannot exceed files.count''
     else bindE (check_data_files p source files data_file_count delete_file_count ([], [])) (\<lambda>g.
       bindE (check_manifests p source manifests data_file_count g) (\<lambda>g.
       bindE (check_snapshots p report source g) (\<lambda>g.
         if mp_orphans p then check_orphan_files p source g else Inr g)))))))"

definition assemble_plan :: "maintenance_policy \<Rightarrow> pydict \<Rightarrow> gathered \<Rightarrow> maintenance_plan" where
  "assemble_plan p source g =
     (let seed = [(''schema_version'', PStr ''1.0''), (''status'', PStr (plan_status g)),
            (''table'', get source ''table''), (''source'', PDict source), (''policy'', PDict (policy_dict p)),
            (''checks'', PList (map PDict (fst g))), (''actions'', PList (map PDict (snd g)))]
      in \<lparr>pl_schema_version = ''1.0'', pl_plan_id = content_id ''plan'' (PDict seed),
          pl_status = plan_status g, pl_table = the_str (get source ''table''), pl_source = source,
          pl_policy = policy_dict p, pl_checks = fst g, pl_actions = snd g\<rparr>)"

definition plan_maintenance ::
    "schema_env \<Rightarrow> string \<Rightarrow> maintenance_policy \<Rightarrow> pyval \<Rightarrow> maintenance_plan result" where
  "plan_maintenance env schema_path p report =
     bindE (validate_metadata_report report) (\<lambda>source.
     bindE (gather p (the_dict report) source) (\<lambda>g.
     let plan = assemble_plan p source g in
     bindE (checked_report PlanningContractError env (PDict (plan_as_dict plan)) schema_path)
       (\<lambda>_. Inr plan)))"

section \<open>What is read\<close>

lemma plan_object_Inr [result_simps]: "plan_object d k = Inr x \<longleftrightarrow> get d k = PDict x"
  by (auto simp: plan_object_def split: pyval.splits)

lemma plan_integer_Inr [result_simps]: "plan_integer d k = Inr i \<longleftrightarrow> get d k = PInt i \<and> 0 \<le> i"
  by (auto simp: plan_integer_def split: pyval.splits)

lemma required_str_Inr [result_simps]:
  "required_str d k shown = Inr s \<longleftrightarrow> get d k = PStr s \<and> s \<noteq> []"
  by (cases "get d k") (auto simp: required_str_def nonempty_str_def is_str_def the_str_def)

lemma snapshot_entry_Inr [result_simps]:
  "snapshot_entry v = Inr (i, t) \<longleftrightarrow>
     (\<exists>d c. v = PDict d \<and> get d ''snapshot_id'' = PStr i \<and> is_digit_str i \<and>
        get d ''committed_at'' = PStr c \<and> plan_timestamp c = Inr t)"
  by (cases v) (auto simp: snapshot_entry_def result_simps split: pyval.splits)

text \<open>What an accepted report says.\<close>

lemma validate_metadata_report_Inr:
  "validate_metadata_report report = Inr source \<longleftrightarrow>
     (\<exists>d s table moment current fs ms. report = PDict d \<and> get d ''schema_version'' = PStr ''1.0'' \<and>
        get d ''status'' = PStr ''ready'' \<and> get d ''table'' = PStr table \<and> table \<noteq> [] \<and>
        get d ''collected_at'' = PStr moment \<and> moment \<noteq> [] \<and> get d ''snapshots'' = PDict s \<and>
        get s ''current_id'' = PStr current \<and> current \<noteq> [] \<and>
        get d ''files'' = PDict fs \<and> get d ''manifests'' = PDict ms \<and>
        source = [(''metadata_schema_version'', PStr ''1.0''), (''collected_at'', PStr moment),
          (''current_snapshot_id'', PStr current), (''table'', PStr table)])"
  by (cases report) (auto simp: validate_metadata_report_def result_simps)

section \<open>What a plan gathers\<close>

text \<open>The rule and the outcome of a check; the type of an action.\<close>

definition verdict :: "pydict \<Rightarrow> string \<times> string" where
  "verdict c = (the_str (get c ''rule''), the_str (get c ''outcome''))"

definition kind_of :: "pydict \<Rightarrow> string" where
  "kind_of a = the_str (get a ''action_type'')"

lemma verdict_check [simp]: "verdict (check_dict rule outcome obs limits reason) = (rule, outcome)"
  by (simp add: verdict_def check_dict_def get_def)

lemma get_check [simp]:
  "get (check_dict rule outcome obs limits reason) ''outcome'' = PStr outcome"
  by (simp add: check_dict_def get_def)

lemma get_action [simp]:
  "get (action_dict source ty code reason params extra) ''action_type'' = PStr ty"
  "get (action_dict source ty code reason params extra) ''parameters'' = PDict params"
  "get (action_dict source ty code reason params extra) ''safety_bounds'' =
     PDict (dict_merge (dict_merge [(''dry_run_required'', PBool True),
       (''expected_snapshot_id'', get source ''current_snapshot_id''), (''max_concurrent_jobs'', PInt 1)]
       (bounded_resource ty)) extra)"
  by (simp_all add: action_dict_def get_def)

lemma kind_action [simp]: "kind_of (action_dict source ty code reason params extra) = ty"
  by (simp add: kind_of_def)

text \<open>The bounds every action carries.\<close>

definition bounded_action :: "pydict \<Rightarrow> pydict \<Rightarrow> bool" where
  "bounded_action source a = (let s = the_dict (get a ''safety_bounds'') in
     is_dict (get a ''safety_bounds'') \<and> get s ''dry_run_required'' = PBool True \<and>
     get s ''expected_snapshot_id'' = get source ''current_snapshot_id'' \<and>
     get s ''max_concurrent_jobs'' = PInt 1 \<and>
     nonempty_str (get a ''action_id'') \<and> get a ''action_type'' = PStr (kind_of a))"

lemma bounded_action_dict:
  assumes "{''dry_run_required'', ''expected_snapshot_id'', ''max_concurrent_jobs''} \<inter> fst ` set extra = {}"
  shows "bounded_action source (action_dict source ty code reason params extra)"
proof -
  have "k \<notin> fst ` set (bounded_resource ty)"
    if "k \<in> {''dry_run_required'', ''expected_snapshot_id'', ''max_concurrent_jobs''}" for k
    using that by (auto simp: bounded_resource_def)
  moreover have "nonempty_str (get (action_dict source ty code reason params extra) ''action_id'')"
    by (simp add: action_dict_def get_simps nonempty_str_def content_id_def)
  ultimately show ?thesis using assms by (simp add: bounded_action_def get_dict_merge get_simps)
qed

text \<open>One step of the gathering adds a check of its rule, and one action when the check asks for it.\<close>

definition one_finding :: "string \<Rightarrow> string \<Rightarrow> (pydict \<Rightarrow> bool) \<Rightarrow> gathered \<Rightarrow> gathered \<Rightarrow> bool" where
  "one_finding rule ty ok g g' \<longleftrightarrow> (\<exists>c outcome. verdict c = (rule, outcome) \<and>
     get c ''outcome'' = PStr outcome \<and> fst g' = fst g @ [c] \<and>
     (if outcome \<in> {''recommend'', ''inspect''} then \<exists>a. kind_of a = ty \<and> ok a \<and> snd g' = snd g @ [a]
      else outcome \<in> {''healthy'', ''deferred''} \<and> snd g' = snd g))"

lemma one_finding_check:
  "outcome \<in> {''healthy'', ''deferred''} \<Longrightarrow>
     one_finding rule ty ok g (add_check g (check_dict rule outcome obs limits reason))"
  by (auto simp: one_finding_def add_check_def)

lemma one_finding_both:
  "outcome \<in> {''recommend'', ''inspect''} \<Longrightarrow> ok (action_dict source ty code why params extra) \<Longrightarrow>
     one_finding rule ty ok g (add_both g (check_dict rule outcome obs limits reason)
       (action_dict source ty code why params extra))"
  by (auto simp: one_finding_def add_both_def)

lemma one_finding_if:
  "(b \<Longrightarrow> one_finding rule ty ok g x) \<Longrightarrow> (\<not> b \<Longrightarrow> one_finding rule ty ok g y) \<Longrightarrow>
     one_finding rule ty ok g (if b then x else y)"
  by simp

lemmas one_finding_intros = one_finding_check one_finding_both

lemma check_data_files_finding:
  assumes "check_data_files p source files n m g = Inr g'"
  shows "one_finding ''small_data_files'' ''rewrite_data_files'' (bounded_action source) g g'"
proof -
  from assms have "\<exists>b c obs limits reason r1 r3 extra. g' =
      (if b then add_check g (check_dict ''small_data_files'' ''deferred'' obs limits r1)
       else if c then add_both g (check_dict ''small_data_files'' ''recommend'' obs limits reason)
         (action_dict source ''rewrite_data_files'' ''small_files'' reason extra [])
       else add_check g (check_dict ''small_data_files'' ''healthy'' obs limits r3))"
    unfolding check_data_files_def Let_def bindE_eq_Inr sum.inject by blast
  then show ?thesis
    by (elim exE) (simp only:, intro one_finding_if one_finding_intros bounded_action_dict, simp_all)
qed

lemma check_manifests_finding:
  "check_manifests p source ms n g = Inr g' \<Longrightarrow>
     one_finding ''manifest_density'' ''rewrite_manifests'' (bounded_action source) g g'"
  by (auto simp: check_manifests_def Let_def result_simps intro!: one_finding_intros bounded_action_dict
      split: if_splits)

lemma check_orphan_files_finding:
  "check_orphan_files p source g = Inr g' \<Longrightarrow>
     one_finding ''orphan_file_inventory'' ''inspect_orphan_files'' (bounded_action source) g g'"
  by (auto simp: check_orphan_files_def Let_def result_simps intro!: one_finding_intros bounded_action_dict)

section \<open>Which snapshots may expire\<close>

text \<open>An expiry spares the newest snapshots of the history and whatever is younger than the cutoff.\<close>

definition spares ::
    "maintenance_policy \<Rightarrow> pydt \<Rightarrow> (string \<times> pydt) list \<Rightarrow> string list \<Rightarrow> bool" where
  "spares p cutoff history ids \<longleftrightarrow>
     ids \<noteq> [] \<and> distinct ids \<and> int (length ids) \<le> mp_max_expire p \<and>
     (\<forall>i \<in> set ids. \<exists>t. (i, t) \<in> set history \<and> dt_utc t < dt_utc cutoff \<and>
        mp_min_keep p \<le> int (length (filter (\<lambda>(j, u). j \<notin> set ids \<and> dt_utc t \<le> dt_utc u) history)))"

lemma latest_newest:
  assumes "sorted (map f xs)" "x \<in> set xs" "x \<notin> set (latest k xs)" "y \<in> set (latest k xs)"
  shows "f x \<le> f y"
proof -
  let ?n = "length xs - nat k"
  have x: "x \<in> set (take ?n xs)"
    using assms(2,3) by (metis UnE append_take_drop_id latest_def set_append)
  have "sorted (map f (take ?n xs) @ map f (drop ?n xs))"
    using assms(1) by (metis append_take_drop_id map_append)
  then show ?thesis using x assms(4) by (auto simp: sorted_append latest_def)
qed

lemma length_latest: "x \<in> set xs \<Longrightarrow> x \<notin> set (latest k xs) \<Longrightarrow> 0 \<le> k \<Longrightarrow> int (length (latest k xs)) = k"
  by (cases "length xs \<le> nat k") (auto simp: latest_def)

lemma filter_sort_length: "length (filter P (sort_key f xs)) = length (filter P xs)"
proof -
  have "mset (filter P (sort_key f xs)) = mset (filter P xs)" by simp
  then show ?thesis by (metis size_mset)
qed

lemma expiry_candidates_spare:
  assumes c: "cs = expiry_candidates p cutoff (by_commit history)" "cs \<noteq> []"
    and d: "distinct (map fst history)" and k: "0 \<le> mp_min_keep p" "0 < mp_max_expire p"
  shows "spares p cutoff history (take (nat (mp_max_expire p)) cs)"
proof -
  let ?s = "by_commit history" and ?k = "mp_min_keep p" and ?ids = "take (nat (mp_max_expire p)) cs"
  have ms: "mset ?s = mset history" by (simp add: by_commit_def)
  then have set_s: "set ?s = set history" by (rule mset_eq_setD)
  have ds: "distinct (map fst ?s)" using d ms by (metis distinct_map mset_eq_imp_distinct_iff mset_map)
  have dc: "distinct cs" using ds by (auto simp: c(1) expiry_candidates_def Let_def distinct_map inj_on_def)
  have srt: "sorted (map (\<lambda>e. dt_utc (snd e)) ?s)" by (simp add: by_commit_def)
  have spared: "j \<notin> set cs" if "(j, u) \<in> set (latest ?k ?s)" for j u
    using that by (force simp: c(1) expiry_candidates_def Let_def)
  have "\<exists>t. (i, t) \<in> set history \<and> dt_utc t < dt_utc cutoff \<and>
      ?k \<le> int (length (filter (\<lambda>(j, u). j \<notin> set ?ids \<and> dt_utc t \<le> dt_utc u) history))"
    if "i \<in> set ?ids" for i
  proof -
    have "i \<in> set cs" using that by (rule in_set_takeD)
    then obtain t where t: "(i, t) \<in> set ?s" "dt_utc t < dt_utc cutoff" "i \<notin> fst ` set (latest ?k ?s)"
      by (auto simp: c(1) expiry_candidates_def Let_def)
    then have notl: "(i, t) \<notin> set (latest ?k ?s)" by force
    have "filter (\<lambda>(j, u). j \<notin> set ?ids \<and> dt_utc t \<le> dt_utc u) (latest ?k ?s) = latest ?k ?s"
      using latest_newest [OF srt t(1) notl] spared by (force simp: filter_id_conv dest: in_set_takeD)
    then have "?k \<le> int (length (filter (\<lambda>(j, u). j \<notin> set ?ids \<and> dt_utc t \<le> dt_utc u) (latest ?k ?s)))"
      using length_latest [OF t(1) notl k(1)] by simp
    also have "\<dots> \<le> int (length (filter (\<lambda>(j, u). j \<notin> set ?ids \<and> dt_utc t \<le> dt_utc u) ?s))"
      by (metis append_take_drop_id filter_append latest_def le_add2 length_append of_nat_mono)
    also have "\<dots> = int (length (filter (\<lambda>(j, u). j \<notin> set ?ids \<and> dt_utc t \<le> dt_utc u) history))"
      by (simp add: by_commit_def filter_sort_length)
    finally show ?thesis using t set_s by auto
  qed
  then show ?thesis using c(2) dc k(2) by (auto simp: spares_def)
qed

text \<open>An expiry action names what it expires and the history it was planned for.\<close>

definition planned_expiry ::
    "maintenance_policy \<Rightarrow> pydt \<Rightarrow> (string \<times> pydt) list \<Rightarrow> pydict \<Rightarrow> bool" where
  "planned_expiry p cutoff history a \<longleftrightarrow> (\<exists>ids. spares p cutoff history ids \<and>
     get (the_dict (get a ''parameters'')) ''snapshot_ids'' = PList (map PStr ids) \<and>
     get (the_dict (get a ''safety_bounds'')) ''expected_history_snapshot_ids'' =
       PList (map PStr (map fst history)) \<and>
     get (the_dict (get a ''safety_bounds'')) ''max_snapshots_to_expire'' = PInt (mp_max_expire p))"

lemma get_dict_merge_in:
  "distinct (map fst b) \<Longrightarrow> (k, v) \<in> set b \<Longrightarrow> get (dict_merge a b) k = v"
proof (induction b arbitrary: a)
  case Nil
  then show ?case by simp
next
  case (Cons x b)
  obtain k' v' where x: "x = (k', v')" by (cases x)
  have m: "dict_merge a (x # b) = dict_merge (dict_set a k' v') b" by (simp add: dict_merge_def x)
  show ?case
  proof (cases "(k, v) \<in> set b")
    case True
    then show ?thesis using Cons.IH Cons.prems(1) m by simp
  next
    case False
    then have "k \<notin> fst ` set b" "k = k'" "v = v'" using Cons.prems x by force+
    then show ?thesis by (simp add: m get_dict_merge get_dict_set)
  qed
qed

lemma planned_expiry_action:
  assumes "spares p cutoff history ids"
  shows "planned_expiry p cutoff history (action_dict source ty code reason
     [(''snapshot_ids'', PList (map PStr ids))]
     [(''max_snapshots_to_expire'', PInt (mp_max_expire p)), (''expected_history_snapshot_ids'', PList (map PStr (map fst history)))])"
  using assms by (auto simp: planned_expiry_def get_simps get_dict_merge_in intro!: exI [of _ ids])

lemma retain_history_Inr:
  assumes "retain_history p source history g = Inr g'" "0 \<le> mp_min_keep p" "0 < mp_max_expire p"
  shows "\<exists>cutoff. plan_cutoff source (mp_retention_hours p) = Inr cutoff \<and>
    one_finding ''snapshot_retention'' ''expire_snapshots''
      (\<lambda>a. bounded_action source a \<and> planned_expiry p cutoff history a) g g'"
proof -
  from assms(1) obtain cutoff where c: "distinct (map fst history)"
      "plan_cutoff source (mp_retention_hours p) = Inr cutoff"
    by (auto simp: retain_history_def Let_def result_simps split: if_splits)
  let ?cs = "expiry_candidates p cutoff (by_commit history)"
  show ?thesis
  proof (cases "?cs = []")
    case True
    then show ?thesis using assms(1) c
      by (auto simp: retain_history_def Let_def intro!: one_finding_intros)
  next
    case False
    note s = expiry_candidates_spare [OF refl False c(1) assms(2,3)]
    have "one_finding ''snapshot_retention'' ''expire_snapshots''
        (\<lambda>a. bounded_action source a \<and> planned_expiry p cutoff history a) g g'"
      using assms(1) c False
      by (auto simp: retain_history_def Let_def simp del: map_map intro!: one_finding_intros bounded_action_dict
          planned_expiry_action s)
    then show ?thesis using c by blast
  qed
qed

text \<open>The history and the cutoff that the retention of a report goes by.\<close>

definition reported_history :: "pydict \<Rightarrow> (string \<times> pydt) list result" where
  "reported_history report = mapE snapshot_entry (elems (get (the_dict (get report ''snapshots'')) ''history''))"

definition justified_expiry :: "maintenance_policy \<Rightarrow> pydict \<Rightarrow> pydict \<Rightarrow> pydict \<Rightarrow> bool" where
  "justified_expiry p report source a \<longleftrightarrow> (\<exists>history cutoff. reported_history report = Inr history \<and>
     plan_cutoff source (mp_retention_hours p) = Inr cutoff \<and> planned_expiry p cutoff history a)"

lemma one_findingE:
  assumes "one_finding rule ty ok g g'"
  obtains (asks) c outcome a where "verdict c = (rule, outcome)" "get c ''outcome'' = PStr outcome"
      "outcome \<in> {''recommend'', ''inspect''}" "kind_of a = ty" "ok a" "g' = (fst g @ [c], snd g @ [a])"
    | (silent) c outcome where "verdict c = (rule, outcome)" "get c ''outcome'' = PStr outcome"
      "outcome \<in> {''healthy'', ''deferred''}" "outcome \<notin> {''recommend'', ''inspect''}" "g' = (fst g @ [c], snd g)"
proof -
  obtain c outcome where c: "verdict c = (rule, outcome)" "get c ''outcome'' = PStr outcome" "fst g' = fst g @ [c]"
     "if outcome \<in> {''recommend'', ''inspect''} then \<exists>a. kind_of a = ty \<and> ok a \<and> snd g' = snd g @ [a]
      else outcome \<in> {''healthy'', ''deferred''} \<and> snd g' = snd g"
    using assms unfolding one_finding_def by blast
  show thesis
  proof (cases "outcome \<in> {''recommend'', ''inspect''}")
    case True
    with c(4) obtain a where "kind_of a = ty" "ok a" "snd g' = snd g @ [a]" by auto
    then show thesis using asks [OF c(1,2) True] c(3) by (metis prod.collapse)
  next
    case False
    with c(4) have "outcome \<in> {''healthy'', ''deferred''}" "snd g' = snd g" by simp_all
    then show thesis using silent [OF c(1,2) _ False] c(3) by (metis prod.collapse)
  qed
qed

lemma one_finding_mono:
  assumes "one_finding r ty P g g'" "\<And>a. P a \<Longrightarrow> Q a"
  shows "one_finding r ty Q g g'"
  using assms(1)
proof (cases rule: one_findingE)
  case (asks c outcome a)
  then show ?thesis unfolding one_finding_def
    using assms(2) by (intro exI [of _ c] exI [of _ outcome]) auto
next
  case (silent c outcome)
  then show ?thesis unfolding one_finding_def
    by (intro exI [of _ c] exI [of _ outcome]) auto
qed

lemma check_snapshots_finding:
  assumes "check_snapshots p report source g = Inr g'" "0 \<le> mp_min_keep p" "0 < mp_max_expire p"
  shows "one_finding ''snapshot_retention'' ''expire_snapshots''
    (\<lambda>a. bounded_action source a \<and> justified_expiry p report source a) g g'"
proof -
  from assms(1) obtain snapshots where s: "get report ''snapshots'' = PDict snapshots"
    by (auto simp: check_snapshots_def result_simps)
  let ?h = "get snapshots ''history''" and ?r = "get report ''references''"
  show ?thesis
  proof (cases "\<not> is_list ?h \<or> \<not> is_list ?r \<or> foreign_references (elems ?r) \<noteq> []")
    case True
    then show ?thesis using assms(1) s
      by (auto simp: check_snapshots_def Let_def plan_object_def intro!: one_finding_intros split: if_splits)
  next
    case False
    then obtain history where h: "mapE snapshot_entry (elems ?h) = Inr history"
        "retain_history p source history g = Inr g'"
      using assms(1) s by (auto simp: check_snapshots_def Let_def plan_object_def result_simps)
    then obtain cutoff where "plan_cutoff source (mp_retention_hours p) = Inr cutoff"
        "one_finding ''snapshot_retention'' ''expire_snapshots''
          (\<lambda>a. bounded_action source a \<and> planned_expiry p cutoff history a) g g'"
      using retain_history_Inr assms(2,3) by blast
    then show ?thesis using h(1) s
      by (auto simp: justified_expiry_def reported_history_def elim!: one_finding_mono)
  qed
qed

section \<open>A plan accounts for every check\<close>

definition action_for :: "string \<Rightarrow> string" where
  "action_for rule =
     (if rule = ''small_data_files'' then ''rewrite_data_files''
      else if rule = ''manifest_density'' then ''rewrite_manifests''
      else if rule = ''snapshot_retention'' then ''expire_snapshots'' else ''inspect_orphan_files'')"

definition asks :: "string \<times> string \<Rightarrow> bool" where
  "asks v = (snd v \<in> {''recommend'', ''inspect''})"

definition rules_of :: "maintenance_policy \<Rightarrow> string list" where
  "rules_of p = [''small_data_files'', ''manifest_density'', ''snapshot_retention''] @
     (if mp_orphans p then [''orphan_file_inventory''] else [])"

definition accounted :: "(pydict \<Rightarrow> bool) \<Rightarrow> string list \<Rightarrow> gathered \<Rightarrow> bool" where
  "accounted ok rules g \<longleftrightarrow> map (fst \<circ> verdict) (fst g) = rules \<and>
     (\<forall>c \<in> set (fst g). snd (verdict c) \<in> {''recommend'', ''inspect'', ''healthy'', ''deferred''} \<and>
        get c ''outcome'' = PStr (snd (verdict c))) \<and>
     map kind_of (snd g) = map (action_for \<circ> fst) (filter asks (map verdict (fst g))) \<and>
     (\<forall>a \<in> set (snd g). ok a)"

lemma accounted_step:
  assumes "one_finding rule (action_for rule) P g g'" "accounted ok rules g"
    and "\<And>a. P a \<Longrightarrow> kind_of a = action_for rule \<Longrightarrow> ok a"
  shows "accounted ok (rules @ [rule]) g'"
  using assms(1)
proof (cases rule: one_findingE)
  case (asks c outcome a)
  then show ?thesis using assms(2,3) by (auto simp: accounted_def asks_def)
next
  case (silent c outcome)
  then show ?thesis using assms(2) by (simp add: accounted_def asks_def)
qed

lemma action_for_rules [simp]:
  "action_for ''small_data_files'' = ''rewrite_data_files''"
  "action_for ''manifest_density'' = ''rewrite_manifests''"
  "action_for ''snapshot_retention'' = ''expire_snapshots''"
  "action_for ''orphan_file_inventory'' = ''inspect_orphan_files''"
  by (simp_all add: action_for_def)

definition good_action :: "maintenance_policy \<Rightarrow> pydict \<Rightarrow> pydict \<Rightarrow> pydict \<Rightarrow> bool" where
  "good_action p report source a \<longleftrightarrow> bounded_action source a \<and>
     (kind_of a = ''expire_snapshots'' \<longrightarrow> justified_expiry p report source a)"

lemma gather_accounted:
  assumes "gather p report source = Inr g" "0 \<le> mp_min_keep p" "0 < mp_max_expire p"
  shows "accounted (good_action p report source) (rules_of p) g"
proof -
  let ?ok = "good_action p report source"
  have start: "accounted ?ok [] ([], [])" by (simp add: accounted_def)
  from assms(1) obtain files n m ms g1 g2 g3 where g:
      "check_data_files p source files n m ([], []) = Inr g1"
      "check_manifests p source ms n g1 = Inr g2"
      "check_snapshots p report source g2 = Inr g3"
      "(if mp_orphans p then check_orphan_files p source g3 else Inr g3) = Inr g"
    by (auto simp: gather_def Let_def result_simps split: if_splits)
  note f = check_data_files_finding [OF g(1)] check_manifests_finding [OF g(2)]
    check_snapshots_finding [OF g(3) assms(2,3)]
  have "accounted ?ok ([] @ [''small_data_files'']) g1"
    by (rule accounted_step [OF _ start]) (use f(1) in \<open>auto simp: good_action_def\<close>)
  then have "accounted ?ok (([] @ [''small_data_files'']) @ [''manifest_density'']) g2"
    by (rule accounted_step [rotated]) (use f(2) in \<open>auto simp: good_action_def\<close>)
  then have three: "accounted ?ok ((([] @ [''small_data_files'']) @ [''manifest_density'']) @ [''snapshot_retention'']) g3"
    by (rule accounted_step [rotated]) (use f(3) in \<open>auto simp: good_action_def\<close>)
  show ?thesis
  proof (cases "mp_orphans p")
    case True
    have "accounted ?ok (((([] @ [''small_data_files'']) @ [''manifest_density'']) @ [''snapshot_retention'']) @
        [''orphan_file_inventory'']) g"
      by (rule accounted_step [OF _ three])
        (use check_orphan_files_finding [of p source g3 g] g(4) True in \<open>auto simp: good_action_def\<close>)
    then show ?thesis using True by (simp add: rules_of_def)
  next
    case False
    then show ?thesis using three g(4) by (simp add: rules_of_def)
  qed
qed

lemma distinct_kinds:
  assumes "accounted ok (rules_of p) g"
  shows "distinct (map kind_of (snd g))"
proof -
  let ?vs = "map verdict (fst g)"
  have "distinct (map fst ?vs)" using assms by (simp add: accounted_def rules_of_def)
  then have "distinct (map fst (filter asks ?vs))" by (rule distinct_map_filter)
  moreover have "inj_on action_for (set (map fst (filter asks ?vs)))"
  proof (rule inj_on_subset)
    show "inj_on action_for
        {''small_data_files'', ''manifest_density'', ''snapshot_retention'', ''orphan_file_inventory''}"
      by (auto simp: inj_on_def)
    have "set (map fst (filter asks ?vs)) \<subseteq> set (map fst ?vs)" by (rule subsetI) (force simp del: map_map)
    also have "\<dots> = set (rules_of p)" using assms by (simp add: accounted_def)
    also have "\<dots> \<subseteq> {''small_data_files'', ''manifest_density'', ''snapshot_retention'', ''orphan_file_inventory''}"
      by (cases "mp_orphans p") (simp_all add: rules_of_def)
    finally show "set (map fst (filter asks ?vs)) \<subseteq>
        {''small_data_files'', ''manifest_density'', ''snapshot_retention'', ''orphan_file_inventory''}" .
  qed
  ultimately have "distinct (map action_for (map fst (filter asks ?vs)))" by (simp only: distinct_map)
  then show ?thesis using assms by (simp add: accounted_def comp_def)
qed

lemma policy_post_init_Inr:
  "policy_post_init p = Inr () \<Longrightarrow> 2 \<le> mp_min_keep p \<and> 0 < mp_max_expire p \<and> 0 < mp_min_data_files p \<and>
     72 \<le> mp_orphan_hours p \<and> 0 \<le> mp_retention_hours p"
  by (auto simp: policy_post_init_def split: if_splits)

lemma plan_maintenance_Inr:
  "plan_maintenance env path p report = Inr plan \<longleftrightarrow>
     (\<exists>source g. validate_metadata_report report = Inr source \<and> gather p (the_dict report) source = Inr g \<and>
        plan = assemble_plan p source g \<and>
        validate_report_schema env (PDict (plan_as_dict plan)) path = Inr ())"
  by (auto simp: plan_maintenance_def Let_def result_simps)

lemma assemble_plan_fields [simp]:
  "pl_checks (assemble_plan p source g) = fst g" "pl_actions (assemble_plan p source g) = snd g"
  "pl_source (assemble_plan p source g) = source" "pl_status (assemble_plan p source g) = plan_status g"
  "pl_table (assemble_plan p source g) = the_str (get source ''table'')"
  "pl_schema_version (assemble_plan p source g) = ''1.0''"
  by (simp_all add: assemble_plan_def Let_def)

end
