(* ===== verification/Maintenance_Executor.thy ===== *)
theory Maintenance_Executor
  imports Py_Json
begin

text \<open>
  \<open>iceberg/executor.py\<close>: the execution of one action of a maintenance plan through a SQL
  engine. The engine is a third-party service: it answers every statement with rows or an
  exception, as a function of all statements issued so far. The state of an action is the list
  of the statements issued.
\<close>

section \<open>The engine\<close>

type_synonym sql_engine = "string list \<Rightarrow> pyexn + pydict list"
type_synonym 'a spark = "(pyexn, 'a, string list) act"

definition query_sql :: "sql_engine \<Rightarrow> string \<Rightarrow> pydict list spark" where
  "query_sql engine sql issued = Some (engine (issued @ [sql]), issued @ [sql])"

section \<open>Reading plans, reports and rows\<close>

definition contract :: "string \<Rightarrow> 'a result" where
  "contract m = raise ExecutionContractError m"

definition exec_object :: "pydict \<Rightarrow> string \<Rightarrow> pydict result" where
  "exec_object value key = (case get value key of PDict d \<Rightarrow> Inr d | _ \<Rightarrow> contract (key @ '' must be an object''))"

definition exec_string :: "pydict \<Rightarrow> string \<Rightarrow> string result" where
  "exec_string value key = (if nonempty_str (get value key) then Inr (the_str (get value key))
     else contract (key @ '' must be a non-empty string''))"

definition exec_integer :: "pydict \<Rightarrow> string \<Rightarrow> int result" where
  "exec_integer value key =
     (case get value key of
        PInt i \<Rightarrow> if i < 0 then contract (key @ '' must be a non-negative integer'') else Inr i
      | _ \<Rightarrow> contract (key @ '' must be a non-negative integer''))"

definition positive_bound :: "pydict \<Rightarrow> string \<Rightarrow> int result" where
  "positive_bound safety key = bindE (exec_integer safety key) (\<lambda>value.
     if value \<le> 0 then contract (key @ '' must be positive'') else Inr value)"

definition string_array :: "pydict \<Rightarrow> string \<Rightarrow> string list result" where
  "string_array value key = (let items = get value key in
     if \<not> is_seq items then contract (key @ '' must be an array'')
     else if list_ex (\<lambda>v. \<not> is_str v \<or> \<not> is_digit_str (the_str v)) (elems items)
     then contract (key @ '' must contain decimal snapshot IDs'')
     else Inr (map the_str (elems items)))"

record table_state =
  ts_snapshot :: string
  ts_count :: int
  ts_ids :: "string list"
  ts_files :: int
  ts_records :: int
  ts_manifests :: int

record execution_report =
  xr_schema_version :: string
  xr_status :: string
  xr_plan_id :: string
  xr_action_id :: string
  xr_action_type :: string
  xr_table :: string
  xr_applied :: bool
  xr_before :: table_state
  xr_after :: table_state
  xr_result :: "(string \<times> int) list"
  xr_candidate_set_id :: "string option"
  xr_candidate_files :: "string list"

definition state_dict :: "table_state \<Rightarrow> pydict" where
  "state_dict s =
     [(''snapshot_id'', PStr (ts_snapshot s)), (''snapshot_count'', PInt (ts_count s)),
      (''snapshot_ids'', PTuple (map PStr (ts_ids s))), (''data_file_count'', PInt (ts_files s)),
      (''record_count'', PInt (ts_records s)), (''manifest_count'', PInt (ts_manifests s))]"

definition execution_as_dict :: "execution_report \<Rightarrow> pydict" where
  "execution_as_dict r =
     [(''schema_version'', PStr (xr_schema_version r)), (''status'', PStr (xr_status r)),
      (''plan_id'', PStr (xr_plan_id r)), (''action_id'', PStr (xr_action_id r)),
      (''action_type'', PStr (xr_action_type r)), (''table'', PStr (xr_table r)),
      (''applied'', PBool (xr_applied r)), (''before'', PDict (state_dict (xr_before r))),
      (''after'', PDict (state_dict (xr_after r))),
      (''procedure_result'', PDict (map (\<lambda>(k, i). (k, PInt i)) (xr_result r))),
      (''candidate_set_id'', case xr_candidate_set_id r of None \<Rightarrow> PNone | Some i \<Rightarrow> PStr i),
      (''candidate_files'', PTuple (map PStr (xr_candidate_files r)))]"

definition make_report ::
    "string \<Rightarrow> string \<Rightarrow> pydict \<Rightarrow> string \<Rightarrow> bool \<Rightarrow> table_state \<Rightarrow> table_state
     \<Rightarrow> (string \<times> int) list \<Rightarrow> string option \<Rightarrow> string list \<Rightarrow> execution_report result" where
  "make_report status plan_id action table applied before after outcome set_id files =
     bindE (exec_string action ''action_id'') (\<lambda>action_id.
     bindE (exec_string action ''action_type'') (\<lambda>action_type. Inr
       \<lparr>xr_schema_version = ''1.0'', xr_status = status, xr_plan_id = plan_id, xr_action_id = action_id,
        xr_action_type = action_type, xr_table = table, xr_applied = applied, xr_before = before,
        xr_after = after, xr_result = outcome, xr_candidate_set_id = set_id, xr_candidate_files = files\<rparr>))"

section \<open>SQL text\<close>

definition sql_identifier :: "string \<Rightarrow> string" where
  "sql_identifier value = ''`'' @ replace ''`'' ''``'' value @ ''`''"

definition sql_string :: "string \<Rightarrow> string" where
  "sql_string value = replace [CHR 0x27] [CHR 0x27, CHR 0x27] value"

definition sql_quoted :: "string \<Rightarrow> string" where
  "sql_quoted value = CHR 0x27 # value @ [CHR 0x27]"

definition table_parts :: "string \<Rightarrow> (string \<times> string \<times> string) result" where
  "table_parts table =
     (let parts = split_char (CHR ''.'') table in
      if length parts \<noteq> 3 \<or> list_ex (\<lambda>p. p = [] \<or> CHR 0x00 \<in> set p) parts
      then contract ''table must contain catalog, namespace, and name''
      else Inr (parts ! 0, parts ! 1, parts ! 2))"

definition metadata_table :: "string \<Rightarrow> string \<Rightarrow> string result" where
  "metadata_table table suffix = bindE (table_parts table) (\<lambda>(catalog, namespace, name).
     Inr (join ''.'' [sql_identifier catalog, sql_identifier namespace, sql_identifier name, suffix]))"

definition table_argument :: "string \<Rightarrow> string \<Rightarrow> string" where
  "table_argument namespace name = sql_string (namespace @ ''.'' @ name)"

text \<open>\<open>CALL catalog.system.procedure(table => 'namespace.name', ...)\<close>\<close>

definition call_sql :: "string \<Rightarrow> string \<Rightarrow> string \<Rightarrow> string result" where
  "call_sql table procedure rest = bindE (table_parts table) (\<lambda>(catalog, namespace, name).
     Inr (''CALL '' @ sql_identifier catalog @ ''.system.'' @ procedure @ ''(table => '' @
       sql_quoted (table_argument namespace name) @ '', '' @ rest @ '')''))"

definition rewrite_data_files_sql :: "string \<Rightarrow> int \<Rightarrow> int \<Rightarrow> string result" where
  "rewrite_data_files_sql table file_size max_files = call_sql table ''rewrite_data_files''
     (''options => map('' @ join '', '' (map sql_quoted
       [''target-file-size-bytes'', dec_int file_size, ''min-input-files'', ''2'',
        ''max-concurrent-file-group-rewrites'', ''1'', ''partial-progress.enabled'', ''false'',
        ''max-files-to-rewrite'', dec_int max_files]) @ '')'')"

definition rewrite_manifests_sql :: "string \<Rightarrow> string result" where
  "rewrite_manifests_sql table = call_sql table ''rewrite_manifests'' ''use_caching => false''"

definition expire_snapshots_sql :: "string \<Rightarrow> string list \<Rightarrow> string result" where
  "expire_snapshots_sql table snapshot_ids = call_sql table ''expire_snapshots''
     (''snapshot_ids => ARRAY('' @ join '', '' snapshot_ids @
      ''), max_concurrent_deletes => 1, stream_results => true, clean_expired_metadata => false'')"

text \<open>A naive UTC time with a blank and six digits of a second.\<close>

definition iso_micro :: "int \<Rightarrow> string" where
  "iso_micro us = (let day = us mod day_us; s = day div 1000000 in
     iso_date us @ '' '' @ pad_nat 2 (nat (s div 3600)) @ '':'' @ pad_nat 2 (nat (s div 60 mod 60)) @ '':'' @
     pad_nat 2 (nat (s mod 60)) @ ''.'' @ pad_nat 6 (nat (day mod 1000000)))"

definition timestamp_literal :: "string \<Rightarrow> string result" where
  "timestamp_literal value =
     (case fromisoformat (replace ''Z'' ''+00:00'' value) of
        None \<Rightarrow> contract ''older_than must be an ISO timestamp''
      | Some t \<Rightarrow> if \<not> is_aware t then contract ''older_than must include a timezone''
          else bindE (to_utc t) (\<lambda>u. Inr (''TIMESTAMP '' @ sql_quoted (iso_micro (dt_local u)))))"

text \<open>The table is parsed before the time.\<close>

definition inspect_orphan_files_sql :: "string \<Rightarrow> string \<Rightarrow> string result" where
  "inspect_orphan_files_sql table older_than = bindE (table_parts table) (\<lambda>_.
     bindE (timestamp_literal older_than) (\<lambda>t. call_sql table ''remove_orphan_files''
       (''older_than => '' @ t @ '', dry_run => true, stream_results => false, prefix_listing => true, '' @
        ''prefix_mismatch_mode => '' @ sql_quoted ''ERROR'')))"

definition create_candidate_view_sql :: "string \<Rightarrow> string \<Rightarrow> string list \<Rightarrow> string result" where
  "create_candidate_view_sql view older_than candidates =
     bindE (timestamp_literal older_than) (\<lambda>t. Inr (
       ''CREATE OR REPLACE TEMP VIEW '' @ sql_identifier view @ '' AS SELECT file_path, '' @ t @
       '' - INTERVAL 1 SECOND AS last_modified FROM VALUES '' @
       join '', '' (map (\<lambda>path. ''('' @ sql_quoted (sql_string path) @ '')'') candidates) @
       '' AS candidates(file_path)''))"

definition remove_approved_orphans_sql :: "string \<Rightarrow> string \<Rightarrow> string \<Rightarrow> bool \<Rightarrow> string result" where
  "remove_approved_orphans_sql table older_than view dry_run = bindE (table_parts table) (\<lambda>_.
     bindE (timestamp_literal older_than) (\<lambda>t. call_sql table ''remove_orphan_files''
       (''older_than => '' @ t @ '', dry_run => '' @ (if dry_run then ''true'' else ''false'') @
        '', max_concurrent_deletes => 1, stream_results => false, file_list_view => '' @ sql_quoted view @
        '', prefix_mismatch_mode => '' @ sql_quoted ''ERROR'')))"

definition drop_view_sql :: "string \<Rightarrow> string" where
  "drop_view_sql view = ''DROP VIEW IF EXISTS '' @ sql_identifier view"

section \<open>Checks\<close>

fun unhashable :: "pyval \<Rightarrow> bool" where
  "unhashable (PList xs) = True"
| "unhashable (PDict d) = True"
| "unhashable (PTuple xs) = list_ex unhashable xs"
| "unhashable _ = False"

definition action_types :: "string list" where
  "action_types = [''rewrite_data_files'', ''rewrite_manifests'', ''expire_snapshots'', ''inspect_orphan_files'']"

definition select_action :: "pyval \<Rightarrow> string \<Rightarrow> (string \<times> string \<times> pydict) result" where
  "select_action plan action_id =
     (case plan of
        PDict p \<Rightarrow>
          if get p ''schema_version'' \<noteq> PStr ''1.0'' then contract ''unsupported maintenance plan schema_version''
          else bindE (exec_string p ''plan_id'') (\<lambda>plan_id.
            bindE (exec_string p ''table'') (\<lambda>table.
            if \<not> is_seq (get p ''actions'') then contract ''actions must be an array''
            else (case filter (\<lambda>a. is_dict a \<and> get (the_dict a) ''action_id'' = PStr action_id)
                         (elems (get p ''actions'')) of
                [a] \<Rightarrow> (let action = the_dict a; kind = get action ''action_type'' in
                  if unhashable kind then raise TypeError []
                  else if kind \<notin> set (map PStr action_types) then contract ''unsupported action type''
                  else Inr (plan_id, table, action))
              | _ \<Rightarrow> contract ''action ID must select exactly one action'')))
      | _ \<Rightarrow> contract ''unsupported maintenance plan schema_version'')"

definition verify_approvals :: "string \<Rightarrow> string \<Rightarrow> string option \<Rightarrow> string option \<Rightarrow> unit result" where
  "verify_approvals plan_id expected_snapshot approved_plan approved_snapshot =
     (if approved_plan \<noteq> Some plan_id then contract ''approved plan ID does not match''
      else if approved_snapshot \<noteq> Some expected_snapshot
      then contract ''approved snapshot ID does not match'' else Inr ())"

definition orphan_locations :: "pyval list \<Rightarrow> string list result" where
  "orphan_locations locations =
     bindE (mapE (\<lambda>l. if \<not> nonempty_str l \<or> CHR 0x00 \<in> set (the_str l)
         then contract ''orphan inventory returned an invalid file location'' else Inr (the_str l)) locations)
       (\<lambda>candidates. if \<not> distinct candidates then contract ''orphan inventory returned duplicate locations''
         else Inr (sort candidates))"

definition orphan_files :: "pydict list \<Rightarrow> string list result" where
  "orphan_files rows = orphan_locations (map (\<lambda>row. get row ''orphan_file_location'') rows)"

definition reported_state :: "pydict \<Rightarrow> table_state result" where
  "reported_state value =
     bindE (string_array value ''snapshot_ids'') (\<lambda>ids.
     bindE (exec_string value ''snapshot_id'') (\<lambda>current.
     bindE (exec_integer value ''snapshot_count'') (\<lambda>snapshots.
     bindE (exec_integer value ''data_file_count'') (\<lambda>files.
     bindE (exec_integer value ''record_count'') (\<lambda>records.
     bindE (exec_integer value ''manifest_count'') (\<lambda>manifests.
       if snapshots \<noteq> int (length ids) \<or> current \<notin> set ids
       then contract ''candidate report contains an invalid table state''
       else Inr \<lparr>ts_snapshot = current, ts_count = snapshots, ts_ids = ids, ts_files = files,
         ts_records = records, ts_manifests = manifests\<rparr>))))))"

definition candidate_set_id :: "string \<Rightarrow> string \<Rightarrow> string list \<Rightarrow> string" where
  "candidate_set_id table older_than candidates = content_id ''orphans'' (PDict
     [(''table'', PStr table), (''older_than'', PStr older_than), (''files'', PTuple (map PStr candidates))])"

definition approved_orphan_candidates ::
    "pyval \<Rightarrow> string \<Rightarrow> pydict \<Rightarrow> string \<Rightarrow> string \<Rightarrow> table_state \<Rightarrow> string option \<Rightarrow> int \<Rightarrow> string list result" where
  "approved_orphan_candidates report plan_id action table older_than current approved_set max_candidates =
     (if \<not> is_dict report \<or> get (the_dict report) ''schema_version'' \<noteq> PStr ''1.0''
      then contract ''approved candidate report is required''
      else (let r = the_dict report in
        bindE (exec_string action ''action_id'') (\<lambda>action_id.
        if list_ex (\<lambda>(k, v). \<not> py_eq (get r k) v)
          [(''status'', PStr ''inspection_complete''), (''plan_id'', PStr plan_id),
           (''action_id'', PStr action_id), (''action_type'', PStr ''inspect_orphan_files''),
           (''table'', PStr table), (''applied'', PBool False)]
        then contract ''candidate report does not match the selected action''
        else bindE (bindE (exec_object r ''before'') reported_state) (\<lambda>before.
          bindE (bindE (exec_object r ''after'') reported_state) (\<lambda>after.
          if before \<noteq> after \<or> before \<noteq> current then contract ''table state changed since orphan inspection''
          else if \<not> is_seq (get r ''candidate_files'') then contract ''candidate_files must be an array''
          else bindE (orphan_locations (elems (get r ''candidate_files''))) (\<lambda>candidates.
            if max_candidates < int (length candidates)
            then contract ''approved candidate set exceeds the safety bound''
            else bindE (bindE (exec_object r ''procedure_result'') (\<lambda>x. exec_integer x ''orphan_file_count''))
              (\<lambda>reported.
              if reported \<noteq> int (length candidates)
              then contract ''candidate report count does not match its files''
              else (let expected = candidate_set_id table older_than candidates in
                if get r ''candidate_set_id'' \<noteq> PStr expected
                then contract ''candidate report digest does not match its files''
                else if approved_set \<noteq> Some expected
                then contract ''approved candidate set ID does not match''
                else Inr candidates))))))))"

definition procedure_keys :: "string \<Rightarrow> string list" where
  "procedure_keys action_type =
     (if action_type = ''rewrite_manifests'' then [''rewritten_manifests_count'', ''added_manifests_count'']
      else if action_type = ''rewrite_data_files''
      then [''rewritten_data_files_count'', ''added_data_files_count'', ''rewritten_bytes_count'',
            ''failed_data_files_count'']
      else [''deleted_data_files_count'', ''deleted_position_delete_files_count'',
            ''deleted_equality_delete_files_count'', ''deleted_manifest_files_count'',
            ''deleted_manifest_lists_count'', ''deleted_statistics_files_count''])"

definition procedure_result :: "string \<Rightarrow> pydict \<Rightarrow> (string \<times> int) list result" where
  "procedure_result action_type row =
     mapE (\<lambda>key. bindE (exec_integer row key) (\<lambda>i. Inr (key, i))) (procedure_keys action_type)"

definition count_of :: "(string \<times> int) list \<Rightarrow> string \<Rightarrow> int" where
  "count_of outcome key = (case map_of outcome key of Some i \<Rightarrow> i | None \<Rightarrow> 0)"

text \<open>Where the state after an action does not fit its result.\<close>

definition reconcile ::
    "string \<Rightarrow> pydict \<Rightarrow> table_state \<Rightarrow> table_state \<Rightarrow> (string \<times> int) list \<Rightarrow> string result" where
  "reconcile action_type action before after outcome =
     (let failed = Inr ''reconciliation_failed''; done = Inr ''succeeded'';
          unchanged = (if before = after then Inr ''noop'' else failed) in
      if ts_records before \<noteq> ts_records after then failed
      else if action_type = ''expire_snapshots''
      then bindE (bindE (exec_object action ''parameters'') (\<lambda>x. string_array x ''snapshot_ids'')) (\<lambda>targets.
        if ts_snapshot after \<noteq> ts_snapshot before then failed
        else if ts_files before \<noteq> ts_files after then failed
        else if ts_manifests before \<noteq> ts_manifests after then failed
        else if set (ts_ids after) \<noteq> set (ts_ids before) - set targets then failed
        else if ts_count before \<le> ts_count after then failed
        else done)
      else if action_type = ''rewrite_manifests''
      then (let rewritten = count_of outcome ''rewritten_manifests_count'' in
        if ts_files before \<noteq> ts_files after then failed
        else if rewritten = 0 then unchanged
        else if ts_snapshot after = ts_snapshot before then failed
        else if ts_manifests before \<le> ts_manifests after then failed
        else if rewritten \<le> count_of outcome ''added_manifests_count'' then failed
        else done)
      else (let rewritten = count_of outcome ''rewritten_data_files_count'' in
        if count_of outcome ''failed_data_files_count'' \<noteq> 0 then failed
        else if rewritten = 0 then unchanged
        else if ts_snapshot after = ts_snapshot before then failed
        else if ts_files before \<le> ts_files after then failed
        else done))"

section \<open>Execution\<close>

definition issue :: "sql_engine \<Rightarrow> string result \<Rightarrow> pydict list spark" where
  "issue engine sql = bind_io (lift_io sql) (query_sql engine)"

definition state_statement :: "string \<Rightarrow> string \<Rightarrow> string \<Rightarrow> string \<Rightarrow> string result" where
  "state_statement select suffix order table = bindE (metadata_table table suffix)
     (\<lambda>name. Inr (''SELECT '' @ select @ '' FROM '' @ name @ order))"

definition state_of_rows ::
    "pydict list \<Rightarrow> pydict list \<Rightarrow> pydict list \<Rightarrow> pydict list \<Rightarrow> table_state result" where
  "state_of_rows current snapshots files manifests =
     (if length current \<noteq> 1 \<or> snapshots = [] \<or> length files \<noteq> 1 \<or> length manifests \<noteq> 1
      then contract ''table state queries returned an invalid shape''
      else bindE (mapE (\<lambda>row. bindE (item row ''snapshot_id'') (\<lambda>v. Inr (py_str v))) snapshots) (\<lambda>ids.
        bindE (item (hd current) ''snapshot_id'') (\<lambda>v.
        if py_str v \<notin> set ids then contract ''current snapshot is absent from snapshot history''
        else bindE (exec_integer (hd files) ''data_file_count'') (\<lambda>data_files.
          bindE (exec_integer (hd files) ''record_count'') (\<lambda>records.
          bindE (exec_integer (hd manifests) ''manifest_count'') (\<lambda>manifest_count.
          Inr \<lparr>ts_snapshot = py_str v, ts_count = int (length ids), ts_ids = ids, ts_files = data_files,
            ts_records = records, ts_manifests = manifest_count\<rparr>))))))"

definition read_state :: "sql_engine \<Rightarrow> string \<Rightarrow> table_state spark" where
  "read_state engine table =
     bind_io (issue engine (state_statement ''snapshot_id'' ''history''
       '' ORDER BY made_current_at DESC LIMIT 1'' table)) (\<lambda>current.
     bind_io (issue engine (state_statement ''snapshot_id'' ''snapshots''
       '' ORDER BY committed_at DESC'' table)) (\<lambda>snapshots.
     bind_io (issue engine (state_statement
       ''count(*) AS data_file_count, coalesce(sum(record_count), 0) AS record_count'' ''data_files'' [] table)) (\<lambda>files.
     bind_io (issue engine (state_statement ''count(*) AS manifest_count'' ''manifests'' [] table)) (\<lambda>manifests.
       lift_io (state_of_rows current snapshots files manifests)))))"

definition expiry_statement :: "string \<Rightarrow> pydict \<Rightarrow> pydict \<Rightarrow> table_state \<Rightarrow> string result" where
  "expiry_statement table action safety before =
     bindE (bindE (exec_object action ''parameters'') (\<lambda>x. string_array x ''snapshot_ids'')) (\<lambda>ids.
     bindE (string_array safety ''expected_history_snapshot_ids'') (\<lambda>expected.
     bindE (positive_bound safety ''max_snapshots_to_expire'') (\<lambda>most.
       if ids = [] \<or> most < int (length ids) then contract ''snapshot expiration batch exceeds safety bound''
       else if \<not> distinct ids then contract ''snapshot expiration IDs must be unique''
       else if set (ts_ids before) \<noteq> set expected
       then contract ''snapshot history does not match the approved plan''
       else if ts_snapshot before \<in> set ids then contract ''current snapshot cannot be expired''
       else if \<not> set ids \<subseteq> set (ts_ids before) then contract ''expiration target is absent from live history''
       else expire_snapshots_sql table ids)))"

definition action_statement :: "string \<Rightarrow> string \<Rightarrow> pydict \<Rightarrow> pydict \<Rightarrow> table_state \<Rightarrow> string result" where
  "action_statement action_type table action safety before =
     (if action_type = ''rewrite_data_files''
      then bindE (positive_bound safety ''max_files_to_rewrite'') (\<lambda>max_files.
        bindE (bindE (exec_object action ''parameters'') (\<lambda>x. exec_integer x ''target_file_size_bytes''))
          (\<lambda>file_size. if file_size \<le> 0 then contract ''target_file_size_bytes must be positive''
            else rewrite_data_files_sql table file_size max_files))
      else if action_type = ''rewrite_manifests''
      then bindE (positive_bound safety ''max_manifests_to_rewrite'') (\<lambda>max_manifests.
        if max_manifests < ts_manifests before then contract ''manifest count exceeds the rewrite safety bound''
        else rewrite_manifests_sql table)
      else if action_type \<noteq> ''expire_snapshots'' then contract ''unsupported action type''
      else expiry_statement table action safety before)"

text \<open>The removal of an approved candidate set through a temporary view.\<close>

definition remove_through_view ::
    "sql_engine \<Rightarrow> string \<Rightarrow> string \<Rightarrow> string \<Rightarrow> string list \<Rightarrow> string list spark" where
  "remove_through_view engine table older_than view candidates =
     finally_io
       (bind_io (issue engine (remove_approved_orphans_sql table older_than view True)) (\<lambda>rows.
        bind_io (lift_io (orphan_files rows)) (\<lambda>verified.
        if verified \<noteq> candidates
        then lift_io (contract (''approved candidate set is no longer entirely orphaned: approved='' @
          py_repr (PTuple (map PStr candidates)) @ '', current='' @ py_repr (PTuple (map PStr verified))))
        else bind_io (issue engine (remove_approved_orphans_sql table older_than view False)) (\<lambda>rows.
          lift_io (orphan_files rows)))))
       (query_sql engine (drop_view_sql view))"

definition remove_orphan_files ::
    "sql_engine \<Rightarrow> string \<Rightarrow> pydict \<Rightarrow> string \<Rightarrow> string \<Rightarrow> table_state \<Rightarrow> string list \<Rightarrow> execution_report spark" where
  "remove_orphan_files engine plan_id action table older_than before candidates =
     (let set_id = candidate_set_id table older_than candidates;
          view = ''lakehouse_ops_'' @ replace ''-'' ''_'' set_id in
      if candidates = []
      then lift_io (make_report ''noop'' plan_id action table False before before
        [(''orphan_file_count'', 0), (''deleted_orphan_file_count'', 0)] (Some set_id) [])
      else bind_io (issue engine (create_candidate_view_sql view older_than candidates)) (\<lambda>_.
        bind_io (remove_through_view engine table older_than view candidates) (\<lambda>deleted.
        bind_io (read_state engine table) (\<lambda>after.
          lift_io (make_report
            (if deleted = candidates \<and> after = before then ''succeeded'' else ''reconciliation_failed'')
            plan_id action table True before after
            [(''orphan_file_count'', int (length candidates)),
             (''deleted_orphan_file_count'', int (length deleted))] (Some set_id) candidates)))))"

text \<open>What the caller approves.\<close>

record approvals =
  ap_apply :: bool
  ap_plan_id :: "string option"
  ap_snapshot_id :: "string option"
  ap_candidate_set_id :: "string option"
  ap_candidate_report :: pyval

definition run_orphans ::
    "sql_engine \<Rightarrow> approvals \<Rightarrow> string \<Rightarrow> string \<Rightarrow> pydict \<Rightarrow> pydict \<Rightarrow> string \<Rightarrow> table_state \<Rightarrow> execution_report spark" where
  "run_orphans engine ap plan_id table action safety expected_snapshot before =
     bind_io (lift_io (bindE (exec_object action ''parameters'') (\<lambda>x. exec_string x ''older_than''))) (\<lambda>older_than.
       if ap_apply ap
       then bind_io (lift_io (verify_approvals plan_id expected_snapshot (ap_plan_id ap) (ap_snapshot_id ap))) (\<lambda>_.
         bind_io (lift_io (positive_bound safety ''max_orphan_files'')) (\<lambda>most.
         bind_io (lift_io (approved_orphan_candidates (ap_candidate_report ap) plan_id action table older_than
           before (ap_candidate_set_id ap) most)) (\<lambda>candidates.
           remove_orphan_files engine plan_id action table older_than before candidates)))
       else bind_io (issue engine (inspect_orphan_files_sql table older_than)) (\<lambda>rows.
         bind_io (lift_io (orphan_files rows)) (\<lambda>candidates.
         bind_io (lift_io (positive_bound safety ''max_orphan_files'')) (\<lambda>most.
           if most < int (length candidates)
           then lift_io (contract ''orphan inventory exceeds the review safety bound'')
           else lift_io (make_report ''inspection_complete'' plan_id action table False before before
             [(''orphan_file_count'', int (length candidates))]
             (Some (candidate_set_id table older_than candidates)) candidates)))))"

definition run_procedure ::
    "sql_engine \<Rightarrow> string \<Rightarrow> string \<Rightarrow> string \<Rightarrow> pydict \<Rightarrow> pydict \<Rightarrow> table_state \<Rightarrow> execution_report spark" where
  "run_procedure engine plan_id action_type table action safety before =
     bind_io (issue engine (action_statement action_type table action safety before)) (\<lambda>rows.
       if length rows \<noteq> 1 then lift_io (contract (action_type @ '' must return exactly one row''))
       else bind_io (lift_io (procedure_result action_type (hd rows))) (\<lambda>outcome.
         bind_io (read_state engine table) (\<lambda>after.
         bind_io (lift_io (reconcile action_type action before after outcome)) (\<lambda>status.
           lift_io (make_report status plan_id action table True before after outcome None [])))))"

text \<open>What follows the first reading of the table's state.\<close>

definition act_on_state ::
    "sql_engine \<Rightarrow> approvals \<Rightarrow> string \<Rightarrow> string \<Rightarrow> pydict \<Rightarrow> pydict \<Rightarrow> string \<Rightarrow> string \<Rightarrow> table_state \<Rightarrow> execution_report spark" where
  "act_on_state engine ap plan_id table action safety snap action_type before =
     (if ts_snapshot before \<noteq> snap
      then lift_io (contract ''current snapshot does not match the plan safety bound'')
      else if action_type = ''inspect_orphan_files''
      then run_orphans engine ap plan_id table action safety snap before
      else if \<not> ap_apply ap
      then lift_io (make_report ''dry_run'' plan_id action table False before before [] None [])
      else bind_io (lift_io (verify_approvals plan_id snap (ap_plan_id ap) (ap_snapshot_id ap)))
        (\<lambda>_. run_procedure engine plan_id action_type table action safety before))"

definition run_maintenance ::
    "sql_engine \<Rightarrow> pyval \<Rightarrow> string \<Rightarrow> approvals \<Rightarrow> execution_report spark" where
  "run_maintenance engine plan action_id ap =
     bind_io (lift_io (select_action plan action_id)) (\<lambda>(plan_id, table, action).
     bind_io (lift_io (exec_string action ''action_type'')) (\<lambda>action_type.
     bind_io (lift_io (exec_object action ''safety_bounds'')) (\<lambda>safety.
     bind_io (lift_io (exec_string safety ''expected_snapshot_id'')) (\<lambda>snap.
     if get safety ''dry_run_required'' \<noteq> PBool True then lift_io (contract ''action must require a dry run'')
     else bind_io (lift_io (exec_integer safety ''max_concurrent_jobs'')) (\<lambda>jobs.
       if jobs \<noteq> 1 then lift_io (contract ''max_concurrent_jobs must equal one'')
       else bind_io (read_state engine table)
         (act_on_state engine ap plan_id table action safety snap action_type))))))"

section \<open>Which statements an action issues\<close>

lemma query_sql_iff [io_simps]:
  "query_sql engine sql s = Some (r, s') \<longleftrightarrow> s' = s @ [sql] \<and> engine s' = r"
  by (auto simp: query_sql_def)

text \<open>An action issues only statements with \<open>p\<close>, after those issued before.\<close>

definition issues :: "(string \<Rightarrow> bool) \<Rightarrow> 'a spark \<Rightarrow> bool" where
  "issues p m \<longleftrightarrow> (\<forall>s. \<exists>r more. m s = Some (r, s @ more) \<and> list_all p more)"

named_theorems issues_intros \<open>the statements of composed actions\<close>

lemma issuesE:
  assumes "issues p m"
  obtains r more where "m s = Some (r, s @ more)" "list_all p more"
  using assms unfolding issues_def by blast

lemma issues_lift [issues_intros]: "issues p (lift_io r)"
  unfolding issues_def lift_io_def by (intro allI exI [of _ r] exI [of _ "[]"]) simp

lemma issues_return [issues_intros]: "issues p (return_io x)"
  unfolding issues_def return_io_def by (intro allI exI [of _ "Inr x"] exI [of _ "[]"]) simp

lemma issues_query [issues_intros]: "p sql \<Longrightarrow> issues p (query_sql engine sql)"
  unfolding issues_def query_sql_def by simp

lemma issues_bind [issues_intros]:
  assumes m: "issues p m" and f: "\<And>x. issues p (f x)"
  shows "issues p (bind_io m f)"
  unfolding issues_def
proof
  fix s
  obtain r more where r: "m s = Some (r, s @ more)" "list_all p more" using m by (rule issuesE)
  show "\<exists>r more. bind_io m f s = Some (r, s @ more) \<and> list_all p more"
  proof (cases r)
    case (Inl e)
    then show ?thesis using r by (simp add: bind_io_def)
  next
    case (Inr x)
    obtain r' more' where "f x (s @ more) = Some (r', (s @ more) @ more')" "list_all p more'"
      using f [of x] by (rule issuesE)
    then have "bind_io m f s = Some (r', s @ (more @ more'))" "list_all p (more @ more')"
      using Inr r by (simp_all add: bind_io_def)
    then show ?thesis by blast
  qed
qed

lemma issues_bind_lift:
  assumes "\<And>x. r = Inr x \<Longrightarrow> issues p (f x)"
  shows "issues p (bind_io (lift_io r) f)"
proof (cases r)
  case (Inl e)
  then have "bind_io (lift_io r) f = lift_io (Inl e)" by (auto simp: bind_io_def lift_io_def)
  then show ?thesis by (simp add: issues_lift)
next
  case (Inr x)
  then have "bind_io (lift_io r) f = f x" by (auto simp: bind_io_def lift_io_def)
  then show ?thesis using assms Inr by simp
qed

lemma issues_issue: "(\<And>q. sql = Inr q \<Longrightarrow> p q) \<Longrightarrow> issues p (issue engine sql)"
  unfolding issue_def by (rule issues_bind_lift) (auto intro: issues_query)

lemma issues_mono: "issues p m \<Longrightarrow> (\<And>x. p x \<Longrightarrow> q x) \<Longrightarrow> issues q m"
  unfolding issues_def by (meson list.pred_mono_strong)

lemma issues_finally:
  assumes "issues p m" "issues p f"
  shows "issues p (finally_io m f)"
  unfolding issues_def
proof
  fix s
  obtain r more where r: "m s = Some (r, s @ more)" "list_all p more" using assms(1) by (rule issuesE)
  obtain r' more' where r': "f (s @ more) = Some (r', (s @ more) @ more')" "list_all p more'"
    using assms(2) by (rule issuesE)
  then have "finally_io m f s = Some (case r' of Inl e \<Rightarrow> Inl e | Inr _ \<Rightarrow> r, s @ (more @ more'))"
    using r by (auto simp: finally_io_def split: sum.splits)
  then show "\<exists>r more. finally_io m f s = Some (r, s @ more) \<and> list_all p more"
    using r(2) r'(2) by (metis list_all_append)
qed

text \<open>The state of a table is read with four \<open>SELECT\<close> statements.\<close>

definition is_select :: "string \<Rightarrow> bool" where
  "is_select sql = starts_with ''SELECT '' sql"

lemma state_statement_select: "state_statement sel suffix order table = Inr q \<Longrightarrow> is_select q"
  by (auto simp: state_statement_def result_simps is_select_def starts_with_iff)

lemma read_state_issues: "issues is_select (read_state engine table)"
  unfolding read_state_def
  by (intro issues_bind issues_lift issues_issue state_statement_select)

lemma call_not_select: "call_sql table proc rest = Inr q \<Longrightarrow> \<not> is_select q"
  by (auto simp: call_sql_def result_simps is_select_def)

text \<open>A contract that holds.\<close>

lemma contract_neq [simp]: "contract m \<noteq> Inr x" "Inr x \<noteq> contract m"
  by (simp_all add: contract_def)

lemma verify_approvals_Inr [result_simps]:
  "verify_approvals i snap ap as = Inr u \<longleftrightarrow> ap = Some i \<and> as = Some snap"
  by (auto simp: verify_approvals_def)

lemma exec_object_Inr [result_simps]: "exec_object d k = Inr x \<longleftrightarrow> get d k = PDict x"
  by (auto simp: exec_object_def split: pyval.splits)

lemma exec_string_Inr [result_simps]: "exec_string d k = Inr s \<longleftrightarrow> get d k = PStr s \<and> s \<noteq> []"
  by (cases "get d k") (auto simp: exec_string_def nonempty_str_def is_str_def the_str_def)

lemma exec_integer_Inr [result_simps]: "exec_integer d k = Inr i \<longleftrightarrow> get d k = PInt i \<and> 0 \<le> i"
  by (auto simp: exec_integer_def split: pyval.splits)

lemma positive_bound_Inr [result_simps]: "positive_bound d k = Inr i \<longleftrightarrow> get d k = PInt i \<and> 0 < i"
  by (auto simp: positive_bound_def exec_integer_def contract_def raise_def split: pyval.splits)

text \<open>The statements that only read.\<close>

definition reads_only :: "string \<Rightarrow> bool" where
  "reads_only sql \<longleftrightarrow> is_select sql \<or> (\<exists>table older_than. inspect_orphan_files_sql table older_than = Inr sql)"

lemma bind_lift_Some:
  "bind_io (lift_io r) f s = Some (y, s') \<longleftrightarrow>
     (\<exists>e. r = Inl e \<and> y = Inl e \<and> s' = s) \<or> (\<exists>x. r = Inr x \<and> f x s = Some (y, s'))"
  by (cases r) (auto simp: bind_io_def lift_io_def)

text \<open>The ways a run can go: refused before any statement, or with the state of the table read.\<close>

lemma run_maintenance_cases:
  assumes "run_maintenance engine plan action_id ap s = Some (r, s')"
  obtains (refused) e where "r = Inl e" "s' = s"
    | (unread) e plan_id table action where "select_action plan action_id = Inr (plan_id, table, action)"
        "read_state engine table s = Some (Inl e, s')" "r = Inl e"
    | (read) plan_id table action safety snap action_type before u where
        "select_action plan action_id = Inr (plan_id, table, action)"
        "get action ''action_type'' = PStr action_type" "get action ''safety_bounds'' = PDict safety"
        "get safety ''expected_snapshot_id'' = PStr snap" "get safety ''dry_run_required'' = PBool True"
        "get safety ''max_concurrent_jobs'' = PInt 1"
        "read_state engine table s = Some (Inr before, u)"
        "act_on_state engine ap plan_id table action safety snap action_type before u = Some (r, s')"
proof -
  from assms consider (stop) e where "r = Inl e" "s' = s"
    | (go) plan_id table action safety snap action_type where
        "select_action plan action_id = Inr (plan_id, table, action)"
        "get action ''action_type'' = PStr action_type" "get action ''safety_bounds'' = PDict safety"
        "get safety ''expected_snapshot_id'' = PStr snap" "get safety ''dry_run_required'' = PBool True"
        "get safety ''max_concurrent_jobs'' = PInt 1"
        "bind_io (read_state engine table)
           (act_on_state engine ap plan_id table action safety snap action_type) s = Some (r, s')"
    unfolding run_maintenance_def
    by (simp only: bind_lift_Some split_paired_Ex case_prod_conv exec_string_Inr exec_object_Inr exec_integer_Inr
        lift_io_iff if_distrib [where f = "\<lambda>m. m s"] split: if_split_asm) (auto simp: contract_def raise_def)
  then show thesis
  proof cases
    case stop
    then show thesis by (rule refused)
  next
    case go
    from go(7) show thesis
      unfolding bind_io_Some
    proof (elim disjE exE conjE)
      fix e assume "read_state engine table s = Some (Inl e, s')" "r = Inl e"
      with go(1) show thesis by (rule unread)
    next
      fix before u assume "read_state engine table s = Some (Inr before, u)"
        "act_on_state engine ap plan_id table action safety snap action_type before u = Some (r, s')"
      with go(1-6) show thesis by (rule read)
    qed
  qed
qed


text \<open>Without approval an action only reads.\<close>

lemma run_orphans_reads:
  assumes "\<not> (ap_apply ap \<and> ap_plan_id ap = Some plan_id \<and> ap_snapshot_id ap = Some snap)"
  shows "issues reads_only (run_orphans engine ap plan_id table action safety snap before)"
proof (cases "ap_apply ap")
  case True
  with assms have "verify_approvals plan_id snap (ap_plan_id ap) (ap_snapshot_id ap) \<noteq> Inr ()"
    by (simp add: result_simps)
  then show ?thesis unfolding run_orphans_def if_P [OF True]
    by (intro issues_bind_lift) simp
next
  case False
  show ?thesis unfolding run_orphans_def if_not_P [OF False]
    by (intro issues_bind issues_issue issues_lift) (auto simp: reads_only_def intro!: issues_intros)
qed

lemma act_on_state_reads:
  assumes "\<not> (ap_apply ap \<and> ap_plan_id ap = Some plan_id \<and> ap_snapshot_id ap = Some snap \<and> ts_snapshot before = snap)"
  shows "issues reads_only (act_on_state engine ap plan_id table action safety snap action_type before)"
proof (cases "ts_snapshot before = snap")
  case False
  then show ?thesis by (simp add: act_on_state_def issues_intros)
next
  case True
  show ?thesis
  proof (cases "action_type = ''inspect_orphan_files'' \<or> \<not> ap_apply ap")
    case T: True
    have "issues reads_only (run_orphans engine ap plan_id table action safety snap before)"
      by (rule run_orphans_reads) (use assms True in simp)
    then show ?thesis using T by (auto simp: act_on_state_def issues_intros)
  next
    case False
    with assms True have "verify_approvals plan_id snap (ap_plan_id ap) (ap_snapshot_id ap) \<noteq> Inr ()"
      by (simp add: result_simps)
    then have "issues reads_only (bind_io (lift_io (verify_approvals plan_id snap (ap_plan_id ap) (ap_snapshot_id ap)))
        (\<lambda>_. run_procedure engine plan_id action_type table action safety before))"
      by (intro issues_bind_lift) simp
    then show ?thesis using False True by (simp add: act_on_state_def)
  qed
qed

section \<open>Approved runs\<close>

text \<open>A procedure is called by one statement; every other statement of its run is a \<open>SELECT\<close>.\<close>

lemma run_procedure_issues:
  "issues (\<lambda>q. is_select q \<or> action_statement action_type table action safety before = Inr q)
     (run_procedure engine plan_id action_type table action safety before)"
proof -
  let ?p = "\<lambda>q. is_select q \<or> action_statement action_type table action safety before = Inr q"
  have r: "issues ?p (read_state engine table)" by (rule issues_mono [OF read_state_issues]) simp
  have one: "issues ?p (if length rows \<noteq> 1 then lift_io (contract (action_type @ '' must return exactly one row''))
       else bind_io (lift_io (procedure_result action_type (hd rows))) (\<lambda>outcome.
         bind_io (read_state engine table) (\<lambda>after.
         bind_io (lift_io (reconcile action_type action before after outcome)) (\<lambda>status.
           lift_io (make_report status plan_id action table True before after outcome None [])))))" for rows
    by (cases "length rows = 1") (auto intro!: issues_intros r)
  show ?thesis
    unfolding run_procedure_def by (intro issues_bind issues_issue one) simp
qed

text \<open>What an expiry statement may name.\<close>

definition safe_expiry :: "table_state \<Rightarrow> pydict \<Rightarrow> string list \<Rightarrow> bool" where
  "safe_expiry before safety ids \<longleftrightarrow> ids \<noteq> [] \<and> distinct ids \<and> ts_snapshot before \<notin> set ids \<and>
     set ids \<subseteq> set (ts_ids before) \<and>
     (\<exists>most. get safety ''max_snapshots_to_expire'' = PInt most \<and> int (length ids) \<le> most) \<and>
     (\<exists>expected. get safety ''expected_history_snapshot_ids'' \<in> {PList (map PStr expected), PTuple (map PStr expected)} \<and>
        set (ts_ids before) = set expected)"

lemma map_PStr_eq [simp]: "map PStr xs = map PStr ys \<longleftrightarrow> xs = ys"
  by (rule inj_map_eq_map) (simp add: inj_def)

lemma string_array_Inr:
  "string_array d k = Inr ids \<longleftrightarrow>
     get d k \<in> {PList (map PStr ids), PTuple (map PStr ids)} \<and> list_all is_digit_str ids"
proof -
  have strs: "vs = map PStr (map the_str vs)" if "\<not> list_ex (\<lambda>v. \<not> is_str v \<or> \<not> is_digit_str (the_str v)) vs" for vs
    using that by (induction vs) (auto simp: is_str_iff)
  have digits: "\<not> list_ex (\<lambda>v. \<not> is_str v \<or> \<not> is_digit_str (the_str v)) vs \<longleftrightarrow>
      (\<exists>ids. vs = map PStr ids \<and> list_all is_digit_str ids)" for vs
    using strs [of vs] by (auto simp: list_ex_iff list_all_iff intro!: exI [of _ "map the_str vs"])
  show ?thesis
    using digits [of "elems (get d k)"]
    by (cases "get d k") (auto simp: string_array_def contract_def raise_def is_seq_def Let_def comp_def map_idI)
qed

lemma expiry_statement_Inr:
  assumes "expiry_statement table action safety before = Inr q"
  shows "\<exists>ids. safe_expiry before safety ids \<and> expire_snapshots_sql table ids = Inr q \<and>
    (\<exists>params. get action ''parameters'' = PDict params \<and> string_array params ''snapshot_ids'' = Inr ids)"
proof -
  obtain params ids expected most where
      g: "get action ''parameters'' = PDict params" "string_array params ''snapshot_ids'' = Inr ids"
        "string_array safety ''expected_history_snapshot_ids'' = Inr expected"
        "get safety ''max_snapshots_to_expire'' = PInt most"
      and k: "ids \<noteq> []" "int (length ids) \<le> most" "distinct ids" "set (ts_ids before) = set expected"
        "ts_snapshot before \<notin> set ids" "set ids \<subseteq> set (ts_ids before)" "expire_snapshots_sql table ids = Inr q"
    using assms unfolding expiry_statement_def
    by (auto simp: bindE_eq_Inr exec_object_Inr positive_bound_Inr split: if_split_asm)
  have "safe_expiry before safety ids"
    unfolding safe_expiry_def using g(3,4) k by (auto simp: string_array_Inr)
  then show ?thesis using g k by blast
qed

lemma expiry_action_issues:
  "issues (\<lambda>q. is_select q \<or> (\<exists>ids. safe_expiry before safety ids \<and> expire_snapshots_sql table ids = Inr q))
     (run_procedure engine plan_id ''expire_snapshots'' table action safety before)"
  by (rule issues_mono [OF run_procedure_issues])
    (auto simp: action_statement_def dest: expiry_statement_Inr)

text \<open>What the report of a procedure says.\<close>

lemma make_report_Inr [result_simps]:
  "make_report status plan_id action table applied before after outcome set_id files = Inr r \<longleftrightarrow>
     (\<exists>i ty. get action ''action_id'' = PStr i \<and> i \<noteq> [] \<and> get action ''action_type'' = PStr ty \<and> ty \<noteq> [] \<and>
       r = \<lparr>xr_schema_version = ''1.0'', xr_status = status, xr_plan_id = plan_id, xr_action_id = i,
        xr_action_type = ty, xr_table = table, xr_applied = applied, xr_before = before,
        xr_after = after, xr_result = outcome, xr_candidate_set_id = set_id, xr_candidate_files = files\<rparr>)"
  by (auto simp: make_report_def result_simps)

text \<open>A reconciled action kept every record, and did what it is named after.\<close>

definition did_its_work :: "string \<Rightarrow> table_state \<Rightarrow> table_state \<Rightarrow> string list \<Rightarrow> bool" where
  "did_its_work action_type before after targets \<longleftrightarrow>
     ts_records after = ts_records before \<and>
     (if action_type = ''expire_snapshots''
      then ts_snapshot after = ts_snapshot before \<and> ts_files after = ts_files before \<and>
        ts_manifests after = ts_manifests before \<and> set (ts_ids after) = set (ts_ids before) - set targets \<and>
        ts_count after < ts_count before
      else if action_type = ''rewrite_manifests''
      then ts_snapshot after \<noteq> ts_snapshot before \<and> ts_files after = ts_files before \<and>
        ts_manifests after < ts_manifests before
      else ts_snapshot after \<noteq> ts_snapshot before \<and> ts_files after < ts_files before)"

lemma reconcile_succeeded:
  assumes "reconcile action_type action before after outcome = Inr ''succeeded''"
  shows "\<exists>targets. did_its_work action_type before after targets \<and>
    (action_type = ''expire_snapshots'' \<longrightarrow> (\<exists>params. get action ''parameters'' = PDict params \<and>
       string_array params ''snapshot_ids'' = Inr targets))"
proof (cases "action_type = ''expire_snapshots''")
  case True
  then show ?thesis using assms
    by (auto simp: reconcile_def Let_def did_its_work_def result_simps split: if_split_asm)
next
  case False
  then show ?thesis using assms
    by (cases "action_type = ''rewrite_manifests''")
      (auto simp: reconcile_def Let_def did_its_work_def split: if_split_asm)
qed

lemma reconcile_noop:
  assumes "reconcile action_type action before after outcome = Inr ''noop''"
  shows "after = before"
  using assms by (auto simp: reconcile_def Let_def result_simps split: if_split_asm)

section \<open>The removal of orphans\<close>

text \<open>Whatever happens after the view exists, the view is dropped; the files are removed only when the
  dry run found exactly the approved ones.\<close>

definition removal_trace :: "sql_engine \<Rightarrow> string \<Rightarrow> string \<Rightarrow> string \<Rightarrow> string list \<Rightarrow> string list \<Rightarrow> string list \<Rightarrow> bool" where
  "removal_trace engine table older_than view candidates s issued \<longleftrightarrow>
     issued = [] \<or>
     (\<exists>check. remove_approved_orphans_sql table older_than view True = Inr check \<and>
        (issued = [check] \<or>
         (\<exists>remove rows. remove_approved_orphans_sql table older_than view False = Inr remove \<and>
            issued = [check, remove] \<and> engine (s @ [check]) = Inr rows \<and> orphan_files rows = Inr candidates)))"

lemma remove_through_view_trace:
  "\<exists>r more. remove_through_view engine table older_than view candidates s =
       Some (r, s @ more @ [drop_view_sql view]) \<and>
     removal_trace engine table older_than view candidates s more \<and>
     (\<forall>deleted. r = Inr deleted \<longrightarrow> length more = 2 \<and>
        (\<exists>rows. engine (s @ more) = Inr rows \<and> orphan_files rows = Inr deleted))"
proof (cases "remove_approved_orphans_sql table older_than view True")
  case (Inl e)
  then show ?thesis
    by (cases "engine (s @ [drop_view_sql view])") (auto simp: remove_through_view_def issue_def finally_io_def bind_io_def lift_io_def
      query_sql_def removal_trace_def split: sum.split)
next
  case check: (Inr check)
  show ?thesis
  proof (cases "\<exists>rows. engine (s @ [check]) = Inr rows \<and> orphan_files rows = Inr candidates")
    case False
    then show ?thesis using check
      by (cases "engine (s @ [check])"; cases "orphan_files (projr (engine (s @ [check])))")
        (auto simp: remove_through_view_def issue_def finally_io_def bind_io_def lift_io_def
          query_sql_def removal_trace_def contract_def raise_def split: sum.split intro!: exI [of _ "[check]"])
  next
    case True
    then obtain rows where rows: "engine (s @ [check]) = Inr rows" "orphan_files rows = Inr candidates" by blast
    show ?thesis
    proof (cases "remove_approved_orphans_sql table older_than view False")
      case (Inl e)
      then show ?thesis using check rows
        by (auto simp: remove_through_view_def issue_def finally_io_def bind_io_def lift_io_def
          query_sql_def removal_trace_def split: sum.split intro!: exI [of _ "[check]"])
    next
      case (Inr remove)
      then show ?thesis using check rows
        by (cases "engine (s @ [check, remove])")
          (auto simp: remove_through_view_def issue_def finally_io_def bind_io_def lift_io_def
            query_sql_def removal_trace_def split: sum.split intro!: exI [of _ "[check, remove]"])
    qed
  qed
qed

text \<open>The name of the view of a candidate set.\<close>

definition view_name :: "string \<Rightarrow> string \<Rightarrow> string list \<Rightarrow> string" where
  "view_name table older_than candidates =
     ''lakehouse_ops_'' @ replace ''-'' ''_'' (candidate_set_id table older_than candidates)"

lemma remove_orphan_files_cases:
  assumes "remove_orphan_files engine plan_id action table older_than before candidates s = Some (r, s')"
  obtains (none) "candidates = []" "s' = s"
    | (refused) e where "create_candidate_view_sql (view_name table older_than candidates) older_than candidates = Inl e"
        "s' = s" "r = Inl e"
    | (unviewed) e create where
        "create_candidate_view_sql (view_name table older_than candidates) older_than candidates = Inr create"
        "engine (s @ [create]) = Inl e" "s' = s @ [create]" "r = Inl e"
    | (viewed) create rows r1 trace where "candidates \<noteq> []"
        "create_candidate_view_sql (view_name table older_than candidates) older_than candidates = Inr create"
        "engine (s @ [create]) = Inr rows"
        "remove_through_view engine table older_than (view_name table older_than candidates) candidates (s @ [create]) =
           Some (r1, (s @ [create]) @ trace @ [drop_view_sql (view_name table older_than candidates)])"
        "removal_trace engine table older_than (view_name table older_than candidates) candidates (s @ [create]) trace"
        "bind_io (lift_io r1) (\<lambda>deleted. bind_io (read_state engine table) (\<lambda>after.
          lift_io (make_report
            (if deleted = candidates \<and> after = before then ''succeeded'' else ''reconciliation_failed'')
            plan_id action table True before after
            [(''orphan_file_count'', int (length candidates)),
             (''deleted_orphan_file_count'', int (length deleted))]
            (Some (candidate_set_id table older_than candidates)) candidates)))
          ((s @ [create]) @ trace @ [drop_view_sql (view_name table older_than candidates)]) = Some (r, s')"
proof (cases "candidates = []")
  case True
  with assms show thesis by (intro none) (auto simp: remove_orphan_files_def Let_def lift_io_def)
next
  case False
  let ?v = "view_name table older_than candidates"
  let ?k = "\<lambda>deleted. bind_io (read_state engine table) (\<lambda>after.
          lift_io (make_report
            (if deleted = candidates \<and> after = before then ''succeeded'' else ''reconciliation_failed'')
            plan_id action table True before after
            [(''orphan_file_count'', int (length candidates)),
             (''deleted_orphan_file_count'', int (length deleted))]
            (Some (candidate_set_id table older_than candidates)) candidates))"
  have run: "bind_io (issue engine (create_candidate_view_sql ?v older_than candidates)) (\<lambda>_.
      bind_io (remove_through_view engine table older_than ?v candidates) ?k) s = Some (r, s')"
    using assms False unfolding remove_orphan_files_def Let_def view_name_def [symmetric] by simp
  show thesis
  proof (cases "create_candidate_view_sql ?v older_than candidates")
    case (Inl e)
    with run have "s' = s" "r = Inl e" by (simp_all add: issue_def bind_io_def lift_io_def)
    with Inl show thesis by (rule refused)
  next
    case (Inr create)
    show thesis
    proof (cases "engine (s @ [create])")
      case (Inl e)
      with run Inr have "s' = s @ [create]" "r = Inl e"
        by (simp_all add: issue_def bind_io_def lift_io_def query_sql_def)
      with Inr Inl show thesis by (rule unviewed)
    next
      case rows: (Inr rows)
      obtain r1 trace where m: "remove_through_view engine table older_than ?v candidates (s @ [create]) =
           Some (r1, (s @ [create]) @ trace @ [drop_view_sql ?v])"
          "removal_trace engine table older_than ?v candidates (s @ [create]) trace"
        using remove_through_view_trace [of engine table older_than ?v candidates "s @ [create]"] by blast
      have "bind_io (lift_io r1) ?k ((s @ [create]) @ trace @ [drop_view_sql ?v]) = Some (r, s')"
        using run Inr rows m(1)
        by (simp add: issue_def bind_io_def lift_io_def query_sql_def split: sum.splits)
      with False Inr rows m show thesis by (rule viewed)
    qed
  qed
qed

end
