(* ===== verification/Table_Metadata.thy ===== *)
theory Table_Metadata
  imports Report_Schema Maintenance_Executor
begin

text \<open>
  \<open>iceberg/metadata.py\<close>: the metadata report of one Iceberg table, read from its metadata
  tables through a SQL engine. The clock's answer is a time with an offset.
\<close>

section \<open>The report\<close>

record md_entry =
  me_snapshot_id :: string
  me_parent_id :: "string option"
  me_committed_at :: string
  me_operation :: string

record md_snapshots =
  ms_count :: int
  ms_current_id :: string
  ms_committed_at :: string
  ms_operation :: string
  ms_history :: "md_entry list"

record md_reference =
  mr_name :: string
  mr_type :: string
  mr_snapshot_id :: string

record md_files =
  mf_count :: int
  mf_records :: int
  mf_total_size :: int
  mf_min_size :: int
  mf_max_size :: int
  mf_delete_files :: int

record md_manifests =
  mm_count :: int
  mm_total_size :: int
  mm_added :: int
  mm_existing :: int
  mm_deleted :: int

record md_partitions =
  mt_count :: int
  mt_records :: int
  mt_files :: int
  mt_total_size :: int

record metadata_report =
  mdr_schema_version :: string
  mdr_status :: string
  mdr_collected_at :: string
  mdr_table :: string
  mdr_snapshots :: md_snapshots
  mdr_references :: "md_reference list"
  mdr_files :: md_files
  mdr_manifests :: md_manifests
  mdr_partitions :: md_partitions

definition entry_dict :: "md_entry \<Rightarrow> pyval" where
  "entry_dict e = PDict
     [(''snapshot_id'', PStr (me_snapshot_id e)),
      (''parent_id'', case me_parent_id e of None \<Rightarrow> PNone | Some p \<Rightarrow> PStr p),
      (''committed_at'', PStr (me_committed_at e)), (''operation'', PStr (me_operation e))]"

definition reference_dict :: "md_reference \<Rightarrow> pyval" where
  "reference_dict r = PDict [(''name'', PStr (mr_name r)), (''reference_type'', PStr (mr_type r)),
     (''snapshot_id'', PStr (mr_snapshot_id r))]"

definition snapshots_dict :: "md_snapshots \<Rightarrow> pyval" where
  "snapshots_dict s = PDict
     [(''count'', PInt (ms_count s)), (''current_id'', PStr (ms_current_id s)),
      (''committed_at'', PStr (ms_committed_at s)), (''operation'', PStr (ms_operation s)),
      (''history'', PList (map entry_dict (ms_history s)))]"

definition files_dict :: "md_files \<Rightarrow> pyval" where
  "files_dict f = PDict
     [(''count'', PInt (mf_count f)), (''records'', PInt (mf_records f)),
      (''total_size_bytes'', PInt (mf_total_size f)), (''min_size_bytes'', PInt (mf_min_size f)),
      (''max_size_bytes'', PInt (mf_max_size f)), (''delete_file_count'', PInt (mf_delete_files f))]"

definition manifests_dict :: "md_manifests \<Rightarrow> pyval" where
  "manifests_dict m = PDict
     [(''count'', PInt (mm_count m)), (''total_size_bytes'', PInt (mm_total_size m)),
      (''added_files'', PInt (mm_added m)), (''existing_files'', PInt (mm_existing m)),
      (''deleted_files'', PInt (mm_deleted m))]"

definition partitions_dict :: "md_partitions \<Rightarrow> pyval" where
  "partitions_dict p = PDict
     [(''count'', PInt (mt_count p)), (''records'', PInt (mt_records p)), (''files'', PInt (mt_files p)),
      (''total_size_bytes'', PInt (mt_total_size p))]"

definition metadata_as_dict :: "metadata_report \<Rightarrow> pydict" where
  "metadata_as_dict r =
     [(''schema_version'', PStr (mdr_schema_version r)), (''status'', PStr (mdr_status r)),
      (''collected_at'', PStr (mdr_collected_at r)), (''table'', PStr (mdr_table r)),
      (''snapshots'', snapshots_dict (mdr_snapshots r)),
      (''references'', PList (map reference_dict (mdr_references r))),
      (''files'', files_dict (mdr_files r)), (''manifests'', manifests_dict (mdr_manifests r)),
      (''partitions'', partitions_dict (mdr_partitions r))]"

section \<open>Reading rows\<close>

definition single_row :: "pydict list \<Rightarrow> string \<Rightarrow> pydict result" where
  "single_row rows source = (if length rows \<noteq> 1
     then raise MetadataContractError (source @ '' aggregate returned '' @ dec_nat (length rows) @ '' rows instead of one'')
     else Inr (hd rows))"

text \<open>\<open>int(v)\<close> of a value of a row; the infinities raise \<open>OverflowError\<close>, which is not caught.\<close>

definition metadata_integer :: "pydict \<Rightarrow> string \<Rightarrow> int result" where
  "metadata_integer row key =
     (let wrong = raise MetadataContractError (key @ '' must be an integer'') in
      case map_of row key of
        None \<Rightarrow> wrong
      | Some (PInt i) \<Rightarrow> Inr i
      | Some (PFloat x) \<Rightarrow> (case x of
            Fin q \<Rightarrow> Inr (if 0 \<le> q then \<lfloor>q\<rfloor> else \<lceil>q\<rceil>)
          | Inf _ \<Rightarrow> raise OverflowError ''cannot convert float infinity to integer''
          | NaN \<Rightarrow> wrong)
      | Some (PStr s) \<Rightarrow> (case int_of_str s of None \<Rightarrow> wrong | Some i \<Rightarrow> Inr i)
      | Some _ \<Rightarrow> wrong)"

definition text_item :: "pydict \<Rightarrow> string \<Rightarrow> string result" where
  "text_item row key = bindE (item row key) (\<lambda>v. Inr (py_str v))"

definition history_entry :: "pydict \<Rightarrow> md_entry result" where
  "history_entry row =
     bindE (text_item row ''snapshot_id'') (\<lambda>i.
     bindE (if get row ''parent_id'' = PNone then Inr None
            else bindE (text_item row ''parent_id'') (\<lambda>p. Inr (Some p))) (\<lambda>parent.
     bindE (text_item row ''committed_at'') (\<lambda>committed_at.
     bindE (text_item row ''operation'') (\<lambda>operation.
       Inr \<lparr>me_snapshot_id = i, me_parent_id = parent, me_committed_at = committed_at,
         me_operation = operation\<rparr>))))"

definition reference_entry :: "pydict \<Rightarrow> md_reference result" where
  "reference_entry row =
     bindE (text_item row ''name'') (\<lambda>name.
     bindE (text_item row ''type'') (\<lambda>kind.
     bindE (text_item row ''snapshot_id'') (\<lambda>i.
       Inr \<lparr>mr_name = name, mr_type = kind, mr_snapshot_id = i\<rparr>)))"

definition file_summary :: "pydict \<Rightarrow> md_files result" where
  "file_summary row =
     bindE (metadata_integer row ''file_count'') (\<lambda>n.
     bindE (metadata_integer row ''record_count'') (\<lambda>records.
     bindE (metadata_integer row ''total_size_bytes'') (\<lambda>total.
     bindE (metadata_integer row ''min_size_bytes'') (\<lambda>least.
     bindE (metadata_integer row ''max_size_bytes'') (\<lambda>most.
     bindE (metadata_integer row ''delete_file_count'') (\<lambda>deletes.
       Inr \<lparr>mf_count = n, mf_records = records, mf_total_size = total, mf_min_size = least,
         mf_max_size = most, mf_delete_files = deletes\<rparr>))))))"

definition manifest_summary :: "pydict \<Rightarrow> md_manifests result" where
  "manifest_summary row =
     bindE (metadata_integer row ''manifest_count'') (\<lambda>n.
     bindE (metadata_integer row ''total_size_bytes'') (\<lambda>total.
     bindE (metadata_integer row ''added_files'') (\<lambda>added.
     bindE (metadata_integer row ''existing_files'') (\<lambda>existing.
     bindE (metadata_integer row ''deleted_files'') (\<lambda>deleted.
       Inr \<lparr>mm_count = n, mm_total_size = total, mm_added = added, mm_existing = existing,
         mm_deleted = deleted\<rparr>)))))"

definition partition_summary :: "pydict \<Rightarrow> md_partitions result" where
  "partition_summary row =
     bindE (metadata_integer row ''partition_count'') (\<lambda>n.
     bindE (metadata_integer row ''record_count'') (\<lambda>records.
     bindE (metadata_integer row ''file_count'') (\<lambda>files.
     bindE (metadata_integer row ''total_size_bytes'') (\<lambda>total.
       Inr \<lparr>mt_count = n, mt_records = records, mt_files = files, mt_total_size = total\<rparr>))))"

section \<open>The statements\<close>

definition quote_identifier :: "string \<Rightarrow> string result" where
  "quote_identifier value =
     (if value = [] \<or> CHR 0x00 \<in> set value
      then raise ValueError ''SQL identifiers must be non-empty and contain no null bytes''
      else Inr (CHR 0x22 # replace [CHR 0x22] [CHR 0x22, CHR 0x22] value @ [CHR 0x22]))"

definition trino_metadata_table :: "string \<Rightarrow> string \<Rightarrow> string \<Rightarrow> string \<Rightarrow> string result" where
  "trino_metadata_table catalog schema table suffix =
     bindE (quote_identifier catalog) (\<lambda>c.
     bindE (quote_identifier schema) (\<lambda>s.
     bindE (quote_identifier (table @ ''$'' @ suffix)) (\<lambda>t. Inr (join ''.'' [c, s, t]))))"

text \<open>An indented block of text between triple quotes.\<close>

definition sql_block :: "nat \<Rightarrow> string list \<Rightarrow> string" where
  "sql_block n rows = concat (map (\<lambda>l. CHR 0x0A # replicate n (CHR '' '') @ l) rows) @
     CHR 0x0A # replicate n (CHR '' '')"

definition current_statement :: "string \<Rightarrow> string \<Rightarrow> string \<Rightarrow> string result" where
  "current_statement catalog schema table =
     bindE (trino_metadata_table catalog schema table ''history'') (\<lambda>h.
     bindE (trino_metadata_table catalog schema table ''snapshots'') (\<lambda>s. Inr (sql_block 16
       [''SELECT h.snapshot_id AS current_snapshot_id,'',
        ''       s.committed_at AS current_committed_at,'',
        ''       s.operation AS current_operation'',
        ''FROM '' @ h @ '' h'', ''JOIN '' @ s @ '' s'', ''  ON h.snapshot_id = s.snapshot_id'',
        ''ORDER BY h.made_current_at DESC'', ''LIMIT 1''])))"

definition listing_statement ::
    "nat \<Rightarrow> string list \<Rightarrow> string list \<Rightarrow> string \<Rightarrow> string \<Rightarrow> string \<Rightarrow> string \<Rightarrow> string result" where
  "listing_statement n select order suffix catalog schema table =
     bindE (trino_metadata_table catalog schema table suffix) (\<lambda>t.
       Inr (sql_block n (select @ [''FROM '' @ t] @ order)))"

definition snapshots_statement :: "string \<Rightarrow> string \<Rightarrow> string \<Rightarrow> string result" where
  "snapshots_statement = listing_statement 12 [''SELECT snapshot_id, parent_id, committed_at, operation'']
     [''ORDER BY committed_at''] ''snapshots''"

definition references_statement :: "string \<Rightarrow> string \<Rightarrow> string \<Rightarrow> string result" where
  "references_statement = listing_statement 12 [''SELECT name, type, snapshot_id''] [''ORDER BY name''] ''refs''"

definition files_statement :: "string \<Rightarrow> string \<Rightarrow> string \<Rightarrow> string result" where
  "files_statement = listing_statement 16
     [''SELECT count(*) AS file_count,'',
      ''       coalesce(sum(record_count), 0) AS record_count,'',
      ''       coalesce(sum(file_size_in_bytes), 0) AS total_size_bytes,'',
      ''       coalesce(min(file_size_in_bytes), 0) AS min_size_bytes,'',
      ''       coalesce(max(file_size_in_bytes), 0) AS max_size_bytes,'',
      ''       count_if(content <> 0) AS delete_file_count''] [] ''files''"

definition manifests_statement :: "string \<Rightarrow> string \<Rightarrow> string \<Rightarrow> string result" where
  "manifests_statement = listing_statement 16
     [''SELECT count(*) AS manifest_count,'',
      ''       coalesce(sum(length), 0) AS total_size_bytes,'',
      ''       coalesce(sum(added_data_files_count), 0) AS added_files,'',
      ''       coalesce(sum(existing_data_files_count), 0) AS existing_files,'',
      ''       coalesce(sum(deleted_data_files_count), 0) AS deleted_files''] [] ''manifests''"

definition partitions_statement :: "string \<Rightarrow> string \<Rightarrow> string \<Rightarrow> string result" where
  "partitions_statement = listing_statement 16
     [''SELECT count(*) AS partition_count,'',
      ''       coalesce(sum(record_count), 0) AS record_count,'',
      ''       coalesce(sum(file_count), 0) AS file_count,'',
      ''       coalesce(sum(total_size), 0) AS total_size_bytes''] [] ''partitions''"

section \<open>Collection\<close>

definition metadata_of_rows ::
    "pydt \<Rightarrow> string \<Rightarrow> pydict \<Rightarrow> pydict list \<Rightarrow> pydict list \<Rightarrow> pydict \<Rightarrow> pydict \<Rightarrow> pydict \<Rightarrow> metadata_report result" where
  "metadata_of_rows now name current snapshots references files manifests partitions =
     (let i = get current ''current_snapshot_id''; committed_at = get current ''current_committed_at'';
          operation = get current ''current_operation'' in
      if i = PNone \<or> committed_at = PNone \<or> operation = PNone
      then raise MetadataContractError ''Iceberg table has no current snapshot''
      else if snapshots = [] then raise MetadataContractError ''Iceberg table has no snapshot history''
      else bindE (to_utc now) (\<lambda>utc.
        bindE (mapE history_entry snapshots) (\<lambda>history.
        bindE (mapE reference_entry references) (\<lambda>refs.
        bindE (file_summary files) (\<lambda>fs.
        bindE (manifest_summary manifests) (\<lambda>ms.
        bindE (partition_summary partitions) (\<lambda>ps.
          Inr \<lparr>mdr_schema_version = ''1.0'', mdr_status = ''ready'', mdr_collected_at = isoformat utc,
            mdr_table = name,
            mdr_snapshots = \<lparr>ms_count = int (length snapshots), ms_current_id = py_str i,
              ms_committed_at = py_str committed_at, ms_operation = py_str operation, ms_history = history\<rparr>,
            mdr_references = refs, mdr_files = fs, mdr_manifests = ms, mdr_partitions = ps\<rparr>)))))))"

definition one_row :: "sql_engine \<Rightarrow> string result \<Rightarrow> string \<Rightarrow> pydict spark" where
  "one_row engine sql source = bind_io (issue engine sql) (\<lambda>rows. lift_io (single_row rows source))"

definition collect_metadata ::
    "sql_engine \<Rightarrow> schema_env \<Rightarrow> string \<Rightarrow> pydt \<Rightarrow> string \<Rightarrow> string \<Rightarrow> string \<Rightarrow> metadata_report spark" where
  "collect_metadata engine env schema_path now catalog schema table =
     bind_io (one_row engine (current_statement catalog schema table) ''current snapshot'') (\<lambda>current.
     bind_io (issue engine (snapshots_statement catalog schema table)) (\<lambda>snapshots.
     bind_io (issue engine (references_statement catalog schema table)) (\<lambda>references.
     bind_io (one_row engine (files_statement catalog schema table) ''files'') (\<lambda>files.
     bind_io (one_row engine (manifests_statement catalog schema table) ''manifests'') (\<lambda>manifests.
     bind_io (one_row engine (partitions_statement catalog schema table) ''partitions'') (\<lambda>partitions.
     bind_io (lift_io (metadata_of_rows now (join ''.'' [catalog, schema, table])
       current snapshots references files manifests partitions)) (\<lambda>report.
     bind_io (lift_io (checked_report MetadataContractError env (PDict (metadata_as_dict report)) schema_path))
       (\<lambda>_. return_io report))))))))"

section \<open>Quoting\<close>

text \<open>How SQL reads a quoted text after its opening quote: a doubled quote stands for one.\<close>

fun read_quoted :: "char \<Rightarrow> string \<Rightarrow> (string \<times> string) option" where
  "read_quoted q [] = None"
| "read_quoted q (c # s) =
     (if c \<noteq> q then map_option (\<lambda>(v, rest). (c # v, rest)) (read_quoted q s)
      else (case s of [] \<Rightarrow> Some ([], [])
        | d # t \<Rightarrow> if d = q then map_option (\<lambda>(v, rest). (q # v, rest)) (read_quoted q t) else Some ([], s)))"

lemma read_quoted_replace:
  assumes "rest = [] \<or> hd rest \<noteq> q"
  shows "read_quoted q (replace [q] [q, q] v @ q # rest) = Some (v, rest)"
proof (induction v)
  case Nil
  then show ?case using assms by (cases rest) (auto simp: replace_def)
next
  case (Cons c v)
  then show ?case by (simp add: replace_char)
qed

section \<open>The collection only reads\<close>

definition is_block_select :: "string \<Rightarrow> bool" where
  "is_block_select sql = starts_with ''SELECT '' (dropWhile is_space sql)"

lemma block_select: "is_block_select (sql_block n ((''SELECT '' @ l) # ls))"
proof -
  have "dropWhile is_space (replicate n (CHR '' '') @ ''SELECT '' @ t) = ''SELECT '' @ t" for t
    by (induction n) (auto simp: is_space_def)
  then show ?thesis by (simp add: is_block_select_def sql_block_def is_space_def starts_with_iff)
qed

lemma listing_select:
  assumes "listing_statement n ((''SELECT '' @ l) # ls) order suffix catalog schema table = Inr q"
  shows "is_block_select q"
proof -
  from assms obtain t where "q = sql_block n ((''SELECT '' @ l) # (ls @ [''FROM '' @ t] @ order))"
    by (auto simp: listing_statement_def bindE_eq_Inr)
  then show ?thesis using block_select by metis
qed

lemma metadata_statements_select:
  "current_statement c s t = Inr q \<Longrightarrow> is_block_select q"
  "snapshots_statement c s t = Inr q \<Longrightarrow> is_block_select q"
  "references_statement c s t = Inr q \<Longrightarrow> is_block_select q"
  "files_statement c s t = Inr q \<Longrightarrow> is_block_select q"
  "manifests_statement c s t = Inr q \<Longrightarrow> is_block_select q"
  "partitions_statement c s t = Inr q \<Longrightarrow> is_block_select q"
proof -
  show "current_statement c s t = Inr q \<Longrightarrow> is_block_select q"
    using block_select [of 16 "''h.snapshot_id AS current_snapshot_id,''"]
    by (auto simp: current_statement_def bindE_eq_Inr)
  show "snapshots_statement c s t = Inr q \<Longrightarrow> is_block_select q"
    using listing_select [of 12 "''snapshot_id, parent_id, committed_at, operation''" "[]"]
    by (simp add: snapshots_statement_def)
  show "references_statement c s t = Inr q \<Longrightarrow> is_block_select q"
    using listing_select [of 12 "''name, type, snapshot_id''" "[]"]
    by (simp add: references_statement_def)
  show "files_statement c s t = Inr q \<Longrightarrow> is_block_select q"
    using listing_select [of 16 "''count(*) AS file_count,''"]
    by (simp add: files_statement_def)
  show "manifests_statement c s t = Inr q \<Longrightarrow> is_block_select q"
    using listing_select [of 16 "''count(*) AS manifest_count,''"]
    by (simp add: manifests_statement_def)
  show "partitions_statement c s t = Inr q \<Longrightarrow> is_block_select q"
    using listing_select [of 16 "''count(*) AS partition_count,''"]
    by (simp add: partitions_statement_def)
qed

lemma collect_metadata_issues:
  "issues is_block_select (collect_metadata engine env path now catalog schema table)"
  unfolding collect_metadata_def one_row_def
  by (intro issues_bind issues_issue issues_lift issues_return metadata_statements_select)

section \<open>What a collected report says\<close>

lemma single_row_Inr [result_simps]: "single_row rows source = Inr row \<longleftrightarrow> rows = [row]"
  by (cases rows) (auto simp: single_row_def)

lemma metadata_of_rows_Inr:
  assumes "metadata_of_rows now name current snapshots references files manifests partitions = Inr r"
  shows "mdr_schema_version r = ''1.0'' \<and> mdr_status r = ''ready'' \<and> mdr_table r = name \<and>
    snapshots \<noteq> [] \<and> length (ms_history (mdr_snapshots r)) = length snapshots \<and>
    ms_count (mdr_snapshots r) = int (length snapshots) \<and>
    (\<exists>utc. to_utc now = Inr utc \<and> mdr_collected_at r = isoformat utc) \<and>
    ms_current_id (mdr_snapshots r) = py_str (get current ''current_snapshot_id'')"
  using assms unfolding metadata_of_rows_def Let_def
  by (auto simp: bindE_eq_Inr mapE_length split: if_split_asm)

lemma isoformat_nonempty: "isoformat t \<noteq> []"
  by (simp add: isoformat_def)

lemma collect_metadata_Inr:
  assumes "collect_metadata engine env path now catalog schema table s = Some (Inr r, s')"
  obtains current snapshots references files manifests partitions where
    "metadata_of_rows now (join ''.'' [catalog, schema, table]) current snapshots references files manifests partitions = Inr r"
    "validate_report_schema env (PDict (metadata_as_dict r)) path = Inr ()"
  using assms unfolding collect_metadata_def bind_io_Inr lift_io_iff return_io_iff
  by (auto simp: checked_report_Inr)

lemma get_metadata:
  "get (metadata_as_dict r) ''schema_version'' = PStr (mdr_schema_version r)"
  "get (metadata_as_dict r) ''status'' = PStr (mdr_status r)"
  "get (metadata_as_dict r) ''collected_at'' = PStr (mdr_collected_at r)"
  "get (metadata_as_dict r) ''table'' = PStr (mdr_table r)"
  "get (metadata_as_dict r) ''snapshots'' = snapshots_dict (mdr_snapshots r)"
  "get (metadata_as_dict r) ''references'' = PList (map reference_dict (mdr_references r))"
  "get (metadata_as_dict r) ''files'' = files_dict (mdr_files r)"
  "get (metadata_as_dict r) ''manifests'' = manifests_dict (mdr_manifests r)"
  by (simp_all add: metadata_as_dict_def get_simps)

end
