(* ===== verification/Maintenance_Properties.thy ===== *)
theory Maintenance_Properties
  imports Maintenance_Plan Table_Metadata
begin

text \<open>
  The properties of table maintenance: the metadata report, the plan made from it and the
  execution of its actions. The identifiers of the demonstration are left unevaluated.
\<close>

declare content_id_def [code del]

section \<open>From a plan to its execution\<close>

lemma filter_unique:
  assumes "distinct (map f xs)" "a \<in> set xs" "\<forall>b \<in> set xs. P b \<longrightarrow> f b = f a" "P a"
  shows "filter P xs = [a]"
proof -
  have "P b \<longleftrightarrow> b = a" if "b \<in> set xs" for b
  proof
    assume "P b"
    then have "f b = f a" using assms(3) that by blast
    then show "b = a" using assms(1,2) that by (meson distinct_map inj_onD)
  qed (use assms(4) in blast)
  then have "filter P xs = filter (\<lambda>b. b = a) xs" by (intro filter_cong) auto
  also have "\<dots> = [a]" using assms(1,2) by (induction xs) (auto simp: filter_empty_conv)
  finally show ?thesis .
qed

lemma select_action_of_plan:
  assumes "pl_actions plan = acts" "distinct (map kind_of acts)" "a \<in> set acts" "pl_schema_version plan = ''1.0''"
    and "pl_plan_id plan \<noteq> []" "pl_table plan \<noteq> []"
    and "\<forall>b \<in> set acts. get b ''action_id'' = get a ''action_id'' \<longrightarrow> kind_of b = kind_of a"
    and "get a ''action_id'' = PStr i" "get a ''action_type'' = PStr (kind_of a)" "kind_of a \<in> set action_types"
  shows "select_action (PDict (plan_as_dict plan)) i = Inr (pl_plan_id plan, pl_table plan, a)"
proof -
  have f: "filter (\<lambda>v. is_dict v \<and> get (the_dict v) ''action_id'' = PStr i) (map PDict acts) = [PDict a]"
  proof -
    have "filter (\<lambda>b. get b ''action_id'' = PStr i) acts = [a]"
      using assms(7) unfolding assms(8) by (intro filter_unique [OF assms(2,3)]) (simp_all only: assms(8))
    then show ?thesis by (simp add: filter_map comp_def)
  qed
  have k: "PStr (kind_of a) \<in> set (map PStr action_types)" using assms(10) by simp
  show ?thesis
    using assms(1,4-6,9) f k
    by (simp add: select_action_def plan_as_dict_def get_simps exec_string_def nonempty_str_def Let_def del: set_map)
qed

lemma expiry_statement_planned:
  assumes e: "planned_expiry p cutoff history a" and h: "list_all is_digit_str (map fst history)"
    and s: "get a ''parameters'' = PDict params" "get a ''safety_bounds'' = PDict safety"
  shows "\<exists>ids. set ids \<subseteq> set (map fst history) \<and>
    (\<forall>before. set (ts_ids before) = set (map fst history) \<longrightarrow> ts_snapshot before \<notin> set ids \<longrightarrow>
       expiry_statement table a safety before = expire_snapshots_sql table ids)"
proof -
  obtain ids where ids: "spares p cutoff history ids" "get params ''snapshot_ids'' = PList (map PStr ids)"
      "get safety ''expected_history_snapshot_ids'' = PList (map PStr (map fst history))"
      "get safety ''max_snapshots_to_expire'' = PInt (mp_max_expire p)"
    using e s by (auto simp: planned_expiry_def)
  have sub: "set ids \<subseteq> set (map fst history)" using ids(1) by (force simp: spares_def)
  then have "list_all is_digit_str ids" using h by (auto simp: list_all_iff)
  then have "string_array params ''snapshot_ids'' = Inr ids"
      "string_array safety ''expected_history_snapshot_ids'' = Inr (map fst history)"
    using ids h by (simp_all add: string_array_Inr)
  moreover have "ids \<noteq> []" "distinct ids" "int (length ids) \<le> mp_max_expire p"
    using ids(1) by (auto simp: spares_def)
  moreover from this have "positive_bound safety ''max_snapshots_to_expire'' = Inr (mp_max_expire p)"
    using ids(4) by (cases ids) (simp_all add: positive_bound_Inr)
  moreover have "exec_object a ''parameters'' = Inr params" using s by (simp add: exec_object_Inr)
  ultimately show ?thesis using sub
    by (intro exI [of _ ids]) (simp add: expiry_statement_def)
qed

lemma reported_history_digits:
  "reported_history report = Inr history \<Longrightarrow> list_all is_digit_str (map fst history)"
  by (auto simp: reported_history_def mapE_Inr_iff list_all_iff list_all2_conv_all_nth in_set_conv_nth)
    (metis snapshot_entry_Inr prod.collapse)

section \<open>A demonstration report\<close>

definition demo_snapshot :: "string \<Rightarrow> string \<Rightarrow> pyval" where
  "demo_snapshot i moment = PDict [(''snapshot_id'', PStr i), (''committed_at'', PStr moment)]"

definition demo_metadata :: pyval where
  "demo_metadata = PDict
     [(''schema_version'', PStr ''1.0''), (''status'', PStr ''ready''), (''table'', PStr ''lake.bronze.orders''),
      (''collected_at'', PStr ''2025-03-01T00:00:00+00:00''),
      (''snapshots'', PDict [(''current_id'', PStr ''3''),
        (''history'', PList [demo_snapshot ''1'' ''2025-01-01 00:00:00 UTC'', demo_snapshot ''2'' ''2025-01-02 00:00:00 UTC'',
          demo_snapshot ''3'' ''2025-01-03 00:00:00 UTC''])]),
      (''references'', PList [PDict [(''name'', PStr ''main'')]]),
      (''files'', PDict [(''count'', PInt 2), (''delete_file_count'', PInt 0), (''total_size_bytes'', PInt 8000)]),
      (''manifests'', PDict [(''count'', PInt 3)])]"

definition demo_policy :: maintenance_policy where
  "demo_policy = default_policy\<lparr>mp_min_keep := 2\<rparr>"

definition demo_schema :: schema_env where
  "demo_schema = \<lparr>sc_file = \<lambda>_. Some (Doc PNone), sc_check = \<lambda>_. None, sc_validate = \<lambda>_ _. None\<rparr>"

lemma demo_policy_valid: "policy_post_init demo_policy = Inr ()"
  by code_simp

lemma demo_plan_kinds:
  "case plan_maintenance demo_schema [] demo_policy demo_metadata of Inl e \<Rightarrow> False
   | Inr plan \<Rightarrow> map kind_of (pl_actions plan) = [''expire_snapshots'']"
  by code_simp

lemma demo_maintenance:
  obtains plan a where "plan_maintenance demo_schema [] demo_policy demo_metadata = Inr plan"
    "pl_actions plan = [a]" "kind_of a = ''expire_snapshots''"
  using demo_plan_kinds by (auto split: sum.splits)

section \<open>Planning\<close>

text \<open>C17. A plan accounts for every rule of the policy in order: each rule has one check with one of the
  four outcomes, the actions are exactly those of the rules whose check recommends or inspects, each is
  bound to the reported snapshot with a dry run and one job, and the status tells whether any
  action or deferred check exists.\<close>

theorem plan_accounts_for_every_rule:
  assumes "policy_post_init p = Inr ()" "plan_maintenance env path p report = Inr plan"
  shows "map (fst \<circ> verdict) (pl_checks plan) = rules_of p \<and>
    (\<forall>c \<in> set (pl_checks plan). snd (verdict c) \<in> {''recommend'', ''inspect'', ''healthy'', ''deferred''}) \<and>
    map kind_of (pl_actions plan) = map (action_for \<circ> fst) (filter asks (map verdict (pl_checks plan))) \<and>
    (\<forall>a \<in> set (pl_actions plan). bounded_action (pl_source plan) a) \<and>
    pl_status plan = (if pl_actions plan \<noteq> [] then ''maintenance_recommended''
      else if \<exists>c \<in> set (pl_checks plan). snd (verdict c) = ''deferred'' then ''review_required'' else ''healthy'')"
proof -
  note bounds = policy_post_init_Inr [OF assms(1)]
  from assms(2) obtain source g where g: "gather p (the_dict report) source = Inr g"
      "plan = assemble_plan p source g"
    by (auto simp: plan_maintenance_Inr)
  have acc: "accounted (good_action p (the_dict report) source) (rules_of p) g"
    by (rule gather_accounted [OF g(1)]) (use bounds in auto)
  have "list_ex (\<lambda>c. get c ''outcome'' = PStr ''deferred'') (fst g) \<longleftrightarrow>
      (\<exists>c \<in> set (fst g). snd (verdict c) = ''deferred'')"
    using acc by (simp add: accounted_def list_ex_iff)
  then show ?thesis using acc by (simp add: g(2) accounted_def good_action_def plan_status_def)
qed

theorem plan_accounts_for_every_rule_witness:
  "\<exists>plan. plan_maintenance demo_schema [] demo_policy demo_metadata = Inr plan \<and>
     map (fst \<circ> verdict) (pl_checks plan) = [''small_data_files'', ''manifest_density'', ''snapshot_retention''] \<and>
     pl_status plan = ''maintenance_recommended''"
proof -
  obtain plan a where p: "plan_maintenance demo_schema [] demo_policy demo_metadata = Inr plan" "pl_actions plan = [a]"
    by (rule demo_maintenance)
  have "rules_of demo_policy = [''small_data_files'', ''manifest_density'', ''snapshot_retention'']" by code_simp
  then show ?thesis using plan_accounts_for_every_rule [OF demo_policy_valid p(1)] p by auto
qed

text \<open>C18. A planned expiry names at most the policy's maximum of distinct snapshots of the reported history,
  all older than the retention cutoff, and leaves for each of them at least the policy's minimum of
  snapshots that are not older; it names the whole history it was planned for.\<close>

theorem planned_expiry_spares_recent_snapshots:
  assumes "policy_post_init p = Inr ()" "plan_maintenance env path p report = Inr plan"
    and "a \<in> set (pl_actions plan)" "kind_of a = ''expire_snapshots''"
  shows "\<exists>history cutoff. reported_history (the_dict report) = Inr history \<and>
    plan_cutoff (pl_source plan) (mp_retention_hours p) = Inr cutoff \<and> planned_expiry p cutoff history a"
proof -
  from assms(2) obtain source g where g: "gather p (the_dict report) source = Inr g"
      "plan = assemble_plan p source g"
    by (auto simp: plan_maintenance_Inr)
  have "accounted (good_action p (the_dict report) source) (rules_of p) g"
    by (rule gather_accounted [OF g(1)]) (use policy_post_init_Inr [OF assms(1)] in auto)
  then have "justified_expiry p (the_dict report) source a"
    using assms(3,4) by (auto simp: g(2) accounted_def good_action_def)
  then show ?thesis by (simp add: g(2) justified_expiry_def)
qed

theorem planned_expiry_spares_recent_snapshots_witness:
  "\<exists>plan a cutoff history. plan_maintenance demo_schema [] demo_policy demo_metadata = Inr plan \<and>
     pl_actions plan = [a] \<and> planned_expiry demo_policy cutoff history a"
proof -
  obtain plan a where p: "plan_maintenance demo_schema [] demo_policy demo_metadata = Inr plan" "pl_actions plan = [a]"
      "kind_of a = ''expire_snapshots''"
    by (rule demo_maintenance)
  then show ?thesis using planned_expiry_spares_recent_snapshots [OF demo_policy_valid p(1), of a] by auto
qed

section \<open>From the report to the plan to the execution\<close>


definition demo_answer :: "string list \<Rightarrow> pyexn + pydict list" where
  "demo_answer issued = Inr (if length issued = 1
     then [[(''current_snapshot_id'', PInt 7), (''current_committed_at'', PStr ''t''), (''current_operation'', PStr ''append'')]]
     else if length issued = 2 then [[(''snapshot_id'', PInt 7), (''committed_at'', PStr ''t''), (''operation'', PStr ''append'')]]
     else if length issued = 3 then []
     else if length issued = 4 then [map (\<lambda>k. (k, PInt 1)) [''file_count'', ''record_count'', ''total_size_bytes'',
       ''min_size_bytes'', ''max_size_bytes'', ''delete_file_count'']]
     else if length issued = 5 then [map (\<lambda>k. (k, PInt 1)) [''manifest_count'', ''total_size_bytes'', ''added_files'',
       ''existing_files'', ''deleted_files'']]
     else [map (\<lambda>k. (k, PInt 1)) [''partition_count'', ''record_count'', ''file_count'', ''total_size_bytes'']])"

lemma demo_collection:
  "case collect_metadata demo_answer demo_schema [] \<lparr>dt_local = 63000000000000000, dt_offset = Some 0\<rparr>
      ''lake'' ''bronze'' ''orders'' [] of
     Some (Inr r, s') \<Rightarrow> ms_current_id (mdr_snapshots r) = ''7'' \<and> length s' = 6 | _ \<Rightarrow> False"
  by code_simp




end
