(* ===== verification/Maintenance_Run_Properties.thy ===== *)
theory Maintenance_Run_Properties
  imports Table_Metadata
begin

text \<open>
  The properties of the execution of a maintenance action: what needs approval, what may be
  expired or removed, what a successful report means, and how names are quoted.
\<close>

section \<open>Every run ends\<close>

lemma issues_if: "(b \<Longrightarrow> issues p m) \<Longrightarrow> (\<not> b \<Longrightarrow> issues p n) \<Longrightarrow> issues p (if b then m else n)"
  by simp

lemma issues_any_state: "issues (\<lambda>_. True) (read_state engine table)"
  by (rule issues_mono [OF read_state_issues]) simp

lemma issues_any_removal: "issues (\<lambda>_. True) (remove_through_view engine table older_than view candidates)"
  unfolding remove_through_view_def
  by (intro issues_finally issues_bind issues_issue issues_lift issues_if issues_query TrueI)

lemma issues_any_removal_run:
  "issues (\<lambda>_. True) (remove_orphan_files engine plan_id action table older_than before candidates)"
  unfolding remove_orphan_files_def Let_def
  by (intro issues_bind issues_issue issues_lift issues_if issues_any_state issues_any_removal TrueI)

lemma issues_any_orphans: "issues (\<lambda>_. True) (run_orphans engine ap plan_id table action safety snap before)"
  unfolding run_orphans_def
  by (intro issues_bind issues_issue issues_lift issues_if issues_any_removal_run TrueI)

lemma issues_any_procedure:
  "issues (\<lambda>_. True) (run_procedure engine plan_id action_type table action safety before)"
  by (rule issues_mono [OF run_procedure_issues]) simp

lemma run_maintenance_total: "\<exists>r issued. run_maintenance engine plan action_id ap s = Some (r, s @ issued)"
proof -
  have "issues (\<lambda>_. True) (act_on_state engine ap plan_id table action safety snap action_type before)"
    for plan_id table action safety snap action_type before
    unfolding act_on_state_def
    by (intro issues_if issues_lift issues_bind issues_any_orphans issues_any_procedure)
  then have "issues (\<lambda>_. True) (run_maintenance engine plan action_id ap)"
    unfolding run_maintenance_def
    by (intro issues_bind issues_lift issues_if issues_any_state allI)
      (auto intro!: issues_bind issues_lift issues_if issues_any_state split: prod.split)
  then obtain r more where "run_maintenance engine plan action_id ap s = Some (r, s @ more)" by (rule issuesE)
  then show ?thesis by blast
qed

section \<open>A demonstration engine\<close>

definition demo_action :: pydict where
  "demo_action = [(''action_id'', PStr ''action-1''), (''action_type'', PStr ''expire_snapshots''),
     (''parameters'', PDict [(''snapshot_ids'', PList [PStr ''1''])]),
     (''safety_bounds'', PDict [(''dry_run_required'', PBool True), (''expected_snapshot_id'', PStr ''3''),
        (''max_concurrent_jobs'', PInt 1), (''max_snapshots_to_expire'', PInt 50),
        (''expected_history_snapshot_ids'', PList [PStr ''1'', PStr ''2'', PStr ''3''])])]"

definition demo_plan_doc :: pyval where
  "demo_plan_doc = PDict [(''schema_version'', PStr ''1.0''), (''plan_id'', PStr ''plan-1''),
     (''table'', PStr ''lake.bronze.orders''), (''actions'', PList [PDict demo_action])]"

definition demo_approvals :: approvals where
  "demo_approvals = \<lparr>ap_apply = True, ap_plan_id = Some ''plan-1'', ap_snapshot_id = Some ''3'',
     ap_candidate_set_id = None, ap_candidate_report = PNone\<rparr>"

text \<open>Before the call the table has snapshots 1 to 3, after it 2 and 3.\<close>

definition demo_engine :: sql_engine where
  "demo_engine issued = Inr
     (let n = length issued in
      if n = 1 \<or> n = 6 then [[(''snapshot_id'', PInt 3)]]
      else if n = 2 then [[(''snapshot_id'', PInt 3)], [(''snapshot_id'', PInt 2)], [(''snapshot_id'', PInt 1)]]
      else if n = 7 then [[(''snapshot_id'', PInt 3)], [(''snapshot_id'', PInt 2)]]
      else if n = 3 \<or> n = 8 then [[(''data_file_count'', PInt 9), (''record_count'', PInt 90)]]
      else if n = 4 \<or> n = 9 then [[(''manifest_count'', PInt 2)]]
      else [map (\<lambda>k. (k, PInt 0)) (procedure_keys ''expire_snapshots'')])"

lemma demo_expiry:
  "case run_maintenance demo_engine demo_plan_doc ''action-1'' demo_approvals [] of
     Some (Inr rep, issued) \<Rightarrow> xr_status rep = ''succeeded'' \<and> length issued = 9 \<and>
       \<not> is_select (issued ! 4) \<and> rev (issued ! 4) ! 1 = CHR ''e'' | _ \<Rightarrow> False"
  by code_simp

lemma demo_expiry_run:
  obtains rep issued where
    "run_maintenance demo_engine demo_plan_doc ''action-1'' demo_approvals [] = Some (Inr rep, issued)"
    "xr_status rep = ''succeeded''" "length issued = 9" "\<not> is_select (issued ! 4)" "rev (issued ! 4) ! 1 = CHR ''e''"
  using demo_expiry
  by (cases "run_maintenance demo_engine demo_plan_doc ''action-1'' demo_approvals []") (force split: sum.splits)+

lemma inspection_text:
  "inspect_orphan_files_sql table older_than = Inr q \<Longrightarrow> rev q ! 1 = CHR 0x27"
  by (auto simp: inspect_orphan_files_sql_def call_sql_def bindE_eq_Inr sql_quoted_def)

section \<open>Approval\<close>

text \<open>C21. Every run of an action ends, whatever the engine answers; when it issued any statement that is not
  a \<open>SELECT\<close> or the dry run of an inspection, the caller asked to apply, approved the plan's
  identifier, and approved the very snapshot that the table had when the run first read it.\<close>

theorem writes_need_approval:
  "\<exists>r issued. run_maintenance engine plan action_id ap s = Some (r, s @ issued) \<and>
     (\<not> list_all reads_only issued \<longrightarrow>
       (\<exists>plan_id table action before. select_action plan action_id = Inr (plan_id, table, action) \<and>
          ap_apply ap \<and> ap_plan_id ap = Some plan_id \<and> ap_snapshot_id ap = Some (ts_snapshot before) \<and>
          (\<exists>u. read_state engine table s = Some (Inr before, u))))"
proof -
  obtain r issued where run: "run_maintenance engine plan action_id ap s = Some (r, s @ issued)"
    using run_maintenance_total by blast
  have "\<exists>plan_id table action before. select_action plan action_id = Inr (plan_id, table, action) \<and>
          ap_apply ap \<and> ap_plan_id ap = Some plan_id \<and> ap_snapshot_id ap = Some (ts_snapshot before) \<and>
          (\<exists>u. read_state engine table s = Some (Inr before, u))"
    if writes: "\<not> list_all reads_only issued"
    using run
  proof (cases rule: run_maintenance_cases)
    case (refused e)
    then show ?thesis using writes by simp
  next
    case (unread e plan_id table action)
    obtain r' more where "read_state engine table s = Some (r', s @ more)" "list_all is_select more"
      using read_state_issues by (rule issuesE)
    then show ?thesis using unread(2) writes by (auto simp: reads_only_def list_all_iff)
  next
    case (read plan_id table action safety snap action_type before u)
    obtain r' more where m: "read_state engine table s = Some (r', s @ more)" "list_all is_select more"
      using read_state_issues by (rule issuesE)
    have "ap_apply ap \<and> ap_plan_id ap = Some plan_id \<and> ap_snapshot_id ap = Some snap \<and> ts_snapshot before = snap"
    proof (rule ccontr)
      assume "\<not> (ap_apply ap \<and> ap_plan_id ap = Some plan_id \<and> ap_snapshot_id ap = Some snap \<and> ts_snapshot before = snap)"
      then have "issues reads_only (act_on_state engine ap plan_id table action safety snap action_type before)"
        by (rule act_on_state_reads)
      then obtain r'' more' where
          "act_on_state engine ap plan_id table action safety snap action_type before u = Some (r'', u @ more')"
          "list_all reads_only more'"
        by (rule issuesE)
      then show False using writes read(7,8) m by (auto simp: reads_only_def list_all_iff)
    qed
    then show ?thesis using read(1,7) by blast
  qed
  then show ?thesis using run by blast
qed

theorem writes_need_approval_witness:
  "\<exists>issued rep. run_maintenance demo_engine demo_plan_doc ''action-1'' demo_approvals [] = Some (Inr rep, issued) \<and>
     \<not> list_all reads_only issued \<and> (\<exists>before :: table_state. ap_snapshot_id demo_approvals = Some (ts_snapshot before))"
proof -
  obtain rep issued where r: "run_maintenance demo_engine demo_plan_doc ''action-1'' demo_approvals [] = Some (Inr rep, issued)"
      "xr_status rep = ''succeeded''" "length issued = 9" "\<not> is_select (issued ! 4)" "rev (issued ! 4) ! 1 = CHR ''e''"
    by (rule demo_expiry_run)
  have "\<not> reads_only (issued ! 4)"
    using r(4,5) inspection_text by (auto simp: reads_only_def)
  then have w: "\<not> list_all reads_only issued" using r(3) by (auto simp: list_all_length intro!: exI [of _ 4])
  from writes_need_approval [of demo_engine demo_plan_doc "''action-1''" demo_approvals "[]"]
  obtain r' more where m: "run_maintenance demo_engine demo_plan_doc ''action-1'' demo_approvals [] = Some (r', [] @ more)"
      "\<not> list_all reads_only more \<longrightarrow>
       (\<exists>plan_id table action before. select_action demo_plan_doc ''action-1'' = Inr (plan_id, table, action) \<and>
          ap_apply demo_approvals \<and> ap_plan_id demo_approvals = Some plan_id \<and>
          ap_snapshot_id demo_approvals = Some (ts_snapshot before) \<and>
          (\<exists>u. read_state demo_engine table [] = Some (Inr before, u)))"
    by (elim exE conjE) (rule that)
  then have "more = issued" using r(1) by simp
  with m(2) w obtain before :: table_state where "ap_snapshot_id demo_approvals = Some (ts_snapshot before)" by blast
  then show ?thesis using r(1) w by blast
qed

section \<open>Expiry\<close>

text \<open>C22. A run of an expiry action issues, besides \<open>SELECT\<close>s, only the statement that expires a non-empty
  list of distinct snapshots, no more than the action's bound, all in the history the run read first
  and that the plan expected, and never the current snapshot.\<close>

theorem expiry_spares_the_current_snapshot:
  assumes "run_maintenance engine plan action_id ap s = Some (r, s @ issued)"
    and "select_action plan action_id = Inr (plan_id, table, action)" "get action ''action_type'' = PStr ''expire_snapshots''"
    and "q \<in> set issued"
  shows "is_select q \<or> (\<exists>before u ids. read_state engine table s = Some (Inr before, u) \<and>
     safe_expiry before (the_dict (get action ''safety_bounds'')) ids \<and> expire_snapshots_sql table ids = Inr q)"
  using assms(1)
proof (cases rule: run_maintenance_cases)
  case (refused e)
  then show ?thesis using assms(4) by simp
next
  case (unread e plan_id' table' action')
  obtain r' more where "read_state engine table' s = Some (r', s @ more)" "list_all is_select more"
    using read_state_issues by (rule issuesE)
  then show ?thesis using unread assms(4) by (auto simp: list_all_iff)
next
  case (read plan_id' table' action' safety snap action_type before u)
  have eq: "table' = table" "action' = action" "action_type = ''expire_snapshots''"
    using read(1,2) assms(2,3) by auto
  obtain r' more where m: "read_state engine table s = Some (r', s @ more)" "list_all is_select more"
    using read_state_issues by (rule issuesE)
  let ?p = "\<lambda>q. is_select q \<or> (\<exists>ids. safe_expiry before safety ids \<and> expire_snapshots_sql table ids = Inr q)"
  have "issues ?p (act_on_state engine ap plan_id' table action safety snap ''expire_snapshots'' before)"
    unfolding act_on_state_def
    by (simp, intro impI conjI issues_bind issues_lift expiry_action_issues)
  then obtain r'' more' where
      "act_on_state engine ap plan_id' table action safety snap ''expire_snapshots'' before u = Some (r'', u @ more')"
      "list_all ?p more'"
    by (rule issuesE)
  moreover from this(1) have "issued = more @ more'" using read(7,8) m(1) by (auto simp: eq)
  ultimately have "?p q" using m(2) assms(4) unfolding list_all_iff by auto
  then show ?thesis using read(3,7) by (auto simp: eq)
qed

theorem expiry_spares_the_current_snapshot_witness:
  "\<exists>issued rep. run_maintenance demo_engine demo_plan_doc ''action-1'' demo_approvals [] = Some (Inr rep, issued) \<and>
     (\<exists>ids. expire_snapshots_sql ''lake.bronze.orders'' ids = Inr (issued ! 4))"
proof -
  obtain rep issued where r: "run_maintenance demo_engine demo_plan_doc ''action-1'' demo_approvals [] = Some (Inr rep, issued)"
      "length issued = 9" "\<not> is_select (issued ! 4)"
    by (rule demo_expiry_run)
  have sel: "select_action demo_plan_doc ''action-1'' = Inr (''plan-1'', ''lake.bronze.orders'', demo_action)"
    by code_simp
  have ty: "get demo_action ''action_type'' = PStr ''expire_snapshots''" by code_simp
  have "issued ! 4 \<in> set issued" using r(2) by simp
  from expiry_spares_the_current_snapshot [OF _ sel ty this, of demo_engine demo_approvals "[]" "Inr rep"] r(1,3)
  show ?thesis using r(1) by auto
qed

section \<open>Reports\<close>

lemma run_procedure_Inr:
  assumes "run_procedure engine plan_id action_type table action safety before u = Some (Inr rep, s')"
  shows "xr_applied rep \<and> xr_before rep = before \<and> xr_plan_id rep = plan_id \<and> xr_table rep = table \<and>
    get action ''action_type'' = PStr (xr_action_type rep) \<and>
    (\<exists>outcome. reconcile action_type action before (xr_after rep) outcome = Inr (xr_status rep))"
  using assms unfolding run_procedure_def issue_def
  by (auto simp: io_simps make_report_Inr split: if_split_asm)

lemma remove_orphan_files_Inr:
  assumes "remove_orphan_files engine plan_id action table older_than before candidates u = Some (Inr rep, s')"
  shows "xr_before rep = before \<and> xr_plan_id rep = plan_id \<and> xr_table rep = table \<and>
    get action ''action_type'' = PStr (xr_action_type rep) \<and>
    xr_candidate_set_id rep = Some (candidate_set_id table older_than candidates) \<and>
    (if xr_applied rep then candidates \<noteq> [] \<and> xr_candidate_files rep = candidates \<and>
       (xr_status rep = ''succeeded'' \<longrightarrow> xr_after rep = before \<and>
         count_of (xr_result rep) ''deleted_orphan_file_count'' = int (length candidates))
     else candidates = [] \<and> s' = u \<and> xr_after rep = before \<and> xr_status rep = ''noop'')"
proof (cases "candidates = []")
  case True
  then show ?thesis using assms by (auto simp: remove_orphan_files_def Let_def io_simps make_report_Inr)
next
  case False
  then show ?thesis using assms unfolding remove_orphan_files_def Let_def issue_def
    by (auto simp: io_simps make_report_Inr count_of_def split: if_split_asm)
qed

lemma run_orphans_Inr:
  assumes "run_orphans engine ap plan_id table action safety snap before u = Some (Inr rep, s')"
  shows "xr_before rep = before \<and> xr_plan_id rep = plan_id \<and> xr_table rep = table \<and>
    get action ''action_type'' = PStr (xr_action_type rep) \<and>
    (if ap_apply ap
     then ap_plan_id ap = Some plan_id \<and> ap_snapshot_id ap = Some snap \<and>
       (\<exists>older_than most candidates. approved_orphan_candidates (ap_candidate_report ap) plan_id action table older_than
           before (ap_candidate_set_id ap) most = Inr candidates \<and>
         remove_orphan_files engine plan_id action table older_than before candidates u = Some (Inr rep, s'))
     else \<not> xr_applied rep \<and> xr_after rep = before \<and> xr_status rep = ''inspection_complete'')"
proof (cases "ap_apply ap")
  case True
  then obtain older_than most candidates where
      "approved_orphan_candidates (ap_candidate_report ap) plan_id action table older_than
           before (ap_candidate_set_id ap) most = Inr candidates"
      "remove_orphan_files engine plan_id action table older_than before candidates u = Some (Inr rep, s')"
      "ap_plan_id ap = Some plan_id" "ap_snapshot_id ap = Some snap"
    using assms by (auto simp: run_orphans_def io_simps verify_approvals_Inr)
  then show ?thesis using True remove_orphan_files_Inr by fastforce
next
  case False
  then show ?thesis using assms
    by (auto simp: run_orphans_def io_simps make_report_Inr split: if_split_asm)
qed

lemma approved_candidates_Inr:
  assumes "approved_orphan_candidates report plan_id action table older_than current approved_set most = Inr candidates"
  shows "approved_set = Some (candidate_set_id table older_than candidates) \<and> int (length candidates) \<le> most"
  using assms unfolding approved_orphan_candidates_def Let_def
  by (auto simp: bindE_eq_Inr split: if_split_asm)



section \<open>The candidate view\<close>

text \<open>C24. The removal of approved candidates, however it ends, drops the view it created; the removing statement
  is issued only after the dry run over the view answered exactly the candidates, and after the drop
  only \<open>SELECT\<close>s follow.\<close>

theorem candidate_view_is_dropped:
  assumes "remove_orphan_files engine plan_id action table older_than before candidates s = Some (r, s')"
  shows "(candidates = [] \<or> (\<exists>e. create_candidate_view_sql (view_name table older_than candidates) older_than candidates = Inl e)) \<and>
      s' = s \<or>
    (\<exists>create. create_candidate_view_sql (view_name table older_than candidates) older_than candidates = Inr create \<and>
     ((\<exists>e. engine (s @ [create]) = Inl e) \<and> s' = s @ [create] \<or>
      (\<exists>trace tail. s' = s @ [create] @ trace @ [drop_view_sql (view_name table older_than candidates)] @ tail \<and>
         removal_trace engine table older_than (view_name table older_than candidates) candidates (s @ [create]) trace \<and>
         list_all is_select tail)))"
  using assms
proof (cases rule: remove_orphan_files_cases)
  case none
  then show ?thesis by simp
next
  case (refused e)
  then show ?thesis by simp
next
  case (unviewed e create)
  then show ?thesis by auto
next
  case (viewed create rows r1 trace)
  let ?u = "(s @ [create]) @ trace @ [drop_view_sql (view_name table older_than candidates)]"
  let ?m = "bind_io (lift_io r1) (\<lambda>deleted. bind_io (read_state engine table) (\<lambda>after.
          lift_io (make_report
            (if deleted = candidates \<and> after = before then ''succeeded'' else ''reconciliation_failed'')
            plan_id action table True before after
            [(''orphan_file_count'', int (length candidates)),
             (''deleted_orphan_file_count'', int (length deleted))]
            (Some (candidate_set_id table older_than candidates)) candidates)))"
  have "issues is_select ?m" by (intro issues_bind issues_lift read_state_issues)
  then obtain r' tail where t: "?m ?u = Some (r', ?u @ tail)" "list_all is_select tail"
    by (rule issuesE)
  then have "s' = ?u @ tail" using viewed(6) by simp
  then show ?thesis using viewed(2,5) t(2) by (intro disjI2 exI [of _ create]) auto
qed

lemma demo_candidate_view:
  "create_candidate_view_sql view ''2025-01-01T00:00:00Z'' [''f''] \<noteq> Inl e"
proof -
  have "\<exists>t. timestamp_literal ''2025-01-01T00:00:00Z'' = Inr t"
  proof -
    have "case timestamp_literal ''2025-01-01T00:00:00Z'' of Inr t \<Rightarrow> True | _ \<Rightarrow> False" by code_simp
    then show ?thesis by (auto split: sum.splits)
  qed
  then show ?thesis by (auto simp: create_candidate_view_sql_def)
qed

theorem candidate_view_is_dropped_witness:
  "\<exists>r s' before. remove_orphan_files (\<lambda>_. Inr []) ''p'' demo_action ''a.b.c'' ''2025-01-01T00:00:00Z'' before [''f''] [] =
       Some (r, s') \<and> drop_view_sql (view_name ''a.b.c'' ''2025-01-01T00:00:00Z'' [''f'']) \<in> set s'"
proof -
  let ?at = "''2025-01-01T00:00:00Z''" and ?e = "\<lambda>_. Inr [] :: pyexn + pydict list"
  obtain before :: table_state where True by blast
  obtain r s' where run: "remove_orphan_files ?e ''p'' demo_action ''a.b.c'' ?at before [''f''] [] = Some (r, s')"
    using issuesE [of "\<lambda>_. True" "remove_orphan_files ?e ''p'' demo_action ''a.b.c'' ?at before [''f'']"]
      issues_any_removal_run by metis
  have "drop_view_sql (view_name ''a.b.c'' ?at [''f'']) \<in> set s'"
    using candidate_view_is_dropped [OF run] demo_candidate_view by auto
  then show ?thesis using run by blast
qed

section \<open>Quoting\<close>

text \<open>What the program quotes, SQL reads back: a name between back quotes or double quotes and a text
  between single quotes are read as exactly the name or the text, whatever characters they hold, and
  what follows is left over.\<close>

theorem quoted_text_reads_back:
  assumes "rest = [] \<or> hd rest \<notin> {CHR 0x27, CHR 0x22, CHR ''`''}" "quote_identifier v = Inr quoted"
  shows "read_quoted (CHR ''`'') (tl (sql_identifier v @ rest)) = Some (v, rest) \<and>
    read_quoted (CHR 0x27) (tl (sql_quoted (sql_string v) @ rest)) = Some (v, rest) \<and>
    read_quoted (CHR 0x22) (tl (quoted @ rest)) = Some (v, rest)"
proof -
  have "quoted = CHR 0x22 # replace [CHR 0x22] [CHR 0x22, CHR 0x22] v @ [CHR 0x22]"
    using assms(2) by (simp add: quote_identifier_def split: if_split_asm)
  then show ?thesis using assms(1)
    by (auto simp: sql_identifier_def sql_quoted_def sql_string_def read_quoted_replace)
qed

theorem quoted_text_reads_back_witness:
  "read_quoted (CHR ''`'') (tl (sql_identifier ''a`b.c'' @ ''.x'')) = Some (''a`b.c'', ''.x'')"
  using quoted_text_reads_back [of "''.x''" "''a`b.c''" "CHR 0x22 # ''a`b.c'' @ [CHR 0x22]"]
  by (simp add: quote_identifier_def replace_char)

end
