(* ===== verification/Access_Policy.thy ===== *)
theory Access_Policy
  imports Py_Json
begin

text \<open>
  \<open>access_policy.py\<close>: the compilation of the role model into the file-based access rules of
  the query engine. What a path holds is a document or why it cannot be read; the text of a
  decoding error is left out.
\<close>

section \<open>The model\<close>

definition policy_error :: "string \<Rightarrow> 'a result" where
  "policy_error m = raise AccessPolicyError m"

text \<open>\<open>name in roles\<close>\<close>

definition is_key :: "pyval \<Rightarrow> pydict \<Rightarrow> bool result" where
  "is_key v d = (if \<not> can_hash v then raise TypeError [] else Inr (is_str v \<and> the_str v \<in> fst ` set d))"

definition check_binding :: "pydict \<Rightarrow> pyval \<Rightarrow> unit result" where
  "check_binding roles binding =
     (case binding of
        PDict b \<Rightarrow>
          (let users = get b ''users''; assigned = get b ''roles'' in
           if \<not> is_list users \<or> elems users = [] \<or> \<not> list_all nonempty_str (elems users)
           then policy_error ''binding users must be non-empty strings''
           else if \<not> is_list assigned \<or> elems assigned = []
           then policy_error ''binding roles must be a non-empty array''
           else bindE (mapE (\<lambda>v. is_key v roles) (elems assigned)) (\<lambda>known.
             case filter (\<lambda>(k, v). \<not> k) (zip known (elems assigned)) of
               [] \<Rightarrow> Inr ()
             | (_, v) # _ \<Rightarrow> policy_error (''binding references unknown role: '' @ py_str v)))
      | _ \<Rightarrow> policy_error ''each binding must be an object'')"

definition check_model :: "pyval \<Rightarrow> pydict result" where
  "check_model v =
     (case v of
        PDict model \<Rightarrow>
          (let roles = get model ''roles''; bindings = get model ''bindings''; defaults = get model ''defaults'' in
           if get model ''schema_version'' \<noteq> PStr ''1.0'' then policy_error ''unsupported policy schema_version''
           else if \<not> is_dict roles \<or> the_dict roles = [] then policy_error ''roles must be a non-empty object''
           else if \<not> is_list bindings \<or> elems bindings = [] then policy_error ''bindings must be a non-empty array''
           else if \<not> is_dict defaults then policy_error ''defaults must be an object''
           else bindE (mapE (check_binding (the_dict roles)) (elems bindings)) (\<lambda>_. Inr model))
      | _ \<Rightarrow> policy_error ''policy model must be a JSON object'')"

definition load_access_policy :: "fdoc option \<Rightarrow> pydict result" where
  "load_access_policy file_content =
     (case file_content of
        None \<Rightarrow> raise OSError []
      | Some (NotReadable k) \<Rightarrow>
          if is_a k JSONDecodeError then policy_error ''invalid policy JSON: '' else raise k []
      | Some (Doc v) \<Rightarrow> check_model v)"

section \<open>Patterns\<close>

text \<open>\<open>re.escape\<close>: every character that has a meaning in a pattern gets a backslash.\<close>

definition is_special :: "char \<Rightarrow> bool" where
  "is_special c = (c \<in> set ''()[]{}?*+-|^$.&~# '' \<or> of_char c \<in> {92, 9, 10, 13, 11, 12 :: nat})"

definition re_escape :: "string \<Rightarrow> string" where
  "re_escape s = concat (map (\<lambda>c. if is_special c then [CHR 0x5C, c] else [c]) s)"

definition pattern_of :: "string list \<Rightarrow> string" where
  "pattern_of values = join ''|'' (map (\<lambda>v. if v = ''*'' then ''.*'' else re_escape v) values)"

definition required_pattern :: "pyval \<Rightarrow> string \<Rightarrow> string result" where
  "required_pattern grant key = bindE (get_attr grant key) (\<lambda>found.
     case found of
       Some (PList vs) \<Rightarrow> if vs = [] \<or> \<not> list_all nonempty_str vs
         then policy_error (key @ '' must be a non-empty string array'') else Inr (pattern_of (map the_str vs))
     | _ \<Rightarrow> policy_error (key @ '' must be a non-empty string array''))"

section \<open>Users by role\<close>

text \<open>\<open>result[role].append(user)\<close> unless the user is there; an unknown role is a \<open>KeyError\<close>.\<close>

definition add_user :: "string \<Rightarrow> string \<Rightarrow> (string \<times> string list) list \<Rightarrow> (string \<times> string list) list result" where
  "add_user role user table =
     (case map_of table role of None \<Rightarrow> raise KeyError role
      | Some users \<Rightarrow> Inr (if user \<in> set users then table else dict_set table role (users @ [user])))"

fun foldE :: "('a \<Rightarrow> 'b \<Rightarrow> 'b result) \<Rightarrow> 'a list \<Rightarrow> 'b \<Rightarrow> 'b result" where
  "foldE f [] y = Inr y"
| "foldE f (x # xs) y = bindE (f x y) (foldE f xs)"

text \<open>A name that is no string is no key and no pattern.\<close>

definition name_of :: "pyval \<Rightarrow> string result" where
  "name_of v = (case v of PStr s \<Rightarrow> Inr s | _ \<Rightarrow> raise TypeError [])"

definition add_binding :: "pyval \<Rightarrow> (string \<times> string list) list \<Rightarrow> (string \<times> string list) list result" where
  "add_binding binding table =
     bindE (bindE (subscript binding ''roles'') iterate) (\<lambda>roles.
       foldE (\<lambda>role table. bindE (bindE (subscript binding ''users'') iterate) (\<lambda>users.
         foldE (\<lambda>user table. bindE (name_of role) (\<lambda>r. bindE (name_of user) (\<lambda>u. add_user r u table)))
           users table)) roles table)"

definition users_by_role :: "pyval list \<Rightarrow> pydict \<Rightarrow> (string \<times> string list) list result" where
  "users_by_role bindings roles = foldE add_binding bindings (map (\<lambda>(name, _). (name, [])) roles)"

section \<open>Rules\<close>

record trino_policy =
  tp_catalogs :: "pydict list"
  tp_schemas :: "pydict list"
  tp_tables :: "pydict list"
  tp_queries :: "pydict list"
  tp_system_information :: "pydict list"
  tp_system_session :: "pydict list"
  tp_catalog_session :: "pydict list"

definition policy_as_dict :: "trino_policy \<Rightarrow> pyval" where
  "policy_as_dict p = PDict
     [(''catalogs'', PList (map PDict (tp_catalogs p))), (''schemas'', PList (map PDict (tp_schemas p))),
      (''tables'', PList (map PDict (tp_tables p))), (''queries'', PList (map PDict (tp_queries p))),
      (''system_information'', PList (map PDict (tp_system_information p))),
      (''system_session_properties'', PList (map PDict (tp_system_session p))),
      (''catalog_session_properties'', PList (map PDict (tp_catalog_session p)))]"

definition empty_policy :: trino_policy where
  "empty_policy = \<lparr>tp_catalogs = [], tp_schemas = [], tp_tables = [], tp_queries = [],
     tp_system_information = [], tp_system_session = [], tp_catalog_session = []\<rparr>"

definition append_policy :: "trino_policy \<Rightarrow> trino_policy \<Rightarrow> trino_policy" where
  "append_policy p q = \<lparr>tp_catalogs = tp_catalogs p @ tp_catalogs q, tp_schemas = tp_schemas p @ tp_schemas q,
     tp_tables = tp_tables p @ tp_tables q, tp_queries = tp_queries p @ tp_queries q,
     tp_system_information = tp_system_information p @ tp_system_information q,
     tp_system_session = tp_system_session p @ tp_system_session q,
     tp_catalog_session = tp_catalog_session p @ tp_catalog_session q\<rparr>"

definition catalog_rule :: "string \<Rightarrow> pyval \<Rightarrow> pydict result" where
  "catalog_rule users grant =
     bindE (required_pattern grant ''catalogs'') (\<lambda>c. bindE (subscript grant ''access'') (\<lambda>a. Inr
       [(''user'', PStr users), (''catalog'', PStr c), (''allow'', a)]))"

definition schema_rule :: "string \<Rightarrow> pyval \<Rightarrow> pydict result" where
  "schema_rule users grant =
     bindE (required_pattern grant ''catalogs'') (\<lambda>c. bindE (required_pattern grant ''schemas'') (\<lambda>s.
     bindE (subscript grant ''owner'') (\<lambda>owner. Inr
       [(''user'', PStr users), (''catalog'', PStr c), (''schema'', PStr s), (''owner'', owner)])))"

definition table_rule :: "string \<Rightarrow> pyval \<Rightarrow> pydict result" where
  "table_rule users grant =
     bindE (required_pattern grant ''catalogs'') (\<lambda>c. bindE (required_pattern grant ''schemas'') (\<lambda>s.
     bindE (required_pattern grant ''tables'') (\<lambda>t. bindE (subscript grant ''privileges'') (\<lambda>p. Inr
       [(''user'', PStr users), (''catalog'', PStr c), (''schema'', PStr s), (''table'', PStr t),
        (''privileges'', p)]))))"

text \<open>\<open>permissions.get(key, [])\<close>, iterated\<close>

definition grants :: "pyval \<Rightarrow> string \<Rightarrow> pyval list result" where
  "grants permissions key = bindE (get_attr permissions key) (\<lambda>found.
     case found of None \<Rightarrow> Inr [] | Some v \<Rightarrow> iterate v)"

definition allow_rule :: "string \<Rightarrow> pyval option \<Rightarrow> pydict list" where
  "allow_rule users found = (case found of None \<Rightarrow> [] | Some v \<Rightarrow> [[(''user'', PStr users), (''allow'', v)]])"

definition is_truthy :: "pyval option \<Rightarrow> bool" where
  "is_truthy found = (case found of None \<Rightarrow> False | Some v \<Rightarrow> truthy v)"

definition compile_role :: "string \<Rightarrow> pyval \<Rightarrow> trino_policy result" where
  "compile_role users permissions =
     bindE (bindE (grants permissions ''catalogs'') (mapE (catalog_rule users))) (\<lambda>catalogs.
     bindE (bindE (grants permissions ''schemas'') (mapE (schema_rule users))) (\<lambda>schemas.
     bindE (bindE (grants permissions ''tables'') (mapE (table_rule users))) (\<lambda>tables.
     bindE (get_attr permissions ''queries'') (\<lambda>queries.
     bindE (get_attr permissions ''system_information'') (\<lambda>information.
     bindE (get_attr permissions ''system_session_properties'') (\<lambda>system_session.
     bindE (get_attr permissions ''catalog_session_properties'') (\<lambda>catalog_session.
       Inr \<lparr>tp_catalogs = catalogs, tp_schemas = schemas, tp_tables = tables,
         tp_queries = allow_rule users queries, tp_system_information = allow_rule users information,
         tp_system_session = (if is_truthy system_session
           then [[(''user'', PStr users), (''property'', PStr ''.*''), (''allow'', PBool True)]] else []),
         tp_catalog_session = (if is_truthy catalog_session
           then [[(''user'', PStr users), (''catalog'', PStr ''.*''), (''property'', PStr ''.*''),
             (''allow'', PBool True)]] else [])\<rparr>)))))))"

definition default_rules :: "pyval \<Rightarrow> trino_policy result" where
  "default_rules defaults =
     bindE (subscript defaults ''system_catalog_access'') (\<lambda>system.
     bindE (subscript defaults ''catalog_access'') (\<lambda>catalog.
     bindE (subscript defaults ''queries'') (\<lambda>queries.
     bindE (subscript defaults ''system_information'') (\<lambda>information.
       Inr \<lparr>tp_catalogs = [[(''catalog'', PStr ''system''), (''allow'', system)],
           [(''catalog'', PStr ''.*''), (''allow'', catalog)]],
         tp_schemas = [[(''catalog'', PStr ''.*''), (''schema'', PStr ''.*''), (''owner'', PBool False)]],
         tp_tables = [[(''catalog'', PStr ''.*''), (''schema'', PStr ''.*''), (''table'', PStr ''.*''),
           (''privileges'', PList [])]],
         tp_queries = [[(''allow'', queries)]], tp_system_information = [[(''allow'', information)]],
         tp_system_session = [[(''property'', PStr ''.*''), (''allow'', PBool False)]],
         tp_catalog_session = [[(''catalog'', PStr ''.*''), (''property'', PStr ''.*''),
           (''allow'', PBool False)]]\<rparr>))))"

text \<open>A role without users has no rules.\<close>

definition role_rules :: "(string \<times> string list) list \<Rightarrow> string \<times> pyval \<Rightarrow> trino_policy \<Rightarrow> trino_policy result" where
  "role_rules table role output =
     (let users = (case map_of table (fst role) of None \<Rightarrow> [] | Some us \<Rightarrow> us); p = pattern_of users in
      if p = [] then Inr output
      else bindE (compile_role p (snd role)) (\<lambda>q. Inr (append_policy output q)))"

definition compile_trino_policy :: "pydict \<Rightarrow> trino_policy result" where
  "compile_trino_policy model =
     bindE (item model ''roles'') (\<lambda>roles.
     bindE (bindE (item model ''bindings'') iterate) (\<lambda>bindings.
     bindE (users_by_role bindings (the_dict roles)) (\<lambda>table.
     bindE (foldE (role_rules table) (the_dict roles) empty_policy) (\<lambda>output.
     bindE (bindE (item model ''defaults'') default_rules) (\<lambda>rest.
       Inr (append_policy output rest))))))"

text \<open>\<open>render_trino_policy\<close>: what it returns, and the text it leaves in the output file. The current
  text is None when there is no file.\<close>

definition render_trino_policy :: "fdoc option \<Rightarrow> string option \<Rightarrow> bool \<Rightarrow> (bool \<times> string option) result" where
  "render_trino_policy file_content current check =
     bindE (load_access_policy file_content) (\<lambda>model.
     bindE (compile_trino_policy model) (\<lambda>policy.
     let rendered = json_pretty 0 (policy_as_dict policy) @ [CHR 0x0A] in
     Inr (current = Some rendered, if check then current else Some rendered)))"

end
