(* ===== verification/Break_Glass.thy ===== *)
theory Break_Glass
  imports Access_Policy
begin

text \<open>
  \<open>break_glass.py\<close>: a time-boxed lease that adds one binding to the role model while it is
  active.
\<close>

definition max_lease_us :: int where
  "max_lease_us = 3600000000"

definition lease_error :: "string \<Rightarrow> 'a result" where
  "lease_error m = raise BreakGlassError m"

definition load_lease :: "fdoc option \<Rightarrow> pydict result" where
  "load_lease file_content =
     (case file_content of
        None \<Rightarrow> raise OSError []
      | Some (NotReadable k) \<Rightarrow>
          if is_a k JSONDecodeError then lease_error ''invalid break-glass JSON: '' else raise k []
      | Some (Doc (PDict lease)) \<Rightarrow>
          if get lease ''schema_version'' \<noteq> PStr ''1.0'' then lease_error ''unsupported break-glass schema_version''
          else Inr lease
      | Some (Doc _) \<Rightarrow> lease_error ''break-glass lease must be a JSON object'')"

definition lease_string :: "pydict \<Rightarrow> string \<Rightarrow> string result" where
  "lease_string document key =
     (if \<not> is_str (get document key) \<or> strip (the_str (get document key)) = []
      then lease_error (''break-glass '' @ key @ '' must be a non-empty string'')
      else Inr (strip (the_str (get document key))))"

definition utc_timestamp :: "pydict \<Rightarrow> string \<Rightarrow> pydt result" where
  "utc_timestamp document key =
     bindE (lease_string document key) (\<lambda>value.
       case fromisoformat (replace ''Z'' ''+00:00'' value) of
         None \<Rightarrow> lease_error (''break-glass '' @ key @ '' must be an ISO-8601 timestamp'')
       | Some t \<Rightarrow> if dt_offset t \<noteq> Some 0 then lease_error (''break-glass '' @ key @ '' must use UTC'') else Inr t)"

definition iso_z :: "pydt \<Rightarrow> string" where
  "iso_z t = replace ''+00:00'' ''Z'' (isoformat t)"

definition lease_status :: "pydt \<Rightarrow> pydt \<Rightarrow> pydt \<Rightarrow> string" where
  "lease_status issued expires now =
     (if dt_utc now < dt_utc issued then ''not_yet_valid''
      else if dt_utc expires \<le> dt_utc now then ''expired'' else ''active'')"

text \<open>\<open>model["bindings"].append(binding)\<close>\<close>

definition append_binding :: "pydict \<Rightarrow> pyval \<Rightarrow> pydict result" where
  "append_binding model binding =
     bindE (item model ''bindings'') (\<lambda>v. case v of
         PList xs \<Rightarrow> Inr (dict_set model ''bindings'' (PList (xs @ [binding])))
       | _ \<Rightarrow> raise AttributeError ''append'')"

definition grant_binding :: "string \<Rightarrow> string \<Rightarrow> pyval" where
  "grant_binding user role = PDict [(''users'', PList [PStr user]), (''roles'', PList [PStr role])]"

definition effective_model :: "string \<Rightarrow> pydict \<Rightarrow> pyval \<Rightarrow> pydict result" where
  "effective_model status model binding =
     (if status = ''active'' then append_binding model binding else Inr model)"

record lease_report =
  lr_grant_id :: string
  lr_status :: string
  lr_user :: string
  lr_role :: string
  lr_approved_by :: string
  lr_ticket :: string
  lr_reason :: string
  lr_issued_at :: string
  lr_expires_at :: string
  lr_evaluated_at :: string

definition lease_report_dict :: "lease_report \<Rightarrow> (string \<times> string) list" where
  "lease_report_dict r =
     [(''schema_version'', ''1.0''), (''grant_id'', lr_grant_id r), (''status'', lr_status r),
      (''user'', lr_user r), (''role'', lr_role r), (''approved_by'', lr_approved_by r),
      (''ticket'', lr_ticket r), (''reason'', lr_reason r), (''issued_at'', lr_issued_at r),
      (''expires_at'', lr_expires_at r), (''evaluated_at'', lr_evaluated_at r)]"

definition apply_break_glass_lease ::
    "pydict \<Rightarrow> fdoc option \<Rightarrow> pydt \<Rightarrow> (pydict \<times> lease_report) result" where
  "apply_break_glass_lease model file_content now =
     bindE (load_lease file_content) (\<lambda>lease.
     bindE (lease_string lease ''role'') (\<lambda>role.
     bindE (item model ''roles'') (\<lambda>roles.
     if role \<notin> fst ` set (the_dict roles)
     then lease_error (''break-glass lease references unknown role: '' @ role)
     else bindE (lease_string lease ''user'') (\<lambda>user.
     bindE (lease_string lease ''approved_by'') (\<lambda>approved_by.
     if approved_by = user then lease_error ''break-glass approver must differ from the user''
     else bindE (utc_timestamp lease ''issued_at'') (\<lambda>issued.
     bindE (utc_timestamp lease ''expires_at'') (\<lambda>expires.
     if dt_utc expires \<le> dt_utc issued then lease_error ''break-glass expires_at must be after issued_at''
     else if max_lease_us < dt_utc expires - dt_utc issued
     then lease_error ''break-glass lease TTL must not exceed 1 hour''
     else if dt_offset now \<noteq> Some 0 then lease_error ''break-glass evaluation time must be UTC''
     else (let status = lease_status issued expires now in
       bindE (effective_model status model (grant_binding user role)) (\<lambda>effective.
       bindE (lease_string lease ''grant_id'') (\<lambda>grant_id.
       bindE (lease_string lease ''ticket'') (\<lambda>ticket.
       bindE (lease_string lease ''reason'') (\<lambda>why.
         Inr (effective, \<lparr>lr_grant_id = grant_id, lr_status = status, lr_user = user, lr_role = role,
           lr_approved_by = approved_by, lr_ticket = ticket, lr_reason = why, lr_issued_at = iso_z issued,
           lr_expires_at = iso_z expires, lr_evaluated_at = iso_z now\<rparr>)))))))))))))"

end
