(* ===== verification/Access_Properties.thy ===== *)
theory Access_Properties
  imports Break_Glass
begin

text \<open>
  The properties of the access policy: what a pattern means, whom the compiled rules belong to,
  that rendering settles, and what a break-glass lease adds.
\<close>

section \<open>Reading patterns\<close>

text \<open>How a pattern of escaped alternatives is read: an escaped character stands for itself, a bar
  separates, another special character has its meaning.\<close>

datatype atom = Lit char | Meta char

fun on_first :: "atom \<Rightarrow> atom list list \<Rightarrow> atom list list" where
  "on_first a [] = [[a]]"
| "on_first a (p # ps) = (a # p) # ps"

fun read_pattern :: "string \<Rightarrow> atom list list" where
  "read_pattern [] = [[]]"
| "read_pattern (c # s) =
     (if c = CHR ''|'' then [] # read_pattern s
      else if c = CHR 0x5C then (case s of [] \<Rightarrow> [[Meta c]] | d # t \<Rightarrow> on_first (Lit d) (read_pattern t))
      else on_first (if is_special c then Meta c else Lit c) (read_pattern s))"

definition matches :: "string \<Rightarrow> string \<Rightarrow> bool" where
  "matches pattern name =
     list_ex (\<lambda>alt. alt = [Meta (CHR ''.''), Meta (CHR ''*'')] \<or> alt = map Lit name) (read_pattern pattern)"

definition atoms_of :: "string \<Rightarrow> atom list" where
  "atoms_of v = (if v = ''*'' then [Meta (CHR ''.''), Meta (CHR ''*'')] else map Lit v)"

lemma special_chars:
  "is_special (CHR ''|'')" "is_special (CHR 0x5C)" "is_special (CHR ''.'')" "is_special (CHR ''*'')"
  by code_simp+

lemma read_escaped:
  assumes "t = [] \<or> hd t = CHR ''|''"
  shows "read_pattern (re_escape v @ t) = (map Lit v @ hd (read_pattern t)) # tl (read_pattern t)"
proof (induction v)
  case Nil
  have "read_pattern t \<noteq> []" using assms by (cases t) auto
  then show ?case by (simp add: re_escape_def)
next
  case (Cons c v)
  have "c \<noteq> CHR ''|'' \<and> c \<noteq> CHR 0x5C" if "\<not> is_special c" using that special_chars by auto
  then show ?case using Cons by (simp add: re_escape_def)
qed

lemma read_value:
  assumes "t = [] \<or> hd t = CHR ''|''"
  shows "read_pattern ((if v = ''*'' then ''.*'' else re_escape v) @ t) =
    (atoms_of v @ hd (read_pattern t)) # tl (read_pattern t)"
proof (cases "v = ''*''")
  case True
  have "read_pattern t \<noteq> []" using assms by (cases t) auto
  then show ?thesis using True special_chars by (cases "read_pattern t") (simp_all add: atoms_of_def)
next
  case False
  then show ?thesis using read_escaped [OF assms] by (simp add: atoms_of_def)
qed

lemma read_pattern_of: "vs \<noteq> [] \<Longrightarrow> read_pattern (pattern_of vs) = map atoms_of vs"
proof (induction vs)
  case Nil
  then show ?case by simp
next
  case (Cons v vs)
  show ?case
  proof (cases vs)
    case Nil
    then show ?thesis using read_value [of "[]" v] by (simp add: pattern_of_def)
  next
    case (Cons w ws)
    have "read_pattern (pattern_of (v # vs)) =
        read_pattern ((if v = ''*'' then ''.*'' else re_escape v) @ CHR ''|'' # pattern_of vs)"
      by (simp add: pattern_of_def Cons)
    also have "\<dots> = atoms_of v # read_pattern (pattern_of vs)"
      using read_value [of "CHR ''|'' # pattern_of vs" v] by simp
    finally show ?thesis using Cons.IH Cons by simp
  qed
qed

lemma map_Lit_eq: "map Lit xs = map Lit ys \<longleftrightarrow> xs = ys"
  by (rule inj_map_eq_map) (simp add: inj_def)

lemma Meta_neq_Lit: "Meta c # as \<noteq> map Lit xs" "map Lit xs \<noteq> Meta c # as"
  by (cases xs; simp)+

lemma matches_pattern_of:
  assumes "names \<noteq> []"
  shows "matches (pattern_of names) name \<longleftrightarrow> ''*'' \<in> set names \<or> name \<in> set names"
proof -
  have "atoms_of v = [Meta (CHR ''.''), Meta (CHR ''*'')] \<or> atoms_of v = map Lit name \<longleftrightarrow> v = ''*'' \<or> v = name" for v
    by (auto simp: atoms_of_def map_Lit_eq Meta_neq_Lit)
  then have "list_ex (\<lambda>alt. alt = [Meta (CHR ''.''), Meta (CHR ''*'')] \<or> alt = map Lit name) (map atoms_of names) \<longleftrightarrow>
      (\<exists>v \<in> set names. v = ''*'' \<or> v = name)"
    by (simp add: list_ex_iff)
  then show ?thesis by (auto simp: matches_def read_pattern_of [OF assms])
qed

text \<open>The pattern of a list of names matches exactly the listed names, or every name when the list has the
  wildcard: no character of a name acts as a pattern.\<close>

theorem pattern_matches_its_names:
  assumes "names \<noteq> []"
  shows "matches (pattern_of names) name \<longleftrightarrow> ''*'' \<in> set names \<or> name \<in> set names"
  using assms by (rule matches_pattern_of)

theorem pattern_matches_its_names_witness:
  "matches (pattern_of [''a.b'', ''svc|x'']) ''a.b'' \<and> \<not> matches (pattern_of [''a.b'', ''svc|x'']) ''axb'' \<and>
     \<not> matches (pattern_of [''a.b'', ''svc|x'']) ''svc''"
  using pattern_matches_its_names [of "[''a.b'', ''svc|x'']" "''a.b''"]
    pattern_matches_its_names [of "[''a.b'', ''svc|x'']" "''axb''"]
    pattern_matches_its_names [of "[''a.b'', ''svc|x'']" "''svc''"]
  by simp

section \<open>Who a rule belongs to\<close>

definition names_in :: "pyval \<Rightarrow> string \<Rightarrow> pyval set" where
  "names_in v key = (case bindE (subscript v key) iterate of Inr xs \<Rightarrow> set xs | Inl _ \<Rightarrow> {})"

definition bound_to :: "pyval list \<Rightarrow> string \<Rightarrow> string \<Rightarrow> bool" where
  "bound_to bindings role user \<longleftrightarrow>
     (\<exists>b \<in> set bindings. PStr role \<in> names_in b ''roles'' \<and> PStr user \<in> names_in b ''users'')"

definition users_in :: "(string \<times> string list) list \<Rightarrow> string \<Rightarrow> string set" where
  "users_in table role = (case map_of table role of None \<Rightarrow> {} | Some us \<Rightarrow> set us)"

lemma foldE_union:
  assumes "foldE f xs y = Inr z" "\<And>x y y'. x \<in> set xs \<Longrightarrow> f x y = Inr y' \<Longrightarrow> users_in y' r = users_in y r \<union> A x"
  shows "users_in z r = users_in y r \<union> \<Union> (A ` set xs)"
  using assms
proof (induction xs arbitrary: y)
  case Nil
  then show ?case by simp
next
  case (Cons x xs)
  from Cons.prems(1) obtain u where u: "f x y = Inr u" "foldE f xs u = Inr z" by (auto simp: bindE_eq_Inr)
  have "users_in z r = users_in u r \<union> \<Union> (A ` set xs)"
    by (rule Cons.IH [OF u(2)]) (use Cons.prems(2) in auto)
  then show ?case using Cons.prems(2) [OF _ u(1)] by auto
qed

lemma add_user_Inr:
  "add_user role user table = Inr t \<Longrightarrow> users_in t r = users_in table r \<union> (if r = role then {user} else {})"
  by (auto simp: add_user_def users_in_def split: option.splits if_splits)

lemma name_of_Inr [result_simps]: "name_of v = Inr s \<longleftrightarrow> v = PStr s"
  by (auto simp: name_of_def split: pyval.splits)

lemma add_users_Inr:
  assumes "foldE (\<lambda>user table. bindE (name_of role) (\<lambda>r. bindE (name_of user) (\<lambda>u. add_user r u table))) users table = Inr t"
  shows "users_in t r = users_in table r \<union> \<Union> ((\<lambda>v. {u. role = PStr r \<and> v = PStr u}) ` set users)"
proof (rule foldE_union [OF assms])
  fix v y y'
  assume "bindE (name_of role) (\<lambda>r. bindE (name_of v) (\<lambda>u. add_user r u y)) = Inr y'"
  then obtain r0 u0 where "role = PStr r0" "v = PStr u0" and a: "add_user r0 u0 y = Inr y'"
    by (auto simp: bindE_eq_Inr name_of_Inr)
  then show "users_in y' r = users_in y r \<union> {u. role = PStr r \<and> v = PStr u}"
    using add_user_Inr [OF a, of r] by auto
qed

lemma add_binding_Inr:
  assumes "add_binding b table = Inr t"
  shows "users_in t r = users_in table r \<union> {u. PStr r \<in> names_in b ''roles'' \<and> PStr u \<in> names_in b ''users''}"
proof -
  from assms obtain roles where roles: "bindE (subscript b ''roles'') iterate = Inr roles"
    and run: "foldE (\<lambda>role table. bindE (bindE (subscript b ''users'') iterate) (\<lambda>users.
         foldE (\<lambda>user table. bindE (name_of role) (\<lambda>r. bindE (name_of user) (\<lambda>u. add_user r u table)))
           users table)) roles table = Inr t"
    unfolding add_binding_def by (auto simp only: bindE_eq_Inr)
  have "users_in t r = users_in table r \<union>
      \<Union> ((\<lambda>role. {u. role = PStr r \<and> PStr u \<in> names_in b ''users''}) ` set roles)"
  proof (rule foldE_union [OF run])
    fix role y y'
    assume "bindE (bindE (subscript b ''users'') iterate) (\<lambda>users.
         foldE (\<lambda>user table. bindE (name_of role) (\<lambda>r. bindE (name_of user) (\<lambda>u. add_user r u table)))
           users y) = Inr y'"
    then obtain users where u: "bindE (subscript b ''users'') iterate = Inr users"
        "foldE (\<lambda>user table. bindE (name_of role) (\<lambda>r. bindE (name_of user) (\<lambda>u. add_user r u table))) users y = Inr y'"
      by (auto simp only: bindE_eq_Inr)
    show "users_in y' r = users_in y r \<union> {u. role = PStr r \<and> PStr u \<in> names_in b ''users''}"
      using add_users_Inr [OF u(2)] u(1) by (auto simp: names_in_def)
  qed
  then show ?thesis using roles by (auto simp: names_in_def)
qed

lemma users_by_role_Inr:
  assumes "users_by_role bindings roles = Inr table"
  shows "users_in table role = {u. bound_to bindings role u}"
proof -
  have start: "users_in (map (\<lambda>(name, _). (name, [])) roles) role = {}"
  proof -
    have "us = []" if "map_of (map (\<lambda>(name, _). (name, [])) roles) role = Some us" for us :: "string list"
      using map_of_SomeD [OF that] by auto
    then show ?thesis by (auto simp: users_in_def split: option.splits)
  qed
  have "users_in table role = users_in (map (\<lambda>(name, _). (name, [])) roles) role \<union>
      \<Union> ((\<lambda>b. {u. PStr role \<in> names_in b ''roles'' \<and> PStr u \<in> names_in b ''users''}) ` set bindings)"
    by (rule foldE_union [OF assms [unfolded users_by_role_def]]) (rule add_binding_Inr)
  then show ?thesis by (auto simp: start bound_to_def)
qed

text \<open>All rules of a policy.\<close>

definition all_rules :: "trino_policy \<Rightarrow> pydict set" where
  "all_rules p = set (tp_catalogs p) \<union> set (tp_schemas p) \<union> set (tp_tables p) \<union> set (tp_queries p) \<union>
     set (tp_system_information p) \<union> set (tp_system_session p) \<union> set (tp_catalog_session p)"

lemma all_rules_append: "all_rules (append_policy p q) = all_rules p \<union> all_rules q"
  by (auto simp: all_rules_def append_policy_def)

lemma rule_user:
  "catalog_rule users g = Inr r \<Longrightarrow> get r ''user'' = PStr users"
  "schema_rule users g = Inr r \<Longrightarrow> get r ''user'' = PStr users"
  "table_rule users g = Inr r \<Longrightarrow> get r ''user'' = PStr users"
  by (auto simp: catalog_rule_def schema_rule_def table_rule_def bindE_eq_Inr get_simps)

lemma mapE_all: "mapE f xs = Inr ys \<Longrightarrow> (\<And>x y. f x = Inr y \<Longrightarrow> P y) \<Longrightarrow> y \<in> set ys \<Longrightarrow> P y"
  by (induction xs arbitrary: ys) (auto simp: bindE_eq_Inr)

lemma compile_role_users:
  assumes "compile_role users permissions = Inr q" "r \<in> all_rules q"
  shows "get r ''user'' = PStr users"
proof -
  let ?ok = "\<lambda>r. get r ''user'' = PStr users"
  obtain gs hs ts queries information ss cs where
      m: "mapE (catalog_rule users) gs = Inr (tp_catalogs q)" "mapE (schema_rule users) hs = Inr (tp_schemas q)"
        "mapE (table_rule users) ts = Inr (tp_tables q)"
      and f: "tp_queries q = allow_rule users queries" "tp_system_information q = allow_rule users information"
        "tp_system_session q = (if ss then [[(''user'', PStr users), (''property'', PStr ''.*''), (''allow'', PBool True)]] else [])"
        "tp_catalog_session q = (if cs then [[(''user'', PStr users), (''catalog'', PStr ''.*''), (''property'', PStr ''.*''),
             (''allow'', PBool True)]] else [])"
    using assms(1) unfolding compile_role_def bindE_eq_Inr sum.inject by force
  have "?ok r" if "r \<in> set (allow_rule users v)" for v
    using that by (auto simp: allow_rule_def get_simps split: option.splits)
  moreover have "?ok r" if "r \<in> set (tp_catalogs q)"
    by (rule mapE_all [OF m(1) _ that]) (rule rule_user(1))
  moreover have "?ok r" if "r \<in> set (tp_schemas q)"
    by (rule mapE_all [OF m(2) _ that]) (rule rule_user(2))
  moreover have "?ok r" if "r \<in> set (tp_tables q)"
    by (rule mapE_all [OF m(3) _ that]) (rule rule_user(3))
  moreover have "?ok r" if "r \<in> set (tp_system_session q) \<union> set (tp_catalog_session q)"
    using that by (auto simp: f get_simps split: if_splits)
  ultimately show ?thesis using assms(2) by (auto simp: all_rules_def f(1,2))
qed

lemma role_rules_users:
  assumes "foldE (role_rules table) roles out = Inr final" "r \<in> all_rules final"
  shows "r \<in> all_rules out \<or> (\<exists>role perms users. (role, perms) \<in> set roles \<and> map_of table role = Some users \<and>
    users \<noteq> [] \<and> get r ''user'' = PStr (pattern_of users))"
  using assms
proof (induction roles arbitrary: out)
  case Nil
  then show ?case by simp
next
  case (Cons x roles)
  obtain role perms where x: "x = (role, perms)" by (cases x)
  from Cons.prems(1) obtain u where u: "role_rules table x out = Inr u" "foldE (role_rules table) roles u = Inr final"
    by (auto simp: bindE_eq_Inr)
  from Cons.IH [OF u(2) Cons.prems(2)] show ?case
  proof
    assume r: "r \<in> all_rules u"
    show ?thesis
    proof (cases "u = out")
      case True
      then show ?thesis using r by simp
    next
      case False
      let ?us = "case map_of table role of None \<Rightarrow> [] | Some us \<Rightarrow> us"
      obtain q where q: "pattern_of ?us \<noteq> []" "compile_role (pattern_of ?us) perms = Inr q" "u = append_policy out q"
        using u(1) False by (auto simp: role_rules_def Let_def x bindE_eq_Inr split: if_splits)
      from r have "r \<in> all_rules out \<or> r \<in> all_rules q" by (auto simp: q(3) all_rules_append)
      moreover have "\<exists>users. map_of table role = Some users \<and> users \<noteq> [] \<and> get r ''user'' = PStr (pattern_of users)"
        if "r \<in> all_rules q"
        using compile_role_users [OF q(2) that] q(1)
        by (cases "map_of table role") (auto simp: pattern_of_def)
      ultimately show ?thesis using x by auto
    qed
  next
    assume "\<exists>role perms users. (role, perms) \<in> set roles \<and> map_of table role = Some users \<and>
        users \<noteq> [] \<and> get r ''user'' = PStr (pattern_of users)"
    then show ?thesis by auto
  qed
qed

definition demo_model :: pydict where
  "demo_model = [(''schema_version'', PStr ''1.0''),
     (''roles'', PDict [(''admin'', PDict [(''catalogs'', PList [PDict [(''catalogs'', PList [PStr ''*'']), (''access'', PStr ''all'')]])]),
        (''reader'', PDict [(''catalogs'', PList [PDict [(''catalogs'', PList [PStr ''lake'']), (''access'', PStr ''read-only'')]])])]),
     (''bindings'', PList [PDict [(''users'', PList [PStr ''ann'', PStr ''bob'']), (''roles'', PList [PStr ''reader''])]]),
     (''defaults'', PDict [(''system_catalog_access'', PStr ''none''), (''catalog_access'', PStr ''none''),
        (''queries'', PList []), (''system_information'', PList [])])]"

definition demo_lease :: pydict where
  "demo_lease = [(''schema_version'', PStr ''1.0''), (''grant_id'', PStr ''g1''), (''role'', PStr ''admin''),
     (''user'', PStr ''ann''), (''approved_by'', PStr ''eve''), (''ticket'', PStr ''T-1''), (''reason'', PStr ''repair''),
     (''issued_at'', PStr ''2025-01-01T00:00:00Z''), (''expires_at'', PStr ''2025-01-01T00:30:00Z'')]"


lemma demo_compiles:
  "case compile_trino_policy demo_model of Inr p \<Rightarrow> length (tp_catalogs p) = 3 \<and>
     get (hd (tp_catalogs p)) ''user'' = PStr ''ann|bob'' | _ \<Rightarrow> False"
  by code_simp


section \<open>Rendering\<close>

text \<open>Rendering writes the compiled policy and tells whether the file already had it; a check after it, and
  a second rendering, find the file current; a check never changes the file.\<close>

theorem rendering_settles:
  assumes "render_trino_policy file_content current False = Inr (same, written)"
  shows "(same \<longleftrightarrow> current = written) \<and>
    render_trino_policy file_content written True = Inr (True, written) \<and>
    render_trino_policy file_content written False = Inr (True, written) \<and>
    render_trino_policy file_content current True = Inr (same, current)"
  using assms unfolding render_trino_policy_def by (auto simp: bindE_eq_Inr Let_def)

lemma demo_renders: "case render_trino_policy (Some (Doc (PDict demo_model))) None False of
    Inr (same, Some written) \<Rightarrow> \<not> same \<and> 100 < length written | _ \<Rightarrow> False"
  by code_simp

theorem rendering_settles_witness:
  "\<exists>written. render_trino_policy (Some (Doc (PDict demo_model))) None False = Inr (False, written) \<and>
     render_trino_policy (Some (Doc (PDict demo_model))) written True = Inr (True, written)"
proof -
  obtain written where w: "render_trino_policy (Some (Doc (PDict demo_model))) None False = Inr (False, written)"
    using demo_renders by (auto split: sum.splits option.splits)
  from rendering_settles [OF w] w show ?thesis by blast
qed

section \<open>Break glass\<close>

lemma bound_to_append:
  "bound_to (bindings @ [grant_binding user role]) r u \<longleftrightarrow> bound_to bindings r u \<or> r = role \<and> u = user"
  by (auto simp: bound_to_def names_in_def grant_binding_def subscript_def item_def iterate_def)

text \<open>C29. A lease that is accepted names a known role, an approver other than the user, and a window of at most
  one hour; it is active exactly from its issue to just before its expiry, and then gives the
  user exactly that role and changes nothing else of the model; otherwise the model is unchanged.\<close>

theorem lease_grants_one_role_for_an_hour:
  assumes "apply_break_glass_lease model file_content now = Inr (effective, rep)"
    and "get model ''bindings'' = PList bindings"
  shows "(\<exists>roles. item model ''roles'' = Inr roles \<and> lr_role rep \<in> fst ` set (the_dict roles)) \<and>
    lr_approved_by rep \<noteq> lr_user rep \<and>
    (\<exists>issued expires. lr_issued_at rep = iso_z issued \<and> lr_expires_at rep = iso_z expires \<and>
       dt_utc issued < dt_utc expires \<and> dt_utc expires - dt_utc issued \<le> 3600000000 \<and>
       (lr_status rep = ''active'' \<longleftrightarrow> dt_utc issued \<le> dt_utc now \<and> dt_utc now < dt_utc expires)) \<and>
    (lr_status rep \<noteq> ''active'' \<longrightarrow> effective = model) \<and>
    (\<forall>k. k \<noteq> ''bindings'' \<longrightarrow> get effective k = get model k) \<and>
    (\<exists>bindings'. get effective ''bindings'' = PList bindings' \<and>
       (\<forall>r u. bound_to bindings' r u \<longleftrightarrow>
          bound_to bindings r u \<or> lr_status rep = ''active'' \<and> r = lr_role rep \<and> u = lr_user rep))"
proof -
  from assms(1) obtain roles issued expires where l:
      "item model ''roles'' = Inr roles" "lr_role rep \<in> fst ` set (the_dict roles)"
      "lr_approved_by rep \<noteq> lr_user rep" "dt_utc issued < dt_utc expires"
      "dt_utc expires - dt_utc issued \<le> max_lease_us" "lr_status rep = lease_status issued expires now"
      "effective_model (lr_status rep) model (grant_binding (lr_user rep) (lr_role rep)) = Inr effective"
      "lr_issued_at rep = iso_z issued" "lr_expires_at rep = iso_z expires"
    unfolding apply_break_glass_lease_def Let_def
    by (auto simp: bindE_eq_Inr lease_error_def not_le not_less split: if_split_asm; force)
  have active: "lr_status rep = ''active'' \<longleftrightarrow> dt_utc issued \<le> dt_utc now \<and> dt_utc now < dt_utc expires"
    unfolding l(6) lease_status_def by auto
  have eff: "effective = (if lr_status rep = ''active''
      then dict_set model ''bindings'' (PList (bindings @ [grant_binding (lr_user rep) (lr_role rep)])) else model)"
    using l(7) assms(2) by (auto simp: effective_model_def append_binding_def bindE_eq_Inr item_eq_Inr get_def split: if_splits)
  show ?thesis
    using l(1-5,8,9) active assms(2) bound_to_append
    by (auto simp: eff get_dict_set max_lease_us_def)
qed

lemma demo_lease_active:
  "case apply_break_glass_lease demo_model (Some (Doc (PDict demo_lease))) \<lparr>dt_local = 63871286400000000, dt_offset = Some 0\<rparr> of
     Inr (m, rep) \<Rightarrow> lr_status rep = ''active'' | _ \<Rightarrow> False"
  by code_simp

theorem lease_grants_one_role_for_an_hour_witness:
  "\<exists>effective rep bindings. apply_break_glass_lease demo_model (Some (Doc (PDict demo_lease)))
      \<lparr>dt_local = 63871286400000000, dt_offset = Some 0\<rparr> = Inr (effective, rep) \<and> lr_status rep = ''active'' \<and>
     get effective ''bindings'' = PList bindings \<and> bound_to bindings (lr_role rep) (lr_user rep)"
proof -
  obtain effective rep where r: "apply_break_glass_lease demo_model (Some (Doc (PDict demo_lease)))
      \<lparr>dt_local = 63871286400000000, dt_offset = Some 0\<rparr> = Inr (effective, rep)" "lr_status rep = ''active''"
    using demo_lease_active by (auto split: sum.splits)
  obtain bindings where b: "get demo_model ''bindings'' = PList bindings" by (simp add: demo_model_def get_simps)
  from lease_grants_one_role_for_an_hour [OF r(1) b] r show ?thesis by blast
qed

end
