(* ===== verification/Commerce_Alerts.thy ===== *)
theory Commerce_Alerts
  imports Commerce_Batches Py_Json
begin

text \<open>
  \<open>commerce_alerts.py\<close>: the freshness notification. The two URL parsers and the alert
  service belong to third-party packages: what they make of an address is a parameter, and the
  answer to a posted list of alerts is an oracle of the world's clock.
\<close>

section \<open>Options\<close>

record url =
  url_scheme :: string
  url_host :: string
  url_userinfo :: string
  url_query :: string
  url_fragment :: string

definition alert_error :: "string \<Rightarrow> 'a result" where
  "alert_error m = raise CommerceAlertError m"

definition is_instance_char :: "char \<Rightarrow> bool" where
  "is_instance_char c = (let n = of_char c :: nat in
     48 \<le> n \<and> n \<le> 58 \<or> 65 \<le> n \<and> n \<le> 90 \<or> 97 \<le> n \<and> n \<le> 122 \<or> c \<in> set ''_.-'')"

definition valid_instance :: "string \<Rightarrow> bool" where
  "valid_instance s = (1 \<le> length s \<and> length s \<le> 128 \<and> list_all is_instance_char s)"

definition validate_commerce_alert_options ::
    "(string \<Rightarrow> url result) \<Rightarrow> string \<Rightarrow> string \<Rightarrow> pyval \<Rightarrow> pyval \<Rightarrow> pyval \<Rightarrow> unit result" where
  "validate_commerce_alert_options parse server instance_name source_max backlog_max valid =
     bindE (catchE (parse server) (\<lambda>k. is_a k HttpInvalidURL \<or> is_a k ValueError)
       (\<lambda>_. alert_error ''invalid Alertmanager URL'')) (\<lambda>u.
     if url_scheme u \<notin> {''http'', ''https''} \<or> url_host u = [] \<or> url_userinfo u \<noteq> [] \<or> url_query u \<noteq> [] \<or>
        url_fragment u \<noteq> []
     then alert_error ''Alertmanager URL must be HTTP(S) without credentials or query''
     else if \<not> valid_instance instance_name
     then alert_error ''instance must be a stable identifier of 1 to 128 characters''
     else if \<not> exact_int valid \<or> \<not> (30 \<le> the_int valid \<and> the_int valid \<le> 86400)
     then alert_error ''valid_seconds must be between 30 and 86400''
     else if \<not> exact_int source_max \<or> the_int source_max < 1
     then alert_error ''source_max_age_seconds must be a positive integer''
     else if \<not> exact_int backlog_max \<or> the_int backlog_max < 1
     then alert_error ''backlog_max_age_seconds must be a positive integer''
     else Inr ())"

section \<open>Alerts\<close>

definition opt_str :: "string option \<Rightarrow> pyval" where
  "opt_str x = (case x of None \<Rightarrow> PNone | Some s \<Rightarrow> PStr s)"

definition opt_int :: "int option \<Rightarrow> pyval" where
  "opt_int x = (case x of None \<Rightarrow> PNone | Some i \<Rightarrow> PInt i)"

definition source_dict :: "freshness_report \<Rightarrow> pydict" where
  "source_dict r = [(''status'', PStr (fr_status r)), (''reason'', opt_str (fr_reason r)),
     (''latest_batch_id'', opt_str (fr_batch_id r)), (''latest_committed_at'', opt_str (fr_committed_at r)),
     (''age_seconds'', opt_int (fr_age_seconds r)), (''max_age_seconds'', PInt (fr_max_age_seconds r))]"

definition backlog_dict :: "freshness_report \<Rightarrow> pydict" where
  "backlog_dict r = [(''status'', PStr (fr_status r)), (''reason'', opt_str (fr_reason r)),
     (''pending_batches'', opt_int (map_option int (fr_pending r))),
     (''oldest_pending_batch_id'', opt_str (fr_batch_id r)), (''oldest_committed_at'', opt_str (fr_committed_at r)),
     (''age_seconds'', opt_int (fr_age_seconds r)), (''max_age_seconds'', PInt (fr_max_age_seconds r))]"

record alert_text =
  at_name :: string
  at_component :: string
  at_action :: string

definition source_alert :: alert_text where
  "source_alert = \<lparr>at_name = ''LakehouseCommerceSourceStale'', at_component = ''ingestion'',
     at_action = ''Check source generation and MinIO landing; do not use fixture event time as freshness.''\<rparr>"

definition backlog_alert :: alert_text where
  "backlog_alert = \<lparr>at_name = ''LakehouseCommerceBacklogStale'', at_component = ''processing'',
     at_action = ''Inspect the oldest pending batch and Spark/Trino failures; verify gold before checkpointing.''\<rparr>"

definition runbook_url :: string where
  "runbook_url = ''https://github.com/WhySatanic/lakehouse-ops-platform/'' @
     ''blob/main/docs/runbooks/commerce-training-fixture.md''"

text \<open>One alert: a stale check fires for the valid time, another one is resolved at once.\<close>

definition make_alert :: "alert_text \<Rightarrow> string \<Rightarrow> int \<Rightarrow> pydt \<Rightarrow> pydict \<Rightarrow> pydict result" where
  "make_alert text_of instance_name valid now report =
     bindE (dt_add now (if get report ''status'' = PStr ''stale'' then valid * 1000000 else 0)) (\<lambda>ends.
     bindE (dt_add now (- 1000000)) (\<lambda>starts.
     bindE (utc_iso_z starts) (\<lambda>starts_at.
     bindE (utc_iso_z ends) (\<lambda>ends_at. Inr
       [(''labels'', PDict [(''alertname'', PStr (at_name text_of)), (''instance'', PStr instance_name),
          (''component'', PStr (at_component text_of)), (''severity'', PStr ''warning''),
          (''source'', PStr ''commerce'')]),
        (''annotations'', PDict
          [(''summary'', PStr (''Commerce '' @ at_component text_of @ '' freshness check'')),
           (''description'', PStr (at_action text_of @ '' Observation: '' @ py_str (PDict report))),
           (''runbook_url'', PStr runbook_url)]),
        (''startsAt'', PStr starts_at), (''endsAt'', PStr ends_at)]))))"

definition strip_trailing_slashes :: "string \<Rightarrow> string" where
  "strip_trailing_slashes s = rev (dropWhile (\<lambda>c. c = CHR ''/'') (rev s))"

record alert_env =
  ae_parse :: "string \<Rightarrow> url result"
  ae_post :: "nat \<Rightarrow> string \<Rightarrow> pyval \<Rightarrow> unit result"

definition is_http_error :: "exn_class \<Rightarrow> bool" where
  "is_http_error k = (is_a k HttpTransportError \<or> is_a k HttpStatusError)"

definition post_alerts :: "alert_env \<Rightarrow> string \<Rightarrow> pydict list \<Rightarrow> unit io" where
  "post_alerts env server alerts =
     catch_io (call_io (\<lambda>n. ae_post env n (strip_trailing_slashes server @ ''/api/v2/alerts'') (PList (map PDict alerts))))
       is_http_error
       (\<lambda>_. raise_io CommerceAlertError ''Alertmanager did not accept commerce freshness alerts'')"

record notification =
  nf_status :: string
  nf_instance :: string
  nf_alerts_sent :: nat
  nf_source :: freshness_report
  nf_backlog :: freshness_report

definition notification_dict :: "notification \<Rightarrow> pydict" where
  "notification_dict x = [(''status'', PStr (nf_status x)), (''notification'', PStr ''accepted''),
     (''instance'', PStr (nf_instance x)), (''alerts_sent'', PInt (int (nf_alerts_sent x))),
     (''source'', PDict (source_dict (nf_source x))), (''backlog'', PDict (backlog_dict (nf_backlog x)))]"

definition notify_commerce_freshness ::
    "alert_env \<Rightarrow> s3_client \<Rightarrow> planner \<Rightarrow> string \<Rightarrow> string \<Rightarrow> int \<Rightarrow> int \<Rightarrow> int \<Rightarrow> pydt \<Rightarrow> notification io" where
  "notify_commerce_freshness env c p server instance_name source_max backlog_max valid now =
     bind_io (lift_io (validate_commerce_alert_options (ae_parse env) server instance_name
       (PInt source_max) (PInt backlog_max) (PInt valid))) (\<lambda>_.
     if \<not> is_aware now then raise_io CommerceAlertError ''observation time must include a timezone''
     else bind_io (check_source_freshness c p None source_max now) (\<lambda>source.
       bind_io (check_backlog_freshness c p None backlog_max now) (\<lambda>backlog.
       bind_io (lift_io (make_alert source_alert instance_name valid now (source_dict source))) (\<lambda>a.
       bind_io (lift_io (make_alert backlog_alert instance_name valid now (backlog_dict backlog))) (\<lambda>b.
       bind_io (post_alerts env server [a, b]) (\<lambda>_.
         return_io \<lparr>nf_status = (if fr_status source = ''stale'' \<or> fr_status backlog = ''stale'' then ''stale'' else ''ready''),
           nf_instance = instance_name, nf_alerts_sent = 2, nf_source = source, nf_backlog = backlog\<rparr>))))))"

end
