(* ===== verification/Commerce_Cycle.thy ===== *)
theory Commerce_Cycle
  imports Commerce_Pipeline Commerce_Alerts
begin

text \<open>
  \<open>commerce_cycle.py\<close>: one scheduled attempt, the pipeline in a child process and then the
  notification in another, under one time budget. The monotonic clock and the children are
  oracles of the clock of the cycle's world, which records the children it started and the lines
  it printed.
\<close>

record child =
  ch_command :: "string list"
  ch_name :: string
  ch_timeout :: rat
  ch_environment :: "(string \<times> string) list option"

datatype child_end = Returned int | ChildTimedOut | NotStarted string

record cycle_world =
  cw_tick :: nat
  cw_children :: "child list"
  cw_printed :: "string list"

type_synonym 'a cycle = "(pyexn, 'a, cycle_world) act"

record cycle_env =
  ce_vars :: "(string \<times> string) list"
  ce_python :: string
  ce_parse :: "string \<Rightarrow> url result"
  ce_monotonic :: "nat \<Rightarrow> rat"
  ce_child :: "nat \<Rightarrow> child \<Rightarrow> child_end"

record cycle_args =
  ca_s3_bucket :: string
  ca_s3_endpoint :: string
  ca_state :: string
  ca_server :: string
  ca_user :: string
  ca_instance :: string
  ca_alertmanager :: string
  ca_source_max :: int
  ca_backlog_max :: int
  ca_alert_valid :: int
  ca_attempts :: int
  ca_delay :: pyfloat

definition monotonic :: "cycle_env \<Rightarrow> rat cycle" where
  "monotonic env w = Some (Inr (ce_monotonic env (cw_tick w)), w\<lparr>cw_tick := Suc (cw_tick w)\<rparr>)"

definition say :: "string list \<Rightarrow> unit cycle" where
  "say msgs w = Some (Inr (), w\<lparr>cw_printed := cw_printed w @ msgs\<rparr>)"

definition start_child :: "cycle_env \<Rightarrow> child \<Rightarrow> child_end cycle" where
  "start_child env c w = Some (Inr (ce_child env (cw_tick w) c),
     w\<lparr>cw_tick := Suc (cw_tick w), cw_children := cw_children w @ [c]\<rparr>)"

definition run_command :: "cycle_env \<Rightarrow> child \<Rightarrow> int cycle" where
  "run_command env c =
     bind_io (start_child env c) (\<lambda>ended. case ended of
         Returned code \<Rightarrow> return_io code
       | ChildTimedOut \<Rightarrow> bind_io (say ((ch_name c @ '' timed out after '' @ fixed_places 3 (ch_timeout c) @ ''s'') #
           (if ch_name c = ''run-commerce-batch''
            then [''runner terminated; container cleanup unconfirmed; inspect its journal before retrying''] else [])))
           (\<lambda>_. return_io 2)
       | NotStarted m \<Rightarrow> bind_io (say [ch_name c @ '' could not start: '' @ m]) (\<lambda>_. return_io 2))"

definition shared_options :: "cycle_args \<Rightarrow> string list" where
  "shared_options args = [''--s3-bucket'', ca_s3_bucket args, ''--s3-endpoint-url'', ca_s3_endpoint args,
     ''--state'', ca_state args]"

definition runner_child :: "cycle_env \<Rightarrow> cycle_args \<Rightarrow> rat \<Rightarrow> rat \<Rightarrow> child" where
  "runner_child env args deadline remaining =
     \<lparr>ch_command = [ce_python env, ''-m'', ''lakehouse_ops.cli'', ''run-commerce-batch''] @ shared_options args @
        [''--server'', ca_server args, ''--user'', ca_user args, ''--attempts'', dec_int (ca_attempts args),
         ''--retry-delay-seconds'', py_str (PFloat (ca_delay args))],
      ch_name = ''run-commerce-batch'',
      ch_timeout = float_add remaining (of_int cleanup_grace_seconds),
      ch_environment = Some (dict_set (dict_set (ce_vars env) ''COMMERCE_RUN_TIMEOUT_SECONDS''
        (dec_int \<lceil>remaining\<rceil>)) cycle_deadline_env (finite_repr deadline))\<rparr>"

definition notify_child :: "cycle_env \<Rightarrow> cycle_args \<Rightarrow> rat \<Rightarrow> child" where
  "notify_child env args remaining =
     \<lparr>ch_command = [ce_python env, ''-m'', ''lakehouse_ops.cli'', ''notify-commerce-freshness''] @ shared_options args @
        [''--instance'', ca_instance args, ''--alertmanager-server'', ca_alertmanager args,
         ''--source-max-age-seconds'', dec_int (ca_source_max args),
         ''--backlog-max-age-seconds'', dec_int (ca_backlog_max args),
         ''--alert-valid-seconds'', dec_int (ca_alert_valid args)],
      ch_name = ''notify-commerce-freshness'', ch_timeout = remaining, ch_environment = None\<rparr>"

text \<open>\<open>code or other\<close>\<close>

definition or_code :: "int \<Rightarrow> int \<Rightarrow> int" where
  "or_code code other = (if code \<noteq> 0 then code else other)"

definition cycle_options_valid :: "cycle_env \<Rightarrow> cycle_args \<Rightarrow> unit result" where
  "cycle_options_valid env args =
     bindE (case validate_commerce_gold_retry (PInt (ca_attempts args)) (PFloat (ca_delay args)) of
         Inl e \<Rightarrow> Inl (fst e) | Inr u \<Rightarrow> Inr u) (\<lambda>_.
       validate_commerce_alert_options (ce_parse env) (ca_alertmanager args) (ca_instance args)
         (PInt (ca_source_max args)) (PInt (ca_backlog_max args)) (PInt (ca_alert_valid args)))"

definition notification_phase :: "cycle_env \<Rightarrow> cycle_args \<Rightarrow> rat \<Rightarrow> int \<Rightarrow> int cycle" where
  "notification_phase env args deadline runner_code =
     bind_io (monotonic env) (\<lambda>now.
     let remaining = float_sub deadline now in
     if remaining \<le> 0
     then bind_io (say [''commerce cycle time budget exhausted; notification skipped''])
       (\<lambda>_. return_io (or_code runner_code 2))
     else bind_io (run_command env (notify_child env args remaining)) (\<lambda>notification_code.
       return_io (or_code runner_code notification_code)))"

definition runner_phase :: "cycle_env \<Rightarrow> cycle_args \<Rightarrow> rat \<Rightarrow> int cycle" where
  "runner_phase env args deadline =
     bind_io (monotonic env) (\<lambda>now.
     let remaining = float_sub deadline now in
     if remaining \<le> 0
     then bind_io (say [''commerce cycle time budget exhausted before runner'']) (\<lambda>_. return_io 2)
     else bind_io (run_command env (runner_child env args deadline remaining))
       (notification_phase env args deadline))"

definition run_cycle :: "cycle_env \<Rightarrow> cycle_args \<Rightarrow> int cycle" where
  "run_cycle env args =
     bind_io (monotonic env) (\<lambda>started.
     bind_io (lift_io (commerce_run_timeout_seconds (ce_vars env))) (\<lambda>timeout.
     bind_io (lift_io (cycle_options_valid env args)) (\<lambda>_.
     runner_phase env args (float_add started (of_int timeout)))))"

text \<open>A refused option or setting ends the process with the exit code of a usage error.\<close>

definition cycle_main :: "cycle_env \<Rightarrow> cycle_args \<Rightarrow> int cycle" where
  "cycle_main env args =
     catch_io (run_cycle env args)
       (\<lambda>k. is_a k CommerceAlertError \<or> is_a k CommerceGoldGateError \<or> is_a k CommercePipelineError)
       (\<lambda>e. bind_io (say [message_of e]) (\<lambda>_. return_io 2))"

end
