(* ===== verification/Trino_Client.thy ===== *)
theory Trino_Client
  imports Py_Json
begin

text \<open>
  \<open>trino.py\<close>: the client of the query engine. A query is a first page and the pages its links
  lead to, under an optional deadline. The monotonic clock, the transport and the reader threads
  are oracles of the clock of the client's world, which records the requests that were sent and
  how many of the two slots for readers are held.
\<close>

section \<open>\<open>urlsplit\<close> and \<open>urlunsplit\<close>\<close>

record split_url =
  su_scheme :: string
  su_netloc :: string
  su_path :: string
  su_query :: string

definition is_scheme_char :: "char \<Rightarrow> bool" where
  "is_scheme_char c = (let n = of_char c :: nat in
     48 \<le> n \<and> n \<le> 57 \<or> 65 \<le> n \<and> n \<le> 90 \<or> 97 \<le> n \<and> n \<le> 122 \<or> c \<in> set ''+-.'')"

definition is_ascii_alpha :: "char \<Rightarrow> bool" where
  "is_ascii_alpha c = (let n = of_char c :: nat in 65 \<le> n \<and> n \<le> 90 \<or> 97 \<le> n \<and> n \<le> 122)"

text \<open>Leading controls and blanks are dropped, and tabs and line ends everywhere.\<close>

definition clean_url :: "string \<Rightarrow> string" where
  "clean_url s = filter (\<lambda>c. of_char c \<notin> {9, 10, 13 :: nat}) (dropWhile (\<lambda>c. (of_char c :: nat) \<le> 32) s)"

definition split_scheme :: "string \<Rightarrow> string \<times> string" where
  "split_scheme s =
     (case split_at (\<lambda>c. c = CHR '':'') s of
        (c # before, Some rest) \<Rightarrow> if is_ascii_alpha c \<and> list_all is_scheme_char (c # before)
          then (map lower_char (c # before), rest) else ([], s)
      | _ \<Rightarrow> ([], s))"

definition split_netloc :: "string \<Rightarrow> string \<times> string" where
  "split_netloc s = (if starts_with ''//'' s
     then (takeWhile (\<lambda>c. c \<notin> set ''/?#'') (drop 2 s), dropWhile (\<lambda>c. c \<notin> set ''/?#'') (drop 2 s)) else ([], s))"

text \<open>\<open>urlsplit(s)\<close> without the fragment; what the library makes of a host in brackets is the
  parameter \<open>brackets\<close>.\<close>

definition url_split :: "(string \<Rightarrow> bool) \<Rightarrow> string \<Rightarrow> split_url result" where
  "url_split brackets s =
     (let (scheme, rest) = split_scheme (clean_url s); (netloc, rest) = split_netloc rest;
          opened = CHR ''['' \<in> set netloc; closed = CHR '']'' \<in> set netloc;
          (path, query) = split_at (\<lambda>c. c = CHR ''?'') (fst (split_at (\<lambda>c. c = CHR ''#'') rest))
      in if opened \<noteq> closed \<or> opened \<and> \<not> brackets netloc then raise ValueError ''Invalid IPv6 URL''
         else Inr \<lparr>su_scheme = scheme, su_netloc = netloc, su_path = path,
           su_query = (case query of None \<Rightarrow> [] | Some q \<Rightarrow> q)\<rparr>)"

text \<open>\<open>urlunsplit((scheme, netloc, path, query, ""))\<close> for a scheme and a netloc that are not empty.\<close>

definition url_unsplit :: "string \<Rightarrow> string \<Rightarrow> string \<Rightarrow> string \<Rightarrow> string" where
  "url_unsplit scheme netloc path query =
     scheme @ ''://'' @ netloc @ (if path \<noteq> [] \<and> hd path \<noteq> CHR ''/'' then CHR ''/'' # path else path) @
     (if query \<noteq> [] then CHR ''?'' # query else [])"

definition absolute_http :: "split_url \<Rightarrow> bool" where
  "absolute_http u = (su_scheme u \<in> {''http'', ''https''} \<and> su_netloc u \<noteq> [])"

section \<open>The client and its world\<close>

record http_request =
  hq_method :: string
  hq_url :: string
  hq_content :: "string option"
  hq_headers :: "(string \<times> string) list"
  hq_timeouts :: "(string \<times> rat option) list option"

record http_response =
  hp_status :: int
  hp_body :: string

text \<open>A response being read: each chunk with the clock at its arrival and whether the caller had
  given up by then, and the error that ends the stream, if one does.\<close>

record http_stream =
  ht_status :: int
  ht_chunks :: "(string \<times> rat \<times> bool) list"
  ht_fault :: "pyexn option"

record trino_env =
  te_clock :: "nat \<Rightarrow> rat"
  te_request :: "nat \<Rightarrow> http_request \<Rightarrow> http_response result"
  te_released :: "nat \<Rightarrow> nat"
  te_thread :: "nat \<Rightarrow> pyexn option"
  te_started :: "nat \<Rightarrow> rat \<times> bool"
  te_stream :: "nat \<Rightarrow> http_request \<Rightarrow> http_stream result"
  te_in_time :: "nat \<Rightarrow> bool"
  te_json :: "string \<Rightarrow> pyval result"
  te_brackets :: "string \<Rightarrow> bool"
  te_timeouts :: "(string \<times> rat option) list"

record http_world =
  hw_tick :: nat
  hw_requests :: "http_request list"
  hw_held :: nat

type_synonym 'a http = "(pyexn, 'a, http_world) act"

definition http_call :: "(nat \<Rightarrow> 'a result) \<Rightarrow> 'a http" where
  "http_call f w = Some (f (hw_tick w), w\<lparr>hw_tick := Suc (hw_tick w)\<rparr>)"

definition http_clock :: "trino_env \<Rightarrow> rat http" where
  "http_clock env = http_call (\<lambda>n. Inr (te_clock env n))"

definition sent :: "http_request \<Rightarrow> unit http" where
  "sent rq w = Some (Inr (), w\<lparr>hw_requests := hw_requests w @ [rq]\<rparr>)"

record trino_client =
  tc_server :: string
  tc_origin :: "string \<times> string"
  tc_query_timeout :: "rat option"
  tc_headers :: "(string \<times> string) list"

definition trino_headers :: "string \<Rightarrow> (string \<times> string) list" where
  "trino_headers user = [(''Accept'', ''application/json''), (''X-Trino-User'', user),
     (''X-Trino-Source'', ''lakehouse-ops''), (''X-Trino-Time-Zone'', ''UTC'')]"

definition query_timeout_of :: "pyval \<Rightarrow> rat option result" where
  "query_timeout_of v =
     (let bad = raise ValueError ''Trino query_timeout must be finite and positive''
      in case v of PNone \<Rightarrow> Inr None
         | PInt i \<Rightarrow> if max_double < round_double \<bar>of_int i\<bar> then raise OverflowError ''int too large to convert to float''
             else if i \<le> 0 then bad else Inr (Some (round_double (of_int i)))
         | PFloat (Fin q) \<Rightarrow> if q \<le> 0 then bad else Inr (Some q)
         | PFloat _ \<Rightarrow> bad | PBool _ \<Rightarrow> bad
         | _ \<Rightarrow> raise TypeError ''must be real number'')"

definition rstrip_slash :: "string \<Rightarrow> string" where
  "rstrip_slash s = rev (dropWhile (\<lambda>c. c = CHR ''/'') (rev s))"

definition make_trino_client :: "(string \<Rightarrow> bool) \<Rightarrow> string \<Rightarrow> string \<Rightarrow> pyval \<Rightarrow> trino_client result" where
  "make_trino_client brackets server user query_timeout =
     bindE (query_timeout_of query_timeout) (\<lambda>limit.
     bindE (url_split brackets (rstrip_slash server)) (\<lambda>u.
     if \<not> absolute_http u then raise ValueError ''Trino server must be an absolute HTTP(S) URL''
     else Inr \<lparr>tc_server = url_unsplit (su_scheme u) (su_netloc u) (su_path u) [],
       tc_origin = (su_scheme u, su_netloc u), tc_query_timeout = limit, tc_headers = trino_headers user\<rparr>))"

section \<open>One request\<close>

definition read_timeout :: "string \<Rightarrow> 'a result" where
  "read_timeout m = raise HttpTimeoutError m"

fun deadline_stream :: "rat \<Rightarrow> (string \<times> rat \<times> bool) list \<Rightarrow> string result" where
  "deadline_stream deadline [] = Inr []"
| "deadline_stream deadline ((part, now, stopped) # rest) =
     (if stopped \<or> deadline \<le> now then read_timeout ''Trino response exceeded the query deadline''
      else bindE (deadline_stream deadline rest) (\<lambda>body. Inr (part @ body)))"

text \<open>The reader's end: what its thread hands to the caller. It sends nothing once the caller has
  given up or the deadline has passed.\<close>

definition reader_sends :: "trino_env \<Rightarrow> nat \<Rightarrow> rat \<Rightarrow> bool" where
  "reader_sends env n deadline = (case te_started env n of (now, stopped) \<Rightarrow> \<not> stopped \<and> now < deadline)"

definition reader_end :: "trino_env \<Rightarrow> nat \<Rightarrow> rat \<Rightarrow> http_request \<Rightarrow> http_response result" where
  "reader_end env n deadline rq =
     (if \<not> reader_sends env n deadline then read_timeout ''Trino HTTP request exceeded its deadline''
      else bindE (te_stream env n rq) (\<lambda>s. bindE (deadline_stream deadline (ht_chunks s)) (\<lambda>body.
        case ht_fault s of Some e \<Rightarrow> Inl e | None \<Rightarrow> Inr \<lparr>hp_status = ht_status s, hp_body = body\<rparr>)))"

text \<open>A slot for a reader: the readers that ended meanwhile have released theirs.\<close>

definition acquire_slot :: "trino_env \<Rightarrow> bool http" where
  "acquire_slot env w =
     (let held = hw_held w - te_released env (hw_tick w) in
      Some (Inr (held < 2), w\<lparr>hw_tick := Suc (hw_tick w), hw_held := (if held < 2 then Suc held else held)\<rparr>))"

definition release_slot :: "unit http" where
  "release_slot w = Some (Inr (), w\<lparr>hw_held := hw_held w - 1\<rparr>)"

definition start_thread :: "trino_env \<Rightarrow> unit http" where
  "start_thread env =
     bind_io (http_call (\<lambda>n. Inr (te_thread env n))) (\<lambda>failed. case failed of
         None \<Rightarrow> return_io ()
       | Some e \<Rightarrow> bind_io release_slot (\<lambda>_. lift_io (Inl e)))"

definition await_reader :: "trino_env \<Rightarrow> rat \<Rightarrow> http_request \<Rightarrow> http_response http" where
  "await_reader env deadline rq =
     bind_io (http_call (\<lambda>n. Inr n)) (\<lambda>n.
     bind_io (if reader_sends env n deadline then sent rq else return_io ()) (\<lambda>_.
       lift_io (if te_in_time env n then reader_end env n deadline rq
         else read_timeout ''Trino HTTP request exceeded its deadline'')))"

definition request_until :: "trino_env \<Rightarrow> rat \<Rightarrow> http_request \<Rightarrow> http_response http" where
  "request_until env deadline rq =
     bind_io (http_clock env) (\<lambda>now.
     let remaining = float_sub deadline now in
     if remaining \<le> 0 then lift_io (read_timeout ''Trino HTTP request exceeded its deadline'')
     else bind_io (acquire_slot env) (\<lambda>acquired.
       if \<not> acquired then lift_io (read_timeout ''Trino HTTP request exceeded its deadline'')
       else bind_io (start_thread env) (\<lambda>_. bind_io (http_clock env) (\<lambda>_. await_reader env deadline rq))))"

definition is_success :: "http_response \<Rightarrow> bool" where
  "is_success r = (200 \<le> hp_status r \<and> hp_status r \<le> 299)"

definition is_http_fault :: "exn_class \<Rightarrow> bool" where
  "is_http_fault k = (is_a k HttpTransportError \<or> is_a k HttpStatusError)"

definition cancel_query :: "trino_env \<Rightarrow> trino_client \<Rightarrow> string option \<Rightarrow> string http" where
  "cancel_query env c uri =
     (case uri of None \<Rightarrow> return_io ''not_available''
      | Some u \<Rightarrow> catch_io
          (bind_io (http_clock env) (\<lambda>now.
           bind_io (request_until env (float_add now 5)
             \<lparr>hq_method = ''DELETE'', hq_url = u, hq_content = None, hq_headers = tc_headers c,
               hq_timeouts = Some (map (\<lambda>phase. (phase, Some 5)) [''connect'', ''read'', ''write'', ''pool''])\<rparr>)
             (\<lambda>r. return_io (if is_success r then ''accepted'' else ''http_'' @ dec_int (hp_status r)))))
          is_http_fault (\<lambda>_. return_io ''transport_failed''))"

definition opt_text :: "string option \<Rightarrow> string" where
  "opt_text x = (case x of None \<Rightarrow> ''None'' | Some s \<Rightarrow> s)"

definition query_timeout_error :: "trino_env \<Rightarrow> trino_client \<Rightarrow> string option \<Rightarrow> string option \<Rightarrow> 'a http" where
  "query_timeout_error env c query_id uri =
     bind_io (cancel_query env c uri) (\<lambda>cancellation. raise_io TrinoQueryTimeoutError
       (''Trino query time budget exhausted: query_id='' @ opt_text query_id @ '', cancellation='' @ cancellation))"

definition cap_timeouts :: "rat \<Rightarrow> (string \<times> rat option) list \<Rightarrow> (string \<times> rat option) list" where
  "cap_timeouts remaining = map (\<lambda>(phase, v). (phase, Some (case v of None \<Rightarrow> remaining | Some t \<Rightarrow> min t remaining)))"

definition direct_request :: "trino_env \<Rightarrow> http_request \<Rightarrow> http_response http" where
  "direct_request env rq = bind_io (sent rq) (\<lambda>_. http_call (\<lambda>n. te_request env n rq))"

definition trino_request ::
    "trino_env \<Rightarrow> trino_client \<Rightarrow> rat option \<Rightarrow> string option \<Rightarrow> string option \<Rightarrow> http_request \<Rightarrow> http_response http" where
  "trino_request env c deadline query_id uri rq =
     (case deadline of
        None \<Rightarrow> direct_request env rq
      | Some d \<Rightarrow> bind_io (http_clock env) (\<lambda>now.
          let remaining = float_sub d now in
          if remaining \<le> 0 then query_timeout_error env c query_id uri
          else catch_io (request_until env d (rq\<lparr>hq_timeouts := Some (cap_timeouts remaining (te_timeouts env))\<rparr>))
            (\<lambda>k. is_a k HttpTimeoutError) (\<lambda>_. query_timeout_error env c query_id uri)))"

section \<open>Pages\<close>

definition protocol_error :: "string \<Rightarrow> 'a result" where
  "protocol_error m = raise TrinoProtocolError m"

definition payload_of :: "trino_env \<Rightarrow> http_response \<Rightarrow> pydict result" where
  "payload_of env r =
     (if \<not> is_success r then protocol_error (''Trino returned HTTP '' @ dec_int (hp_status r))
      else bindE (catchE (te_json env (hp_body r)) (\<lambda>k. is_a k ValueError)
        (\<lambda>_. protocol_error ''Trino returned invalid JSON'')) (\<lambda>v.
        if \<not> is_dict v then protocol_error ''Trino response must be a JSON object'' else Inr (the_dict v)))"

definition coordinator_uri :: "trino_env \<Rightarrow> trino_client \<Rightarrow> pyval \<Rightarrow> string result" where
  "coordinator_uri env c next_uri =
     (if \<not> is_str next_uri then raise AttributeError ''decode''
      else bindE (url_split (te_brackets env) (the_str next_uri)) (\<lambda>u.
        if \<not> absolute_http u then protocol_error ''Trino nextUri must be an absolute HTTP(S) URL''
        else if \<not> starts_with ''/v1/statement/'' (su_path u)
        then protocol_error ''Trino nextUri has an unexpected path''
        else Inr (url_unsplit (fst (tc_origin c)) (snd (tc_origin c)) (su_path u) (su_query u))))"

definition cancellation_of :: "trino_env \<Rightarrow> trino_client \<Rightarrow> pydict \<Rightarrow> string option result" where
  "cancellation_of env c payload =
     (if truthy (get payload ''nextUri'') then bindE (coordinator_uri env c (get payload ''nextUri'')) (\<lambda>u. Inr (Some u))
      else Inr None)"

definition page_id :: "string option \<Rightarrow> pydict \<Rightarrow> string result" where
  "page_id query_id payload =
     (if \<not> nonempty_str (get payload ''id'') then protocol_error ''Trino response has no query ID''
      else if query_id \<noteq> None \<and> query_id \<noteq> Some (the_str (get payload ''id''))
      then protocol_error ''Trino query ID changed between result pages''
      else Inr (the_str (get payload ''id'')))"

definition with_fallback :: "pyval option \<Rightarrow> string \<Rightarrow> pyval" where
  "with_fallback v fallback = (case v of None \<Rightarrow> PStr fallback | Some x \<Rightarrow> x)"

definition page_error :: "pydict \<Rightarrow> unit result" where
  "page_error payload =
     (let failure = get payload ''error''
      in if \<not> truthy failure then Inr ()
         else bindE (get_attr failure ''errorName'') (\<lambda>name.
           bindE (get_attr failure ''message'') (\<lambda>message. raise TrinoQueryError
             (py_str (with_fallback name ''TRINO_QUERY_ERROR'') @ '': '' @
              py_str (with_fallback message ''query failed without a message'')))))"

text \<open>A row is a dictionary of its columns; only names that can be keys make one.\<close>

type_synonym row = "(pyval \<times> pyval) list"

definition hashable :: "pyval \<Rightarrow> bool" where
  "hashable v = (case v of PList _ \<Rightarrow> False | PDict _ \<Rightarrow> False | _ \<Rightarrow> True)"

fun row_set :: "row \<Rightarrow> pyval \<Rightarrow> pyval \<Rightarrow> row" where
  "row_set [] k v = [(k, v)]"
| "row_set ((k', v') # r) k v = (if k' = k \<or> py_eq k' k then (k', v) # r else (k', v') # row_set r k v)"

definition row_of :: "pyval list \<Rightarrow> pyval list \<Rightarrow> row result" where
  "row_of columns values =
     (if \<not> list_all hashable columns then raise TypeError ''unhashable type''
      else Inr (fold (\<lambda>(k, v) r. row_set r k v) (zip columns values) []))"

definition page_columns :: "pyval list option \<Rightarrow> pydict \<Rightarrow> pyval list option result" where
  "page_columns columns payload =
     (case map_of payload ''columns'' of None \<Rightarrow> Inr columns
      | Some v \<Rightarrow> bindE (iterate v) (\<lambda>cs. bindE (mapE (\<lambda>col. subscript col ''name'') cs) (\<lambda>names. Inr (Some names))))"

definition page_row :: "pyval list \<Rightarrow> pyval \<Rightarrow> row result" where
  "page_row columns values =
     bindE (iterate values) (\<lambda>vs.
       if length vs \<noteq> length columns then protocol_error ''Trino row width does not match columns''
       else row_of columns vs)"

definition page_rows :: "pyval list option \<Rightarrow> pydict \<Rightarrow> row list result" where
  "page_rows columns payload =
     (let data = get payload ''data''
      in if \<not> truthy data then Inr []
         else case columns of None \<Rightarrow> protocol_error ''Trino returned data before column metadata''
           | Some cs \<Rightarrow> bindE (iterate data) (mapE (page_row cs)))"

section \<open>Statistics\<close>

record query_stats =
  qs_state :: string
  qs_elapsed :: int
  qs_wall :: int
  qs_cpu :: int
  qs_rows :: int
  qs_bytes :: int
  qs_input :: int
  qs_memory :: int
  qs_spilled :: int

definition stat_integer :: "pydict \<Rightarrow> string \<Rightarrow> int result" where
  "stat_integer d key =
     (if \<not> exact_int (get d key) \<or> the_int (get d key) < 0
      then protocol_error (''Trino query statistic '' @ key @ '' must be non-negative'')
      else Inr (the_int (get d key)))"

definition query_stats_of :: "pyval \<Rightarrow> query_stats result" where
  "query_stats_of v =
     (if \<not> is_dict v then protocol_error ''Trino final response has no query statistics''
      else let d = the_dict v; state = get d ''state''
      in if state \<noteq> PStr ''FINISHED'' then protocol_error (''Trino final query state is not FINISHED: '' @ py_str state)
         else bindE (stat_integer d ''elapsedTimeMillis'') (\<lambda>elapsed.
           bindE (stat_integer d ''wallTimeMillis'') (\<lambda>wall.
           bindE (stat_integer d ''cpuTimeMillis'') (\<lambda>cpu.
           bindE (stat_integer d ''processedRows'') (\<lambda>rows.
           bindE (stat_integer d ''processedBytes'') (\<lambda>bytes.
           bindE (stat_integer d ''physicalInputBytes'') (\<lambda>input.
           bindE (stat_integer d ''peakMemoryBytes'') (\<lambda>memory.
           bindE (stat_integer d ''spilledBytes'') (\<lambda>spilled. Inr
             \<lparr>qs_state = the_str state, qs_elapsed = elapsed, qs_wall = wall, qs_cpu = cpu, qs_rows = rows,
               qs_bytes = bytes, qs_input = input, qs_memory = memory, qs_spilled = spilled\<rparr>)))))))))"

record query_result =
  qr_id :: string
  qr_rows :: "row list"
  qr_stats :: query_stats

section \<open>The query\<close>

text \<open>What a page says, in the order in which the code reads it: its query, the link to the next
  page, then, unless the deadline has passed, its error, its columns and its rows.\<close>

definition check_deadline :: "trino_env \<Rightarrow> trino_client \<Rightarrow> rat option \<Rightarrow> string \<Rightarrow> string option \<Rightarrow> unit http" where
  "check_deadline env c deadline query_id uri =
     (case deadline of None \<Rightarrow> return_io ()
      | Some d \<Rightarrow> bind_io (http_clock env) (\<lambda>now.
          if d \<le> now then query_timeout_error env c (Some query_id) uri else return_io ()))"

record page =
  pg_id :: string
  pg_next :: "string option"
  pg_columns :: "pyval list option"
  pg_rows :: "row list"

definition read_page ::
    "trino_env \<Rightarrow> trino_client \<Rightarrow> rat option \<Rightarrow> string option \<Rightarrow> pyval list option \<Rightarrow> pydict \<Rightarrow> page http" where
  "read_page env c deadline query_id columns payload =
     bind_io (lift_io (page_id query_id payload)) (\<lambda>current.
     bind_io (lift_io (cancellation_of env c payload)) (\<lambda>uri.
     bind_io (check_deadline env c deadline current uri) (\<lambda>_.
     bind_io (lift_io (page_error payload)) (\<lambda>_.
     bind_io (lift_io (page_columns columns payload)) (\<lambda>columns.
     bind_io (lift_io (page_rows columns payload)) (\<lambda>rows.
       return_io \<lparr>pg_id = current, pg_next = uri, pg_columns = columns, pg_rows = rows\<rparr>))))))"

definition statement_request :: "trino_client \<Rightarrow> string \<Rightarrow> http_request" where
  "statement_request c sql = \<lparr>hq_method = ''POST'', hq_url = tc_server c @ ''/v1/statement'', hq_content = Some sql,
     hq_headers = dict_set (tc_headers c) ''Content-Type'' ''text/plain; charset=utf-8'', hq_timeouts = None\<rparr>"

definition page_request :: "trino_client \<Rightarrow> string \<Rightarrow> http_request" where
  "page_request c uri = \<lparr>hq_method = ''GET'', hq_url = uri, hq_content = None, hq_headers = tc_headers c,
     hq_timeouts = None\<rparr>"

definition max_pages :: nat where
  "max_pages = 1000"

definition page_limit_error :: "trino_env \<Rightarrow> trino_client \<Rightarrow> string \<Rightarrow> string \<Rightarrow> 'a http" where
  "page_limit_error env c query_id uri =
     bind_io (cancel_query env c (Some uri)) (\<lambda>cancellation. raise_io TrinoPageLimitError
       (''Trino query exceeded the 1000-page safety limit: query_id='' @ query_id @ '', cancellation='' @ cancellation))"

text \<open>The page loop, with the number of pages that may still follow the current one.\<close>

fun query_pages ::
    "trino_env \<Rightarrow> trino_client \<Rightarrow> rat option \<Rightarrow> nat \<Rightarrow> string option \<Rightarrow> pyval list option \<Rightarrow> row list
     \<Rightarrow> http_response \<Rightarrow> (query_result \<times> pydict) http" where
  "query_pages env c deadline left query_id columns rows response =
     bind_io (lift_io (payload_of env response)) (\<lambda>payload.
     bind_io (read_page env c deadline query_id columns payload) (\<lambda>pg.
     case pg_next pg of
       None \<Rightarrow> bind_io (lift_io (query_stats_of (get payload ''stats''))) (\<lambda>stats.
         return_io (\<lparr>qr_id = pg_id pg, qr_rows = rows @ pg_rows pg, qr_stats = stats\<rparr>, the_dict (get payload ''stats'')))
     | Some uri \<Rightarrow> (case left of
         0 \<Rightarrow> page_limit_error env c (pg_id pg) uri
       | Suc k \<Rightarrow> bind_io (trino_request env c deadline (Some (pg_id pg)) (Some uri) (page_request c uri))
           (query_pages env c deadline k (Some (pg_id pg)) (pg_columns pg) (rows @ pg_rows pg)))))"

declare query_pages.simps [simp del]

definition query_result_of :: "trino_env \<Rightarrow> trino_client \<Rightarrow> string \<Rightarrow> (query_result \<times> pydict) http" where
  "query_result_of env c sql =
     bind_io (case tc_query_timeout c of None \<Rightarrow> return_io None
       | Some limit \<Rightarrow> bind_io (http_clock env) (\<lambda>now. return_io (Some (float_add now limit)))) (\<lambda>deadline.
     bind_io (trino_request env c deadline None None (statement_request c sql))
       (query_pages env c deadline (max_pages - 1) None None []))"

definition query_with_stats :: "trino_env \<Rightarrow> trino_client \<Rightarrow> string \<Rightarrow> query_result http" where
  "query_with_stats env c sql = bind_io (query_result_of env c sql) (\<lambda>(r, _). return_io r)"

definition trino_query :: "trino_env \<Rightarrow> trino_client \<Rightarrow> string \<Rightarrow> row list http" where
  "trino_query env c sql = bind_io (query_with_stats env c sql) (\<lambda>r. return_io (qr_rows r))"

definition query_with_planning :: "trino_env \<Rightarrow> trino_client \<Rightarrow> string \<Rightarrow> (query_result \<times> int option) http" where
  "query_with_planning env c sql =
     bind_io (query_result_of env c sql) (\<lambda>(r, stats).
       if map_of stats ''planningTimeMillis'' = None then return_io (r, None)
       else bind_io (lift_io (stat_integer stats ''planningTimeMillis'')) (\<lambda>p. return_io (r, Some p)))"

end
