(* ===== verification/Trino_Properties.thy ===== *)
theory Trino_Properties
  imports Trino_Client
begin

text \<open>
  What the client of the query engine promises: every query ends after a bounded number of
  requests, all of them to the configured origin; its rows are those of its pages in order; and
  what it returns is well formed.
\<close>

declare One_nat_def [simp del]

section \<open>How many requests an action sends, and where\<close>

text \<open>An action that always ends, sends requests that satisfy \<open>P\<close> only, at most \<open>a\<close> of them
  when it succeeds and \<open>b\<close> when it fails, and never holds more than two slots.\<close>

definition sends :: "(http_request \<Rightarrow> bool) \<Rightarrow> nat \<Rightarrow> nat \<Rightarrow> 'a http \<Rightarrow> bool" where
  "sends P a b m \<longleftrightarrow> (\<forall>w. hw_held w \<le> 2 \<longrightarrow> (\<exists>r w' rs. m w = Some (r, w') \<and> hw_held w' \<le> 2 \<and>
     hw_requests w' = hw_requests w @ rs \<and> (\<forall>q \<in> set rs. P q) \<and>
     length rs \<le> (case r of Inr _ \<Rightarrow> a | Inl _ \<Rightarrow> b)))"

named_theorems sends_intros \<open>bounds on the requests of an action\<close>

lemma sendsD:
  assumes "sends P a b m" "hw_held w \<le> 2"
  obtains r w' rs where "m w = Some (r, w')" "hw_held w' \<le> 2" "hw_requests w' = hw_requests w @ rs"
    "\<forall>q \<in> set rs. P q" "length rs \<le> (case r of Inr _ \<Rightarrow> a | Inl _ \<Rightarrow> b)"
  using assms unfolding sends_def by blast

lemma sends_mono: "sends P a b m \<Longrightarrow> a \<le> a' \<Longrightarrow> b \<le> b' \<Longrightarrow> sends P a' b' m"
  unfolding sends_def by (fastforce split: sum.splits)

lemma sends_bind:
  assumes "sends P a b m" "\<And>x. sends P a' b' (f x)"
  shows "sends P (a + a') (max b (a + b')) (bind_io m f)"
  unfolding sends_def
proof (intro allI impI)
  fix w :: http_world
  assume w: "hw_held w \<le> 2"
  obtain r w1 rs where m: "m w = Some (r, w1)" "hw_held w1 \<le> 2" "hw_requests w1 = hw_requests w @ rs"
      "\<forall>q \<in> set rs. P q" "length rs \<le> (case r of Inr _ \<Rightarrow> a | Inl _ \<Rightarrow> b)"
    by (rule sendsD [OF assms(1) w])
  show "\<exists>r w' rs. bind_io m f w = Some (r, w') \<and> hw_held w' \<le> 2 \<and> hw_requests w' = hw_requests w @ rs \<and>
      (\<forall>q \<in> set rs. P q) \<and> length rs \<le> (case r of Inr _ \<Rightarrow> a + a' | Inl _ \<Rightarrow> max b (a + b'))"
  proof (cases r)
    case (Inl e)
    with m show ?thesis by (fastforce simp: bind_io_def)
  next
    case (Inr x)
    obtain r' w2 rs' where f: "f x w1 = Some (r', w2)" "hw_held w2 \<le> 2" "hw_requests w2 = hw_requests w1 @ rs'"
        "\<forall>q \<in> set rs'. P q" "length rs' \<le> (case r' of Inr _ \<Rightarrow> a' | Inl _ \<Rightarrow> b')"
      by (rule sendsD [OF assms(2) m(2)])
    with m Inr have "bind_io m f w = Some (r', w2)" "hw_requests w2 = hw_requests w @ (rs @ rs')"
        "\<forall>q \<in> set (rs @ rs'). P q" "length (rs @ rs') \<le> (case r' of Inr _ \<Rightarrow> a + a' | Inl _ \<Rightarrow> max b (a + b'))"
      by (auto simp: bind_io_def split: sum.splits)
    with f(2) show ?thesis by blast
  qed
qed

lemma sends_catch:
  assumes "sends P a b m" "\<And>e. sends P a' b' (h e)"
  shows "sends P (max a (b + a')) (max b (b + b')) (catch_io m p h)"
  unfolding sends_def
proof (intro allI impI)
  fix w :: http_world
  assume w: "hw_held w \<le> 2"
  obtain r w1 rs where m: "m w = Some (r, w1)" "hw_held w1 \<le> 2" "hw_requests w1 = hw_requests w @ rs"
      "\<forall>q \<in> set rs. P q" "length rs \<le> (case r of Inr _ \<Rightarrow> a | Inl _ \<Rightarrow> b)"
    by (rule sendsD [OF assms(1) w])
  show "\<exists>r w' rs. catch_io m p h w = Some (r, w') \<and> hw_held w' \<le> 2 \<and> hw_requests w' = hw_requests w @ rs \<and>
      (\<forall>q \<in> set rs. P q) \<and> length rs \<le> (case r of Inr _ \<Rightarrow> max a (b + a') | Inl _ \<Rightarrow> max b (b + b'))"
  proof (cases "\<exists>e. r = Inl e \<and> p (class_of e)")
    case False
    with m show ?thesis by (cases r) (fastforce simp: catch_io_def)+
  next
    case True
    then obtain e where e: "r = Inl e" "p (class_of e)" by blast
    obtain r' w2 rs' where f: "h e w1 = Some (r', w2)" "hw_held w2 \<le> 2" "hw_requests w2 = hw_requests w1 @ rs'"
        "\<forall>q \<in> set rs'. P q" "length rs' \<le> (case r' of Inr _ \<Rightarrow> a' | Inl _ \<Rightarrow> b')"
      by (rule sendsD [OF assms(2) m(2)])
    with m e have "catch_io m p h w = Some (r', w2)" "hw_requests w2 = hw_requests w @ (rs @ rs')"
        "\<forall>q \<in> set (rs @ rs'). P q" "length (rs @ rs') \<le> (case r' of Inr _ \<Rightarrow> max a (b + a') | Inl _ \<Rightarrow> max b (b + b'))"
      by (auto simp: catch_io_def split: sum.splits)
    with f(2) show ?thesis by blast
  qed
qed

lemma sends_basic [sends_intros]:
  "sends P a b (return_io x)" "sends P a b (lift_io r)" "sends P a b (raise_io k m)"
  "sends P a b (http_call g)" "sends P a b (http_clock env)" "sends P a b release_slot"
  "sends P a b (acquire_slot env)"
  by (auto simp: sends_def return_io_def lift_io_def raise_io_def http_call_def http_clock_def release_slot_def
      acquire_slot_def Let_def split: sum.split)

lemma sends_sent: "P rq \<Longrightarrow> sends P 1 b (sent rq)"
  by (auto simp: sends_def sent_def)

lemma sends_bind0: "sends P 0 0 m \<Longrightarrow> (\<And>x. sends P a b (f x)) \<Longrightarrow> sends P a b (bind_io m f)"
  using sends_bind [of P 0 0 m a b f] by simp

lemma sends_if [sends_intros]: "(c \<Longrightarrow> sends P a b m) \<Longrightarrow> (\<not> c \<Longrightarrow> sends P a b m') \<Longrightarrow> sends P a b (if c then m else m')"
  by simp

lemma sends_start_thread [sends_intros]: "sends P 0 0 (start_thread env)"
  unfolding start_thread_def
  by (intro sends_bind0 sends_intros) (auto split: option.split intro!: sends_bind0 sends_intros)

lemma sends_bind1: "sends P 1 0 m \<Longrightarrow> (\<And>x. sends P 0 0 (f x)) \<Longrightarrow> sends P 1 1 (bind_io m f)"
  using sends_bind [of P 1 0 m 0 0 f] by simp

lemma sends_await: "P rq \<Longrightarrow> sends P 1 1 (await_reader env d rq)"
  unfolding await_reader_def
  by (rule sends_bind0 [OF sends_basic(4) sends_bind1]) (auto intro: sends_sent sends_intros)

lemma sends_until: "P rq \<Longrightarrow> sends P 1 1 (request_until env d rq)"
  unfolding request_until_def Let_def
  by (intro sends_bind0 sends_intros sends_await)

text \<open>Where requests may go: the origin of the client.\<close>

definition to_origin :: "trino_client \<Rightarrow> http_request \<Rightarrow> bool" where
  "to_origin c q \<longleftrightarrow> starts_with (fst (tc_origin c) @ ''://'' @ snd (tc_origin c) @ ''/'') (hq_url q)"

definition uri_ok :: "trino_client \<Rightarrow> string option \<Rightarrow> bool" where
  "uri_ok c uri \<longleftrightarrow> (\<forall>u. uri = Some u \<longrightarrow> starts_with (fst (tc_origin c) @ ''://'' @ snd (tc_origin c) @ ''/'') u)"

lemma sends_cancel:
  assumes "uri_ok c uri"
  shows "sends (to_origin c) 1 1 (cancel_query env c uri)"
proof (cases uri)
  case None
  then show ?thesis by (simp add: cancel_query_def sends_intros)
next
  case (Some u)
  have "sends (to_origin c) 1 1 (request_until env d \<lparr>hq_method = ''DELETE'', hq_url = u, hq_content = None,
      hq_headers = tc_headers c, hq_timeouts = t\<rparr>)" for d t
    using assms Some by (intro sends_until) (simp add: to_origin_def uri_ok_def)
  from sends_catch [OF sends_bind0 [OF sends_basic(5) sends_bind [OF this sends_basic(1) [of _ 0 0]]] sends_basic(1) [of _ 0 0]]
  show ?thesis unfolding cancel_query_def Some by simp
qed

lemma sends_timeout_error:
  assumes "uri_ok c uri"
  shows "sends (to_origin c) 0 1 (query_timeout_error env c i uri)"
proof -
  have "hw_held w \<le> 2 \<Longrightarrow> \<exists>e w' rs. query_timeout_error env c i uri w = Some (Inl e, w') \<and> hw_held w' \<le> 2 \<and>
      hw_requests w' = hw_requests w @ rs \<and> (\<forall>q \<in> set rs. to_origin c q) \<and> length rs \<le> 1" for w
  proof -
    assume w: "hw_held w \<le> 2"
    obtain r w1 rs where m: "cancel_query env c uri w = Some (r, w1)" "hw_held w1 \<le> 2" "hw_requests w1 = hw_requests w @ rs"
        "\<forall>q \<in> set rs. to_origin c q" "length rs \<le> (case r of Inr _ \<Rightarrow> 1 | Inl _ \<Rightarrow> 1)"
      by (rule sendsD [OF sends_cancel [OF assms] w])
    then show ?thesis by (cases r) (auto simp: query_timeout_error_def bind_io_def raise_io_def)
  qed
  then show ?thesis unfolding sends_def by fastforce
qed

lemma sends_trino_request:
  assumes "uri_ok c uri" "to_origin c rq"
  shows "sends (to_origin c) 1 2 (trino_request env c deadline i uri rq)"
proof (cases deadline)
  case None
  have "sends (to_origin c) 1 1 (direct_request env rq)" unfolding direct_request_def
    by (rule sends_bind1 [OF _ sends_basic(4)]) (rule sends_sent, rule assms(2))
  then show ?thesis unfolding trino_request_def None by (auto intro: sends_mono)
next
  case (Some d)
  have "to_origin c (rq\<lparr>hq_timeouts := t\<rparr>)" for t using assms(2) by (simp add: to_origin_def)
  then have until: "sends (to_origin c) 1 1 (request_until env d (rq\<lparr>hq_timeouts := t\<rparr>))" for t by (rule sends_until)
  have "sends (to_origin c) 1 2 (catch_io (request_until env d (rq\<lparr>hq_timeouts := t\<rparr>)) p (\<lambda>_. query_timeout_error env c i uri))" for t p
    using sends_catch [OF until sends_timeout_error [OF assms(1)]] by (simp add: numeral_2_eq_2 One_nat_def)
  then show ?thesis unfolding trino_request_def Some option.case Let_def
    by (intro sends_bind0 sends_intros) (auto intro: sends_mono [OF sends_timeout_error [OF assms(1)]])
qed

lemma coordinator_uri_ok:
  assumes "coordinator_uri env c v = Inr u"
  shows "uri_ok c (Some u)"
proof -
  obtain su :: split_url where "starts_with ''/v1/statement/'' (su_path su)"
      "u = url_unsplit (fst (tc_origin c)) (snd (tc_origin c)) (su_path su) (su_query su)"
    using assms unfolding coordinator_uri_def bindE_eq_Inr protocol_error_def
    by (auto simp: bindE_eq_Inr split: if_split_asm)
  then show ?thesis by (auto simp: uri_ok_def starts_with_iff url_unsplit_def)
qed

lemma cancellation_ok: "cancellation_of env c payload = Inr uri \<Longrightarrow> uri_ok c uri"
  by (auto simp: cancellation_of_def bindE_eq_Inr coordinator_uri_ok uri_ok_def [of c None] split: if_splits)

lemma bind_lift_Inr: "bind_io (lift_io (Inr x)) f = f x"
  by (rule ext) (simp add: bind_io_def lift_io_def)

lemma sends_check_deadline:
  "uri_ok c uri \<Longrightarrow> sends (to_origin c) 0 1 (check_deadline env c deadline i uri)"
  unfolding check_deadline_def
  by (auto split: option.split intro!: sends_bind0 sends_intros sends_timeout_error)

lemma read_page_next:
  "read_page env c deadline i columns payload w = Some (Inr pg, w') \<Longrightarrow> uri_ok c (pg_next pg)"
  by (auto simp: read_page_def io_simps dest: cancellation_ok)

lemma sends_read_page: "sends (to_origin c) 0 1 (read_page env c deadline i columns payload)"
proof (cases "cancellation_of env c payload")
  case (Inl e)
  then show ?thesis by (cases "page_id i payload")
    (auto simp: read_page_def sends_def bind_io_def lift_io_def)
next
  case (Inr uri)
  show ?thesis unfolding read_page_def Inr bind_lift_Inr
    by (intro sends_bind0 sends_intros sends_bind [of _ 0 1 _ 0 0, simplified] sends_check_deadline cancellation_ok [OF Inr])
qed

lemma sends_page_limit: "uri_ok c (Some uri) \<Longrightarrow> sends (to_origin c) 0 1 (page_limit_error env c i uri)"
proof -
  assume u: "uri_ok c (Some uri)"
  have "hw_held w \<le> 2 \<Longrightarrow> \<exists>e w' rs. page_limit_error env c i uri w = Some (Inl e, w') \<and> hw_held w' \<le> 2 \<and>
      hw_requests w' = hw_requests w @ rs \<and> (\<forall>q \<in> set rs. to_origin c q) \<and> length rs \<le> 1" for w
  proof -
    assume w: "hw_held w \<le> 2"
    obtain r w1 rs where m: "cancel_query env c (Some uri) w = Some (r, w1)" "hw_held w1 \<le> 2" "hw_requests w1 = hw_requests w @ rs"
        "\<forall>q \<in> set rs. to_origin c q" "length rs \<le> (case r of Inr _ \<Rightarrow> 1 | Inl _ \<Rightarrow> 1)"
      by (rule sendsD [OF sends_cancel [OF u] w])
    then show ?thesis by (cases r) (auto simp: page_limit_error_def bind_io_def raise_io_def)
  qed
  then show ?thesis unfolding sends_def by fastforce
qed

text \<open>A bind whose continuation is only bounded on the results that the first action can give.\<close>

lemma sends_bind_on:
  assumes "sends P 0 b m" "\<And>x w w'. m w = Some (Inr x, w') \<Longrightarrow> sends P a b (f x)"
  shows "sends P a b (bind_io m f)"
  unfolding sends_def
proof (intro allI impI)
  fix w :: http_world
  assume w: "hw_held w \<le> 2"
  obtain r w1 rs where m: "m w = Some (r, w1)" "hw_held w1 \<le> 2" "hw_requests w1 = hw_requests w @ rs"
      "\<forall>q \<in> set rs. P q" "length rs \<le> (case r of Inr _ \<Rightarrow> 0 | Inl _ \<Rightarrow> b)"
    by (rule sendsD [OF assms(1) w])
  show "\<exists>r w' rs. bind_io m f w = Some (r, w') \<and> hw_held w' \<le> 2 \<and> hw_requests w' = hw_requests w @ rs \<and>
      (\<forall>q \<in> set rs. P q) \<and> length rs \<le> (case r of Inr _ \<Rightarrow> a | Inl _ \<Rightarrow> b)"
  proof (cases r)
    case (Inl e)
    with m show ?thesis by (fastforce simp: bind_io_def)
  next
    case (Inr x)
    with m(1) have "sends P a b (f x)" using assms(2) by blast
    then obtain r' w2 rs' where f: "f x w1 = Some (r', w2)" "hw_held w2 \<le> 2" "hw_requests w2 = hw_requests w1 @ rs'"
        "\<forall>q \<in> set rs'. P q" "length rs' \<le> (case r' of Inr _ \<Rightarrow> a | Inl _ \<Rightarrow> b)"
      by (rule sendsD [OF _ m(2)])
    with m Inr have "bind_io m f w = Some (r', w2)" "hw_requests w2 = hw_requests w @ rs'"
      by (simp_all add: bind_io_def)
    with f show ?thesis by blast
  qed
qed

text \<open>What follows a page that was read.\<close>

definition after_page ::
    "trino_env \<Rightarrow> trino_client \<Rightarrow> rat option \<Rightarrow> nat \<Rightarrow> row list \<Rightarrow> pydict \<Rightarrow> page \<Rightarrow> (query_result \<times> pydict) http" where
  "after_page env c deadline left rows payload pg =
     (case pg_next pg of
       None \<Rightarrow> bind_io (lift_io (query_stats_of (get payload ''stats''))) (\<lambda>stats.
         return_io (\<lparr>qr_id = pg_id pg, qr_rows = rows @ pg_rows pg, qr_stats = stats\<rparr>, the_dict (get payload ''stats'')))
     | Some uri \<Rightarrow> (case left of
         0 \<Rightarrow> page_limit_error env c (pg_id pg) uri
       | Suc k \<Rightarrow> bind_io (trino_request env c deadline (Some (pg_id pg)) (Some uri) (page_request c uri))
           (query_pages env c deadline k (Some (pg_id pg)) (pg_columns pg) (rows @ pg_rows pg))))"

lemma query_pages_step:
  "query_pages env c deadline left i columns rows response =
     bind_io (lift_io (payload_of env response)) (\<lambda>payload.
     bind_io (read_page env c deadline i columns payload) (after_page env c deadline left rows payload))"
  unfolding after_page_def by (subst query_pages.simps) simp

lemma sends_step:
  assumes "\<And>rows payload pg. uri_ok c (pg_next pg) \<Longrightarrow> sends (to_origin c) a (b + 1) (after_page env c deadline left rows payload pg)"
  shows "sends (to_origin c) a (b + 1) (query_pages env c deadline left i columns rows response)"
  unfolding query_pages_step
  by (rule sends_bind0 [OF sends_basic(2) sends_bind_on [OF sends_mono [OF sends_read_page]]])
    (simp_all add: assms read_page_next)

lemma sends_last_page:
  assumes "pg_next pg = None"
  shows "sends P a b (after_page env c deadline left rows payload pg)"
  unfolding after_page_def assms option.case by (intro sends_bind0 sends_intros)

lemma sends_pages: "sends (to_origin c) left (left + 1) (query_pages env c deadline left i columns rows response)"
proof (induction left arbitrary: i columns rows response)
  case 0
  show ?case
  proof (rule sends_step)
    fix rows payload and pg :: page
    assume "uri_ok c (pg_next pg)"
    then show "sends (to_origin c) 0 (0 + 1) (after_page env c deadline 0 rows payload pg)"
      by (cases "pg_next pg") (simp_all add: sends_last_page, simp add: after_page_def sends_page_limit)
  qed
next
  case (Suc k)
  show ?case
  proof (rule sends_step)
    fix rows payload and pg :: page
    assume ok: "uri_ok c (pg_next pg)"
    show "sends (to_origin c) (Suc k) (Suc k + 1) (after_page env c deadline (Suc k) rows payload pg)"
    proof (cases "pg_next pg")
      case None
      then show ?thesis by (rule sends_last_page)
    next
      case (Some uri)
      with ok have "to_origin c (page_request c uri)" "uri_ok c (Some uri)"
        by (simp_all add: to_origin_def page_request_def uri_ok_def)
      then show ?thesis unfolding after_page_def Some option.case nat.case
        by (intro sends_mono [OF sends_bind [OF sends_trino_request Suc.IH]]) simp_all
    qed
  qed
qed

text \<open>The server's address begins with its origin, and a slash follows.\<close>

lemma client_server:
  assumes "make_trino_client brackets server user limit = Inr c"
  shows "uri_ok c (Some (tc_server c @ ''/v1/statement''))"
proof -
  obtain su :: split_url where "tc_server c = url_unsplit (fst (tc_origin c)) (snd (tc_origin c)) (su_path su) []"
    using assms by (auto simp: make_trino_client_def bindE_eq_Inr split: if_split_asm)
  then show ?thesis by (cases "su_path su") (auto simp: uri_ok_def starts_with_iff url_unsplit_def)
qed

lemma sends_query:
  assumes "make_trino_client brackets server user limit = Inr c"
  shows "sends (to_origin c) 1000 1001 (query_result_of env c sql)"
proof -
  have "to_origin c (statement_request c sql)" "uri_ok c None"
    using client_server [OF assms] by (simp_all add: to_origin_def statement_request_def uri_ok_def)
  then have first: "sends (to_origin c) 1 2 (trino_request env c deadline None None (statement_request c sql))" for deadline
    by (intro sends_trino_request)
  have "sends (to_origin c) 1000 1001 (bind_io (trino_request env c deadline None None (statement_request c sql))
      (query_pages env c deadline (max_pages - 1) None None []))" for deadline
    using sends_bind [OF first sends_pages] by (rule sends_mono) (simp_all add: max_pages_def)
  note rest = this
  show ?thesis unfolding query_result_of_def
    by (rule sends_bind0 [OF _ rest]) (auto split: option.split intro!: sends_bind0 [OF sends_basic(5) sends_basic(1)] sends_intros)
qed

lemma client_origin:
  assumes "make_trino_client brackets server user limit = Inr c"
  shows "fst (tc_origin c) \<in> {''http'', ''https''} \<and> snd (tc_origin c) \<noteq> [] \<and> set (snd (tc_origin c)) \<inter> set ''/?#'' = {}"
proof -
  obtain su :: split_url where su: "url_split brackets (rstrip_slash server) = Inr su" "absolute_http su"
      "tc_origin c = (su_scheme su, su_netloc su)"
    using assms by (auto simp: make_trino_client_def bindE_eq_Inr split: if_split_asm)
  have "set (takeWhile (\<lambda>c. c \<notin> set ''/?#'') s) \<inter> set ''/?#'' = {}" for s
    using set_takeWhileD by fastforce
  then have "split_netloc s = (netloc, rest) \<Longrightarrow> set netloc \<inter> set ''/?#'' = {}" for s netloc rest
    by (auto simp: split_netloc_def split: if_split_asm)
  then have "set (su_netloc su) \<inter> set ''/?#'' = {}"
    using su(1) unfolding url_split_def Let_def by (force split: prod.splits if_split_asm)
  with su(2,3) show ?thesis by (auto simp: absolute_http_def)
qed

text \<open>C32: every query ends, with its rows or an error, whatever the server, the transport and the
  clock do: after at most 1001 requests (a thousand pages and one cancellation), each of them to
  the origin of the configured server, wherever the links of the pages point; and no more than two
  readers are ever left behind.\<close>

theorem query_always_ends:
  assumes "make_trino_client brackets server user limit = Inr c" "hw_held w \<le> 2"
  shows "\<exists>r w' rs. query_result_of env c sql w = Some (r, w') \<and> hw_requests w' = hw_requests w @ rs \<and>
    length rs \<le> 1001 \<and> hw_held w' \<le> 2 \<and>
    (\<forall>q \<in> set rs. starts_with (fst (tc_origin c) @ ''://'' @ snd (tc_origin c) @ ''/'') (hq_url q)) \<and>
    snd (tc_origin c) \<noteq> [] \<and> CHR ''/'' \<notin> set (snd (tc_origin c))"
proof -
  obtain r w' rs where "query_result_of env c sql w = Some (r, w')" "hw_held w' \<le> 2"
      "hw_requests w' = hw_requests w @ rs" "\<forall>q \<in> set rs. to_origin c q" "length rs \<le> (case r of Inr _ \<Rightarrow> 1000 | Inl _ \<Rightarrow> 1001)"
    by (rule sendsD [OF sends_query [OF assms(1)] assms(2)])
  with client_origin [OF assms(1)] show ?thesis
    by (intro exI [of _ r] exI [of _ w'] exI [of _ rs]) (auto simp: to_origin_def split: sum.splits)
qed

section \<open>The rows of a query\<close>

text \<open>A request that was answered: by the transport itself, or by a reader in time.\<close>

definition answers :: "trino_env \<Rightarrow> http_request \<Rightarrow> http_response \<Rightarrow> bool" where
  "answers env q r \<longleftrightarrow> (\<exists>n. te_request env n q = Inr r \<or> (\<exists>d. reader_end env n d q = Inr r))"

definition same_target :: "http_request \<Rightarrow> http_request \<Rightarrow> bool" where
  "same_target q rq \<longleftrightarrow> hq_method q = hq_method rq \<and> hq_url q = hq_url rq \<and> hq_content q = hq_content rq"

lemma clock_Inr: "http_clock env w = Some (Inr x, w') \<Longrightarrow> hw_requests w' = hw_requests w"
  by (auto simp: http_clock_def http_call_def)

lemma reader_end_sends: "reader_end env n d rq = Inr r \<Longrightarrow> reader_sends env n d"
  by (auto simp: reader_end_def read_timeout_def split: if_splits)

lemma await_Inr:
  "await_reader env d rq w = Some (Inr r, w') \<Longrightarrow> hw_requests w' = hw_requests w @ [rq] \<and> answers env rq r"
  using reader_end_sends
  by (fastforce simp: await_reader_def io_simps http_call_def read_timeout_def sent_def answers_def split: if_split_asm)

lemma until_Inr:
  assumes "request_until env d rq w = Some (Inr r, w')"
  shows "hw_requests w' = hw_requests w @ [rq] \<and> answers env rq r"
proof -
  obtain now ok w1 w2 w3 w4 u where "http_clock env w = Some (Inr now, w1)" "acquire_slot env w1 = Some (Inr ok, w2)"
      "start_thread env w2 = Some (Inr (), w3)" "http_clock env w3 = Some (Inr u, w4)"
      "await_reader env d rq w4 = Some (Inr r, w')"
    using assms by (auto simp: request_until_def bind_io_Inr lift_io_iff read_timeout_def Let_def split: if_split_asm)
  moreover from this(2,3) have "hw_requests w3 = hw_requests w1"
    by (auto simp: acquire_slot_def start_thread_def bind_io_Inr http_call_def release_slot_def io_simps Let_def
        split: option.splits)
  ultimately show ?thesis using await_Inr clock_Inr by metis
qed

lemma timeout_error_neq: "query_timeout_error env c i uri w \<noteq> Some (Inr x, w')"
  by (auto simp: query_timeout_error_def io_simps)

lemma request_Inr:
  assumes "trino_request env c deadline i uri rq w = Some (Inr r, w')"
  shows "\<exists>q. hw_requests w' = hw_requests w @ [q] \<and> same_target q rq \<and> answers env q r"
proof (cases deadline)
  case None
  with assms have "hw_requests w' = hw_requests w @ [rq] \<and> answers env rq r"
    by (auto simp: trino_request_def direct_request_def bind_io_Inr sent_def http_call_def answers_def)
  then show ?thesis by (auto simp: same_target_def)
next
  case (Some d)
  obtain w1 t where "hw_requests w1 = hw_requests w" "request_until env d (rq\<lparr>hq_timeouts := t\<rparr>) w1 = Some (Inr r, w')"
    using assms unfolding trino_request_def Some option.case Let_def
    by (auto simp: timeout_error_neq bind_io_Inr catch_io_Inr split: if_split_asm dest: clock_Inr)
  with until_Inr [OF this(2)] show ?thesis by (auto simp: same_target_def)
qed

text \<open>The reference: the rows of a list of pages, with the columns in force.\<close>

fun rows_of_pages :: "pyval list option \<Rightarrow> pydict list \<Rightarrow> row list result" where
  "rows_of_pages columns [] = Inr []"
| "rows_of_pages columns (p # ps) =
     bindE (page_columns columns p) (\<lambda>columns. bindE (page_rows columns p) (\<lambda>rows.
     bindE (rows_of_pages columns ps) (\<lambda>rest. Inr (rows @ rest))))"

lemma check_deadline_Inr: "check_deadline env c deadline i uri w = Some (Inr (), w') \<Longrightarrow> hw_requests w' = hw_requests w"
  by (auto simp: check_deadline_def io_simps timeout_error_neq split: option.splits if_split_asm dest: clock_Inr)

lemma read_page_Inr:
  assumes "read_page env c deadline i columns payload w = Some (Inr pg, w')"
  shows "hw_requests w' = hw_requests w" "get payload ''id'' = PStr (pg_id pg)" "i = None \<or> i = Some (pg_id pg)"
    "cancellation_of env c payload = Inr (pg_next pg)" "\<not> truthy (get payload ''error'')"
    "page_columns columns payload = Inr (pg_columns pg)" "page_rows (pg_columns pg) payload = Inr (pg_rows pg)"
    "pg_id pg \<noteq> []"
proof -
  obtain current uri where p: "page_id i payload = Inr current" "cancellation_of env c payload = Inr uri"
      "check_deadline env c deadline current uri w = Some (Inr (), w')" "page_error payload = Inr ()"
      "page_columns columns payload = Inr (pg_columns pg)" "page_rows (pg_columns pg) payload = Inr (pg_rows pg)"
      "pg_id pg = current" "pg_next pg = uri"
    using assms by (auto simp: read_page_def io_simps)
  have "nonempty_str (get payload ''id'')" "the_str (get payload ''id'') = pg_id pg" "i = None \<or> i = Some (pg_id pg)"
    using p(1,7) by (auto simp: page_id_def protocol_error_def split: if_split_asm)
  then show "get payload ''id'' = PStr (pg_id pg)" "i = None \<or> i = Some (pg_id pg)" "pg_id pg \<noteq> []"
    by (auto simp: nonempty_str_def is_str_iff)
  show "\<not> truthy (get payload ''error'')"
    using p(4) by (auto simp: page_error_def bindE_eq_Inr Let_def split: if_split_asm)
  show "hw_requests w' = hw_requests w" using check_deadline_Inr [OF p(3)] .
  show "cancellation_of env c payload = Inr (pg_next pg)" "page_columns columns payload = Inr (pg_columns pg)"
    "page_rows (pg_columns pg) payload = Inr (pg_rows pg)"
    using p by simp_all
qed

text \<open>What a query that returned has read: \<open>ps\<close> are its pages, \<open>uris\<close> the links between them.\<close>

definition read_pages ::
    "trino_env \<Rightarrow> trino_client \<Rightarrow> string option \<Rightarrow> pydict list \<Rightarrow> string list \<Rightarrow> query_result \<times> pydict \<Rightarrow> bool" where
  "read_pages env c i ps uris result \<longleftrightarrow>
     mapE (cancellation_of env c) ps = Inr (map Some uris @ [None]) \<and>
     (\<forall>p \<in> set ps. get p ''id'' = PStr (qr_id (fst result)) \<and> \<not> truthy (get p ''error'')) \<and>
     (i = None \<or> i = Some (qr_id (fst result))) \<and> qr_id (fst result) \<noteq> [] \<and>
     query_stats_of (get (last ps) ''stats'') = Inr (qr_stats (fst result)) \<and>
     the_dict (get (last ps) ''stats'') = snd result"

lemma read_pages_length:
  assumes "read_pages env c i ps uris result"
  shows "length ps = Suc (length uris)"
  using assms by (auto simp: read_pages_def dest: mapE_length)

lemma pages_Inr:
  assumes "query_pages env c deadline left i columns rows response w = Some (Inr result, w')"
  shows "\<exists>ps uris qs rest. ps \<noteq> [] \<and> length ps \<le> Suc left \<and> hw_requests w' = hw_requests w @ qs \<and>
    list_all2 same_target qs (map (page_request c) uris) \<and> payload_of env response = Inr (hd ps) \<and>
    list_all2 (\<lambda>q p. \<exists>r. answers env q r \<and> payload_of env r = Inr p) qs (tl ps) \<and>
    read_pages env c i ps uris result \<and> rows_of_pages columns ps = Inr rest \<and> qr_rows (fst result) = rows @ rest"
  using assms
proof (induction left arbitrary: i columns rows response w)
  case 0
  then obtain payload pg w1 where p: "payload_of env response = Inr payload"
      "read_page env c deadline i columns payload w = Some (Inr pg, w1)"
      "after_page env c deadline 0 rows payload pg w1 = Some (Inr result, w')"
    by (auto simp: query_pages_step io_simps)
  note pg = read_page_Inr [OF p(2)]
  have n: "pg_next pg = None" and "query_stats_of (get payload ''stats'') = Inr (qr_stats (fst result))" "w' = w1"
      "snd result = the_dict (get payload ''stats'')" "qr_id (fst result) = pg_id pg" "qr_rows (fst result) = rows @ pg_rows pg"
    using p(3) by (auto simp: after_page_def page_limit_error_def io_simps split: option.splits)
  with pg p(1) show ?case
    by (intro exI [of _ "[payload]"] exI [of _ "[]"] exI [of _ "[]"] exI [of _ "pg_rows pg"]) (simp add: read_pages_def)
next
  case (Suc k)
  then obtain payload pg w1 where p: "payload_of env response = Inr payload"
      "read_page env c deadline i columns payload w = Some (Inr pg, w1)"
      "after_page env c deadline (Suc k) rows payload pg w1 = Some (Inr result, w')"
    by (auto simp: query_pages_step io_simps)
  note pg = read_page_Inr [OF p(2)]
  show ?case
  proof (cases "pg_next pg")
    case None
    then have "query_stats_of (get payload ''stats'') = Inr (qr_stats (fst result))" "w' = w1"
        "snd result = the_dict (get payload ''stats'')" "qr_id (fst result) = pg_id pg" "qr_rows (fst result) = rows @ pg_rows pg"
      using p(3) by (auto simp: after_page_def io_simps)
    with pg p(1) None show ?thesis
      by (intro exI [of _ "[payload]"] exI [of _ "[]"] exI [of _ "[]"] exI [of _ "pg_rows pg"]) (simp add: read_pages_def)
  next
    case (Some uri)
    obtain r w2 where t: "trino_request env c deadline (Some (pg_id pg)) (Some uri) (page_request c uri) w1 = Some (Inr r, w2)"
        "query_pages env c deadline k (Some (pg_id pg)) (pg_columns pg) (rows @ pg_rows pg) r w2 = Some (Inr result, w')"
      using p(3) Some by (auto simp: after_page_def io_simps)
    obtain q where q: "hw_requests w2 = hw_requests w1 @ [q]" "same_target q (page_request c uri)" "answers env q r"
      using request_Inr [OF t(1)] by blast
    obtain ps uris qs rest where ih: "ps \<noteq> []" "length ps \<le> Suc k" "hw_requests w' = hw_requests w2 @ qs"
        "list_all2 same_target qs (map (page_request c) uris)" "payload_of env r = Inr (hd ps)"
        "list_all2 (\<lambda>q p. \<exists>r. answers env q r \<and> payload_of env r = Inr p) qs (tl ps)"
        "read_pages env c (Some (pg_id pg)) ps uris result" "rows_of_pages (pg_columns pg) ps = Inr rest"
        "qr_rows (fst result) = (rows @ pg_rows pg) @ rest"
      using Suc.IH [OF t(2)] by blast
    have "list_all2 (\<lambda>q p. \<exists>r. answers env q r \<and> payload_of env r = Inr p) (q # qs) ps"
      using ih(1,5,6) q(3) by (cases ps) auto
    moreover have "read_pages env c i (payload # ps) (uri # uris) result"
      using ih(1,7) pg Some by (auto simp: read_pages_def)
    ultimately show ?thesis using ih q pg p(1)
      by (intro exI [of _ "payload # ps"] exI [of _ "uri # uris"] exI [of _ "q # qs"] exI [of _ "pg_rows pg @ rest"]) simp
  qed
qed

definition stats_ok :: "query_stats \<Rightarrow> bool" where
  "stats_ok s \<longleftrightarrow> qs_state s = ''FINISHED'' \<and> 0 \<le> qs_elapsed s \<and> 0 \<le> qs_wall s \<and> 0 \<le> qs_cpu s \<and> 0 \<le> qs_rows s \<and>
     0 \<le> qs_bytes s \<and> 0 \<le> qs_input s \<and> 0 \<le> qs_memory s \<and> 0 \<le> qs_spilled s"

lemma stat_integer_Inr: "stat_integer d k = Inr i \<Longrightarrow> 0 \<le> i"
  by (auto simp: stat_integer_def protocol_error_def split: if_split_asm)

lemma query_stats_Inr: "query_stats_of v = Inr s \<Longrightarrow> stats_ok s"
  by (auto simp: query_stats_of_def bindE_eq_Inr protocol_error_def Let_def stats_ok_def
      split: if_split_asm dest!: stat_integer_Inr)

lemma query_result_read:
  assumes "query_result_of env c sql w = Some (Inr (result, stats), w')"
  shows "\<exists>ps uris qs. length ps = Suc (length uris) \<and> length ps \<le> 1000 \<and> hw_requests w' = hw_requests w @ qs \<and>
    list_all2 same_target qs (statement_request c sql # map (page_request c) uris) \<and>
    list_all2 (\<lambda>q p. \<exists>r. answers env q r \<and> payload_of env r = Inr p) qs ps \<and>
    mapE (cancellation_of env c) ps = Inr (map Some uris @ [None]) \<and>
    (\<forall>p \<in> set ps. get p ''id'' = PStr (qr_id result) \<and> \<not> truthy (get p ''error'')) \<and>
    rows_of_pages None ps = Inr (qr_rows result) \<and>
    query_stats_of (get (last ps) ''stats'') = Inr (qr_stats result) \<and> qs_state (qr_stats result) = ''FINISHED'' \<and>
    qr_id result \<noteq> []"
proof -
  obtain deadline w1 where w1: "hw_requests w1 = hw_requests w" "bind_io (trino_request env c deadline None None
      (statement_request c sql)) (query_pages env c deadline (max_pages - 1) None None []) w1 = Some (Inr (result, stats), w')"
    using assms by (auto simp: query_result_of_def bind_io_Inr return_io_iff split: option.splits dest: clock_Inr)
  then obtain r w2 where t: "trino_request env c deadline None None (statement_request c sql) w1 = Some (Inr r, w2)"
      "query_pages env c deadline (max_pages - 1) None None [] r w2 = Some (Inr (result, stats), w')"
    by (auto simp: bind_io_Inr)
  obtain q where q: "hw_requests w2 = hw_requests w1 @ [q]" "same_target q (statement_request c sql)" "answers env q r"
    using request_Inr [OF t(1)] by blast
  obtain ps uris qs rest where p: "ps \<noteq> []" "length ps \<le> Suc (max_pages - 1)" "hw_requests w' = hw_requests w2 @ qs"
      "list_all2 same_target qs (map (page_request c) uris)" "payload_of env r = Inr (hd ps)"
      "list_all2 (\<lambda>q p. \<exists>r. answers env q r \<and> payload_of env r = Inr p) qs (tl ps)"
      "read_pages env c None ps uris (result, stats)" "rows_of_pages None ps = Inr rest" "qr_rows result = [] @ rest"
    using pages_Inr [OF t(2)] by auto
  have "list_all2 (\<lambda>q p. \<exists>r. answers env q r \<and> payload_of env r = Inr p) (q # qs) ps"
    using p(1,5,6) q(3) by (cases ps) auto
  moreover have "qs_state (qr_stats result) = ''FINISHED''"
    using p(7) query_stats_Inr [of _ "qr_stats result"] by (auto simp: read_pages_def stats_ok_def)
  ultimately show ?thesis using p q w1(1) read_pages_length [OF p(7)]
    by (intro exI [of _ ps] exI [of _ uris] exI [of _ "q # qs"]) (simp add: read_pages_def max_pages_def)
qed

section \<open>The shape of a result\<close>

text \<open>A row is a dictionary: its keys can be keys, and no two of them are equal.\<close>

definition row_ok :: "row \<Rightarrow> bool" where
  "row_ok r \<longleftrightarrow> list_all hashable (map fst r) \<and> sorted_wrt (\<lambda>a b. a \<noteq> b \<and> \<not> py_eq a b) (map fst r)"

lemma keys_row_set:
  "map fst (row_set r k v) = map fst r \<or>
   map fst (row_set r k v) = map fst r @ [k] \<and> (\<forall>k' \<in> fst ` set r. k' \<noteq> k \<and> \<not> py_eq k' k)"
proof (induction r)
  case Nil
  then show ?case by simp
next
  case (Cons x r)
  obtain a b where x: "x = (a, b)" by fastforce
  show ?case
  proof (cases "a = k \<or> py_eq a k")
    case True
    then show ?thesis by (simp add: x)
  next
    case False
    with Cons.IH show ?thesis by (auto simp: x)
  qed
qed

lemma row_ok_set: "row_ok r \<Longrightarrow> hashable k \<Longrightarrow> row_ok (row_set r k v)"
  using keys_row_set [of r k v] by (auto simp: row_ok_def sorted_wrt_append)

lemma row_ok_fold: "\<forall>(k, v) \<in> set kvs. hashable k \<Longrightarrow> row_ok r \<Longrightarrow> row_ok (fold (\<lambda>(k, v) r. row_set r k v) kvs r)"
  by (induction kvs arbitrary: r) (auto simp: row_ok_set)

lemma row_of_ok: "row_of columns values = Inr r \<Longrightarrow> row_ok r"
  by (auto simp: row_of_def list_all_iff split: if_split_asm intro!: row_ok_fold dest: set_zip_leftD)
    (simp add: row_ok_def)

lemma page_rows_ok:
  assumes "page_rows columns p = Inr rows" "r \<in> set rows"
  shows "row_ok r"
proof -
  from assms obtain cs vs where "mapE (page_row cs) vs = Inr rows"
    by (auto simp: page_rows_def bindE_eq_Inr protocol_error_def Let_def split: if_split_asm option.splits)
  then have "list_all2 (\<lambda>v r. page_row cs v = Inr r) vs rows" by (simp add: mapE_Inr_iff)
  with assms(2) obtain v where "page_row cs v = Inr r"
    by (auto simp: list_all2_conv_all_nth in_set_conv_nth)
  then show ?thesis by (auto simp: page_row_def bindE_eq_Inr protocol_error_def split: if_split_asm dest: row_of_ok)
qed

lemma rows_of_pages_ok: "rows_of_pages columns ps = Inr rows \<Longrightarrow> r \<in> set rows \<Longrightarrow> row_ok r"
  by (induction columns ps arbitrary: rows rule: rows_of_pages.induct) (auto simp: bindE_eq_Inr dest: page_rows_ok)

section \<open>The claims about results, on a query of two pages\<close>

text \<open>A server that answers the statement with a link, and the link with the last page.\<close>

definition demo_stats :: pydict where
  "demo_stats = (''state'', PStr ''FINISHED'') # map (\<lambda>k. (k, PInt 1)) [''elapsedTimeMillis'', ''wallTimeMillis'',
     ''cpuTimeMillis'', ''processedRows'', ''processedBytes'', ''physicalInputBytes'', ''peakMemoryBytes'',
     ''spilledBytes'', ''planningTimeMillis'']"

definition demo_page_body :: "string \<Rightarrow> pydict" where
  "demo_page_body body = [(''id'', PStr ''q1''), (''columns'', PList [PDict [(''name'', PStr ''days'')]])] @
     (if body = ''first'' then [(''nextUri'', PStr ''https://elsewhere/v1/statement/q1/1?t=2'')]
      else [(''data'', PList [PList [PInt 31]]), (''stats'', PDict demo_stats)])"

definition demo_trino :: trino_env where
  "demo_trino = \<lparr>te_clock = (\<lambda>_. 0), te_request = (\<lambda>_ _. raise HttpTransportError []), te_released = (\<lambda>_. 1),
     te_thread = (\<lambda>_. None), te_started = (\<lambda>_. (0, False)),
     te_stream = (\<lambda>_ q. Inr \<lparr>ht_status = 200,
       ht_chunks = [(if hq_method q = ''POST'' then ''first'' else ''last'', 1, False)], ht_fault = None\<rparr>),
     te_in_time = (\<lambda>_. True), te_json = (\<lambda>body. Inr (PDict (demo_page_body body))), te_brackets = (\<lambda>_. True),
     te_timeouts = [(''connect'', Some 30), (''read'', None)]\<rparr>"

definition demo_trino_client :: trino_client where
  "demo_trino_client = \<lparr>tc_server = ''http://trino:8080'', tc_origin = (''http'', ''trino:8080''),
     tc_query_timeout = Some 60, tc_headers = trino_headers ''ops''\<rparr>"

lemma demo_trino_made: "make_trino_client (\<lambda>_. True) ''http://trino:8080/'' ''ops'' (PInt 60) = Inr demo_trino_client"
  by code_simp

definition demo_http :: http_world where
  "demo_http = \<lparr>hw_tick = 0, hw_requests = [], hw_held = 0\<rparr>"

lemma query_pages_more:
  "query_pages env c d left i columns rows response w = Some (Inr r, w') \<Longrightarrow>
     query_pages env c d (left + k) i columns rows response w = Some (Inr r, w')"
proof (induction left arbitrary: i columns rows response w)
  case 0
  then show ?case
    by (fastforce simp: query_pages_step io_simps after_page_def page_limit_error_def split: option.splits)
next
  case (Suc n)
  then obtain payload pg w1 where p: "payload_of env response = Inr payload"
      "read_page env c d i columns payload w = Some (Inr pg, w1)"
      "after_page env c d (Suc n) rows payload pg w1 = Some (Inr r, w')"
    by (auto simp: query_pages_step io_simps)
  have "after_page env c d (Suc n + k) rows payload pg w1 = Some (Inr r, w')"
    using p(3) Suc.IH by (auto simp: after_page_def bind_io_Inr split: option.splits)
  with p(1,2) show ?case by (auto simp: query_pages_step io_simps)
qed

lemma demo_trino_run:
  "(case bind_io (http_clock demo_trino) (\<lambda>now. bind_io (trino_request demo_trino demo_trino_client (Some (float_add now 60))
        None None (statement_request demo_trino_client ''SELECT 31''))
      (query_pages demo_trino demo_trino_client (Some (float_add now 60)) 1 None None [])) demo_http of
      Some (Inr (res, stats), w') \<Rightarrow> Some (qr_rows res, get stats ''planningTimeMillis'', map hq_url (hw_requests w')) | _ \<Rightarrow> None) =
   Some ([[(PStr ''days'', PInt 31)]], PInt 1,
     [''http://trino:8080/v1/statement'', ''http://trino:8080/v1/statement/q1/1?t=2''])"
  by code_simp

lemma demo_trino_result:
  obtains res stats w' where "query_result_of demo_trino demo_trino_client ''SELECT 31'' demo_http = Some (Inr (res, stats), w')"
    "query_with_planning demo_trino demo_trino_client ''SELECT 31'' demo_http = Some (Inr (res, Some 1), w')"
    "qr_rows res = [[(PStr ''days'', PInt 31)]]"
    "map hq_url (hw_requests w') = [''http://trino:8080/v1/statement'', ''http://trino:8080/v1/statement/q1/1?t=2'']"
proof -
  have n: "max_pages - 1 = 1 + 998" by (simp add: max_pages_def)
  have t: "tc_query_timeout demo_trino_client = Some 60" by (simp add: demo_trino_client_def)
  obtain res stats w' where run: "bind_io (http_clock demo_trino) (\<lambda>now. bind_io (trino_request demo_trino demo_trino_client
        (Some (float_add now 60)) None None (statement_request demo_trino_client ''SELECT 31''))
      (query_pages demo_trino demo_trino_client (Some (float_add now 60)) 1 None None [])) demo_http = Some (Inr (res, stats), w')"
      "qr_rows res = [[(PStr ''days'', PInt 31)]]" "get stats ''planningTimeMillis'' = PInt 1"
      "map hq_url (hw_requests w') = [''http://trino:8080/v1/statement'', ''http://trino:8080/v1/statement/q1/1?t=2'']"
    using demo_trino_run by (auto split: option.splits sum.splits)
  then have r: "query_result_of demo_trino demo_trino_client ''SELECT 31'' demo_http = Some (Inr (res, stats), w')"
      "qr_rows res = [[(PStr ''days'', PInt 31)]]" "get stats ''planningTimeMillis'' = PInt 1"
      "map hq_url (hw_requests w') = [''http://trino:8080/v1/statement'', ''http://trino:8080/v1/statement/q1/1?t=2'']"
    unfolding query_result_of_def n t option.case bind_io_assoc bind_io_return
    unfolding bind_io_Inr by (blast intro: query_pages_more [where k = 998])+
  from r(1,3) have "query_with_planning demo_trino demo_trino_client ''SELECT 31'' demo_http = Some (Inr (res, Some 1), w')"
    by (auto simp: query_with_planning_def bind_io_def return_io_def lift_io_def stat_integer_def get_def split: option.splits)
  then show thesis by (rule that [OF r(1) _ r(2,4)])
qed

theorem query_always_ends_witness:
  "\<exists>r w' rs. query_result_of demo_trino demo_trino_client ''SELECT 31'' demo_http = Some (r, w') \<and>
     hw_requests w' = rs \<and> length rs \<le> 1001 \<and> (\<forall>q \<in> set rs. starts_with ''http://trino:8080/'' (hq_url q))"
  using query_always_ends [OF demo_trino_made, of demo_http demo_trino "''SELECT 31''"]
  by (auto simp: demo_http_def demo_trino_client_def)

text \<open>C33: a query that returned has read a chain of pages, the first in answer to its statement and
  every other one, by one request each, under the link of the page before it, until a page without
  one. All the pages are of the same query, none reports an error, its rows are the rows of the
  pages in their order, and its statistics are those of the last page, of a finished query.\<close>

theorem query_returns_the_rows_of_its_pages:
  assumes "query_result_of env c sql w = Some (Inr (result, stats), w')"
  shows "\<exists>ps uris qs. length ps = Suc (length uris) \<and> length ps \<le> 1000 \<and> hw_requests w' = hw_requests w @ qs \<and>
    list_all2 same_target qs (statement_request c sql # map (page_request c) uris) \<and>
    list_all2 (\<lambda>q p. \<exists>r. answers env q r \<and> payload_of env r = Inr p) qs ps \<and>
    mapE (cancellation_of env c) ps = Inr (map Some uris @ [None]) \<and>
    (\<forall>p \<in> set ps. get p ''id'' = PStr (qr_id result) \<and> \<not> truthy (get p ''error'')) \<and>
    rows_of_pages None ps = Inr (qr_rows result) \<and>
    query_stats_of (get (last ps) ''stats'') = Inr (qr_stats result) \<and> qs_state (qr_stats result) = ''FINISHED'' \<and>
    qr_id result \<noteq> []"
  using query_result_read [OF assms] .

theorem query_returns_the_rows_of_its_pages_witness:
  "\<exists>res stats w' ps. query_result_of demo_trino demo_trino_client ''SELECT 31'' demo_http = Some (Inr (res, stats), w') \<and>
     length ps = 2 \<and> rows_of_pages None ps = Inr (qr_rows res) \<and> qr_rows res = [[(PStr ''days'', PInt 31)]]"
proof (rule demo_trino_result)
  fix res stats and w' :: http_world
  assume r: "query_result_of demo_trino demo_trino_client ''SELECT 31'' demo_http = Some (Inr (res, stats), w')"
    "qr_rows res = [[(PStr ''days'', PInt 31)]]"
    "map hq_url (hw_requests w') = [''http://trino:8080/v1/statement'', ''http://trino:8080/v1/statement/q1/1?t=2'']"
  obtain ps uris qs where p: "length ps = Suc (length uris)" "hw_requests w' = hw_requests demo_http @ qs"
      "list_all2 same_target qs (statement_request demo_trino_client ''SELECT 31'' # map (page_request demo_trino_client) uris)"
      "rows_of_pages None ps = Inr (qr_rows res)"
    using query_returns_the_rows_of_its_pages [OF r(1)] by blast
  have "length (hw_requests w') = 2" using arg_cong [OF r(3), of length] by simp
  with p(1,2) list_all2_lengthD [OF p(3)] have "length ps = 2" by (simp add: demo_http_def)
  with p(4) r show ?thesis by blast
qed

text \<open>C34: what a query returns is well formed, whatever the server sent: a query identifier that is
  not empty, the statistics of a finished query with no negative number, a planning time that is not
  negative either, and rows that are dictionaries.\<close>

theorem query_result_is_well_typed:
  assumes "query_with_planning env c sql w = Some (Inr (result, planning), w')"
  shows "qr_id result \<noteq> [] \<and> stats_ok (qr_stats result) \<and> (\<forall>r \<in> set (qr_rows result). row_ok r) \<and>
    (\<forall>p. planning = Some p \<longrightarrow> 0 \<le> p)"
proof -
  obtain stats u where r: "query_result_of env c sql w = Some (Inr (result, stats), u)"
      "\<forall>p. planning = Some p \<longrightarrow> 0 \<le> p"
    using assms by (auto simp: query_with_planning_def io_simps dest: stat_integer_Inr split: if_split_asm)
  obtain ps where p: "rows_of_pages None ps = Inr (qr_rows result)" "qr_id result \<noteq> []"
      "query_stats_of (get (last ps) ''stats'') = Inr (qr_stats result)"
    using query_result_read [OF r(1)] by (elim exE conjE) (rule that)
  with r(2) query_stats_Inr rows_of_pages_ok show ?thesis by blast
qed

theorem query_result_is_well_typed_witness:
  "\<exists>res w'. query_with_planning demo_trino demo_trino_client ''SELECT 31'' demo_http = Some (Inr (res, Some 1), w') \<and>
     qr_id res \<noteq> [] \<and> stats_ok (qr_stats res) \<and> row_ok [(PStr ''days'', PInt 31)]"
proof (rule demo_trino_result)
  fix res stats and w' :: http_world
  assume r: "query_with_planning demo_trino demo_trino_client ''SELECT 31'' demo_http = Some (Inr (res, Some 1), w')"
    "qr_rows res = [[(PStr ''days'', PInt 31)]]"
  from query_result_is_well_typed [OF r(1)] r show ?thesis by auto
qed

end
