(* ===== verification/Commerce_Landing.thy ===== *)
theory Commerce_Landing
  imports Commerce_Source
begin

text \<open>
  \<open>ingestion/commerce_s3_landing.py\<close>: a generated fixture is uploaded object by object, each
  put once, and its manifest last. The files of the fixture are an oracle of the clock of the
  landing's world (another process may change them), which also holds the objects of the bucket;
  the S3 service is a transition of that store, and other clients may act before each call. A file
  is read at one moment.
\<close>

section \<open>The bucket and the fixture\<close>

record s3_object =
  so_body :: string
  so_metadata :: "(string \<times> string) list"
  so_type :: string

type_synonym bucket = "string \<Rightarrow> s3_object option"

text \<open>A put is stored, refused with the status and the code of a client error, or it fails.\<close>

datatype put_answer = Stored | Refused pyval pyval | PutFault pyexn

record s3_read =
  sr_sha :: "string option"
  sr_body :: "string result"

datatype on_disk = NoFile | Directory | Unreadable | Link "string option" | Content string

record landing_env =
  le_put :: "nat \<Rightarrow> string \<Rightarrow> s3_object \<Rightarrow> bucket \<Rightarrow> put_answer \<times> bucket"
  le_get :: "nat \<Rightarrow> string \<Rightarrow> bucket \<Rightarrow> s3_read result \<times> bucket"
  le_files :: "nat \<Rightarrow> string \<Rightarrow> on_disk"
  le_json :: "string \<Rightarrow> pyval result"

record landing_world =
  lw_tick :: nat
  lw_bucket :: bucket

type_synonym 'a landing = "(pyexn, 'a, landing_world) act"

definition look :: "landing_env \<Rightarrow> string \<Rightarrow> on_disk landing" where
  "look env path w = Some (Inr (le_files env (lw_tick w) path), w\<lparr>lw_tick := Suc (lw_tick w)\<rparr>)"

definition landing_error :: "string \<Rightarrow> 'a result" where
  "landing_error m = raise CommerceLandingError m"

definition bytes_of :: "on_disk \<Rightarrow> string result" where
  "bytes_of f = (case f of Content s \<Rightarrow> Inr s | Link (Some s) \<Rightarrow> Inr s | _ \<Rightarrow> raise OSError [])"

definition is_symlink :: "on_disk \<Rightarrow> bool" where
  "is_symlink f = (case f of Link _ \<Rightarrow> True | _ \<Rightarrow> False)"

definition is_file :: "on_disk \<Rightarrow> bool" where
  "is_file f = (case f of Content _ \<Rightarrow> True | Unreadable \<Rightarrow> True | Link (Some _) \<Rightarrow> True | _ \<Rightarrow> False)"

section \<open>Reading files\<close>

definition read_manifest_bytes :: "landing_env \<Rightarrow> string \<Rightarrow> string landing" where
  "read_manifest_bytes env path =
     bind_io (look env path) (\<lambda>f. lift_io (bindE (bytes_of f) (\<lambda>s.
       let body = take (nat (max_commerce_manifest_bytes + 1)) s in
       if max_commerce_manifest_bytes < int (length body) then landing_error ''fixture manifest exceeds 1 MiB''
       else Inr body)))"

definition read_verified_bytes :: "landing_env \<Rightarrow> string \<Rightarrow> string \<Rightarrow> string landing" where
  "read_verified_bytes env path checksum =
     bind_io (look env path) (\<lambda>f. lift_io (
       bindE (catchE (bytes_of f) (\<lambda>k. is_a k OSError) (\<lambda>_. landing_error (''fixture changed during upload: '' @ path))) (\<lambda>body.
         if sha256_hex body \<noteq> checksum then landing_error (''fixture changed during upload: '' @ path) else Inr body)))"

text \<open>\<open>iter(lambda: stream.read(size), b"")\<close>\<close>

function stream_chunks :: "nat \<Rightarrow> string \<Rightarrow> string list" where
  "stream_chunks n s = (if n = 0 \<or> s = [] then [] else take n s # stream_chunks n (drop n s))"
  by auto
termination by (relation "measure (\<lambda>(n, s). length s)") auto

declare stream_chunks.simps [simp del]

definition newline :: char where
  "newline = CHR 0x0A"

definition file_digest_and_rows :: "string \<Rightarrow> string \<times> nat" where
  "file_digest_and_rows s =
     (let (digested, rows) = fold (\<lambda>part (digested, rows). (digested @ part, rows + count_list part newline))
        (stream_chunks (1024 * 1024) s) ([], 0)
      in (sha256_hex digested, rows))"

section \<open>The fixture\<close>

definition check_entry :: "string \<Rightarrow> pyval \<Rightarrow> (string \<times> int) result" where
  "check_entry name details =
     (let d = the_dict details in
      if \<not> is_dict details then landing_error (''invalid manifest entry for table: '' @ name)
      else if \<not> py_eq (get d ''file'') (PStr (name @ ''.jsonl'')) then landing_error ''fixture table inventory is invalid''
      else if \<not> exact_int (get d ''rows'') \<or> the_int (get d ''rows'') < 1
      then landing_error (''invalid row count for table: '' @ name)
      else if \<not> is_str (get d ''sha256'') \<or> length (the_str (get d ''sha256'')) \<noteq> 64
      then landing_error (''invalid checksum for table: '' @ name)
      else Inr (the_str (get d ''sha256''), the_int (get d ''rows'')))"

definition check_table :: "landing_env \<Rightarrow> string \<Rightarrow> pydict \<Rightarrow> string \<Rightarrow> (string \<times> string \<times> string) landing" where
  "check_table env fixture tables name =
     bind_io (lift_io (check_entry name (get tables name))) (\<lambda>(checksum, rows).
     let path = fixture @ ''/'' @ name @ ''.jsonl'' in
     bind_io (look env path) (\<lambda>f.
     if is_symlink f then lift_io (landing_error (''fixture table symlink is not allowed: '' @ path))
     else bind_io (look env path) (\<lambda>f.
     if \<not> is_file f then lift_io (landing_error (''fixture checksum verification failed: '' @ path))
     else bind_io (look env path) (\<lambda>f. bind_io (lift_io (bytes_of f)) (\<lambda>body.
       let (observed, observed_rows) = file_digest_and_rows body in
       if observed \<noteq> checksum then lift_io (landing_error (''fixture checksum verification failed: '' @ path))
       else if int observed_rows \<noteq> rows then lift_io (landing_error (''fixture row count mismatch: '' @ path))
       else return_io (name @ ''.jsonl'', path, checksum))))))"

definition check_manifest :: "pyval \<Rightarrow> (string \<times> pydict) result" where
  "check_manifest manifest =
     (let m = the_dict manifest; batch_id = get m ''batch_id''; tables = get m ''tables'' in
      if \<not> is_dict manifest then landing_error ''fixture manifest is invalid: expected an object''
      else if \<not> exact_int (get m ''schema_version'') \<or> the_int (get m ''schema_version'') \<noteq> 1
      then landing_error ''fixture schema version is unsupported''
      else if \<not> is_str batch_id \<or> \<not> is_hex 16 (the_str batch_id) then landing_error ''fixture batch_id is invalid''
      else if \<not> is_dict tables \<or> \<not> same_keys (the_dict tables) required_tables
      then landing_error ''fixture table inventory is invalid''
      else Inr (the_str batch_id, the_dict tables))"

definition unreadable_manifest :: "exn_class \<Rightarrow> bool" where
  "unreadable_manifest k = (is_a k OSError \<or> is_a k UnicodeError \<or> is_a k JSONDecodeError)"

record fixture =
  fx_batch_id :: string
  fx_objects :: "(string \<times> string \<times> string) list"
  fx_manifest :: string

definition load_fixture :: "landing_env \<Rightarrow> string \<Rightarrow> fixture landing" where
  "load_fixture env fixture_path =
     (let path = fixture_path @ ''/manifest.json'' in
      bind_io (look env path) (\<lambda>f.
      if is_symlink f then lift_io (landing_error (''fixture manifest symlink is not allowed: '' @ path))
      else bind_io (catch_io (bind_io (read_manifest_bytes env path) (\<lambda>body.
          bind_io (lift_io (le_json env body)) (\<lambda>manifest. return_io (body, manifest))))
        unreadable_manifest (\<lambda>e. lift_io (landing_error (''fixture manifest is unreadable: '' @ message_of e)))) (\<lambda>(body, manifest).
      bind_io (lift_io (check_manifest manifest)) (\<lambda>(batch_id, tables).
      bind_io (mapM_io (check_table env fixture_path tables) (sort (map fst tables))) (\<lambda>objects.
        return_io \<lparr>fx_batch_id = batch_id, fx_objects = objects, fx_manifest = body\<rparr>)))))"

section \<open>Putting objects once\<close>

definition precondition_failed :: "pyval \<Rightarrow> pyval \<Rightarrow> bool" where
  "precondition_failed status code = (py_eq status (PInt 412) \<or> code \<in> {PStr ''PreconditionFailed'', PStr ''412''})"

definition s3_put :: "landing_env \<Rightarrow> string \<Rightarrow> s3_object \<Rightarrow> put_answer landing" where
  "s3_put env key obj w = (case le_put env (lw_tick w) key obj (lw_bucket w) of
     (answer, b) \<Rightarrow> Some (Inr answer, w\<lparr>lw_tick := Suc (lw_tick w), lw_bucket := b\<rparr>))"

definition s3_get :: "landing_env \<Rightarrow> string \<Rightarrow> s3_read landing" where
  "s3_get env key w = (case le_get env (lw_tick w) key (lw_bucket w) of
     (answer, b) \<Rightarrow> Some (answer, w\<lparr>lw_tick := Suc (lw_tick w), lw_bucket := b\<rparr>))"

definition verify_existing_object :: "string \<Rightarrow> string \<Rightarrow> s3_read \<Rightarrow> nat result" where
  "verify_existing_object key checksum existing =
     bindE (sr_body existing) (\<lambda>body.
       if sr_sha existing \<noteq> Some checksum \<or> sha256_hex body \<noteq> checksum
       then landing_error (''existing S3 object conflicts with fixture: '' @ key) else Inr 0)"

definition put_once :: "landing_env \<Rightarrow> string \<Rightarrow> string \<Rightarrow> string \<Rightarrow> (string \<times> string) list \<Rightarrow> string \<Rightarrow> nat landing" where
  "put_once env key body checksum metadata content_type =
     bind_io (s3_put env key \<lparr>so_body = body, so_metadata = dict_set metadata ''sha256'' checksum, so_type = content_type\<rparr>)
       (\<lambda>answer. case answer of
           Stored \<Rightarrow> return_io 1
         | PutFault e \<Rightarrow> lift_io (Inl e)
         | Refused status code \<Rightarrow> if \<not> precondition_failed status code then raise_io ClientError []
             else bind_io (s3_get env key) (\<lambda>existing. lift_io (verify_existing_object key checksum existing)))"

record landing_result =
  ld_batch_id :: string
  ld_path :: string
  ld_objects :: nat
  ld_created :: nat

definition landing_dict :: "landing_result \<Rightarrow> pydict" where
  "landing_dict r = [(''batch_id'', PStr (ld_batch_id r)), (''created'', PInt (int (ld_created r))),
     (''objects'', PInt (int (ld_objects r))), (''path'', PStr (ld_path r))]"

record landing_zone =
  lz_bucket :: string
  lz_prefix :: string

definition make_landing_zone :: "string \<Rightarrow> string \<Rightarrow> landing_zone result" where
  "make_landing_zone bucket_name prefix =
     (if bucket_name = [] then raise ValueError ''bucket must not be empty''
      else Inr \<lparr>lz_bucket = bucket_name, lz_prefix = strip_slash prefix\<rparr>)"

definition base_key :: "landing_zone \<Rightarrow> string \<Rightarrow> string" where
  "base_key z batch_id =
     join ''/'' (filter (\<lambda>part. part \<noteq> []) [lz_prefix z, ''source=commerce'', ''batch_id='' @ batch_id])"

definition put_table :: "landing_env \<Rightarrow> landing_zone \<Rightarrow> string \<Rightarrow> string \<times> string \<times> string \<Rightarrow> nat landing" where
  "put_table env z batch_id entry = (case entry of (name, path, checksum) \<Rightarrow>
     bind_io (read_verified_bytes env path checksum) (\<lambda>body.
       put_once env (base_key z batch_id @ ''/'' @ name) body checksum
         [(''batch-id'', batch_id), (''source'', ''commerce'')] ''application/x-ndjson''))"

definition put_manifest :: "landing_env \<Rightarrow> landing_zone \<Rightarrow> string \<Rightarrow> fixture \<Rightarrow> nat landing" where
  "put_manifest env z fixture_path fx =
     bind_io (catch_io (read_manifest_bytes env (fixture_path @ ''/manifest.json'')) (\<lambda>k. is_a k OSError)
       (\<lambda>_. lift_io (landing_error ''fixture manifest changed during upload''))) (\<lambda>body.
     if body \<noteq> fx_manifest fx then lift_io (landing_error ''fixture manifest changed during upload'')
     else put_once env (base_key z (fx_batch_id fx) @ ''/manifest.json'') body (sha256_hex body)
       [(''batch-id'', fx_batch_id fx), (''source'', ''commerce''), (''commit-marker'', ''true'')] ''application/json'')"

text \<open>The manifest is the commit marker: it is put after every table.\<close>

definition land_fixture :: "landing_env \<Rightarrow> landing_zone \<Rightarrow> string \<Rightarrow> landing_result landing" where
  "land_fixture env z fixture_path =
     bind_io (load_fixture env fixture_path) (\<lambda>fx.
     bind_io (mapM_io (put_table env z (fx_batch_id fx)) (fx_objects fx)) (\<lambda>created.
     bind_io (put_manifest env z fixture_path fx) (\<lambda>committed.
       return_io \<lparr>ld_batch_id = fx_batch_id fx,
         ld_path = ''s3://'' @ lz_bucket z @ ''/'' @ base_key z (fx_batch_id fx) @ ''/'',
         ld_objects = length (fx_objects fx) + 1, ld_created = sum_list created + committed\<rparr>)))"

end
