(* ===== verification/Commerce_Bronze.thy ===== *)
theory Commerce_Bronze
  imports Commerce_Landing
begin

text \<open>
  \<open>ingestion/commerce_bronze.py\<close> and \<open>commerce_snapshot.py\<close>: the batch directory that the
  processing jobs read is verified against its manifest, and a complete snapshot is ordered by the
  time of its batch. Both share the reading of files with the upload.
\<close>

section \<open>The directory of a batch\<close>

definition bronze_error :: "string \<Rightarrow> 'a result" where
  "bronze_error m = raise CommerceBronzeError m"

record table_file =
  tf_name :: string
  tf_path :: string
  tf_rows :: int
  tf_sha :: string

record batch_directory =
  bd_id :: string
  bd_at :: string
  bd_tables :: "table_file list"

definition file_sha256 :: "string \<Rightarrow> string" where
  "file_sha256 s = sha256_hex (fold (\<lambda>part digested. digested @ part) (stream_chunks (1024 * 1024) s) [])"

definition line_count :: "string \<Rightarrow> nat" where
  "line_count s = fold (\<lambda>part count. count + count_list part newline) (stream_chunks (1024 * 1024) s) 0"

text \<open>\<open>isinstance(rows, int)\<close>: a \<open>bool\<close> is one.\<close>

definition is_int_like :: "pyval \<Rightarrow> bool" where
  "is_int_like v = (case v of PInt _ \<Rightarrow> True | PBool _ \<Rightarrow> True | _ \<Rightarrow> False)"

definition bronze_entry :: "string \<Rightarrow> pyval \<Rightarrow> (int \<times> string) result" where
  "bronze_entry name details =
     (let d = the_dict details; rows = get d ''rows''; checksum = get d ''sha256'' in
      if \<not> is_dict details then bronze_error (''invalid manifest entry for table: '' @ name)
      else if \<not> py_eq (get d ''file'') (PStr (name @ ''.jsonl'')) \<or> \<not> is_int_like rows \<or> the_int rows < 1
      then bronze_error (''invalid manifest entry for table: '' @ name)
      else if \<not> is_str checksum \<or> \<not> is_hex 64 (the_str checksum)
      then bronze_error (''invalid manifest checksum for table: '' @ name)
      else Inr (the_int rows, the_str checksum))"

text \<open>The digest and the lines are read one after the other, each from the file as it is then.\<close>

definition verify_table :: "landing_env \<Rightarrow> string \<Rightarrow> string \<Rightarrow> pyval \<Rightarrow> table_file landing" where
  "verify_table env folder name details =
     bind_io (lift_io (bronze_entry name details)) (\<lambda>(rows, checksum).
     let path = folder @ ''/'' @ name @ ''.jsonl'' in
     bind_io (catch_io
       (bind_io (look env path) (\<lambda>f. bind_io (lift_io (bytes_of f)) (\<lambda>body.
        bind_io (look env path) (\<lambda>f. bind_io (lift_io (bytes_of f)) (\<lambda>lines.
          return_io (file_sha256 body, line_count lines))))))
       (\<lambda>k. is_a k OSError) (\<lambda>_. lift_io (bronze_error (''commerce table is unreadable: '' @ path)))) (\<lambda>(observed, observed_rows).
     if observed \<noteq> checksum then lift_io (bronze_error (''commerce table checksum mismatch: '' @ name))
     else if int observed_rows \<noteq> rows
     then lift_io (bronze_error (''commerce table row count mismatch: '' @ name @ '' expected '' @ dec_int rows @
       '', observed '' @ dec_nat observed_rows))
     else return_io \<lparr>tf_name = name, tf_path = path, tf_rows = rows, tf_sha = checksum\<rparr>))"

definition bronze_manifest :: "landing_env \<Rightarrow> string option \<Rightarrow> string \<Rightarrow> pyval result" where
  "bronze_manifest env expected body =
     (if expected \<noteq> None \<and> expected \<noteq> Some (sha256_hex body)
      then bronze_error ''commerce manifest differs from the selected S3 commit'' else le_json env body)"

text \<open>The identity, the inventory and the batch time of a manifest, as one pass over it: a manifest
  that is no dictionary has no \<open>get\<close>.\<close>

definition bronze_identity :: "string \<Rightarrow> pyval \<Rightarrow> pydict result" where
  "bronze_identity expected_id manifest =
     bindE (get_attr manifest ''schema_version'') (\<lambda>version.
     if version = None \<or> \<not> exact_int (the version) \<or> the_int (the version) \<noteq> 1 \<or>
        \<not> py_eq (get (the_dict manifest) ''batch_id'') (PStr expected_id)
     then bronze_error ''commerce manifest identity is invalid''
     else let tables = get (the_dict manifest) ''tables'' in
       if \<not> is_dict tables \<or> sort (map fst (the_dict tables)) \<noteq> required_tables
       then bronze_error ''commerce manifest must contain exactly four required tables''
       else Inr (the_dict tables))"

definition caught_by_time :: "exn_class \<Rightarrow> bool" where
  "caught_by_time k = (is_a k KeyError \<or> is_a k TypeError \<or> is_a k ValueError)"

definition bronze_time :: "pyval \<Rightarrow> pydt result" where
  "bronze_time manifest =
     bindE (catchE
       (bindE (subscript manifest ''config'') (\<lambda>config. bindE (subscript config ''batch_at'') (\<lambda>stamp.
         if \<not> is_str stamp then raise AttributeError ''replace''
         else case fromisoformat (replace ''Z'' ''+00:00'' (the_str stamp)) of
             None \<Rightarrow> raise ValueError ''Invalid isoformat string'' | Some t \<Rightarrow> Inr t)))
       caught_by_time (\<lambda>_. bronze_error ''commerce manifest batch_at is invalid'')) (\<lambda>t.
     if \<not> is_aware t then bronze_error ''commerce manifest batch_at must include a timezone'' else Inr t)"

text \<open>\<open>path.name\<close>\<close>

definition path_name :: "string \<Rightarrow> string" where
  "path_name path = (let parts = filter (\<lambda>part. part \<noteq> [] \<and> part \<noteq> ''.'') (split_char CHR ''/'' path)
     in if parts = [] then [] else last parts)"

definition load_commerce_batch ::
    "landing_env \<Rightarrow> string \<Rightarrow> string \<Rightarrow> string option \<Rightarrow> batch_directory landing" where
  "load_commerce_batch env path expected_id expected_sha =
     (if \<not> is_hex 16 expected_id
      then lift_io (bronze_error ''batch_id must contain 16 lowercase hexadecimal characters'')
      else if path_name path \<noteq> ''batch_id='' @ expected_id
      then lift_io (bronze_error ''batch directory does not match batch_id'')
      else bind_io (catch_io
          (bind_io (look env (path @ ''/manifest.json'')) (\<lambda>f. bind_io (lift_io (bytes_of f)) (\<lambda>body.
             lift_io (bronze_manifest env expected_sha body))))
          (\<lambda>k. is_a k OSError \<or> is_a k JSONDecodeError)
          (\<lambda>e. lift_io (bronze_error (''commerce manifest is unreadable: '' @ message_of e)))) (\<lambda>manifest.
      bind_io (lift_io (bronze_identity expected_id manifest)) (\<lambda>tables.
      bind_io (lift_io (bronze_time manifest)) (\<lambda>t.
      bind_io (mapM_io (\<lambda>name. verify_table env path name (get tables name)) required_tables) (\<lambda>verified.
      bind_io (lift_io (utc_iso_z t)) (\<lambda>stamp.
        return_io \<lparr>bd_id = expected_id, bd_at = stamp, bd_tables = verified\<rparr>))))))"

section \<open>Snapshots\<close>

record snapshot =
  sn_id :: string
  sn_at :: string
  sn_sha :: string

definition load_snapshot_identity :: "landing_env \<Rightarrow> string \<Rightarrow> string \<Rightarrow> string \<Rightarrow> snapshot landing" where
  "load_snapshot_identity env path batch_id manifest_sha256 =
     (if manifest_sha256 = [] then raise_io ValueError ''snapshot requires the selected manifest SHA-256''
      else bind_io (load_commerce_batch env path batch_id (Some manifest_sha256)) (\<lambda>batch.
      bind_io (look env (path @ ''/manifest.json'')) (\<lambda>f. bind_io (lift_io (bytes_of f)) (\<lambda>body.
      if sha256_hex body \<noteq> manifest_sha256
      then raise_io ValueError ''snapshot manifest changed during identity validation''
      else bind_io (lift_io (le_json env body)) (\<lambda>manifest.
      bind_io (lift_io (bindE (subscript manifest ''config'') (\<lambda>config. get_attr config ''source_semantics''))) (\<lambda>semantics.
      if semantics \<noteq> Some (PStr ''full_snapshot'')
      then raise_io ValueError ''current mart requires explicitly declared full_snapshot semantics''
      else bind_io (lift_io (case fromisoformat (replace ''Z'' ''+00:00'' (bd_at batch)) of
             None \<Rightarrow> raise ValueError ''Invalid isoformat string''
           | Some t \<Rightarrow> bindE (to_utc t) (\<lambda>u. Inr (isoformat u)))) (\<lambda>stamp.
        return_io \<lparr>sn_id = bd_id batch, sn_at = stamp, sn_sha = manifest_sha256\<rparr>)))))))"

text \<open>The comparison of two timestamps, which must both be aware or both naive to be ordered.\<close>

definition timestamp_of :: "string \<Rightarrow> pydt result" where
  "timestamp_of s = (case fromisoformat s of None \<Rightarrow> raise ValueError ''Invalid isoformat string'' | Some t \<Rightarrow> Inr t)"

definition snapshot_action :: "snapshot option \<Rightarrow> snapshot \<Rightarrow> string result" where
  "snapshot_action current incoming =
     (case current of None \<Rightarrow> Inr ''create''
      | Some c \<Rightarrow> bindE (timestamp_of (sn_at c)) (\<lambda>current_at. bindE (timestamp_of (sn_at incoming)) (\<lambda>incoming_at.
          if is_aware current_at \<noteq> is_aware incoming_at
          then raise TypeError (''can'' @ [CHR 0x27] @ ''t compare offset-naive and offset-aware datetimes'')
          else if dt_utc incoming_at < dt_utc current_at then Inr ''stale''
          else if dt_utc incoming_at = dt_utc current_at
          then (if incoming \<noteq> c then raise ValueError ''conflicting snapshot identity at the current timestamp'' else Inr ''replay'')
          else Inr ''replace'')))"

end
