(* ===== verification/Landing_Properties.thy ===== *)
theory Landing_Properties
  imports Commerce_Landing
begin

text \<open>
  What the upload promises to the readers of the bucket, whatever fails and whatever other clients
  of the same protocol do: a manifest is never there before its tables.
\<close>

section \<open>What the service documents\<close>

text \<open>The digest that a manifest gives for a table.\<close>

definition listed_digest :: "(string \<Rightarrow> pyval result) \<Rightarrow> string \<Rightarrow> string \<Rightarrow> pyval" where
  "listed_digest json body name =
     (case json body of Inl e \<Rightarrow> PNone
      | Inr m \<Rightarrow> get (the_dict (get (the_dict (get (the_dict m) ''tables'')) name)) ''sha256'')"

text \<open>Every table that the manifest lists is in the bucket, with the digest that it lists.\<close>

definition tables_ready :: "(string \<Rightarrow> pyval result) \<Rightarrow> string \<Rightarrow> string \<Rightarrow> bucket \<Rightarrow> bool" where
  "tables_ready json base body b \<longleftrightarrow> (\<forall>name \<in> set required_tables. \<exists>obj.
     b (base @ ''/'' @ name @ ''.jsonl'') = Some obj \<and> listed_digest json body name = PStr (sha256_hex (so_body obj)))"

definition bucket_ok :: "(string \<Rightarrow> pyval result) \<Rightarrow> bucket \<Rightarrow> bool" where
  "bucket_ok json b \<longleftrightarrow> (\<forall>base m. b (base @ ''/manifest.json'') = Some m \<longrightarrow> tables_ready json base (so_body m) b)"

text \<open>What other clients may do between two calls: they add objects, in the order of this protocol.\<close>

definition others_act :: "(string \<Rightarrow> pyval result) \<Rightarrow> bucket \<Rightarrow> bucket \<Rightarrow> bool" where
  "others_act json b b' \<longleftrightarrow> b \<subseteq>\<^sub>m b' \<and> (bucket_ok json b \<longrightarrow> bucket_ok json b')"

text \<open>A conditional put stores the object under a free key, or is refused because the key is taken; a
  put that fails may have stored it. A read returns what is stored.\<close>

definition put_contract :: "landing_env \<Rightarrow> bool" where
  "put_contract env \<longleftrightarrow> (\<forall>n key obj b. \<exists>b1. others_act (le_json env) b b1 \<and>
     (case le_put env n key obj b of
        (Stored, b') \<Rightarrow> b1 key = None \<and> b' = b1(key \<mapsto> obj)
      | (Refused status code, b') \<Rightarrow> b' = b1
      | (PutFault e, b') \<Rightarrow> b' = b1 \<or> b1 key = None \<and> b' = b1(key \<mapsto> obj)))"

definition get_contract :: "landing_env \<Rightarrow> bool" where
  "get_contract env \<longleftrightarrow> (\<forall>n key b. case le_get env n key b of (answer, b') \<Rightarrow> others_act (le_json env) b b' \<and>
     (\<forall>r. answer = Inr r \<longrightarrow> (\<exists>obj. b' key = Some obj \<and> sr_sha r = map_of (so_metadata obj) ''sha256'' \<and>
       (\<forall>s. sr_body r = Inr s \<longrightarrow> s = so_body obj))))"

section \<open>The invariant of the bucket\<close>

lemma tables_ready_mono: "tables_ready json base body b \<Longrightarrow> b \<subseteq>\<^sub>m b' \<Longrightarrow> tables_ready json base body b'"
  unfolding tables_ready_def map_le_def by (metis domI)

lemma map_le_put: "b key = None \<Longrightarrow> b \<subseteq>\<^sub>m b(key \<mapsto> obj)"
  by (auto simp: map_le_def)

text \<open>Which puts are safe: a manifest's only when its tables are ready.\<close>

definition safe_put :: "(string \<Rightarrow> pyval result) \<Rightarrow> string \<Rightarrow> string \<Rightarrow> bucket \<Rightarrow> bool" where
  "safe_put json key body b \<longleftrightarrow> (\<forall>base. key = base @ ''/manifest.json'' \<longrightarrow> tables_ready json base body b)"

lemma safe_put_mono: "safe_put json key body b \<Longrightarrow> b \<subseteq>\<^sub>m b' \<Longrightarrow> safe_put json key body b'"
  by (auto simp: safe_put_def intro: tables_ready_mono)

lemma bucket_ok_put:
  assumes "bucket_ok json b" "b key = None" "safe_put json key (so_body obj) b"
  shows "bucket_ok json (b(key \<mapsto> obj))"
  unfolding bucket_ok_def
proof (intro allI impI)
  fix base m
  assume m: "(b(key \<mapsto> obj)) (base @ ''/manifest.json'') = Some m"
  have "tables_ready json base (so_body m) b"
    using assms(1,3) m by (auto simp: bucket_ok_def safe_put_def split: if_split_asm)
  then show "tables_ready json base (so_body m) (b(key \<mapsto> obj))"
    by (rule tables_ready_mono) (simp add: map_le_put assms(2))
qed

text \<open>An action that only adds objects and keeps the invariant.\<close>

definition adds_safely :: "(string \<Rightarrow> pyval result) \<Rightarrow> landing_world \<Rightarrow> landing_world \<Rightarrow> bool" where
  "adds_safely json w w' \<longleftrightarrow> others_act json (lw_bucket w) (lw_bucket w')"

lemma adds_refl [simp]: "adds_safely json w w"
  by (simp add: adds_safely_def others_act_def)

lemma adds_trans: "adds_safely json u v \<Longrightarrow> adds_safely json v w \<Longrightarrow> adds_safely json u w"
  by (auto simp: adds_safely_def others_act_def intro: map_le_trans)

lemma adds_le: "adds_safely json w w' \<Longrightarrow> lw_bucket w \<subseteq>\<^sub>m lw_bucket w'"
  by (simp add: adds_safely_def others_act_def)

lemma adds_same_bucket: "lw_bucket w' = lw_bucket w \<Longrightarrow> adds_safely json w w'"
  by (simp add: adds_safely_def others_act_def)

text \<open>Actions that only read files leave the bucket alone.\<close>

interpretation same_bucket: action_relation "\<lambda>w w'. lw_bucket w' = lw_bucket w"
  by unfold_locales simp_all

definition local_action :: "'a landing \<Rightarrow> bool" where
  "local_action m \<longleftrightarrow> obeys (\<lambda>w w'. lw_bucket w' = lw_bucket w) m"

named_theorems local_intros \<open>actions that leave the bucket alone\<close>

lemma localD: "local_action m \<Longrightarrow> m w = Some (r, w') \<Longrightarrow> lw_bucket w' = lw_bucket w"
  unfolding local_action_def by (rule obeysD)

lemma local_bind [local_intros]: "local_action m \<Longrightarrow> (\<And>x. local_action (f x)) \<Longrightarrow> local_action (bind_io m f)"
  unfolding local_action_def by (rule same_bucket.obeys_bind)

lemma local_catch [local_intros]: "local_action m \<Longrightarrow> (\<And>e. local_action (h e)) \<Longrightarrow> local_action (catch_io m p h)"
  unfolding local_action_def by (rule same_bucket.obeys_catch)

lemma local_basic [local_intros]: "local_action (return_io x)" "local_action (lift_io r)" "local_action (look env path)"
  unfolding local_action_def by (rule same_bucket.obeys_basic)+ (simp add: obeys_def look_def)

lemma local_if [local_intros]: "local_action m \<Longrightarrow> local_action m' \<Longrightarrow> local_action (if c then m else m')"
  by simp

lemma local_mapM [local_intros]: "(\<And>x. local_action (f x)) \<Longrightarrow> local_action (mapM_io f xs)"
  unfolding local_action_def by (rule same_bucket.obeys_mapM)

lemma local_manifest_bytes [local_intros]: "local_action (read_manifest_bytes env path)"
  unfolding read_manifest_bytes_def by (intro local_intros)

lemma local_verified_bytes [local_intros]: "local_action (read_verified_bytes env path checksum)"
  unfolding read_verified_bytes_def by (intro local_intros)

lemma local_check_table [local_intros]: "local_action (check_table env fixture tables name)"
  unfolding check_table_def Let_def case_prod_beta by (intro local_intros)

lemma local_load_fixture: "local_action (load_fixture env path)"
  unfolding load_fixture_def Let_def case_prod_beta by (intro local_intros)

section \<open>One put\<close>

lemma s3_put_outcome:
  assumes "put_contract env" "s3_put env key obj w = Some (r, w')" "safe_put (le_json env) key (so_body obj) (lw_bucket w)"
  shows "adds_safely (le_json env) w w' \<and> (r = Inr Stored \<longrightarrow> lw_bucket w' key = Some obj)"
proof -
  obtain answer b' where p: "le_put env (lw_tick w) key obj (lw_bucket w) = (answer, b')" by fastforce
  with assms(2) have w': "lw_bucket w' = b'" "r = Inr answer" by (auto simp: s3_put_def)
  from assms(1) [unfolded put_contract_def, THEN spec, of "lw_tick w", THEN spec, of key, THEN spec, of obj, THEN spec, of "lw_bucket w"]
  obtain b1 where o: "others_act (le_json env) (lw_bucket w) b1" and c: "case (answer, b') of
        (Stored, b') \<Rightarrow> b1 key = None \<and> b' = b1(key \<mapsto> obj)
      | (Refused status code, b') \<Rightarrow> b' = b1
      | (PutFault e, b') \<Rightarrow> b' = b1 \<or> b1 key = None \<and> b' = b1(key \<mapsto> obj)"
    unfolding p by blast
  have b': "b' = b1 \<or> b1 key = None \<and> b' = b1(key \<mapsto> obj)" using c by (auto split: put_answer.splits)
  have "others_act (le_json env) b1 b'"
    using b'
  proof
    assume "b' = b1"
    then show ?thesis by (simp add: others_act_def)
  next
    assume f: "b1 key = None \<and> b' = b1(key \<mapsto> obj)"
    have "safe_put (le_json env) key (so_body obj) b1"
      using safe_put_mono [OF assms(3)] o by (simp add: others_act_def)
    with f bucket_ok_put [of "le_json env" b1 key obj] show ?thesis
      by (simp add: others_act_def map_le_put)
  qed
  with o w' have "adds_safely (le_json env) w w'" by (auto simp: adds_safely_def others_act_def intro: map_le_trans)
  moreover have "r = Inr Stored \<longrightarrow> lw_bucket w' key = Some obj" using c w' by auto
  ultimately show ?thesis by blast
qed

lemma s3_get_outcome:
  assumes "get_contract env" "s3_get env key w = Some (r, w')"
  shows "adds_safely (le_json env) w w' \<and> (\<forall>x. r = Inr x \<longrightarrow> (\<exists>obj. lw_bucket w' key = Some obj \<and>
    sr_sha x = map_of (so_metadata obj) ''sha256'' \<and> (\<forall>s. sr_body x = Inr s \<longrightarrow> s = so_body obj)))"
proof -
  obtain answer b' where p: "le_get env (lw_tick w) key (lw_bucket w) = (answer, b')" by fastforce
  with assms(2) have w': "lw_bucket w' = b'" "r = answer" by (auto simp: s3_get_def)
  have "case (answer, b') of (answer, b') \<Rightarrow> others_act (le_json env) (lw_bucket w) b' \<and>
     (\<forall>r. answer = Inr r \<longrightarrow> (\<exists>obj. b' key = Some obj \<and> sr_sha r = map_of (so_metadata obj) ''sha256'' \<and>
       (\<forall>s. sr_body r = Inr s \<longrightarrow> s = so_body obj)))"
    using assms(1) [unfolded get_contract_def, THEN spec, of "lw_tick w", THEN spec, of key, THEN spec, of "lw_bucket w"]
    unfolding p .
  with w' show ?thesis by (simp add: adds_safely_def)
qed

text \<open>A put that returned has its object, of the right digest, in the bucket; whatever happened, it
  was safe.\<close>

lemma put_once_outcome:
  assumes "put_contract env" "get_contract env" "put_once env key body checksum md ct w = Some (r, w')"
    "safe_put (le_json env) key body (lw_bucket w)" "sha256_hex body = checksum"
  shows "adds_safely (le_json env) w w' \<and> (\<forall>k. r = Inr k \<longrightarrow> k \<le> 1 \<and> (\<exists>obj. lw_bucket w' key = Some obj \<and>
    sha256_hex (so_body obj) = checksum \<and>
    (k = 1 \<longrightarrow> obj = \<lparr>so_body = body, so_metadata = dict_set md ''sha256'' checksum, so_type = ct\<rparr>)))"
proof -
  let ?obj = "\<lparr>so_body = body, so_metadata = dict_set md ''sha256'' checksum, so_type = ct\<rparr>"
  obtain answer w1 where a: "s3_put env key ?obj w = Some (Inr answer, w1)"
    by (cases "le_put env (lw_tick w) key ?obj (lw_bucket w)") (auto simp: s3_put_def)
  have p: "adds_safely (le_json env) w w1" "answer = Stored \<longrightarrow> lw_bucket w1 key = Some ?obj"
    using s3_put_outcome [OF assms(1) a] assms(4) by auto
  show ?thesis
  proof (cases answer)
    case Stored
    with assms(3) a p assms(5) show ?thesis by (auto simp: put_once_def bind_io_def return_io_def)
  next
    case (PutFault e)
    with assms(3) a p show ?thesis by (auto simp: put_once_def bind_io_def lift_io_def)
  next
    case (Refused status code)
    show ?thesis
    proof (cases "precondition_failed status code")
      case False
      with Refused assms(3) a p show ?thesis by (auto simp: put_once_def bind_io_def raise_io_def)
    next
      case True
      obtain g w2 where g: "s3_get env key w1 = Some (g, w2)"
        by (cases "le_get env (lw_tick w1) key (lw_bucket w1)") (auto simp: s3_get_def)
      have w': "w' = w2" and r: "r = bindE g (verify_existing_object key checksum)"
        using Refused True assms(3) a g by (cases g; auto simp: put_once_def bind_io_def lift_io_def)+
      note got = s3_get_outcome [OF assms(2) g]
      have "k \<le> 1 \<and> (\<exists>obj. lw_bucket w' key = Some obj \<and> sha256_hex (so_body obj) = checksum \<and> (k = 1 \<longrightarrow> obj = ?obj))"
        if k: "r = Inr k" for k
      proof -
        obtain x where x: "g = Inr x" "verify_existing_object key checksum x = Inr k"
          using k r by (auto simp: bindE_eq_Inr)
        then obtain s where "sr_body x = Inr s" "sha256_hex s = checksum" "k = 0"
          by (auto simp: verify_existing_object_def bindE_eq_Inr landing_error_def split: if_split_asm)
        with got x(1) w' show ?thesis by auto
      qed
      then show ?thesis using adds_trans [OF p(1)] got w' by simp
    qed
  qed
qed

section \<open>What was loaded\<close>

lemma check_entry_Inr:
  assumes "check_entry name details = Inr (checksum, rows)"
  shows "is_dict details" "get (the_dict details) ''file'' = PStr (name @ ''.jsonl'')"
    "get (the_dict details) ''sha256'' = PStr checksum" "get (the_dict details) ''rows'' = PInt rows" "1 \<le> rows"
  using assms by (auto simp: check_entry_def landing_error_def Let_def is_str_iff exact_int_iff split: if_split_asm)

text \<open>The chunks of a file are the file.\<close>

lemma concat_stream_chunks: "concat (stream_chunks n s) = (if n = 0 then [] else s)"
  by (induction n s rule: stream_chunks.induct) (subst stream_chunks.simps, auto)

lemma digest_and_rows: "file_digest_and_rows s = (sha256_hex s, count_list s newline)"
proof -
  have "fold (\<lambda>part (digested, rows). (digested @ part, rows + count_list part newline)) ps (d, r) =
      (d @ concat ps, r + count_list (concat ps) newline)" for ps d r
    by (induction ps arbitrary: d r) (auto simp: count_list_append)
  then show ?thesis by (simp add: file_digest_and_rows_def concat_stream_chunks)
qed

text \<open>A checked table: its entry of the manifest, and the digest and the rows of its file.\<close>

definition checked_table :: "string \<Rightarrow> pydict \<Rightarrow> string \<Rightarrow> string \<times> string \<times> string \<Rightarrow> bool" where
  "checked_table fixture_path tables name entry \<longleftrightarrow> (\<exists>body rows.
     entry = (name @ ''.jsonl'', fixture_path @ ''/'' @ name @ ''.jsonl'', sha256_hex body) \<and>
     check_entry name (get tables name) = Inr (sha256_hex body, rows) \<and> int (count_list body newline) = rows)"

lemma check_table_Inr:
  assumes "check_table env fixture_path tables name w = Some (Inr entry, w')"
  shows "checked_table fixture_path tables name entry"
  using assms unfolding check_table_def Let_def
  by (auto simp: bind_io_Inr lift_io_iff return_io_iff landing_error_def digest_and_rows checked_table_def
      split: if_split_asm)

lemma check_manifest_Inr:
  assumes "check_manifest manifest = Inr (batch_id, tables)"
  shows "is_dict manifest" "get (the_dict manifest) ''batch_id'' = PStr batch_id" "is_hex 16 batch_id"
    "get (the_dict manifest) ''tables'' = PDict tables" "same_keys tables required_tables"
    "get (the_dict manifest) ''schema_version'' = PInt 1"
  using assms by (auto simp: check_manifest_def landing_error_def Let_def is_str_iff is_dict_iff exact_int_iff split: if_split_asm)

text \<open>What a loaded fixture holds.\<close>

definition loaded :: "(string \<Rightarrow> pyval result) \<Rightarrow> string \<Rightarrow> fixture \<Rightarrow> pyval \<Rightarrow> pydict \<Rightarrow> bool" where
  "loaded json path fx manifest tables \<longleftrightarrow>
     json (fx_manifest fx) = Inr manifest \<and> check_manifest manifest = Inr (fx_batch_id fx, tables) \<and>
     list_all2 (checked_table path tables) (sort (map fst tables)) (fx_objects fx) \<and>
     int (length (fx_manifest fx)) \<le> max_commerce_manifest_bytes"

lemma manifest_bytes_Inr:
  "read_manifest_bytes env path w = Some (Inr body, w') \<Longrightarrow> int (length body) \<le> max_commerce_manifest_bytes"
  by (auto simp: read_manifest_bytes_def io_simps bindE_eq_Inr landing_error_def Let_def split: if_split_asm)

lemma load_fixture_Inr:
  assumes "load_fixture env path w = Some (Inr fx, w')"
  shows "\<exists>manifest tables. loaded (le_json env) path fx manifest tables"
proof -
  obtain w1 w2 w3 body manifest batch_id tables objects where r:
      "read_manifest_bytes env (path @ ''/manifest.json'') w1 = Some (Inr body, w2)" "le_json env body = Inr manifest"
      "check_manifest manifest = Inr (batch_id, tables)"
      "mapM_io (check_table env path tables) (sort (map fst tables)) w3 = Some (Inr objects, w')"
      "fx = \<lparr>fx_batch_id = batch_id, fx_objects = objects, fx_manifest = body\<rparr>"
    using assms unfolding load_fixture_def Let_def
    by (auto simp: io_simps landing_error_def split: if_split_asm prod.splits)
  have "list_all2 (checked_table path tables) (sort (map fst tables)) objects"
    by (rule mapM_io_Inr_list_all2 [OF r(4)]) (rule check_table_Inr)
  with r manifest_bytes_Inr [OF r(1)] show ?thesis by (auto simp: loaded_def)
qed

lemma loaded_names:
  assumes "loaded json path fx manifest tables"
  shows "set (map fst tables) = set required_tables"
  using check_manifest_Inr(5) [of manifest "fx_batch_id fx" tables] assms
  by (auto simp: loaded_def same_keys_def list_all_iff)

text \<open>The digest of a checked table is the one the manifest lists.\<close>

lemma loaded_digest:
  assumes "loaded json path fx manifest tables" "name \<in> set required_tables"
  shows "\<exists>checksum p. (name @ ''.jsonl'', p, checksum) \<in> set (fx_objects fx) \<and>
    listed_digest json (fx_manifest fx) name = PStr checksum"
proof -
  have l: "list_all2 (checked_table path tables) (sort (map fst tables)) (fx_objects fx)"
    using assms(1) by (simp add: loaded_def)
  have "name \<in> set (sort (map fst tables))" using loaded_names [OF assms(1)] assms(2) by simp
  then obtain i where i: "i < length (sort (map fst tables))" "sort (map fst tables) ! i = name"
    by (metis in_set_conv_nth)
  with l have c: "checked_table path tables name (fx_objects fx ! i)" "fx_objects fx ! i \<in> set (fx_objects fx)"
    using list_all2_nthD [OF l i(1)] list_all2_lengthD [OF l] by auto
  then obtain body rows where b: "fx_objects fx ! i = (name @ ''.jsonl'', path @ ''/'' @ name @ ''.jsonl'', sha256_hex body)"
      "check_entry name (get tables name) = Inr (sha256_hex body, rows)"
    by (auto simp: checked_table_def)
  have m: "json (fx_manifest fx) = Inr manifest" "get (the_dict manifest) ''tables'' = PDict tables"
    using assms(1) check_manifest_Inr(4) [of manifest "fx_batch_id fx" tables] by (auto simp: loaded_def)
  have "listed_digest json (fx_manifest fx) name = PStr (sha256_hex body)"
    using m check_entry_Inr(3) [OF b(2)] by (simp add: listed_digest_def)
  with b(1) c(2) show ?thesis by metis
qed

section \<open>The whole upload\<close>

text \<open>A table's key is no manifest's.\<close>

lemma table_key: "base @ ''/'' @ name @ ''.jsonl'' \<noteq> base' @ ''/manifest.json''"
proof
  assume "base @ ''/'' @ name @ ''.jsonl'' = base' @ ''/manifest.json''"
  then have "last (base @ ''/'' @ name @ ''.jsonl'') = last (base' @ ''/manifest.json'')" by (rule arg_cong)
  then show False by simp
qed

lemma put_table_outcome:
  assumes "put_contract env" "get_contract env" "put_table env z i (name @ ''.jsonl'', p, checksum) w = Some (r, w')"
  shows "adds_safely (le_json env) w w' \<and> (\<forall>k. r = Inr k \<longrightarrow> k \<le> 1 \<and> (\<exists>obj.
    lw_bucket w' (base_key z i @ ''/'' @ name @ ''.jsonl'') = Some obj \<and> sha256_hex (so_body obj) = checksum))"
proof -
  obtain g w1 where g: "read_verified_bytes env p checksum w = Some (g, w1)"
    by (simp add: read_verified_bytes_def bind_io_def look_def lift_io_def)
  have b: "lw_bucket w1 = lw_bucket w" using localD [OF local_verified_bytes g] .
  show ?thesis
  proof (cases g)
    case (Inl e)
    with assms(3) g b show ?thesis by (auto simp: put_table_def bind_io_def adds_same_bucket)
  next
    case (Inr body)
    then have sha: "sha256_hex body = checksum"
      using g by (auto simp: read_verified_bytes_def io_simps bindE_eq_Inr landing_error_def split: if_split_asm)
    have put: "put_once env (base_key z i @ ''/'' @ name @ ''.jsonl'') body checksum
        [(''batch-id'', i), (''source'', ''commerce'')] ''application/x-ndjson'' w1 = Some (r, w')"
      using assms(3) g Inr by (simp add: put_table_def bind_io_def)
    have "safe_put (le_json env) (base_key z i @ ''/'' @ name @ ''.jsonl'') body (lw_bucket w1)"
      using table_key by (simp add: safe_put_def)
    from put_once_outcome [OF assms(1,2) put this sha] show ?thesis
      using adds_trans [OF adds_same_bucket [OF b]] by blast
  qed
qed

lemma put_tables_outcome:
  assumes "put_contract env" "get_contract env" "\<forall>e \<in> set es. \<exists>name. fst e = name @ ''.jsonl''"
    "mapM_io (put_table env z i) es w = Some (r, w')"
  shows "adds_safely (le_json env) w w' \<and> (\<forall>ks. r = Inr ks \<longrightarrow> length ks = length es \<and> (\<forall>k \<in> set ks. k \<le> 1) \<and>
    (\<forall>(name, p, checksum) \<in> set es. \<exists>obj. lw_bucket w' (base_key z i @ ''/'' @ name) = Some obj \<and>
       sha256_hex (so_body obj) = checksum))"
  using assms(3,4)
proof (induction es arbitrary: w r w')
  case Nil
  then show ?case by (auto simp: return_io_def)
next
  case (Cons e es)
  obtain name p checksum where e: "e = (name @ ''.jsonl'', p, checksum)" using Cons.prems(1) by (cases e) auto
  obtain g w1 where g: "put_table env z i e w = Some (g, w1)"
    using Cons.prems(2) by (cases "put_table env z i e w") (auto simp: bind_io_def)
  note one = put_table_outcome [OF assms(1,2) g [unfolded e]]
  show ?case
  proof (cases g)
    case (Inl x)
    with Cons.prems(2) g one show ?thesis by (auto simp: bind_io_def)
  next
    case (Inr k)
    obtain g' w2 where g': "mapM_io (put_table env z i) es w1 = Some (g', w2)"
      using Cons.prems(2) g Inr by (cases "mapM_io (put_table env z i) es w1") (auto simp: bind_io_def)
    then have w': "w' = w2" and r: "r = bindE g' (\<lambda>ks. Inr (k # ks))"
      using Cons.prems(2) g Inr by (cases g'; auto simp: bind_io_def return_io_def)+
    have rest: "adds_safely (le_json env) w1 w2" "\<And>ks. g' = Inr ks \<Longrightarrow> length ks = length es \<and> (\<forall>k \<in> set ks. k \<le> 1) \<and>
        (\<forall>(name, p, checksum) \<in> set es. \<exists>obj. lw_bucket w2 (base_key z i @ ''/'' @ name) = Some obj \<and>
           sha256_hex (so_body obj) = checksum)"
      using Cons.IH [OF _ g'] Cons.prems(1) by auto
    obtain obj where o: "k \<le> 1" "lw_bucket w1 (base_key z i @ ''/'' @ name @ ''.jsonl'') = Some obj"
        "sha256_hex (so_body obj) = checksum"
      using one Inr by blast
    then have "lw_bucket w2 (base_key z i @ ''/'' @ name @ ''.jsonl'') = Some obj"
      using adds_le [OF rest(1)] by (metis domI map_le_def)
    with o rest(2) r w' adds_trans [OF _ rest(1)] one show ?thesis
      by (auto simp: bindE_eq_Inr e)
  qed
qed

lemma put_manifest_outcome:
  assumes "put_contract env" "get_contract env" "put_manifest env z path fx w = Some (r, w')"
    "tables_ready (le_json env) (base_key z (fx_batch_id fx)) (fx_manifest fx) (lw_bucket w)"
  shows "adds_safely (le_json env) w w' \<and> (\<forall>k. r = Inr k \<longrightarrow> k \<le> 1 \<and> (\<exists>m.
    lw_bucket w' (base_key z (fx_batch_id fx) @ ''/manifest.json'') = Some m \<and>
    sha256_hex (so_body m) = sha256_hex (fx_manifest fx) \<and>
    (k = 1 \<longrightarrow> so_body m = fx_manifest fx \<and> so_metadata m = [(''batch-id'', fx_batch_id fx), (''source'', ''commerce''),
       (''commit-marker'', ''true''), (''sha256'', sha256_hex (fx_manifest fx))])))"
proof -
  let ?read = "catch_io (read_manifest_bytes env (path @ ''/manifest.json'')) (\<lambda>k. is_a k OSError)
       (\<lambda>_. lift_io (landing_error ''fixture manifest changed during upload''))"
  obtain g w1 where g: "?read w = Some (g, w1)"
    using assms(3) by (cases "?read w") (auto simp: put_manifest_def bind_io_def)
  have "local_action ?read" by (intro local_intros)
  from localD [OF this g] have b: "lw_bucket w1 = lw_bucket w" .
  show ?thesis
  proof (cases "g = Inr (fx_manifest fx)")
    case False
    with assms(3) g b have "w' = w1" "\<exists>e. r = Inl e"
      by (cases g; auto simp: put_manifest_def bind_io_def lift_io_def landing_error_def raise_def split: if_split_asm)+
    then show ?thesis using b by (auto simp: adds_same_bucket)
  next
    case True
    have put: "put_once env (base_key z (fx_batch_id fx) @ ''/manifest.json'') (fx_manifest fx) (sha256_hex (fx_manifest fx))
       [(''batch-id'', fx_batch_id fx), (''source'', ''commerce''), (''commit-marker'', ''true'')] ''application/json'' w1 = Some (r, w')"
      using assms(3) g True by (simp add: put_manifest_def bind_io_def)
    have "safe_put (le_json env) (base_key z (fx_batch_id fx) @ ''/manifest.json'') (fx_manifest fx) (lw_bucket w1)"
      using assms(4) b by (simp add: safe_put_def)
    from put_once_outcome [OF assms(1,2) put this refl] adds_trans [OF adds_same_bucket [OF b]]
    show ?thesis by fastforce
  qed
qed

lemma fixture_names:
  assumes "loaded json path fx manifest tables"
  shows "\<forall>e \<in> set (fx_objects fx). \<exists>name. fst e = name @ ''.jsonl''"
proof
  fix e
  assume "e \<in> set (fx_objects fx)"
  moreover have l: "list_all2 (checked_table path tables) (sort (map fst tables)) (fx_objects fx)"
    using assms by (simp add: loaded_def)
  ultimately obtain name where "checked_table path tables name e"
    by (metis in_set_conv_nth list_all2_nthD2)
  then show "\<exists>name. fst e = name @ ''.jsonl''" by (auto simp: checked_table_def)
qed

text \<open>What an upload that returned leaves in the bucket; \<open>committed\<close> is 1 when it created the
  manifest and 0 when it found it.\<close>

definition landed :: "(string \<Rightarrow> pyval result) \<Rightarrow> landing_zone \<Rightarrow> bucket \<Rightarrow> fixture \<Rightarrow> nat \<Rightarrow> landing_result \<Rightarrow> bool" where
  "landed json z b fx committed res \<longleftrightarrow>
     ld_batch_id res = fx_batch_id fx \<and>
     ld_path res = ''s3://'' @ lz_bucket z @ ''/'' @ base_key z (fx_batch_id fx) @ ''/'' \<and>
     ld_objects res = length (fx_objects fx) + 1 \<and> ld_created res \<le> length (fx_objects fx) + committed \<and> committed \<le> 1 \<and>
     tables_ready json (base_key z (fx_batch_id fx)) (fx_manifest fx) b \<and>
     (\<exists>m. b (base_key z (fx_batch_id fx) @ ''/manifest.json'') = Some m \<and>
       sha256_hex (so_body m) = sha256_hex (fx_manifest fx) \<and>
       (committed = 1 \<longrightarrow> so_body m = fx_manifest fx \<and> so_metadata m = [(''batch-id'', fx_batch_id fx), (''source'', ''commerce''),
          (''commit-marker'', ''true''), (''sha256'', sha256_hex (fx_manifest fx))]))"

lemma land_fixture_outcome:
  assumes "put_contract env" "get_contract env" "land_fixture env z path w = Some (r, w')"
  shows "adds_safely (le_json env) w w' \<and> (\<forall>res. r = Inr res \<longrightarrow> (\<exists>fx manifest tables committed.
    loaded (le_json env) path fx manifest tables \<and> landed (le_json env) z (lw_bucket w') fx committed res))"
proof -
  obtain g w1 where g: "load_fixture env path w = Some (g, w1)"
    using assms(3) by (cases "load_fixture env path w") (auto simp: land_fixture_def bind_io_def)
  have b1: "adds_safely (le_json env) w w1" using localD [OF local_load_fixture g] by (rule adds_same_bucket)
  show ?thesis
  proof (cases g)
    case (Inl e)
    with assms(3) g b1 show ?thesis by (auto simp: land_fixture_def bind_io_def)
  next
    case (Inr fx)
    obtain manifest tables where l: "loaded (le_json env) path fx manifest tables"
      using load_fixture_Inr g Inr by blast
    obtain g2 w2 where g2: "mapM_io (put_table env z (fx_batch_id fx)) (fx_objects fx) w1 = Some (g2, w2)"
      using assms(3) g Inr
      by (cases "mapM_io (put_table env z (fx_batch_id fx)) (fx_objects fx) w1") (auto simp: land_fixture_def bind_io_def)
    note tables = put_tables_outcome [OF assms(1,2) fixture_names [OF l] g2]
    then have b2: "adds_safely (le_json env) w w2" using adds_trans [OF b1] by blast
    show ?thesis
    proof (cases g2)
      case (Inl e)
      with assms(3) g \<open>g = Inr fx\<close> g2 b2 show ?thesis by (auto simp: land_fixture_def bind_io_def)
    next
      case created: (Inr ks)
      have ready: "tables_ready (le_json env) (base_key z (fx_batch_id fx)) (fx_manifest fx) (lw_bucket w2)"
        unfolding tables_ready_def
      proof
        fix name
        assume "name \<in> set required_tables"
        from loaded_digest [OF l this] obtain checksum p where "(name @ ''.jsonl'', p, checksum) \<in> set (fx_objects fx)"
            "listed_digest (le_json env) (fx_manifest fx) name = PStr checksum" by blast
        with tables created show "\<exists>obj. lw_bucket w2 (base_key z (fx_batch_id fx) @ ''/'' @ name @ ''.jsonl'') = Some obj \<and>
            listed_digest (le_json env) (fx_manifest fx) name = PStr (sha256_hex (so_body obj))" by fastforce
      qed
      obtain g3 w3 where g3: "put_manifest env z path fx w2 = Some (g3, w3)"
        using assms(3) g Inr g2 created by (cases "put_manifest env z path fx w2") (auto simp: land_fixture_def bind_io_def)
      note commit = put_manifest_outcome [OF assms(1,2) g3 ready]
      have b3: "adds_safely (le_json env) w w3" using adds_trans [OF b2] commit by blast
      show ?thesis
      proof (cases g3)
        case (Inl e)
        with assms(3) g \<open>g = Inr fx\<close> g2 created g3 b3 show ?thesis by (auto simp: land_fixture_def bind_io_def)
      next
        case committed: (Inr k)
        have w': "w' = w3" and r: "r = Inr \<lparr>ld_batch_id = fx_batch_id fx,
            ld_path = ''s3://'' @ lz_bucket z @ ''/'' @ base_key z (fx_batch_id fx) @ ''/'',
            ld_objects = length (fx_objects fx) + 1, ld_created = sum_list ks + k\<rparr>" (is "r = Inr ?res")
          using assms(3) g Inr g2 created g3 committed by (auto simp: land_fixture_def bind_io_def return_io_def)
        have "sum_list ks \<le> length (fx_objects fx)"
        proof -
          have "\<forall>k \<in> set ks. k \<le> 1 \<Longrightarrow> sum_list ks \<le> length ks" by (induction ks) auto
          then show ?thesis using tables created by auto
        qed
        moreover have "tables_ready (le_json env) (base_key z (fx_batch_id fx)) (fx_manifest fx) (lw_bucket w3)"
          using tables_ready_mono [OF ready] commit adds_le by blast
        moreover note commit [THEN conjunct2, rule_format, OF committed]
        ultimately have "landed (le_json env) z (lw_bucket w3) fx k ?res" unfolding landed_def by simp
        with b3 l r w' show ?thesis by blast
      qed
    qed
  qed
qed

section \<open>The readers accept what was landed\<close>

lemma base_key_root: "pl_prefix p = lz_prefix z \<Longrightarrow> base_key z i = source_root p @ ''/batch_id='' @ i"
  by (simp add: base_key_def source_root_def)

text \<open>What the decoder of JSON promises of the inventory of a manifest: no key twice.\<close>

definition distinct_tables :: "(string \<Rightarrow> pyval result) \<Rightarrow> bool" where
  "distinct_tables json \<longleftrightarrow> (\<forall>s m. json s = Inr m \<longrightarrow> distinct (map fst (the_dict (get (the_dict m) ''tables''))))"

lemma loaded_inventory:
  assumes "loaded json path fx manifest tables" "distinct (map fst tables)"
  shows "valid_table_inventory (PDict tables)"
proof -
  have l: "list_all2 (checked_table path tables) (sort (map fst tables)) (fx_objects fx)"
    and keys: "same_keys tables required_tables"
    using assms(1) check_manifest_Inr(5) [of manifest "fx_batch_id fx" tables] by (auto simp: loaded_def)
  have "valid_table_entry name details" if nd: "(name, details) \<in> set tables" for name details
  proof -
    have d: "get tables name = details" using nd assms(2) by (simp add: get_def)
    have "name \<in> set (sort (map fst tables))" using nd by force
    with l obtain e where "checked_table path tables name e"
      by (metis in_set_conv_nth list_all2_nthD)
    then obtain body rows where c: "check_entry name details = Inr (sha256_hex body, rows)"
      using d by (auto simp: checked_table_def)
    show ?thesis using check_entry_Inr [OF c] sha256_hex_hex [of body] by (simp add: valid_table_entry_def)
  qed
  with keys show ?thesis by (auto simp: valid_table_inventory_def list_all_iff)
qed

lemma decode_landed:
  assumes "loaded (json_loads c) path fx manifest tables" "distinct (map fst tables)"
    "manifest_batch_at c (fx_manifest fx) = Inr (m, normalized)"
    "map_of md ''commit-marker'' = Some ''true''" "map_of md ''source'' = Some ''commerce''"
    "map_of md ''batch-id'' = Some (fx_batch_id fx)" "map_of md ''sha256'' = Some (sha256_hex (fx_manifest fx))"
  shows "\<exists>x. decode_manifest c p (fx_batch_id fx) key t md (fx_manifest fx) = Inr x \<and> cb_id x = fx_batch_id fx \<and>
    cb_at x = normalized \<and> cb_sha x = sha256_hex (fx_manifest fx) \<and>
    cb_path x = ''s3://'' @ pl_bucket p @ ''/'' @ remove_suffix ''manifest.json'' key"
proof -
  have m: "m = manifest" using assms(1,3) by (auto simp: manifest_batch_at_def bindE_eq_Inr loaded_def)
  have k: "check_manifest manifest = Inr (fx_batch_id fx, tables)" "int (length (fx_manifest fx)) \<le> max_commerce_manifest_bytes"
    using assms(1) by (simp_all add: loaded_def)
  note f = check_manifest_Inr [OF k(1)]
  show ?thesis using assms(3-7) k(2) f loaded_inventory [OF assms(1,2)] unfolding m
    by (simp add: decode_manifest_def good_marker_def Let_def)
qed

section \<open>A landing on an empty bucket\<close>

definition demo_row :: string where
  "demo_row = [CHR ''a'', newline]"

definition demo_tables :: pydict where
  "demo_tables = map (\<lambda>name. (name, PDict [(''file'', PStr (name @ ''.jsonl'')), (''rows'', PInt 1),
     (''sha256'', PStr (sha256_hex demo_row))])) required_tables"

definition demo_fixture_manifest :: pydict where
  "demo_fixture_manifest = [(''schema_version'', PInt 1), (''batch_id'', PStr (replicate 16 CHR ''a'')),
     (''config'', PDict [(''batch_at'', PStr ''2026-01-01T00:00:00Z'')]), (''tables'', PDict demo_tables)]"

definition demo_landing :: landing_env where
  "demo_landing = \<lparr>
     le_put = (\<lambda>n key obj b. if b key = None then (Stored, b(key \<mapsto> obj)) else (Refused (PInt 412) PNone, b)),
     le_get = (\<lambda>n key b. (case b key of None \<Rightarrow> raise ClientError []
       | Some obj \<Rightarrow> Inr \<lparr>sr_sha = map_of (so_metadata obj) ''sha256'', sr_body = Inr (so_body obj)\<rparr>, b)),
     le_files = (\<lambda>n path. Content (if path = ''fx/manifest.json'' then ''{}'' else demo_row)),
     le_json = (\<lambda>body. Inr (PDict demo_fixture_manifest))\<rparr>"

definition demo_zone :: landing_zone where
  "demo_zone = \<lparr>lz_bucket = ''lake'', lz_prefix = ''landing''\<rparr>"

definition demo_planning :: planner where
  "demo_planning = \<lparr>pl_bucket = ''lake'', pl_prefix = ''landing'', pl_state_path = ''batches.json'', pl_workers = 1\<rparr>"

definition demo_bucket :: landing_world where
  "demo_bucket = \<lparr>lw_tick = 0, lw_bucket = Map.empty\<rparr>"

lemma demo_contracts: "put_contract demo_landing" "get_contract demo_landing"
  by (auto simp: put_contract_def get_contract_def demo_landing_def others_act_def split: option.split)
    (rule exI, rule conjI, rule map_le_refl, auto)

lemma demo_check_table:
  assumes "name \<in> set required_tables"
  shows "\<exists>w'. check_table demo_landing ''fx'' demo_tables name w = Some (Inr (name @ ''.jsonl'', ''fx/'' @ name @ ''.jsonl'', sha256_hex demo_row), w') \<and>
    lw_bucket w' = lw_bucket w"
proof -
  have e: "check_entry name (get demo_tables name) = Inr (sha256_hex demo_row, 1)"
    using assms is_hex_length [OF sha256_hex_hex [of demo_row]]
    by (auto simp: demo_tables_def required_tables_def get_def check_entry_def Let_def)
  have n: "''fx/'' @ name @ ''.jsonl'' \<noteq> ''fx/manifest.json''" using assms by (auto simp: required_tables_def)
  have r: "count_list demo_row newline = 1" by (simp add: demo_row_def newline_def)
  show ?thesis using n
    by (auto simp: check_table_def e Let_def bind_io_def lift_io_def look_def demo_landing_def is_symlink_def is_file_def
        bytes_of_def digest_and_rows r return_io_def)
qed

definition demo_objects :: "(string \<times> string \<times> string) list" where
  "demo_objects = map (\<lambda>name. (name @ ''.jsonl'', ''fx/'' @ name @ ''.jsonl'', sha256_hex demo_row)) required_tables"

lemma demo_load:
  "\<exists>w'. load_fixture demo_landing ''fx'' w = Some (Inr \<lparr>fx_batch_id = replicate 16 CHR ''a'', fx_objects = demo_objects,
     fx_manifest = ''{}''\<rparr>, w') \<and> lw_bucket w' = lw_bucket w"
proof -
  have tables: "\<exists>w'. mapM_io (check_table demo_landing ''fx'' demo_tables) names w = Some (Inr (map (\<lambda>name.
      (name @ ''.jsonl'', ''fx/'' @ name @ ''.jsonl'', sha256_hex demo_row)) names), w') \<and> lw_bucket w' = lw_bucket w"
    if "set names \<subseteq> set required_tables" for names w
    using that
  proof (induction names arbitrary: w)
    case Nil
    then show ?case by (simp add: return_io_def)
  next
    case (Cons name names)
    obtain w1 where "check_table demo_landing ''fx'' demo_tables name w = Some (Inr (name @ ''.jsonl'', ''fx/'' @ name @ ''.jsonl'',
        sha256_hex demo_row), w1)" "lw_bucket w1 = lw_bucket w"
      using demo_check_table [of name w] Cons.prems by auto
    with Cons.IH [of w1] Cons.prems show ?case by (auto simp: bind_io_def return_io_def)
  qed
  have s: "sort (map fst demo_tables) = required_tables" by (simp add: demo_tables_def required_tables_def)
  have h: "is_hex 16 (replicate 16 CHR ''a'')" by code_simp
  have m: "check_manifest (PDict demo_fixture_manifest) = Inr (replicate 16 CHR ''a'', demo_tables)"
    by (simp add: check_manifest_def demo_fixture_manifest_def get_def Let_def h
        demo_tables_def same_keys_def required_tables_def)
  have b: "\<exists>w'. read_manifest_bytes demo_landing ''fx/manifest.json'' w = Some (Inr ''{}'', w') \<and> lw_bucket w' = lw_bucket w" for w
    by (simp add: read_manifest_bytes_def bind_io_def look_def demo_landing_def lift_io_def bytes_of_def
        max_commerce_manifest_bytes_def)
  define w1 where "w1 = w\<lparr>lw_tick := Suc (lw_tick w)\<rparr>"
  have look: "look demo_landing ''fx/manifest.json'' w = Some (Inr (Content ''{}''), w1)"
    by (simp add: look_def demo_landing_def w1_def)
  obtain w2 where w2: "read_manifest_bytes demo_landing ''fx/manifest.json'' w1 = Some (Inr ''{}'', w2)" "lw_bucket w2 = lw_bucket w"
    using b [of w1] by (auto simp: w1_def)
  obtain w3 where w3: "mapM_io (check_table demo_landing ''fx'' demo_tables) required_tables w2 = Some (Inr demo_objects, w3)"
      "lw_bucket w3 = lw_bucket w"
    using tables [of required_tables w2] w2(2) by (auto simp: demo_objects_def)
  have j: "le_json demo_landing x = Inr (PDict demo_fixture_manifest)" for x by (simp add: demo_landing_def)
  show ?thesis using w3(2)
    by (simp add: load_fixture_def Let_def bind_io_def look is_symlink_def w2(1) j lift_io_def return_io_def catch_io_def m s w3(1))
qed

lemma demo_put_once:
  assumes "lw_bucket w key = None"
  shows "\<exists>w' obj. put_once demo_landing key body checksum md ct w = Some (Inr 1, w') \<and> lw_bucket w' = (lw_bucket w)(key \<mapsto> obj)"
  using assms by (auto simp: put_once_def bind_io_def s3_put_def demo_landing_def return_io_def)

lemma demo_put_table:
  assumes "lw_bucket w (base_key demo_zone i @ ''/'' @ name @ ''.jsonl'') = None" "name \<in> set required_tables"
  shows "\<exists>w' obj. put_table demo_landing demo_zone i (name @ ''.jsonl'', ''fx/'' @ name @ ''.jsonl'', sha256_hex demo_row) w =
    Some (Inr 1, w') \<and> lw_bucket w' = (lw_bucket w)(base_key demo_zone i @ ''/'' @ name @ ''.jsonl'' \<mapsto> obj)"
proof -
  have n: "''fx/'' @ name @ ''.jsonl'' \<noteq> ''fx/manifest.json''" using assms(2) by (auto simp: required_tables_def)
  have "\<exists>w1. read_verified_bytes demo_landing (''fx/'' @ name @ ''.jsonl'') (sha256_hex demo_row) w = Some (Inr demo_row, w1) \<and>
      lw_bucket w1 = lw_bucket w"
    using n by (auto simp: read_verified_bytes_def bind_io_def look_def demo_landing_def lift_io_def bytes_of_def)
  then obtain w1 where r: "read_verified_bytes demo_landing (''fx/'' @ name @ ''.jsonl'') (sha256_hex demo_row) w = Some (Inr demo_row, w1)"
      "lw_bucket w1 = lw_bucket w" by blast
  then show ?thesis using demo_put_once [of w1 "base_key demo_zone i @ ''/'' @ name @ ''.jsonl''"] assms(1)
    by (simp add: put_table_def bind_io_def)
qed

lemma demo_put_tables:
  assumes "set names \<subseteq> set required_tables" "distinct names"
    "\<forall>name \<in> set names. lw_bucket w (base_key demo_zone i @ ''/'' @ name @ ''.jsonl'') = None"
    "lw_bucket w (base_key demo_zone i @ ''/manifest.json'') = None"
  shows "\<exists>w'. mapM_io (put_table demo_landing demo_zone i) (map (\<lambda>name. (name @ ''.jsonl'', ''fx/'' @ name @ ''.jsonl'',
      sha256_hex demo_row)) names) w = Some (Inr (replicate (length names) 1), w') \<and>
    lw_bucket w' (base_key demo_zone i @ ''/manifest.json'') = None"
  using assms
proof (induction names arbitrary: w)
  case Nil
  then show ?case by (simp add: return_io_def)
next
  case (Cons name names)
  obtain w1 obj where w1: "put_table demo_landing demo_zone i (name @ ''.jsonl'', ''fx/'' @ name @ ''.jsonl'', sha256_hex demo_row) w =
      Some (Inr 1, w1)" "lw_bucket w1 = (lw_bucket w)(base_key demo_zone i @ ''/'' @ name @ ''.jsonl'' \<mapsto> obj)"
    using demo_put_table [of w i name] Cons.prems by auto
  have "\<forall>name \<in> set names. lw_bucket w1 (base_key demo_zone i @ ''/'' @ name @ ''.jsonl'') = None"
      "lw_bucket w1 (base_key demo_zone i @ ''/manifest.json'') = None"
    using Cons.prems table_key [of "base_key demo_zone i" name "base_key demo_zone i"] by (auto simp: w1(2))
  from Cons.IH [OF _ _ this] Cons.prems w1(1) show ?case by (auto simp: bind_io_def return_io_def)
qed

lemma demo_lands:
  "\<exists>w' res. land_fixture demo_landing demo_zone ''fx'' demo_bucket = Some (Inr res, w') \<and>
     ld_created res = 5 \<and> ld_objects res = 5 \<and> ld_batch_id res = replicate 16 CHR ''a''"
proof -
  let ?i = "replicate 16 CHR ''a''"
  obtain w1 where w1: "load_fixture demo_landing ''fx'' demo_bucket = Some (Inr \<lparr>fx_batch_id = ?i, fx_objects = demo_objects,
      fx_manifest = ''{}''\<rparr>, w1)" "lw_bucket w1 = Map.empty"
    using demo_load [of demo_bucket] by (auto simp: demo_bucket_def)
  obtain w2 where w2: "mapM_io (put_table demo_landing demo_zone ?i) demo_objects w1 = Some (Inr [1, 1, 1, 1], w2)"
      "lw_bucket w2 (base_key demo_zone ?i @ ''/manifest.json'') = None"
    using demo_put_tables [of required_tables w1 ?i] w1(2) by (auto simp: demo_objects_def required_tables_def eval_nat_numeral)
  obtain w3 where w3: "catch_io (read_manifest_bytes demo_landing ''fx/manifest.json'') (\<lambda>k. is_a k OSError)
      (\<lambda>_. lift_io (landing_error ''fixture manifest changed during upload'')) w2 = Some (Inr ''{}'', w3)" "lw_bucket w3 = lw_bucket w2"
    by (auto simp: read_manifest_bytes_def bind_io_def look_def demo_landing_def lift_io_def bytes_of_def catch_io_def
        max_commerce_manifest_bytes_def)
  obtain w4 where "put_manifest demo_landing demo_zone ''fx'' \<lparr>fx_batch_id = ?i, fx_objects = demo_objects, fx_manifest = ''{}''\<rparr> w2 =
      Some (Inr 1, w4)"
    using demo_put_once [of w3 "base_key demo_zone ?i @ ''/manifest.json''" "''{}''" "sha256_hex ''{}''"
        "[(''batch-id'', ?i), (''source'', ''commerce''), (''commit-marker'', ''true'')]" "''application/json''"] w2(2) w3(2)
    by (auto simp: put_manifest_def bind_io_def w3(1))
  moreover have "length demo_objects = 4" by (simp add: demo_objects_def required_tables_def)
  ultimately show ?thesis
    by (simp add: land_fixture_def bind_io_def w1(1) w2(1) return_io_def)
qed

section \<open>The claims\<close>

text \<open>C35: an upload adds objects only, and whatever fails on the way, it keeps the bucket consistent:
  where there is a manifest, every table it lists is there with the digest it lists. An upload that
  returned has left its manifest, or found one of the same digest, and the tables of its fixture.\<close>

theorem upload_commits_complete_batches:
  assumes "put_contract env" "get_contract env" "land_fixture env z path w = Some (r, w')"
  shows "lw_bucket w \<subseteq>\<^sub>m lw_bucket w' \<and>
    (bucket_ok (le_json env) (lw_bucket w) \<longrightarrow> bucket_ok (le_json env) (lw_bucket w')) \<and>
    (\<forall>res. r = Inr res \<longrightarrow> (\<exists>fx manifest tables committed.
       loaded (le_json env) path fx manifest tables \<and> landed (le_json env) z (lw_bucket w') fx committed res))"
  using land_fixture_outcome [OF assms] by (simp add: adds_safely_def others_act_def)

theorem upload_commits_complete_batches_witness:
  "\<exists>res w'. land_fixture demo_landing demo_zone ''fx'' demo_bucket = Some (Inr res, w') \<and>
     bucket_ok (le_json demo_landing) (lw_bucket w') \<and>
     (\<exists>m. lw_bucket w' (base_key demo_zone (replicate 16 CHR ''a'') @ ''/manifest.json'') = Some m)"
proof -
  obtain res w' where r: "land_fixture demo_landing demo_zone ''fx'' demo_bucket = Some (Inr res, w')"
      "ld_batch_id res = replicate 16 CHR ''a''"
    using demo_lands by blast
  have "bucket_ok (le_json demo_landing) (lw_bucket demo_bucket)" by (simp add: bucket_ok_def demo_bucket_def)
  with upload_commits_complete_batches [OF demo_contracts r(1)] r show ?thesis
    by (auto simp: landed_def)
qed



end
