(* ===== verification/Bronze_Properties.thy ===== *)
theory Bronze_Properties
  imports Commerce_Bronze Landing_Properties Demo_Lake
begin

text \<open>
  What a verified batch directory is, that a directory with the files of a landed fixture is one,
  and that snapshots end at the newest whatever the order in which they arrive.
\<close>

section \<open>Verified directories\<close>

lemma file_sha256_whole: "file_sha256 s = sha256_hex s"
proof -
  have "fold (\<lambda>part digested. digested @ part) ps d = d @ concat ps" for ps and d :: string
    by (induction ps arbitrary: d) auto
  then show ?thesis by (simp add: file_sha256_def concat_stream_chunks)
qed

lemma line_count_whole: "line_count s = count_list s newline"
proof -
  have "fold (\<lambda>part count. count + count_list part newline) ps c = c + count_list (concat ps) newline" for ps c
    by (induction ps arbitrary: c) (auto simp: count_list_append)
  then show ?thesis by (simp add: line_count_def concat_stream_chunks)
qed

text \<open>What was read of a file at the clock \<open>n\<close>.\<close>

definition seen :: "landing_env \<Rightarrow> nat \<Rightarrow> string \<Rightarrow> string \<Rightarrow> bool" where
  "seen env n path s \<longleftrightarrow> bytes_of (le_files env n path) = Inr s"

definition verified_table :: "landing_env \<Rightarrow> string \<Rightarrow> table_file \<Rightarrow> bool" where
  "verified_table env folder t \<longleftrightarrow> tf_path t = folder @ ''/'' @ tf_name t @ ''.jsonl'' \<and> 1 \<le> tf_rows t \<and>
     (\<exists>n body lines. seen env n (tf_path t) body \<and> sha256_hex body = tf_sha t \<and>
       seen env (Suc n) (tf_path t) lines \<and> int (count_list lines newline) = tf_rows t)"

lemma bronze_error_neq [simp]: "bronze_error m \<noteq> Inr x"
  by (simp add: bronze_error_def)

lemma look_Inr: "look env path w = Some (Inr f, w') \<longleftrightarrow> f = le_files env (lw_tick w) path \<and> w' = w\<lparr>lw_tick := Suc (lw_tick w)\<rparr>"
  by (auto simp: look_def)

lemma bronze_entry_Inr:
  assumes "bronze_entry name details = Inr (rows, checksum)"
  shows "1 \<le> rows"
  using assms by (auto simp: bronze_entry_def Let_def split: if_split_asm)

lemma verify_table_Inr:
  assumes "verify_table env folder name details w = Some (Inr t, w')"
  shows "tf_name t = name \<and> verified_table env folder t"
proof -
  let ?path = "folder @ ''/'' @ name @ ''.jsonl''"
  obtain rows checksum where e: "bronze_entry name details = Inr (rows, checksum)"
    using assms by (auto simp: verify_table_def bind_io_Inr lift_io_iff)
  have "\<exists>body lines. bytes_of (le_files env (lw_tick w) ?path) = Inr body \<and>
      bytes_of (le_files env (Suc (lw_tick w)) ?path) = Inr lines \<and> file_sha256 body = checksum \<and>
      int (line_count lines) = rows \<and> t = \<lparr>tf_name = name, tf_path = ?path, tf_rows = rows, tf_sha = checksum\<rparr>"
    using assms unfolding verify_table_def Let_def
    by (auto simp: e bind_io_Inr lift_io_iff return_io_iff catch_io_Inr look_Inr split: if_split_asm)
  with bronze_entry_Inr [OF e] show ?thesis
    by (fastforce simp: verified_table_def seen_def file_sha256_whole line_count_whole)
qed

text \<open>A directory that was loaded.\<close>

lemma load_batch_Inr:
  assumes "load_commerce_batch env path i expected w = Some (Inr batch, w')"
  shows "is_hex 16 i" "path_name path = ''batch_id='' @ i" "bd_id batch = i"
    "map tf_name (bd_tables batch) = required_tables" "\<forall>t \<in> set (bd_tables batch). verified_table env path t"
    "\<exists>n body manifest. seen env n (path @ ''/manifest.json'') body \<and> le_json env body = Inr manifest \<and>
       (\<forall>sha. expected = Some sha \<longrightarrow> sha256_hex body = sha) \<and> get (the_dict manifest) ''batch_id'' = PStr i \<and>
       (\<exists>t. bronze_time manifest = Inr t \<and> utc_iso_z t = Inr (bd_at batch))"
proof -
  obtain body manifest tables t verified w1 w2 stamp where r: "is_hex 16 i" "path_name path = ''batch_id='' @ i"
      "bytes_of (le_files env (lw_tick w) (path @ ''/manifest.json'')) = Inr body"
      "bronze_manifest env expected body = Inr manifest" "bronze_identity i manifest = Inr tables"
      "bronze_time manifest = Inr t"
      "mapM_io (\<lambda>name. verify_table env path name (get tables name)) required_tables w1 = Some (Inr verified, w2)"
      "utc_iso_z t = Inr stamp" "batch = \<lparr>bd_id = i, bd_at = stamp, bd_tables = verified\<rparr>"
    using assms unfolding load_commerce_batch_def
    by (auto simp: bind_io_Inr lift_io_iff return_io_iff catch_io_Inr look_Inr split: if_split_asm)
  have v: "list_all2 (\<lambda>name t. tf_name t = name \<and> verified_table env path t) required_tables verified"
    by (rule mapM_io_Inr_list_all2 [OF r(7)]) (rule verify_table_Inr)
  show "is_hex 16 i" "path_name path = ''batch_id='' @ i" "bd_id batch = i" using r by simp_all
  have "map tf_name verified = required_tables \<and> (\<forall>t \<in> set verified. verified_table env path t)"
    using v by (induction rule: list_all2_induct) auto
  then show "map tf_name (bd_tables batch) = required_tables" "\<forall>t \<in> set (bd_tables batch). verified_table env path t"
    using r(9) by simp_all
  have "get (the_dict manifest) ''batch_id'' = PStr i"
    using r(5) by (auto simp: bronze_identity_def bindE_eq_Inr Let_def split: if_split_asm)
  with r show "\<exists>n body manifest. seen env n (path @ ''/manifest.json'') body \<and> le_json env body = Inr manifest \<and>
       (\<forall>sha. expected = Some sha \<longrightarrow> sha256_hex body = sha) \<and> get (the_dict manifest) ''batch_id'' = PStr i \<and>
       (\<exists>t. bronze_time manifest = Inr t \<and> utc_iso_z t = Inr (bd_at batch))"
    by (auto simp: seen_def bronze_manifest_def split: if_split_asm)
qed

section \<open>The files of a landed fixture\<close>

text \<open>A directory that does not change and holds a manifest and, for each table of its inventory, a
  file that the upload accepts for it.\<close>

definition holds_fixture :: "landing_env \<Rightarrow> string \<Rightarrow> fixture \<Rightarrow> pydict \<Rightarrow> bool" where
  "holds_fixture env folder fx tables \<longleftrightarrow>
     (\<forall>n. le_files env n (folder @ ''/manifest.json'') = Content (fx_manifest fx)) \<and>
     (\<forall>name \<in> set required_tables. \<exists>s. (\<forall>n. le_files env n (folder @ ''/'' @ name @ ''.jsonl'') = Content s) \<and>
        check_entry name (get tables name) = Inr (sha256_hex s, int (count_list s newline)))"

lemma accepted_entry:
  assumes "check_entry name details = Inr (sha256_hex s, rows)"
  shows "bronze_entry name details = Inr (rows, sha256_hex s)"
  using check_entry_Inr [OF assms] sha256_hex_hex [of s] by (simp add: bronze_entry_def Let_def is_int_like_def)

lemma accepted_table:
  assumes "\<forall>n. le_files env n (folder @ ''/'' @ name @ ''.jsonl'') = Content s"
    "check_entry name details = Inr (sha256_hex s, int (count_list s newline))"
  shows "\<exists>t w'. verify_table env folder name details w = Some (Inr t, w')"
  using assms(1)
  by (simp add: verify_table_def accepted_entry [OF assms(2)] bind_io_def lift_io_def look_def bytes_of_def catch_io_def
      return_io_def file_sha256_whole line_count_whole Let_def)

lemma accepted_tables:
  assumes "\<forall>name \<in> set names. \<exists>s. (\<forall>n. le_files env n (folder @ ''/'' @ name @ ''.jsonl'') = Content s) \<and>
        check_entry name (get tables name) = Inr (sha256_hex s, int (count_list s newline))"
  shows "\<exists>ts w'. mapM_io (\<lambda>name. verify_table env folder name (get tables name)) names w = Some (Inr ts, w')"
  using assms
proof (induction names arbitrary: w)
  case Nil
  then show ?case by (simp add: return_io_def)
next
  case (Cons name names)
  from Cons.prems obtain s where s: "\<forall>n. le_files env n (folder @ ''/'' @ name @ ''.jsonl'') = Content s"
      "check_entry name (get tables name) = Inr (sha256_hex s, int (count_list s newline))" by auto
  from accepted_table [OF this] obtain t w1 where "verify_table env folder name (get tables name) w = Some (Inr t, w1)"
    by blast
  moreover obtain ts w2 where "mapM_io (\<lambda>name. verify_table env folder name (get tables name)) names w1 = Some (Inr ts, w2)"
    using Cons.IH [of w1] Cons.prems by auto
  ultimately show ?case by (simp add: bind_io_def return_io_def)
qed

lemma accepted_identity:
  assumes "check_manifest manifest = Inr (i, tables)" "distinct (map fst tables)"
  shows "bronze_identity i manifest = Inr tables"
proof -
  note f = check_manifest_Inr [OF assms(1)]
  have "set (sort (map fst tables)) = set required_tables"
    using f(5) by (auto simp: same_keys_def list_all_iff)
  moreover have "sorted required_tables" "distinct required_tables"
    by (simp_all add: required_tables_def)
  ultimately have "sort (map fst tables) = required_tables"
    by (intro sorted_distinct_set_unique) (simp_all add: assms(2))
  moreover have "map_of (the_dict manifest) ''schema_version'' = Some (PInt 1)"
    using f(6) by (auto simp: get_def split: option.splits)
  ultimately show ?thesis using f(1,2,4)
    by (auto simp: bronze_identity_def get_attr_def is_dict_iff Let_def)
qed

lemma accepted_directory:
  assumes "loaded (le_json env) path fx manifest tables" "distinct (map fst tables)"
    "holds_fixture env folder fx tables" "path_name folder = ''batch_id='' @ fx_batch_id fx"
    "bronze_time manifest = Inr t" "utc_iso_z t = Inr stamp"
  shows "\<exists>batch w'. load_commerce_batch env folder (fx_batch_id fx) (Some (sha256_hex (fx_manifest fx))) w = Some (Inr batch, w')"
proof -
  have m: "le_json env (fx_manifest fx) = Inr manifest" "check_manifest manifest = Inr (fx_batch_id fx, tables)"
    using assms(1) by (simp_all add: loaded_def)
  have files: "\<And>n. le_files env n (folder @ ''/manifest.json'') = Content (fx_manifest fx)"
    using assms(3) by (simp add: holds_fixture_def)
  have "\<exists>ts w'. mapM_io (\<lambda>name. verify_table env folder name (get tables name)) required_tables v = Some (Inr ts, w')" for v
    using assms(3) by (intro accepted_tables) (simp add: holds_fixture_def)
  then obtain ts w' where ts: "mapM_io (\<lambda>name. verify_table env folder name (get tables name)) required_tables
      (w\<lparr>lw_tick := Suc (lw_tick w)\<rparr>) = Some (Inr ts, w')" by blast
  show ?thesis
    using check_manifest_Inr(3) [OF m(2)]
    by (simp add: load_commerce_batch_def assms(4) bind_io_def catch_io_def look_def files bytes_of_def lift_io_def
        bronze_manifest_def m(1) accepted_identity [OF m(2) assms(2)] assms(5,6) ts return_io_def)
qed

section \<open>Snapshots\<close>

text \<open>What a publication leaves current: a new snapshot replaces an older one; a stale, a replayed and
  a refused one change nothing.\<close>

definition published :: "snapshot \<Rightarrow> snapshot option \<Rightarrow> snapshot option" where
  "published incoming current =
     (case snapshot_action current incoming of
        Inr a \<Rightarrow> if a \<in> {''create'', ''replace''} then Some incoming else current
      | Inl e \<Rightarrow> current)"

definition instant :: "snapshot \<Rightarrow> int" where
  "instant s = (case timestamp_of (sn_at s) of Inr t \<Rightarrow> dt_utc t | Inl e \<Rightarrow> 0)"

definition aware_snapshot :: "snapshot \<Rightarrow> bool" where
  "aware_snapshot s \<longleftrightarrow> (\<exists>t. timestamp_of (sn_at s) = Inr t \<and> is_aware t)"

lemma published_some:
  assumes "aware_snapshot c" "aware_snapshot s"
  shows "published s (Some c) = (if instant c < instant s then Some s else Some c)"
  using assms by (auto simp: published_def snapshot_action_def aware_snapshot_def instant_def raise_def)

lemma published_newest:
  assumes "\<forall>s \<in> insert c (set xs). aware_snapshot s"
  shows "\<exists>s \<in> insert c (set xs). fold published xs (Some c) = Some s \<and> (\<forall>s' \<in> insert c (set xs). instant s' \<le> instant s)"
  using assms
proof (induction xs arbitrary: c)
  case Nil
  then show ?case by simp
next
  case (Cons x xs)
  have p: "published x (Some c) = (if instant c < instant x then Some x else Some c)"
    using Cons.prems by (intro published_some) auto
  show ?case
  proof (cases "instant c < instant x")
    case True
    with Cons.IH [of x] Cons.prems p obtain s where "s \<in> insert x (set xs)" "fold published xs (Some x) = Some s"
        "\<forall>s' \<in> insert x (set xs). instant s' \<le> instant s" by auto
    with True p show ?thesis by (intro bexI [of _ s]) auto
  next
    case False
    with Cons.IH [of c] Cons.prems p obtain s where "s \<in> insert c (set xs)" "fold published xs (Some c) = Some s"
        "\<forall>s' \<in> insert c (set xs). instant s' \<le> instant s" by auto
    with False p show ?thesis by (intro bexI [of _ s]) auto
  qed
qed

lemma fold_published_newest:
  assumes "\<forall>s \<in> set xs. aware_snapshot s" "xs \<noteq> []"
  shows "\<exists>s \<in> set xs. fold published xs None = Some s \<and> (\<forall>s' \<in> set xs. instant s' \<le> instant s)"
proof (cases xs)
  case (Cons x ys)
  moreover have "published x None = Some x" by (simp add: published_def snapshot_action_def)
  ultimately show ?thesis using published_newest [of x ys] assms(1) by simp
qed (use assms(2) in simp)

section \<open>The claims\<close>



definition demo_files :: "string \<Rightarrow> landing_env" where
  "demo_files folder = demo_landing\<lparr>le_files := (\<lambda>n path. Content (if path = folder @ ''/manifest.json'' then ''{}'' else demo_row))\<rparr>"

definition demo_folder :: string where
  "demo_folder = ''in/batch_id='' @ replicate 16 CHR ''a''"

lemma demo_loaded:
  "loaded (le_json demo_landing) ''fx'' \<lparr>fx_batch_id = replicate 16 CHR ''a'', fx_objects = demo_objects, fx_manifest = ''{}''\<rparr>
     (PDict demo_fixture_manifest) demo_tables"
proof -
  obtain w' where "load_fixture demo_landing ''fx'' demo_bucket = Some (Inr \<lparr>fx_batch_id = replicate 16 CHR ''a'',
      fx_objects = demo_objects, fx_manifest = ''{}''\<rparr>, w')" using demo_load by blast
  from load_fixture_Inr [OF this] obtain manifest tables where l: "loaded (le_json demo_landing) ''fx''
      \<lparr>fx_batch_id = replicate 16 CHR ''a'', fx_objects = demo_objects, fx_manifest = ''{}''\<rparr> manifest tables" by blast
  then have "manifest = PDict demo_fixture_manifest" by (simp add: loaded_def demo_landing_def)
  moreover from this l have "tables = demo_tables"
    using check_manifest_Inr(4) [of manifest "replicate 16 CHR ''a''" tables]
    by (simp add: loaded_def demo_fixture_manifest_def get_def)
  ultimately show ?thesis using l by simp
qed

lemma demo_holds:
  "holds_fixture (demo_files demo_folder) demo_folder \<lparr>fx_batch_id = replicate 16 CHR ''a'', fx_objects = demo_objects,
     fx_manifest = ''{}''\<rparr> demo_tables"
proof -
  have e: "check_entry name (get demo_tables name) = Inr (sha256_hex demo_row, int (count_list demo_row newline))"
    if "name \<in> set required_tables" for name
    using that is_hex_length [OF sha256_hex_hex [of demo_row]]
    by (auto simp: demo_tables_def required_tables_def get_def check_entry_def Let_def demo_row_def newline_def)
  then show ?thesis
    by (auto simp: holds_fixture_def demo_files_def required_tables_def)
qed

lemma demo_time:
  "\<exists>t. bronze_time (PDict demo_fixture_manifest) = Inr t \<and> utc_iso_z t = Inr ''2026-01-01T00:00:00Z''"
proof -
  obtain t where t: "fromisoformat (replace ''Z'' ''+00:00'' ''2026-01-01T00:00:00Z'') = Some t" "is_aware t"
      "utc_iso_z t = Inr ''2026-01-01T00:00:00Z''"
    using demo_parse [of False] by (auto simp: parse_batch_at_def demo_stamp_def split: option.splits if_split_asm)
  have "bindE (subscript (PDict demo_fixture_manifest) ''config'') (\<lambda>config. subscript config ''batch_at'') =
      Inr (PStr ''2026-01-01T00:00:00Z'')"
    by (simp add: subscript_def demo_fixture_manifest_def item_def)
  then obtain config where "subscript (PDict demo_fixture_manifest) ''config'' = Inr config"
      "subscript config ''batch_at'' = Inr (PStr ''2026-01-01T00:00:00Z'')"
    by (auto simp: bindE_eq_Inr)
  then have "bronze_time (PDict demo_fixture_manifest) = Inr t" by (simp add: bronze_time_def t(1,2))
  with t(3) show ?thesis by blast
qed


text \<open>C39: the current snapshot is the newest. Whatever the order in which snapshots are published and
  however often, if no two different ones claim the same instant, the one that is current at the end
  is the latest of them, so publication does not depend on the order of arrival.\<close>

theorem newest_snapshot_is_current:
  assumes "\<forall>s \<in> set xs. aware_snapshot s" "xs \<noteq> []" "inj_on instant (set xs)" "set ys = set xs"
  shows "\<exists>s \<in> set xs. fold published xs None = Some s \<and> fold published ys None = Some s \<and>
    (\<forall>s' \<in> set xs. s' \<noteq> s \<longrightarrow> instant s' < instant s)"
proof -
  obtain s where s: "s \<in> set xs" "fold published xs None = Some s" "\<forall>s' \<in> set xs. instant s' \<le> instant s"
    using fold_published_newest [OF assms(1,2)] by blast
  have "\<forall>s \<in> set ys. aware_snapshot s" "ys \<noteq> []" using assms by auto
  from fold_published_newest [OF this] obtain s2 where s2: "s2 \<in> set xs" "fold published ys None = Some s2"
      "\<forall>s' \<in> set xs. instant s' \<le> instant s2" using assms(4) by blast
  have "s2 = s" using inj_onD [OF assms(3), of s2 s] s s2 by (simp add: order_antisym)
  moreover have "instant s' < instant s" if "s' \<in> set xs" "s' \<noteq> s" for s'
    using inj_onD [OF assms(3), of s' s] s that by (metis order_less_le)
  ultimately show ?thesis using s s2 by blast
qed

definition demo_snapshot :: "bool \<Rightarrow> snapshot" where
  "demo_snapshot late = \<lparr>sn_id = (if late then ''b'' else ''a''),
     sn_at = (if late then ''2026-01-02T00:00:00+00:00'' else ''2026-01-01T00:00:00+00:00''), sn_sha = ''d''\<rparr>"

lemma demo_instants: "instant (demo_snapshot False) < instant (demo_snapshot True)" "snapshot_action None (demo_snapshot True) = Inr ''create''"
  by code_simp+

lemma demo_aware: "aware_snapshot (demo_snapshot late)"
proof -
  have "case timestamp_of (sn_at (demo_snapshot True)) of Inr t \<Rightarrow> is_aware t | Inl _ \<Rightarrow> False"
    "case timestamp_of (sn_at (demo_snapshot False)) of Inr t \<Rightarrow> is_aware t | Inl _ \<Rightarrow> False" by code_simp+
  then show ?thesis by (cases late) (auto simp: aware_snapshot_def split: sum.splits)
qed

theorem newest_snapshot_is_current_witness:
  "fold published [demo_snapshot True, demo_snapshot False] None = Some (demo_snapshot True) \<and>
   fold published [demo_snapshot False, demo_snapshot True, demo_snapshot False] None = Some (demo_snapshot True)"
proof -
  let ?ys = "[demo_snapshot False, demo_snapshot True, demo_snapshot False]"
  have "inj_on instant (set [demo_snapshot True, demo_snapshot False])" using demo_instants(1) by (auto simp: inj_on_def)
  moreover have "\<forall>s \<in> set [demo_snapshot True, demo_snapshot False]. aware_snapshot s" using demo_aware by simp
  moreover have "set ?ys = set [demo_snapshot True, demo_snapshot False]" by auto
  ultimately obtain s where s: "s \<in> set [demo_snapshot True, demo_snapshot False]"
      "fold published [demo_snapshot True, demo_snapshot False] None = Some s" "fold published ?ys None = Some s"
      "\<forall>s' \<in> set [demo_snapshot True, demo_snapshot False]. s' \<noteq> s \<longrightarrow> instant s' < instant s"
    using newest_snapshot_is_current [OF _ list.distinct(2), of "demo_snapshot True" "[demo_snapshot False]" ?ys] by blast
  have "s = demo_snapshot True"
  proof (rule ccontr)
    assume n: "s \<noteq> demo_snapshot True"
    with s(4) have "instant (demo_snapshot True) < instant s" by auto
    with n s(1) demo_instants(1) show False by auto
  qed
  with s(2,3) show ?thesis by simp
qed


end
