(* ===== verification/Py_Iso.thy ===== *)
theory Py_Iso
  imports Py_Time
begin

text \<open>
  Reading back what \<open>isoformat\<close> writes: the digits of a number, the calendar and the clock, and
  the text of a time in UTC.
\<close>

section \<open>Digits\<close>

lemma dec_nat_Nil [simp]: "dec_nat n \<noteq> []"
  by (subst dec_nat.simps) simp

lemma of_char_digit: "d < 10 \<Longrightarrow> (of_char (char_of (48 + d :: nat)) :: nat) = 48 + d"
  by (simp add: of_char_mod_256)

lemma digit_char: "d < 10 \<Longrightarrow> is_ascii_digit (char_of (48 + d :: nat))"
  "d < 10 \<Longrightarrow> digit_val (char_of (48 + d :: nat)) = int d"
  by (simp_all add: is_ascii_digit_def digit_val_def Let_def of_char_digit)

lemma dec_nat_digits: "list_all is_ascii_digit (dec_nat n)"
proof (induction n rule: dec_nat.induct)
  case (1 n)
  then show ?case
    by (cases "n < 10") (subst dec_nat.simps, simp add: digit_char)+
qed

text \<open>The value of a group of digits.\<close>

definition digits_value :: "string \<Rightarrow> int" where
  "digits_value s = foldl (\<lambda>a c. 10 * a + digit_val c) 0 s"

lemma digits_value_dec_nat: "digits_value (dec_nat n) = int n"
proof (induction n rule: dec_nat.induct)
  case (1 n)
  show ?case
  proof (cases "n < 10")
    case True
    then show ?thesis by (subst dec_nat.simps) (simp add: digits_value_def digit_char)
  next
    case False
    then have "digits_value (dec_nat (n div 10)) = int (n div 10)" using 1 by blast
    then show ?thesis using False
      by (subst dec_nat.simps)
        (simp add: digits_value_def digit_char zmod_int zdiv_int)
  qed
qed

lemma digits_value_zeros: "digits_value (replicate k (CHR ''0'') @ s) = digits_value s"
  by (induction k) (simp_all add: digits_value_def digit_val_def)

lemma dec_nat_length: "n < 10 ^ k \<Longrightarrow> 0 < k \<Longrightarrow> length (dec_nat n) \<le> k"
proof (induction n arbitrary: k rule: dec_nat.induct)
  case (1 n)
  show ?case
  proof (cases "n < 10")
    case True
    then show ?thesis using 1 by (subst dec_nat.simps) simp
  next
    case False
    then obtain j where k: "k = Suc j" "0 < j"
      using 1 by (cases k; cases "k - 1") auto
    then have "n div 10 < 10 ^ j" using 1(2) by (simp add: less_mult_imp_div_less mult.commute)
    then have "length (dec_nat (n div 10)) \<le> j" using 1 False k by blast
    then show ?thesis using False k by (subst dec_nat.simps) simp
  qed
qed

lemma pad_nat_digits: "list_all is_ascii_digit (pad_nat k n)"
  using dec_nat_digits [of n] by (auto simp: pad_nat_def list_all_iff is_ascii_digit_def)

lemma pad_nat_value: "digits_value (pad_nat k n) = int n"
  by (simp add: pad_nat_def digits_value_zeros digits_value_dec_nat)

lemma pad_nat_length: "n < 10 ^ k \<Longrightarrow> 0 < k \<Longrightarrow> length (pad_nat k n) = k"
  using dec_nat_length [of n k] by (simp add: pad_nat_def)

lemma take_digits_pad:
  "n < 10 ^ k \<Longrightarrow> 0 < k \<Longrightarrow> take_digits k (pad_nat k n @ s) = Some (int n)"
  using pad_nat_value [of k n] by (simp add: take_digits_def pad_nat_length pad_nat_digits digits_value_def)

lemma is_ascii_digit_not: "is_ascii_digit c \<Longrightarrow> c \<notin> {CHR ''-'', CHR ''+'', CHR ''Z'', CHR '':'', CHR ''.'', CHR ''W'', CHR ''T''}"
  by (auto simp: is_ascii_digit_def Let_def)

lemma not_in_pad: "c \<in> {CHR ''-'', CHR ''+'', CHR ''Z'', CHR '':'', CHR ''.'', CHR ''W''} \<Longrightarrow> c \<notin> set (pad_nat k n)"
  using pad_nat_digits [of k n] is_ascii_digit_not [of c] by (auto simp: list_all_iff)

section \<open>The calendar\<close>

lemma month_of_range: "1 \<le> month_of leap n \<and> month_of leap n \<le> 12"
  by (simp add: month_of_def)

lemma month_of_day:
  assumes "0 \<le> n" "n < (if leap then 366 else 365)"
  shows "days_before_month leap (month_of leap n) \<le> n" "n < days_before_month leap (month_of leap n + 1)"
  using assms by (auto simp: month_of_def days_before_month_def split: if_splits)

lemma year_div:
  fixes a b c e :: int
  assumes "0 \<le> b" "b \<le> 3" "0 \<le> c" "c \<le> 24" "0 \<le> e" "e \<le> 3"
  shows "(400 * a + 100 * b + 4 * c + e) div 4 = 100 * a + 25 * b + c"
    "(400 * a + 100 * b + 4 * c + e) div 100 = 4 * a + b"
    "(400 * a + 100 * b + 4 * c + e) div 400 = a"
proof -
  show "(400 * a + 100 * b + 4 * c + e) div 4 = 100 * a + 25 * b + c"
    by (rule int_div_pos_eq [where r = e]) (use assms in simp_all)
  show "(400 * a + 100 * b + 4 * c + e) div 100 = 4 * a + b"
    by (rule int_div_pos_eq [where r = "4 * c + e"]) (use assms in simp_all)
  show "(400 * a + 100 * b + 4 * c + e) div 400 = a"
    by (rule int_div_pos_eq [where r = "100 * b + 4 * c + e"]) (use assms in simp_all)
qed

lemma year_leap:
  fixes a b c e :: int
  assumes "0 \<le> b" "b \<le> 3" "0 \<le> c" "c \<le> 24" "0 \<le> e" "e \<le> 3"
  shows "is_leap (400 * a + 100 * b + 4 * c + e + 1) \<longleftrightarrow> e = 3 \<and> (c \<noteq> 24 \<or> b = 3)"
proof -
  let ?y = "400 * a + 100 * b + 4 * c + e + 1"
  have last: "(?y mod 4 = 0) = (e = 3)"
  proof (cases "e = 3")
    case True
    then have "?y mod 4 = 0" by (intro int_mod_pos_eq [where q = "100 * a + 25 * b + c + 1"]) simp_all
    then show ?thesis using True by simp
  next
    case False
    then have "?y mod 4 = e + 1"
      using assms by (intro int_mod_pos_eq [where q = "100 * a + 25 * b + c"]) simp_all
    then show ?thesis using False assms by simp
  qed
  moreover have "(?y mod 100 = 0) = (c = 24)" if e: "e = 3"
  proof (cases "c = 24")
    case True
    then have "?y mod 100 = 0" using e by (intro int_mod_pos_eq [where q = "4 * a + b + 1"]) simp_all
    then show ?thesis using True by simp
  next
    case False
    then have "?y mod 100 = 4 * c + 4"
      using assms e by (intro int_mod_pos_eq [where q = "4 * a + b"]) simp_all
    then show ?thesis using False assms by simp
  qed
  moreover have "(?y mod 400 = 0) = (b = 3)" if e: "e = 3" "c = 24"
  proof (cases "b = 3")
    case True
    then have "?y mod 400 = 0" using e by (intro int_mod_pos_eq [where q = "a + 1"]) simp_all
    then show ?thesis using True by simp
  next
    case False
    then have "?y mod 400 = 100 * b + 100"
      using assms e by (intro int_mod_pos_eq [where q = a]) simp_all
    then show ?thesis using False assms by simp
  qed
  ultimately show ?thesis unfolding is_leap_def by (cases "e = 3"; cases "c = 24") (simp_all only: simp_thms)
qed

lemma ord_to_ymd_inverse:
  assumes "1 \<le> ord" "ord \<le> 3652059"
  shows "case ord_to_ymd ord of (y, m, d) \<Rightarrow> ymd_to_ord y m d = ord \<and> 1 \<le> y \<and> y \<le> 9999 \<and>
    1 \<le> m \<and> m \<le> 12 \<and> 1 \<le> d \<and> d \<le> days_in_month y m"
proof -
  define a r b s c u e v where defs: "a = (ord - 1) div 146097" "r = (ord - 1) mod 146097"
    "b = r div 36524" "s = r mod 36524" "c = s div 1461" "u = s mod 1461" "e = u div 365" "v = u mod 365"
  have r: "ord - 1 = 146097 * a + r" "0 \<le> r" "r < 146097" by (simp_all add: defs(1,2))
  have s: "r = 36524 * b + s" "0 \<le> s" "s < 36524" by (simp_all add: defs(3,4))
  have u: "s = 1461 * c + u" "0 \<le> u" "u < 1461" by (simp_all add: defs(5,6))
  have v: "u = 365 * e + v" "0 \<le> v" "v < 365" by (simp_all add: defs(7,8))
  have ranges: "0 \<le> b" "b \<le> 4" "0 \<le> c" "c \<le> 24" "0 \<le> e" "e \<le> 4" "0 \<le> a" "a \<le> 24"
    using assms r s u v by linarith+
  have ord: "ord = 146097 * a + 36524 * b + 1461 * c + 365 * e + v + 1" using r s u v by linarith
  let ?y = "400 * a + 100 * b + 4 * c + e"
  have ymd: "ord_to_ymd ord = (if e = 4 \<or> b = 4 then (?y, 12, 31)
      else (let leap = (e = 3 \<and> (c \<noteq> 24 \<or> b = 3)); m = month_of leap v
        in (?y + 1, m, v - days_before_month leap m + 1)))"
    unfolding ord_to_ymd_def Let_def defs [symmetric] by (simp add: algebra_simps)
  consider (century) "b = 4" "c = 0" "e = 0" "v = 0" | (leap) "e = 4" "v = 0" "b \<le> 3" "c \<le> 23" | (normal) "e \<le> 3" "b \<le> 3"
    using r s u v ranges by linarith
  then show ?thesis
  proof cases
    case century
    have "(400 * a + 399) div 4 = 100 * a + 99" "(400 * a + 399) div 100 = 4 * a + 3" "(400 * a + 399) div 400 = a"
      using year_div [of 3 24 3 a] by simp_all
    moreover have "is_leap (400 * a + 400)" using year_leap [of 3 24 3 a] by (simp add: add.commute)
    moreover have "a < 24" using century ord assms(2) by linarith
    moreover have "ord_to_ymd ord = (400 * a + 400, 12, 31)" using century by (simp add: ymd)
    ultimately show ?thesis using century ranges ord
      by (simp add: ymd_to_ord_def days_before_year_def days_in_month_def days_before_month_def)
  next
    case leap
    have range: "0 \<le> b" "b \<le> 3" "0 \<le> c" "c \<le> 24" using leap ranges by simp_all
    note y = year_div [OF range, of 3 a]
    have "is_leap (400 * a + 100 * b + 4 * c + 4)" using leap year_leap [OF range, of 3 a] by (simp add: ac_simps)
    moreover have "400 * a + 100 * b + 4 * c + 4 \<le> 9999" using leap ord assms(2) ranges by linarith
    moreover have "ord_to_ymd ord = (400 * a + 100 * b + 4 * c + 4, 12, 31)" using leap by (simp add: ymd)
    ultimately show ?thesis using leap ranges ord y
      by (simp add: ymd_to_ord_def days_before_year_def days_in_month_def days_before_month_def algebra_simps)
  next
    case normal
    define l where "l = (e = 3 \<and> (c \<noteq> 24 \<or> b = 3))"
    note y = year_div [OF ranges(1) normal(2) ranges(3,4,5) normal(1), of a]
    have l: "is_leap (?y + 1) = l"
      using year_leap [OF ranges(1) normal(2) ranges(3,4,5) normal(1)] by (simp add: l_def)
    have "days_before_month l (month_of l v) \<le> v" "v < days_before_month l (month_of l v + 1)"
      by (rule month_of_day, use v in simp_all)+
    moreover have "?y + 1 \<le> 9999" using ord assms(2) ranges v normal by linarith
    moreover have "ord_to_ymd ord = (?y + 1, month_of l v, v - days_before_month l (month_of l v) + 1)"
      using normal unfolding ymd Let_def l_def [symmetric] by simp
    ultimately show ?thesis using normal ranges ord y l month_of_range [of l v]
      by (simp add: ymd_to_ord_def days_before_year_def days_in_month_def)
  qed
qed

section \<open>A time in UTC\<close>

lemma iso_date_length:
  assumes "0 \<le> us" "us < max_us"
  shows "\<exists>y m d. iso_date us = pad_nat 4 y @ ''-'' @ pad_nat 2 m @ ''-'' @ pad_nat 2 d \<and>
    1 \<le> y \<and> y < 10000 \<and> 1 \<le> m \<and> m \<le> 12 \<and> 1 \<le> d \<and> int d \<le> days_in_month (int y) (int m) \<and>
    d < 100 \<and> ymd_to_ord (int y) (int m) (int d) = us div day_us + 1"
proof -
  obtain y m d where o: "ord_to_ymd (us div day_us + 1) = (y, m, d)" by (metis prod_cases3)
  have "0 \<le> us div day_us" "us div day_us < 3652059"
    using assms by (auto simp: day_us_def max_us_def div_less_iff_less_mult pos_imp_zdiv_nonneg_iff)
  then have f: "ymd_to_ord y m d = us div day_us + 1" "1 \<le> y" "y \<le> 9999" "1 \<le> m" "m \<le> 12" "1 \<le> d" "d \<le> days_in_month y m"
    using ord_to_ymd_inverse [of "us div day_us + 1"] o by simp_all
  have "days_in_month y m \<le> 31" by (simp add: days_in_month_def days_before_month_def)
  then have "iso_date us = pad_nat 4 (nat y) @ ''-'' @ pad_nat 2 (nat m) @ ''-'' @ pad_nat 2 (nat d) \<and>
      1 \<le> nat y \<and> nat y < 10000 \<and> 1 \<le> nat m \<and> nat m \<le> 12 \<and> 1 \<le> nat d \<and>
      int (nat d) \<le> days_in_month (int (nat y)) (int (nat m)) \<and> nat d < 100 \<and>
      ymd_to_ord (int (nat y)) (int (nat m)) (int (nat d)) = us div day_us + 1"
    using f o by (simp add: iso_date_def nat_less_iff nat_le_iff le_nat_iff)
  then show ?thesis by blast
qed

lemma parse_iso_date_text:
  assumes "1 \<le> y" "y < 10000" "1 \<le> m" "m \<le> 12" "1 \<le> d" "int d \<le> days_in_month (int y) (int m)" "d < 100"
  shows "parse_iso_date (pad_nat 4 y @ ''-'' @ pad_nat 2 m @ ''-'' @ pad_nat 2 d) =
    Some (ymd_to_ord (int y) (int m) (int d))"
proof -
  have len: "length (pad_nat 4 y) = 4" "length (pad_nat 2 m) = 2" "length (pad_nat 2 d) = 2"
    using assms by (simp_all add: pad_nat_length)
  let ?s = "pad_nat 4 y @ ''-'' @ pad_nat 2 m @ ''-'' @ pad_nat 2 d"
  have c: "char_is ?s 4 (CHR ''-'')" "char_is ?s 7 (CHR ''-'')"
    by (simp_all add: char_is_def len nth_append)
  have "?s ! 5 \<in> set (pad_nat 2 m)" using len by (simp add: nth_append)
  then have "\<not> char_is ?s 5 (CHR ''W'')" using not_in_pad [of "CHR ''W''" 2 m] by (auto simp: char_is_def)
  moreover have "take_digits 4 ?s = Some (int y)" using assms by (intro take_digits_pad) simp_all
  moreover have "take_digits 2 (drop 5 ?s) = Some (int m)"
    using take_digits_pad [of m 2 "''-'' @ pad_nat 2 d"] assms len by simp
  moreover have "take_digits 2 (drop 8 ?s) = Some (int d)"
    using take_digits_pad [of d 2 "[]"] assms len by simp
  ultimately show ?thesis using assms c by (simp add: parse_iso_date_def Let_def)
qed

lemma parse_fraction_text:
  "0 \<le> f \<Longrightarrow> f < 1000000 \<Longrightarrow> parse_fraction (if f = 0 then [] else CHR ''.'' # pad_nat 6 (nat f)) = Some f"
  using take_digits_pad [of "nat f" 6 "[]"] pad_nat_length [of "nat f" 6]
  by (simp add: parse_fraction_def nat_less_iff)

lemma iso_clock_parts:
  assumes "0 \<le> us" "us < day_us"
  shows "\<exists>h m s f. iso_clock us = pad_nat 2 h @ '':'' @ pad_nat 2 m @ '':'' @ pad_nat 2 s @
      (if f = 0 then [] else CHR ''.'' # pad_nat 6 (nat f)) \<and>
    h < 24 \<and> m < 60 \<and> s < 60 \<and> 0 \<le> f \<and> f < 1000000 \<and> clock_us (int h, int m, int s, f) = us"
proof -
  define t where "t = us div 1000000"
  have "0 \<le> t" "t < 86400" using assms by (auto simp: t_def day_us_def pos_imp_zdiv_nonneg_iff)
  then have "nat (t div 3600) < 24" "nat (t div 60 mod 60) < 60" "nat (t mod 60) < 60"
    by (simp_all add: nat_less_iff)
  moreover have "int (nat (t div 3600)) * 60 + int (nat (t div 60 mod 60)) = t div 60"
    using \<open>0 \<le> t\<close> by (simp add: pos_imp_zdiv_nonneg_iff zdiv_zmult2_eq [of 60 t 60, simplified])
  moreover have "t div 60 * 60 + int (nat (t mod 60)) = t" by simp
  moreover have "t * 1000000 + us mod 1000000 = us" by (simp add: t_def)
  moreover have "iso_clock us = pad_nat 2 (nat (t div 3600)) @ '':'' @ pad_nat 2 (nat (t div 60 mod 60)) @ '':'' @
      pad_nat 2 (nat (t mod 60)) @ (if us mod 1000000 = 0 then [] else CHR ''.'' # pad_nat 6 (nat (us mod 1000000)))"
    by (simp add: iso_clock_def Let_def t_def)
  moreover have "0 \<le> us mod 1000000" "us mod 1000000 < 1000000" by simp_all
  ultimately show ?thesis unfolding clock_us_def prod.case by metis
qed

text \<open>The clock reads back, and it holds none of the characters that start an offset.\<close>

lemma char_is_Cons: "char_is (c # s) 0 d \<longleftrightarrow> c = d"
  by (simp add: char_is_def)

lemma parse_clock_text:
  assumes "0 \<le> us" "us < day_us"
  shows "\<exists>h m s f. parse_clock (iso_clock us) = Some (h, m, s, f) \<and> h < 24 \<and> m < 60 \<and> s < 60 \<and> clock_us (h, m, s, f) = us"
proof -
  obtain h m s f where t: "iso_clock us = pad_nat 2 h @ '':'' @ pad_nat 2 m @ '':'' @ pad_nat 2 s @
      (if f = 0 then [] else CHR ''.'' # pad_nat 6 (nat f))"
    and r: "h < 24" "m < 60" "s < 60" "0 \<le> f" "f < 1000000" and c: "clock_us (int h, int m, int s, f) = us"
    using iso_clock_parts [OF assms] by blast
  have len: "length (pad_nat 2 h) = 2" "length (pad_nat 2 m) = 2" "length (pad_nat 2 s) = 2"
    using r by (simp_all add: pad_nat_length)
  have ne: "pad_nat 2 m \<noteq> []" "pad_nat 2 s \<noteq> []" using len by auto
  have d: "take_digits 2 (pad_nat 2 n @ x) = Some (int n)" if "n < 100" for n x
    using that by (intro take_digits_pad) simp_all
  have "parse_clock (iso_clock us) = Some (int h, int m, int s, f)"
    unfolding t parse_clock_def using r len ne parse_fraction_text [OF r(4,5)]
    by (simp add: d char_is_Cons Let_def del: append_assoc add: append_assoc [symmetric])
  then show ?thesis using r c by (intro exI conjI) (assumption | simp)+
qed

lemma clock_chars:
  assumes "0 \<le> us" "us < day_us" "c \<in> {CHR ''-'', CHR ''+'', CHR ''Z''}"
  shows "c \<notin> set (iso_clock us)"
  using iso_clock_parts [OF assms(1,2)] assms(3) not_in_pad [of c] by (auto split: if_splits)

lemma find_char_append: "c \<notin> set s \<Longrightarrow> find_char c (s @ c # t) = Some (length s)"
  by (simp add: find_char_def takeWhile_append)

lemma parse_utc_time:
  assumes "0 \<le> us" "us < day_us"
  shows "parse_iso_time (iso_clock us @ ''+00:00'') = Some (us, Some 0)"
proof -
  have no: "c \<notin> set (iso_clock us)" if "c \<in> {CHR ''-'', CHR ''+'', CHR ''Z''}" for c
    using clock_chars [OF assms] that by blast
  have minus: "find_char (CHR ''-'') (iso_clock us @ ''+00:00'') = None" by (simp add: find_char_def no)
  have plus: "find_char (CHR ''+'') (iso_clock us @ ''+00:00'') = Some (length (iso_clock us))"
    using no by (intro find_char_append) simp
  have "parse_clock ''00:00'' = Some (0, 0, 0, 0)" by code_simp
  then have offset: "parse_offset (iso_clock us @ ''+00:00'') (length (iso_clock us)) = Some 0"
    by (simp add: parse_offset_def clock_us_def Let_def day_us_def)
  obtain h m s f where "parse_clock (iso_clock us) = Some (h, m, s, f)" "h < 24" "m < 60" "s < 60" "clock_us (h, m, s, f) = us"
    using parse_clock_text [OF assms] by blast
  then show ?thesis by (simp add: parse_iso_time_def minus plus offset Let_def)
qed

lemma iso_offset_zero [simp]: "iso_offset 0 = ''+00:00''"
  by code_simp

lemma fromisoformat_isoformat:
  assumes "0 \<le> dt_local t" "dt_local t < max_us" "dt_offset t = Some 0"
  shows "fromisoformat (isoformat t) = Some t"
proof -
  let ?us = "dt_local t mod day_us"
  obtain y m d where date: "iso_date (dt_local t) = pad_nat 4 y @ ''-'' @ pad_nat 2 m @ ''-'' @ pad_nat 2 d"
    and r: "1 \<le> y" "y < 10000" "1 \<le> m" "m \<le> 12" "1 \<le> d" "int d \<le> days_in_month (int y) (int m)" "d < 100"
    and ord: "ymd_to_ord (int y) (int m) (int d) = dt_local t div day_us + 1"
    using iso_date_length [OF assms(1,2)] by blast
  have len: "length (pad_nat 4 y) = 4" "length (pad_nat 2 m) = 2" "length (pad_nat 2 d) = 2"
    using r by (simp_all add: pad_nat_length)
  have s: "isoformat t = iso_date (dt_local t) @ CHR ''T'' # iso_clock ?us @ ''+00:00''"
    by (simp add: isoformat_def assms(3))
  have date_len: "length (iso_date (dt_local t)) = 10" by (simp add: date len)
  have "isoformat t ! 5 = pad_nat 2 m ! 0" "isoformat t ! 4 = CHR ''-''"
    by (simp_all add: s date len nth_append)
  moreover have "pad_nat 2 m ! 0 \<noteq> CHR ''W''"
    using not_in_pad [of "CHR ''W''" 2 m] len nth_mem [of 0 "pad_nat 2 m"] by (metis insertI1 insertI2 zero_less_numeral)
  ultimately have "date_separator_pos (isoformat t) = Some 10"
    using date_len by (simp add: date_separator_pos_def char_is_def s Let_def)
  moreover have "take 10 (isoformat t) = iso_date (dt_local t)" "drop 11 (isoformat t) = iso_clock ?us @ ''+00:00''"
    using date_len by (simp_all add: s)
  moreover have "parse_iso_date (iso_date (dt_local t)) = Some (dt_local t div day_us + 1)"
    by (simp add: parse_iso_date_text [OF r, folded date] ord)
  moreover have "parse_iso_time (iso_clock ?us @ ''+00:00'') = Some (?us, Some 0)"
    by (rule parse_utc_time) (simp_all add: day_us_def)
  ultimately show ?thesis using assms date_len by (simp add: fromisoformat_def Let_def s)
qed

end
