(* ===== verification/Weather_Object.thy ===== *)
theory Weather_Object
  imports Py_Json Py_Reload Py_Iso
begin

text \<open>
  The second ingestion path, of weather forecasts. This theory holds \<open>ingestion/models.py\<close>, the
  object a forecast is landed as (\<open>prepare_landing_object\<close> of \<open>ingestion/landing.py\<close>) and the client
  of the source (\<open>ingestion/open_meteo.py\<close>). A latitude is any value, because the audit reads it
  from a document.
\<close>

section \<open>Text\<close>

text \<open>\<open>str.isalnum\<close> of a character below 256.\<close>

definition is_alnum :: "char \<Rightarrow> bool" where
  "is_alnum c = (let n = of_char c :: nat in
     48 \<le> n \<and> n \<le> 57 \<or> 65 \<le> n \<and> n \<le> 90 \<or> 97 \<le> n \<and> n \<le> 122 \<or>
     n \<in> {170, 178, 179, 181, 185, 186, 188, 189, 190} \<or>
     192 \<le> n \<and> n \<noteq> 215 \<and> n \<noteq> 247)"

text \<open>\<open>json.dumps(v, ensure_ascii=False, sort_keys=True, separators=(",", ":"))\<close>\<close>

fun json_compact :: "pyval \<Rightarrow> string" where
  "json_compact PNone = ''null''"
| "json_compact (PBool b) = (if b then ''true'' else ''false'')"
| "json_compact (PInt i) = dec_int i"
| "json_compact (PFloat x) = float_text ''Infinity'' ''NaN'' x"
| "json_compact (PStr s) = json_str_plain s"
| "json_compact (PList xs) = ''['' @ join '','' (map json_compact xs) @ '']''"
| "json_compact (PTuple xs) = ''['' @ join '','' (map json_compact xs) @ '']''"
| "json_compact (PDict d) =
     ''{'' @ join '','' (map (\<lambda>(k, t). json_str_plain k @ '':'' @ t)
       (sort_key fst (map (\<lambda>(k, v). (k, json_compact v)) d))) @ ''}''"

section \<open>Locations and payloads\<close>

record location =
  lc_name :: string
  lc_latitude :: pyval
  lc_longitude :: pyval

definition normalized_name :: "string \<Rightarrow> string" where
  "normalized_name name = replace '' '' ''-'' (map lower_latin (strip name))"

definition in_quotes :: "string \<Rightarrow> string" where
  "in_quotes s = CHR 0x27 # s @ [CHR 0x27]"

definition is_name_char :: "char \<Rightarrow> bool" where
  "is_name_char c = (is_alnum c \<or> c \<in> {CHR ''-'', CHR ''_''})"

text \<open>\<open>-k <= v <= k\<close>; a value that is no number cannot be compared.\<close>

definition within_degrees :: "int \<Rightarrow> pyval \<Rightarrow> bool result" where
  "within_degrees k v = (case num_of v of None \<Rightarrow> raise TypeError []
     | Some x \<Rightarrow> Inr (float_le (Fin (of_int (- k))) x \<and> float_le x (Fin (of_int k))))"

definition make_location :: "string \<Rightarrow> pyval \<Rightarrow> pyval \<Rightarrow> location result" where
  "make_location name latitude longitude =
     (let normalized = normalized_name name in
      if normalized = [] \<or> \<not> list_all is_name_char normalized
      then raise ValueError (''location name must contain only letters, numbers, '' @ in_quotes ''-'' @ '' or '' @ in_quotes ''_'')
      else bindE (within_degrees 90 latitude) (\<lambda>ok.
        if \<not> ok then raise ValueError ''latitude must be between -90 and 90''
        else bindE (within_degrees 180 longitude) (\<lambda>ok.
          if \<not> ok then raise ValueError ''longitude must be between -180 and 180''
          else Inr \<lparr>lc_name = normalized, lc_latitude = latitude, lc_longitude = longitude\<rparr>)))"

record weather_payload =
  wp_location :: location
  wp_source :: pydict

definition required_series :: "string list" where
  "required_series = [''temperature_2m'', ''relative_humidity_2m'', ''precipitation'', ''wind_speed_10m'']"

definition check_series :: "pydict \<Rightarrow> nat \<Rightarrow> string \<Rightarrow> unit result" where
  "check_series hourly expected name =
     (case get hourly name of
        PList series \<Rightarrow> if length series \<noteq> expected
          then raise PayloadValidationError (''hourly series '' @ name @ '' has '' @ dec_nat (length series) @
            '' values; expected '' @ dec_nat expected)
          else Inr ()
      | _ \<Rightarrow> raise PayloadValidationError (''missing hourly series: '' @ name))"

definition payload_from_source :: "location \<Rightarrow> pydict \<Rightarrow> weather_payload result" where
  "payload_from_source location payload =
     (case get payload ''hourly'' of
        PDict hourly \<Rightarrow>
          (case get hourly ''time'' of
             PList hours \<Rightarrow>
               if hours = [] then raise PayloadValidationError (''response field '' @ in_quotes ''hourly.time'' @ '' must be a non-empty list'')
               else bindE (mapE (check_series hourly (length hours)) required_series) (\<lambda>_.
                 Inr \<lparr>wp_location = location, wp_source = payload\<rparr>)
           | _ \<Rightarrow> raise PayloadValidationError (''response field '' @ in_quotes ''hourly.time'' @ '' must be a non-empty list''))
      | _ \<Rightarrow> raise PayloadValidationError (''response field '' @ in_quotes ''hourly'' @ '' must be an object''))"

section \<open>The landed object\<close>

record landing_object =
  lo_key :: string
  lo_checksum :: string
  lo_body :: string

definition location_dict :: "location \<Rightarrow> pyval" where
  "location_dict l = PDict [(''name'', PStr (lc_name l)), (''latitude'', lc_latitude l), (''longitude'', lc_longitude l)]"

definition calculate_object_checksum :: "weather_payload \<Rightarrow> string" where
  "calculate_object_checksum payload =
     (let stable = filter (\<lambda>(key, value). key \<noteq> ''generationtime_ms'') (wp_source payload);
          object_identity = PDict [(''source'', PStr ''open_meteo''), (''location'', location_dict (wp_location payload)),
            (''payload'', PDict stable)]
      in sha256_hex (utf8 (json_compact object_identity)))"

definition landing_document :: "weather_payload \<Rightarrow> pydt \<Rightarrow> pydict" where
  "landing_document payload timestamp =
     [(''ingestion'', PDict
         [(''source'', PStr ''open_meteo''), (''ingested_at'', PStr (isoformat timestamp)),
          (''location'', location_dict (wp_location payload)),
          (''object_checksum'', PStr (calculate_object_checksum payload))]),
      (''payload'', PDict (wp_source payload))]"

definition object_key :: "weather_payload \<Rightarrow> pydt \<Rightarrow> string" where
  "object_key payload timestamp =
     ''source=open_meteo/'' @ ''ingest_date='' @ iso_date (dt_local timestamp) @ ''/'' @
     ''location='' @ lc_name (wp_location payload) @ ''/'' @ calculate_object_checksum payload @ ''.json''"

text \<open>\<open>ingested_at or datetime.now(UTC)\<close>: the time of the call is the argument \<open>now\<close>.\<close>

definition prepare_landing_object :: "pydt \<Rightarrow> weather_payload \<Rightarrow> pydt option \<Rightarrow> landing_object result" where
  "prepare_landing_object now payload ingested_at =
     (let timestamp = (case ingested_at of None \<Rightarrow> now | Some t \<Rightarrow> t) in
      if \<not> is_aware timestamp then raise ValueError ''ingested_at must be timezone-aware''
      else bindE (to_utc timestamp) (\<lambda>timestamp. Inr
        \<lparr>lo_key = object_key payload timestamp, lo_checksum = calculate_object_checksum payload,
         lo_body = utf8 (json_compact (PDict (landing_document payload timestamp)))\<rparr>))"

section \<open>Fetching a forecast\<close>

text \<open>An answer of the source: an HTTP error of the transport, or a status with the body that
  \<open>response.json\<close> decodes. The world is the number of requests sent and the pauses made.\<close>

record source_world =
  sw_requests :: nat
  sw_pauses :: "rat list"

record source_env =
  se_get :: "nat \<Rightarrow> location \<Rightarrow> int \<Rightarrow> (int \<times> string) result"
  se_json :: "string \<Rightarrow> pyval result"

definition transient_status_codes :: "int set" where
  "transient_status_codes = {408, 429, 500, 502, 503, 504}"

definition source_get :: "source_env \<Rightarrow> location \<Rightarrow> int \<Rightarrow> (pyexn, int \<times> string, source_world) act" where
  "source_get env location days w =
     Some (se_get env (sw_requests w) location days, w\<lparr>sw_requests := Suc (sw_requests w)\<rparr>)"

definition pause :: "rat \<Rightarrow> (pyexn, unit, source_world) act" where
  "pause seconds w = Some (Inr (), w\<lparr>sw_pauses := sw_pauses w @ [seconds]\<rparr>)"

text \<open>\<open>raise_for_status\<close>: a status of 200 to 299 is no error.\<close>

definition decode_answer :: "source_env \<Rightarrow> location \<Rightarrow> int \<times> string \<Rightarrow> weather_payload result" where
  "decode_answer env location answer = (case answer of (status, body) \<Rightarrow>
     if status \<in> transient_status_codes
     then raise OpenMeteoError (''transient source response: HTTP '' @ dec_int status)
     else if \<not> (200 \<le> status \<and> status < 300) then raise HttpStatusError []
     else bindE (se_json env body) (\<lambda>payload.
       case payload of PDict d \<Rightarrow> payload_from_source location d
       | _ \<Rightarrow> raise OpenMeteoError ''source response must be a JSON object''))"

definition fetch_once :: "source_env \<Rightarrow> location \<Rightarrow> int \<Rightarrow> (pyexn, weather_payload, source_world) act" where
  "fetch_once env location days =
     bind_io (source_get env location days) (\<lambda>answer. lift_io (decode_answer env location answer))"

definition caught_by_fetch :: "exn_class \<Rightarrow> bool" where
  "caught_by_fetch k = (is_a k HttpTransportError \<or> is_a k HttpStatusError \<or> is_a k ValueError \<or> is_a k OpenMeteoError)"

definition is_retryable :: "exn_class \<Rightarrow> bool" where
  "is_retryable k = (is_a k HttpTransportError \<or> is_a k OpenMeteoError)"

text \<open>The attempts from \<open>attempt\<close> on, of which \<open>left\<close> remain: \<open>range(1, max_attempts + 1)\<close>.\<close>

fun fetch_attempts :: "source_env \<Rightarrow> nat \<Rightarrow> location \<Rightarrow> int \<Rightarrow> nat \<Rightarrow> nat \<Rightarrow> (pyexn, weather_payload, source_world) act" where
  "fetch_attempts env max_attempts location days attempt 0 =
     raise_io OpenMeteoError (''failed to fetch weather data after '' @ dec_nat max_attempts @ '' attempt(s)'')"
| "fetch_attempts env max_attempts location days attempt (Suc left) =
     catch_io (fetch_once env location days) caught_by_fetch (\<lambda>error.
       if left = 0 \<or> \<not> is_retryable (class_of error)
       then raise_io OpenMeteoError (''failed to fetch weather data after '' @ dec_nat max_attempts @ '' attempt(s)'')
       else bind_io (pause (1 / 4 * 2 ^ (attempt - 1))) (\<lambda>_.
         fetch_attempts env max_attempts location days (attempt + 1) left))"

definition fetch :: "source_env \<Rightarrow> nat \<Rightarrow> location \<Rightarrow> int \<Rightarrow> (pyexn, weather_payload, source_world) act" where
  "fetch env max_attempts location days =
     (if \<not> (1 \<le> days \<and> days \<le> 16) then raise_io ValueError ''forecast_days must be between 1 and 16''
      else fetch_attempts env max_attempts location days 1 max_attempts)"

definition make_source_client :: "int \<Rightarrow> nat result" where
  "make_source_client max_attempts =
     (if max_attempts < 1 then raise ValueError ''max_attempts must be at least 1'' else Inr (nat max_attempts))"

end
