(* ===== verification/Weather_Audit.thy ===== *)
theory Weather_Audit
  imports Weather_Object "HOL-Library.Product_Lexorder"
begin

text \<open>
  \<open>ingestion/audit.py\<close>: the audit of landed forecasts, in a directory tree and in a bucket with its
  versions. Decoders, directory listings and the S3 service are parameters; the service is an oracle
  of the number of calls before. A path is the text of its parts.
\<close>

section \<open>Paths\<close>

text \<open>\<open>Path(s).parts\<close>, \<open>as_posix\<close> and \<open>stem\<close>, as the standard library of Python 3.12 has them.\<close>

definition path_root :: "string \<Rightarrow> string list" where
  "path_root s = (if starts_with ''//'' s \<and> \<not> starts_with ''///'' s then [''//'']
     else if starts_with ''/'' s then [''/''] else [])"

definition path_names :: "string \<Rightarrow> string list" where
  "path_names s = filter (\<lambda>p. p \<noteq> [] \<and> p \<noteq> ''.'') (split_char (CHR ''/'') s)"

definition path_parts :: "string \<Rightarrow> string list" where
  "path_parts s = path_root s @ path_names s"

definition as_posix :: "string \<Rightarrow> string" where
  "as_posix s = (if path_parts s = [] then ''.'' else concat (path_root s) @ join ''/'' (path_names s))"

definition stem_of_name :: "string \<Rightarrow> string" where
  "stem_of_name name =
     (let suffix = takeWhile (\<lambda>c. c \<noteq> CHR ''.'') (rev name); i = length name - length suffix - 1 in
      if CHR ''.'' \<in> set name \<and> 0 < i \<and> i < length name - 1 then take i name else name)"

definition path_stem :: "string \<Rightarrow> string" where
  "path_stem s = (if path_names s = [] then [] else stem_of_name (last (path_names s)))"

section \<open>Reports\<close>

record audit_item =
  ai_path :: string
  ai_status :: string
  ai_errors :: "string list"

record audit_report =
  ar_root :: string
  ar_items :: "audit_item list"

definition report_valid :: "audit_report \<Rightarrow> nat" where
  "report_valid r = length (filter (\<lambda>item. ai_status item = ''valid'') (ar_items r))"

definition report_invalid :: "audit_report \<Rightarrow> nat" where
  "report_invalid r = length (filter (\<lambda>item. ai_status item = ''invalid'') (ar_items r))"

definition report_healthy :: "audit_report \<Rightarrow> bool" where
  "report_healthy r = (ar_items r \<noteq> [] \<and> report_invalid r = 0)"

definition item_dict :: "audit_item \<Rightarrow> pyval" where
  "item_dict entry = PDict [(''path'', PStr (ai_path entry)), (''status'', PStr (ai_status entry)),
     (''errors'', PTuple (map PStr (ai_errors entry)))]"

definition audit_report_dict :: "audit_report \<Rightarrow> pydict" where
  "audit_report_dict r = [(''status'', PStr (if report_healthy r then ''healthy'' else ''failed'')),
     (''root'', PStr (ar_root r)), (''total'', PInt (int (length (ar_items r)))),
     (''valid'', PInt (int (report_valid r))), (''invalid'', PInt (int (report_invalid r))),
     (''items'', PList (map item_dict (ar_items r)))]"

section \<open>One document\<close>

text \<open>\<open>str(error)\<close>: a key error shows the \<open>repr\<close> of its key.\<close>

definition error_text :: "pyexn \<Rightarrow> string" where
  "error_text e = (if class_of e = KeyError then str_repr (message_of e) else message_of e)"

definition validate_layout :: "string \<Rightarrow> string list" where
  "validate_layout path =
     (let parts = path_parts path in
      if length parts \<noteq> 4 then [''path must match source/date/location/checksum.json layout'']
      else (if parts ! 0 \<noteq> ''source=open_meteo'' then [''path source must be open_meteo''] else []) @
        (if \<not> starts_with ''ingest_date='' (parts ! 1) then [''path must contain ingest_date partition''] else []) @
        (if \<not> starts_with ''location='' (parts ! 2) then [''path must contain location partition''] else []))"

text \<open>The text of the standard library's parse errors is left out.\<close>

definition ingestion_date_errors :: "string \<Rightarrow> pyval \<Rightarrow> string list" where
  "ingestion_date_errors partition_name ingested_at =
     (case fromisoformat (py_str ingested_at) of
        None \<Rightarrow> [''invalid ingested_at: '']
      | Some timestamp \<Rightarrow>
          if \<not> is_aware timestamp then [''invalid ingested_at: timestamp has no timezone'']
          else if partition_name \<noteq> ''ingest_date='' @ iso_date (dt_local timestamp)
          then [''ingest_date partition does not match ingested_at''] else [])"

definition payload_of_document :: "pyval \<Rightarrow> pydict \<Rightarrow> weather_payload result" where
  "payload_of_document location_data source_payload =
     (case location_data of
        PDict data \<Rightarrow>
          (if \<not> is_str (get data ''name'') then raise ValueError ''ingestion location name must be a string''
           else bindE (item data ''latitude'') (\<lambda>latitude. bindE (item data ''longitude'') (\<lambda>longitude.
             bindE (make_location (the_str (get data ''name'')) latitude longitude) (\<lambda>location.
               payload_from_source location source_payload))))
      | _ \<Rightarrow> raise ValueError ''ingestion location must be an object'')"

definition caught_by_audit :: "exn_class \<Rightarrow> bool" where
  "caught_by_audit k = (is_a k KeyError \<or> is_a k TypeError \<or> is_a k ValueError)"

definition validate_document :: "string \<Rightarrow> pydict \<Rightarrow> pydict \<Rightarrow> pyval \<Rightarrow> string list result" where
  "validate_document path ingestion source_payload metadata_checksum =
     (let errors = (if get ingestion ''source'' \<noteq> PStr ''open_meteo'' then [''ingestion source must be open_meteo''] else []) in
      case payload_of_document (get ingestion ''location'') source_payload of
        Inl e \<Rightarrow> if caught_by_audit (class_of e) then Inr (errors @ [''invalid weather payload: '' @ error_text e]) else Inl e
      | Inr payload \<Rightarrow>
          (let expected = calculate_object_checksum payload in
           Inr (errors @
             (if get ingestion ''object_checksum'' \<noteq> PStr expected then [''declared checksum does not match payload''] else []) @
             (if path_stem path \<noteq> expected then [''filename checksum does not match payload''] else []) @
             (if metadata_checksum \<noteq> PNone \<and> metadata_checksum \<noteq> PStr expected
              then [''object metadata checksum does not match payload''] else []) @
             (if length (path_parts path) = 4 then
                (if path_parts path ! 2 \<noteq> ''location='' @ lc_name (wp_location payload)
                 then [''location partition does not match payload''] else []) @
                ingestion_date_errors (path_parts path ! 1) (get ingestion ''ingested_at'')
              else []))))"

definition undecodable :: "exn_class \<Rightarrow> bool" where
  "undecodable k = (is_a k UnicodeError \<or> is_a k JSONDecodeError)"

definition audit_verdict :: "string \<Rightarrow> string list \<Rightarrow> audit_item" where
  "audit_verdict path errors =
     \<lparr>ai_path = as_posix path, ai_status = (if errors = [] then ''valid'' else ''invalid''), ai_errors = errors\<rparr>"

definition audit_landing_content :: "(string \<Rightarrow> pyval result) \<Rightarrow> string \<Rightarrow> string \<Rightarrow> pyval \<Rightarrow> audit_item result" where
  "audit_landing_content json relative content metadata_checksum =
     (let errors = validate_layout relative in
      case json content of
        Inl e \<Rightarrow> if undecodable (class_of e)
          then Inr (audit_verdict relative (errors @ [''cannot read JSON: '' @ error_text e])) else Inl e
      | Inr (PDict document) \<Rightarrow>
          (let ingestion = get document ''ingestion''; source_payload = get document ''payload'';
               errors = errors @ (if \<not> is_dict ingestion then [''ingestion must be an object''] else []) @
                 (if \<not> is_dict source_payload then [''payload must be an object''] else []) in
           if \<not> is_dict ingestion \<or> \<not> is_dict source_payload then Inr (audit_verdict relative errors)
           else bindE (validate_document relative (the_dict ingestion) (the_dict source_payload) metadata_checksum) (\<lambda>more.
             Inr (audit_verdict relative (errors @ more))))
      | Inr _ \<Rightarrow> Inr (audit_verdict relative (errors @ [''document must be a JSON object''])))"

section \<open>A directory tree\<close>

text \<open>What the operating system answers: the \<open>*.json\<close> paths below the root, which of them are files, and
  \<open>read_text\<close>, whose text \<open>at_json\<close> decodes.\<close>

record audit_tree =
  at_resolved :: string
  at_is_dir :: bool
  at_paths :: "string list"
  at_is_file :: "string \<Rightarrow> bool"
  at_text :: "string \<Rightarrow> string result"
  at_json :: "string \<Rightarrow> pyval result"

definition unreadable_text :: "exn_class \<Rightarrow> bool" where
  "unreadable_text k = (is_a k OSError \<or> is_a k UnicodeError \<or> is_a k JSONDecodeError)"

definition audit_object :: "audit_tree \<Rightarrow> string \<Rightarrow> audit_item result" where
  "audit_object tree relative =
     (case at_text tree relative of
        Inl e \<Rightarrow> if unreadable_text (class_of e)
          then Inr \<lparr>ai_path = as_posix relative, ai_status = ''invalid'',
            ai_errors = validate_layout relative @ [''cannot read JSON: '' @ error_text e]\<rparr> else Inl e
      | Inr content \<Rightarrow> audit_landing_content (at_json tree) relative content PNone)"

definition audit_file_landing :: "audit_tree \<Rightarrow> audit_report result" where
  "audit_file_landing tree =
     (if \<not> at_is_dir tree then Inr \<lparr>ar_root = at_resolved tree, ar_items = []\<rparr>
      else bindE (mapE (audit_object tree) (filter (at_is_file tree) (sort_key path_parts (at_paths tree)))) (\<lambda>items.
        Inr \<lparr>ar_root = at_resolved tree, ar_items = items\<rparr>))"

section \<open>A bucket\<close>

text \<open>The two listings answer with the dictionaries of the client library, a read with the metadata and
  the body, which may be missing or fail to be read.\<close>

record got_object =
  go_metadata :: pyval
  go_body :: "string result option"

record audit_client =
  ac_list :: "nat \<Rightarrow> (string \<times> string) list \<Rightarrow> pydict result"
  ac_versions :: "nat \<Rightarrow> (string \<times> string) list \<Rightarrow> pydict result"
  ac_get :: "nat \<Rightarrow> string \<Rightarrow> string option \<Rightarrow> got_object result"
  ac_json :: "string \<Rightarrow> pyval result"

type_synonym 'a audit_io = "(pyexn, 'a, nat) act"

definition s3_call :: "(nat \<Rightarrow> 'a result) \<Rightarrow> 'a audit_io" where
  "s3_call f n = Some (f n, Suc n)"

definition first_request :: "string \<Rightarrow> string \<Rightarrow> (string \<times> string) list" where
  "first_request bucket_name prefix =
     (''Bucket'', bucket_name) # (if prefix \<noteq> [] then [(''Prefix'', prefix @ ''/'')] else [])"

definition json_key :: "pyval \<Rightarrow> string option" where
  "json_key v = (case v of
       PDict d \<Rightarrow> (case get d ''Key'' of PStr key \<Rightarrow> if ends_with ''.json'' key then Some key else None | _ \<Rightarrow> None)
     | _ \<Rightarrow> None)"

definition listed_keys :: "pydict \<Rightarrow> string list" where
  "listed_keys response = (case get response ''Contents'' of PList contents \<Rightarrow> List.map_filter json_key contents | _ \<Rightarrow> [])"

partial_function (option) list_s3_json_keys ::
    "audit_client \<Rightarrow> (string \<times> string) list \<Rightarrow> string list \<Rightarrow> nat \<Rightarrow> (string list result \<times> nat) option"
where
  "list_s3_json_keys c request keys n =
     (case ac_list c n request of
        Inl e \<Rightarrow> Some (Inl e, Suc n)
      | Inr response \<Rightarrow>
          (let keys = keys @ listed_keys response; token = get response ''NextContinuationToken'' in
           if \<not> truthy (get response ''IsTruncated'') then Some (Inr (sort keys), Suc n)
           else if \<not> nonempty_str token then Some (raise ValueError ''truncated S3 listing has no continuation token'', Suc n)
           else list_s3_json_keys c (dict_set request ''ContinuationToken'' (the_str token)) keys (Suc n)))"

record version_entry =
  ve_key :: string
  ve_version :: string
  ve_latest :: bool

definition normalize_version :: "pyval \<Rightarrow> version_entry option" where
  "normalize_version v = (case json_key v of
       None \<Rightarrow> None
     | Some key \<Rightarrow> if nonempty_str (get (the_dict v) ''VersionId'')
         then Some \<lparr>ve_key = key, ve_version = the_str (get (the_dict v) ''VersionId''),
           ve_latest = (get (the_dict v) ''IsLatest'' = PBool True)\<rparr> else None)"

definition normalize_s3_version_entries :: "pyval \<Rightarrow> version_entry list" where
  "normalize_s3_version_entries v = (case v of PList entries \<Rightarrow> List.map_filter normalize_version entries | _ \<Rightarrow> [])"

definition sort_versions :: "version_entry list \<Rightarrow> version_entry list" where
  "sort_versions = sort_key (\<lambda>v. (ve_key v, ve_version v))"

definition next_version_request :: "(string \<times> string) list \<Rightarrow> pydict \<Rightarrow> (string \<times> string) list result" where
  "next_version_request request response =
     (let key_marker = get response ''NextKeyMarker''; version_marker = get response ''NextVersionIdMarker'' in
      if \<not> nonempty_str key_marker then raise ValueError ''truncated S3 version listing has no next key marker''
      else (let request = dict_set request ''KeyMarker'' (the_str key_marker) in
        Inr (if nonempty_str version_marker then dict_set request ''VersionIdMarker'' (the_str version_marker)
          else filter (\<lambda>(k, v). k \<noteq> ''VersionIdMarker'') request)))"

partial_function (option) list_s3_json_versions ::
    "audit_client \<Rightarrow> (string \<times> string) list \<Rightarrow> version_entry list \<Rightarrow> version_entry list \<Rightarrow> nat
     \<Rightarrow> ((version_entry list \<times> version_entry list) result \<times> nat) option"
where
  "list_s3_json_versions c request versions markers n =
     (case ac_versions c n request of
        Inl e \<Rightarrow> Some (Inl e, Suc n)
      | Inr response \<Rightarrow>
          (let versions = versions @ normalize_s3_version_entries (get response ''Versions'');
               markers = markers @ normalize_s3_version_entries (get response ''DeleteMarkers'') in
           if \<not> truthy (get response ''IsTruncated'') then Some (Inr (sort_versions versions, sort_versions markers), Suc n)
           else (case next_version_request request response of
               Inl e \<Rightarrow> Some (Inl e, Suc n)
             | Inr request \<Rightarrow> list_s3_json_versions c request versions markers (Suc n))))"

definition relative_s3_key :: "string \<Rightarrow> string \<Rightarrow> string" where
  "relative_s3_key key prefix = (if prefix = [] then key else remove_prefix (prefix @ ''/'') key)"

text \<open>\<open>response["Body"].read()\<close>\<close>

definition body_of :: "got_object \<Rightarrow> string result" where
  "body_of response = (case go_body response of None \<Rightarrow> raise KeyError ''Body'' | Some r \<Rightarrow> r)"

definition metadata_sha :: "got_object \<Rightarrow> pyval" where
  "metadata_sha response = (if is_dict (go_metadata response) then get (the_dict (go_metadata response)) ''sha256'' else PNone)"

definition unreadable_object :: "exn_class \<Rightarrow> bool" where
  "unreadable_object k = (is_a k ClientError \<or> is_a k KeyError \<or> is_a k OSError \<or> is_a k UnicodeError)"

text \<open>The answer of a read, and the checksum of its metadata with the errors of its content.\<close>

definition read_object :: "got_object result \<Rightarrow> (got_object \<times> string) result" where
  "read_object answer = bindE answer (\<lambda>response. bindE (body_of response) (\<lambda>body. Inr (response, body)))"

definition s3_item :: "audit_client \<Rightarrow> string \<Rightarrow> got_object result \<Rightarrow> audit_item result" where
  "s3_item c relative_key answer =
     (case read_object answer of
        Inl e \<Rightarrow> if unreadable_object (class_of e)
          then Inr \<lparr>ai_path = relative_key, ai_status = ''invalid'',
            ai_errors = validate_layout relative_key @ [''cannot read object: '' @ error_text e]\<rparr> else Inl e
      | Inr (response, body) \<Rightarrow>
          bindE (audit_landing_content (ac_json c) relative_key body (metadata_sha response)) (\<lambda>verdict.
            Inr (if metadata_sha response \<noteq> PNone then verdict
              else \<lparr>ai_path = ai_path verdict, ai_status = ''invalid'',
                ai_errors = ai_errors verdict @ [''object metadata checksum is missing'']\<rparr>)))"

definition audit_s3_object :: "audit_client \<Rightarrow> string \<Rightarrow> string \<Rightarrow> audit_item audit_io" where
  "audit_s3_object c key relative_key n =
     Some (s3_item c relative_key (ac_get c n key None), Suc n)"

definition s3_root :: "string \<Rightarrow> string \<Rightarrow> string" where
  "s3_root bucket_name prefix = ''s3://'' @ bucket_name @ (if prefix \<noteq> [] then CHR ''/'' # prefix else [])"

definition audit_s3_landing :: "audit_client \<Rightarrow> string \<Rightarrow> string \<Rightarrow> audit_report audit_io" where
  "audit_s3_landing c bucket_name prefix =
     (if bucket_name = [] then raise_io ValueError ''bucket must not be empty''
      else (let normalized = strip_slash prefix in
        bind_io (list_s3_json_keys c (first_request bucket_name normalized) []) (\<lambda>keys.
        bind_io (mapM_io (\<lambda>key. audit_s3_object c key (relative_s3_key key normalized)) keys) (\<lambda>items.
          return_io \<lparr>ar_root = s3_root bucket_name normalized, ar_items = items\<rparr>))))"

section \<open>The versions of a bucket\<close>

record version_item =
  vi_item :: audit_item
  vi_version :: string
  vi_latest :: bool

record delete_marker =
  dm_path :: string
  dm_version :: string
  dm_latest :: bool

record version_report =
  vr_root :: string
  vr_items :: "version_item list"
  vr_markers :: "delete_marker list"

definition versions_valid :: "version_report \<Rightarrow> nat" where
  "versions_valid r = length (filter (\<lambda>v. ai_status (vi_item v) = ''valid'') (vr_items r))"

definition versions_invalid :: "version_report \<Rightarrow> nat" where
  "versions_invalid r = length (filter (\<lambda>v. ai_status (vi_item v) = ''invalid'') (vr_items r))"

definition versions_healthy :: "version_report \<Rightarrow> bool" where
  "versions_healthy r = (vr_items r \<noteq> [] \<and> versions_invalid r = 0)"

definition version_report_dict :: "version_report \<Rightarrow> pydict" where
  "version_report_dict r = [(''status'', PStr (if versions_healthy r then ''healthy'' else ''failed'')),
     (''root'', PStr (vr_root r)), (''total_versions'', PInt (int (length (vr_items r)))),
     (''valid'', PInt (int (versions_valid r))), (''invalid'', PInt (int (versions_invalid r))),
     (''delete_marker_count'', PInt (int (length (vr_markers r)))),
     (''items'', PList (map (\<lambda>v. PDict
        [(''path'', PStr (ai_path (vi_item v))), (''version_id'', PStr (vi_version v)), (''is_latest'', PBool (vi_latest v)),
         (''status'', PStr (ai_status (vi_item v))), (''errors'', PTuple (map PStr (ai_errors (vi_item v))))]) (vr_items r))),
     (''delete_markers'', PList (map (\<lambda>m. PDict
        [(''path'', PStr (dm_path m)), (''version_id'', PStr (dm_version m)), (''is_latest'', PBool (dm_latest m))]) (vr_markers r)))]"

text \<open>As \<open>s3_item\<close>, with the message of the version audit and its own status.\<close>

definition version_verdict :: "audit_client \<Rightarrow> string \<Rightarrow> got_object result \<Rightarrow> audit_item result" where
  "version_verdict c relative_key answer =
     (case read_object answer of
        Inl e \<Rightarrow> if unreadable_object (class_of e)
          then Inr \<lparr>ai_path = relative_key, ai_status = ''invalid'',
            ai_errors = validate_layout relative_key @ [''cannot read object version: '' @ error_text e]\<rparr> else Inl e
      | Inr (response, body) \<Rightarrow>
          bindE (audit_landing_content (ac_json c) relative_key body (metadata_sha response)) (\<lambda>verdict.
            let errors = ai_errors verdict @
              (if metadata_sha response = PNone then [''object metadata checksum is missing''] else []) in
            Inr \<lparr>ai_path = ai_path verdict, ai_status = (if errors = [] then ''valid'' else ''invalid''), ai_errors = errors\<rparr>))"

definition audit_s3_version :: "audit_client \<Rightarrow> string \<Rightarrow> version_entry \<Rightarrow> version_item audit_io" where
  "audit_s3_version c prefix v n =
     Some (bindE (version_verdict c (relative_s3_key (ve_key v) prefix) (ac_get c n (ve_key v) (Some (ve_version v)))) (\<lambda>verdict.
       Inr \<lparr>vi_item = verdict, vi_version = ve_version v, vi_latest = ve_latest v\<rparr>), Suc n)"

definition audit_s3_landing_versions :: "audit_client \<Rightarrow> string \<Rightarrow> string \<Rightarrow> version_report audit_io" where
  "audit_s3_landing_versions c bucket_name prefix =
     (if bucket_name = [] then raise_io ValueError ''bucket must not be empty''
      else (let normalized = strip_slash prefix in
        bind_io (list_s3_json_versions c (first_request bucket_name normalized) [] []) (\<lambda>(versions, markers).
        bind_io (mapM_io (audit_s3_version c normalized) versions) (\<lambda>items.
          return_io \<lparr>vr_root = s3_root bucket_name normalized, vr_items = items,
            vr_markers = map (\<lambda>m. \<lparr>dm_path = relative_s3_key (ve_key m) normalized, dm_version = ve_version m,
              dm_latest = ve_latest m\<rparr>) markers\<rparr>))))"

end
