(* ===== verification/Weather_Landing.thy ===== *)
theory Weather_Landing
  imports Weather_Audit Commerce_Landing
begin

text \<open>
  \<open>FileLandingZone\<close> of \<open>ingestion/landing.py\<close> and \<open>ingestion/s3_landing.py\<close>: a forecast is landed
  once, under a key that its content determines. The files below the root of the zone are a map from
  relative paths to bytes. Other processes may act before every call, and every call may fail; a
  write that fails leaves a prefix. Directories are not represented.
\<close>

section \<open>Files\<close>

type_synonym zone_files = "string \<Rightarrow> string option"

record zone_env =
  ze_before :: "nat \<Rightarrow> zone_files \<Rightarrow> zone_files"
  ze_fault :: "nat \<Rightarrow> exn_class option"
  ze_random :: "nat \<Rightarrow> string"
  ze_partial :: "nat \<Rightarrow> nat"
  ze_json :: "string \<Rightarrow> pyval result"
  ze_now :: pydt

record zone_world =
  zw_tick :: nat
  zw_files :: zone_files

type_synonym 'a zone_io = "(pyexn, 'a, zone_world) act"

text \<open>A call that fails with \<open>broken\<close> done, or does \<open>f\<close>; \<open>n\<close> is the number of calls before.\<close>

definition zone_call :: "zone_env \<Rightarrow> (nat \<Rightarrow> zone_files \<Rightarrow> zone_files) \<Rightarrow>
    (nat \<Rightarrow> zone_files \<Rightarrow> 'a result \<times> zone_files) \<Rightarrow> 'a zone_io" where
  "zone_call env broken f w =
     (let n = zw_tick w; s = ze_before env n (zw_files w);
          (r, s') = (case ze_fault env n of Some k \<Rightarrow> (raise k [], broken n s) | None \<Rightarrow> f n s)
      in Some (r, \<lparr>zw_tick = Suc n, zw_files = s'\<rparr>))"

definition unchanged :: "nat \<Rightarrow> zone_files \<Rightarrow> zone_files" where
  "unchanged n s = s"

definition make_parents :: "zone_env \<Rightarrow> unit zone_io" where
  "make_parents env = zone_call env unchanged (\<lambda>n s. (Inr (), s))"

definition path_exists :: "zone_env \<Rightarrow> string \<Rightarrow> bool zone_io" where
  "path_exists env path = zone_call env unchanged (\<lambda>n s. (Inr (s path \<noteq> None), s))"

definition read_file :: "zone_env \<Rightarrow> string \<Rightarrow> string zone_io" where
  "read_file env path = zone_call env unchanged (\<lambda>n s.
     (case s path of None \<Rightarrow> raise OSError [] | Some content \<Rightarrow> Inr content, s))"

text \<open>\<open>tempfile.mkstemp\<close> opens a new file of its own: the name is taken only if the random part clashes.\<close>

definition temporary_name :: "string \<Rightarrow> string \<Rightarrow> string \<Rightarrow> string" where
  "temporary_name dest checksum random =
     join ''/'' (butlast (path_names dest) @ [CHR ''.'' # checksum @ CHR ''.'' # random @ ''.tmp''])"

definition make_temporary :: "zone_env \<Rightarrow> string \<Rightarrow> string \<Rightarrow> string zone_io" where
  "make_temporary env dest checksum = zone_call env unchanged (\<lambda>n s.
     let temp = temporary_name dest checksum (ze_random env n) in
     if s temp \<noteq> None then (raise FileExistsError [], s) else (Inr temp, s(temp \<mapsto> [])))"

text \<open>Write, flush, \<open>fsync\<close> and close.\<close>

definition write_temporary :: "zone_env \<Rightarrow> string \<Rightarrow> string \<Rightarrow> unit zone_io" where
  "write_temporary env temp body =
     zone_call env (\<lambda>n s. if s temp = None then s else s(temp \<mapsto> take (ze_partial env n) body))
       (\<lambda>n s. (Inr (), if s temp = None then s else s(temp \<mapsto> body)))"

definition link_file :: "zone_env \<Rightarrow> string \<Rightarrow> string \<Rightarrow> unit zone_io" where
  "link_file env source dest = zone_call env unchanged (\<lambda>n s.
     case s source of None \<Rightarrow> (raise OSError [], s)
     | Some content \<Rightarrow> if s dest \<noteq> None then (raise FileExistsError [], s) else (Inr (), s(dest \<mapsto> content)))"

definition unlink_file :: "zone_env \<Rightarrow> string \<Rightarrow> unit zone_io" where
  "unlink_file env path = zone_call env unchanged (\<lambda>n s.
     if s path = None then (raise OSError [], s) else (Inr (), s(path := None)))"

section \<open>The landing zone of files\<close>

record weather_result =
  wl_path :: string
  wl_checksum :: string
  wl_created :: bool

definition verified_replay :: "zone_env \<Rightarrow> landing_object \<Rightarrow> weather_result zone_io" where
  "verified_replay env obj =
     (let dest = as_posix (lo_key obj) in
      bind_io (catch_io (read_file env dest) (\<lambda>k. is_a k OSError)
        (\<lambda>_. raise_io ValueError (''existing filesystem object is unreadable: '' @ dest))) (\<lambda>existing_body.
      bind_io (lift_io (audit_landing_content (ze_json env) (lo_key obj) existing_body PNone)) (\<lambda>verdict.
        if ai_status verdict \<noteq> ''valid''
        then raise_io ValueError (''existing filesystem object conflicts with forecast: '' @ dest @ ''; '' @
          join ''; '' (ai_errors verdict))
        else return_io \<lparr>wl_path = dest, wl_checksum = lo_checksum obj, wl_created = False\<rparr>)))"

text \<open>\<open>os.path.exists\<close> answers no when the call fails.\<close>

definition discard_temporary :: "zone_env \<Rightarrow> string \<Rightarrow> unit zone_io" where
  "discard_temporary env temp =
     bind_io (catch_io (path_exists env temp) (\<lambda>k. is_a k OSError \<or> is_a k ValueError) (\<lambda>_. return_io False)) (\<lambda>there.
       if there then unlink_file env temp else return_io ())"

text \<open>The result of a replay when another writer was first, None when the object was published.\<close>

definition publish :: "zone_env \<Rightarrow> landing_object \<Rightarrow> string \<Rightarrow> string \<Rightarrow> weather_result option zone_io" where
  "publish env obj dest temp =
     bind_io (write_temporary env temp (lo_body obj)) (\<lambda>_.
       catch_io (bind_io (link_file env temp dest) (\<lambda>_. return_io None)) (\<lambda>k. is_a k FileExistsError)
         (\<lambda>_. bind_io (verified_replay env obj) (\<lambda>replay. return_io (Some replay))))"

definition write_forecast :: "zone_env \<Rightarrow> weather_payload \<Rightarrow> pydt option \<Rightarrow> weather_result zone_io" where
  "write_forecast env payload ingested_at =
     bind_io (lift_io (prepare_landing_object (ze_now env) payload ingested_at)) (\<lambda>obj.
     let dest = as_posix (lo_key obj) in
     bind_io (make_parents env) (\<lambda>_.
     bind_io (path_exists env dest) (\<lambda>there.
     if there then verified_replay env obj
     else bind_io (make_temporary env dest (lo_checksum obj)) (\<lambda>temp.
       bind_io (finally_io (publish env obj dest temp) (discard_temporary env temp)) (\<lambda>replay.
         case replay of Some r \<Rightarrow> return_io r
         | None \<Rightarrow> return_io \<lparr>wl_path = dest, wl_checksum = lo_checksum obj, wl_created = True\<rparr>)))))"

section \<open>The landing zone in a bucket\<close>

definition make_s3_zone :: "string \<Rightarrow> string \<Rightarrow> landing_zone result" where
  "make_s3_zone bucket_name prefix =
     (if bucket_name = [] then raise ValueError ''bucket must not be empty''
      else Inr \<lparr>lz_bucket = bucket_name, lz_prefix = strip_slash prefix\<rparr>)"

definition s3_object_of :: "landing_object \<Rightarrow> s3_object" where
  "s3_object_of obj = \<lparr>so_body = lo_body obj,
     so_metadata = [(''sha256'', lo_checksum obj), (''source'', ''open_meteo'')], so_type = ''application/json''\<rparr>"

definition verify_existing_forecast :: "landing_env \<Rightarrow> landing_object \<Rightarrow> string \<Rightarrow> s3_read \<Rightarrow> bool result" where
  "verify_existing_forecast env obj key existing =
     bindE (sr_body existing) (\<lambda>body.
       let checksum = (case sr_sha existing of None \<Rightarrow> PNone | Some s \<Rightarrow> PStr s) in
       bindE (audit_landing_content (le_json env) (lo_key obj) body checksum) (\<lambda>verdict.
         if checksum \<noteq> PStr (lo_checksum obj) \<or> ai_status verdict \<noteq> ''valid''
         then raise ValueError (''existing S3 object conflicts with forecast: '' @ key) else Inr False))"

definition write_s3_forecast :: "landing_env \<Rightarrow> landing_zone \<Rightarrow> pydt \<Rightarrow> weather_payload \<Rightarrow> pydt option \<Rightarrow> weather_result landing" where
  "write_s3_forecast env z now payload ingested_at =
     bind_io (lift_io (prepare_landing_object now payload ingested_at)) (\<lambda>obj.
     let key = join ''/'' (filter (\<lambda>part. part \<noteq> []) [lz_prefix z, lo_key obj]) in
     bind_io (bind_io (s3_put env key (s3_object_of obj)) (\<lambda>answer. case answer of
         Stored \<Rightarrow> return_io True
       | PutFault e \<Rightarrow> lift_io (Inl e)
       | Refused status code \<Rightarrow> if \<not> precondition_failed status code then raise_io ClientError []
           else bind_io (s3_get env key) (\<lambda>existing. lift_io (verify_existing_forecast env obj key existing)))) (\<lambda>created.
       return_io \<lparr>wl_path = ''s3://'' @ lz_bucket z @ ''/'' @ key, wl_checksum = lo_checksum obj, wl_created = created\<rparr>))"

end
