(* ===== verification/Weather_Batch.thy ===== *)
theory Weather_Batch
  imports Weather_Landing
begin

text \<open>
  \<open>ingestion/batch.py\<close>: the manifest of locations and the run over all of them in a pool of threads.
  The futures complete in an arbitrary order, which is an argument, as is what each of them returns.
  The line and column of a decoding error are left out.
\<close>

section \<open>The manifest of locations\<close>

definition max_locations :: nat where
  "max_locations = 100"

definition manifest_failure :: "string \<Rightarrow> 'a result" where
  "manifest_failure m = raise LocationManifestError m"

definition is_number :: "pyval \<Rightarrow> bool" where
  "is_number v = (case v of PInt i \<Rightarrow> True | PFloat x \<Rightarrow> True | _ \<Rightarrow> False)"

text \<open>\<open>float(v)\<close> of a number; an integer out of range is an \<open>OverflowError\<close>.\<close>

definition float_of_number :: "pyval \<Rightarrow> pyval result" where
  "float_of_number v = (case v of
       PInt i \<Rightarrow> (case float_of_rat (of_int i) of
           Fin q \<Rightarrow> Inr (PFloat (Fin q)) | _ \<Rightarrow> raise OverflowError ''int too large to convert to float'')
     | _ \<Rightarrow> Inr v)"

definition entry_field :: "nat \<Rightarrow> string" where
  "entry_field index = ''locations['' @ dec_nat index @ '']''"

definition parse_location :: "nat \<Rightarrow> pyval \<Rightarrow> location result" where
  "parse_location index v =
     (let d = the_dict v; name = get d ''name''; latitude = get d ''latitude''; longitude = get d ''longitude'' in
      if \<not> is_dict v then manifest_failure (entry_field index @ '' must be an object'')
      else if \<not> is_str name then manifest_failure (entry_field index @ ''.name must be a string'')
      else if \<not> is_number latitude then manifest_failure (entry_field index @ ''.latitude must be a number'')
      else if \<not> is_number longitude then manifest_failure (entry_field index @ ''.longitude must be a number'')
      else catchE (bindE (float_of_number latitude) (\<lambda>lat. bindE (float_of_number longitude) (\<lambda>long.
          make_location (the_str name) lat long)))
        (\<lambda>k. is_a k ValueError) (\<lambda>e. manifest_failure (entry_field index @ '': '' @ message_of e)))"

fun add_locations :: "nat \<Rightarrow> pyval list \<Rightarrow> location list \<Rightarrow> location list result" where
  "add_locations index [] locations = Inr locations"
| "add_locations index (v # vs) locations =
     bindE (parse_location index v) (\<lambda>l.
       if lc_name l \<in> lc_name ` set locations then manifest_failure (''duplicate location name: '' @ lc_name l)
       else add_locations (Suc index) vs (locations @ [l]))"

definition manifest_locations :: "pyval \<Rightarrow> location list result" where
  "manifest_locations document =
     (let entries = get (the_dict document) ''locations'' in
      if \<not> is_dict document \<or> \<not> is_list entries then manifest_failure (''location manifest must contain a '' @ in_quotes ''locations'' @ '' array'')
      else if elems entries = [] then manifest_failure ''location manifest must contain at least one location''
      else if max_locations < length (elems entries)
      then manifest_failure (''location manifest cannot exceed '' @ dec_nat max_locations @ '' locations'')
      else add_locations 0 (elems entries) [])"

text \<open>\<open>read_text\<close> and \<open>json.loads\<close> are the arguments.\<close>

definition load_location_manifest :: "string result \<Rightarrow> (string \<Rightarrow> pyval result) \<Rightarrow> location list result" where
  "load_location_manifest text_of_file json =
     bindE (case bindE text_of_file json of
         Inr document \<Rightarrow> Inr document
       | Inl e \<Rightarrow> if is_a (class_of e) OSError then manifest_failure (''cannot read location manifest: '' @ message_of e)
           else if is_a (class_of e) JSONDecodeError then manifest_failure ''location manifest is not valid JSON''
           else Inl e) manifest_locations"

section \<open>The run\<close>

record batch_item =
  bi_location :: string
  bi_status :: string
  bi_path :: "string option"
  bi_checksum :: "string option"
  bi_error :: "string option"

text \<open>What a future returned: the names of exception classes are the argument \<open>type_name\<close>. An exception
  that is no \<open>Exception\<close> ends the run.\<close>

definition batch_item_of :: "(exn_class \<Rightarrow> string) \<Rightarrow> location \<Rightarrow> weather_result result \<Rightarrow> batch_item result" where
  "batch_item_of type_name location answer =
     (case answer of
        Inr landing \<Rightarrow> Inr \<lparr>bi_location = lc_name location, bi_status = (if wl_created landing then ''created'' else ''duplicate''),
          bi_path = Some (wl_path landing), bi_checksum = Some (wl_checksum landing), bi_error = None\<rparr>
      | Inl e \<Rightarrow> if class_of e = KeyboardInterrupt then Inl e
          else Inr \<lparr>bi_location = lc_name location, bi_status = ''failed'', bi_path = None, bi_checksum = None,
            bi_error = Some (type_name (class_of e) @ '': '' @ error_text e)\<rparr>)"

fun collect_results :: "(exn_class \<Rightarrow> string) \<Rightarrow> location list \<Rightarrow> (nat \<Rightarrow> weather_result result) \<Rightarrow> nat list \<Rightarrow>
    batch_item option list \<Rightarrow> batch_item option list result" where
  "collect_results type_name locations answer [] results = Inr results"
| "collect_results type_name locations answer (index # rest) results =
     bindE (batch_item_of type_name (locations ! index) (answer index)) (\<lambda>found.
       collect_results type_name locations answer rest (results[index := Some found]))"

text \<open>\<open>completed\<close> lists the indices of the futures as they complete.\<close>

definition run_batch :: "(exn_class \<Rightarrow> string) \<Rightarrow> location list \<Rightarrow> (nat \<Rightarrow> weather_result result) \<Rightarrow> nat list \<Rightarrow> int \<Rightarrow> batch_item list result" where
  "run_batch type_name locations answer completed max_workers =
     (if locations = [] then raise ValueError ''locations must not be empty''
      else if \<not> (1 \<le> max_workers \<and> max_workers \<le> 16) then raise ValueError ''max_workers must be between 1 and 16''
      else bindE (collect_results type_name locations answer completed (replicate (length locations) None)) (\<lambda>results.
        Inr (List.map_filter id results)))"

definition items_with :: "(string \<Rightarrow> bool) \<Rightarrow> batch_item list \<Rightarrow> nat" where
  "items_with p items = length (filter (\<lambda>x. p (bi_status x)) items)"

definition batch_succeeded :: "batch_item list \<Rightarrow> nat" where
  "batch_succeeded items = items_with (\<lambda>s. s \<noteq> ''failed'') items"

definition batch_failed :: "batch_item list \<Rightarrow> nat" where
  "batch_failed items = items_with (\<lambda>s. s = ''failed'') items"

definition batch_created :: "batch_item list \<Rightarrow> nat" where
  "batch_created items = items_with (\<lambda>s. s = ''created'') items"

definition batch_duplicates :: "batch_item list \<Rightarrow> nat" where
  "batch_duplicates items = items_with (\<lambda>s. s = ''duplicate'') items"

definition str_or_none :: "string option \<Rightarrow> pyval" where
  "str_or_none v = (case v of None \<Rightarrow> PNone | Some s \<Rightarrow> PStr s)"

definition batch_item_dict :: "batch_item \<Rightarrow> pyval" where
  "batch_item_dict x = PDict [(''location'', PStr (bi_location x)), (''status'', PStr (bi_status x)),
     (''path'', str_or_none (bi_path x)), (''checksum'', str_or_none (bi_checksum x)), (''error'', str_or_none (bi_error x))]"

definition batch_report_dict :: "batch_item list \<Rightarrow> pydict" where
  "batch_report_dict items = [(''total'', PInt (int (length items))), (''succeeded'', PInt (int (batch_succeeded items))),
     (''failed'', PInt (int (batch_failed items))), (''created'', PInt (int (batch_created items))),
     (''duplicates'', PInt (int (batch_duplicates items))), (''items'', PList (map batch_item_dict items))]"

end
