(* ===== verification/Weather_Properties.thy ===== *)
theory Weather_Properties
  imports Weather_Batch
begin

text \<open>
  What the weather path promises: a landed forecast passes the audit, a landing zone never holds a
  part of one, a fetch ends and a batch accounts for every location.
\<close>

section \<open>Documents that are written and read back\<close>

lemma sort_key_map_snd:
  "sort_key fst (map (\<lambda>(k, v). (k, f v)) d) = map (\<lambda>(k, v). (k, f v)) (sort_key fst d)"
proof -
  have step: "insort_key fst (k, f v) (map (\<lambda>(k, v). (k, f v)) d) = map (\<lambda>(k, v). (k, f v)) (insort_key fst (k, v) d)" for k v d
    by (induction d) auto
  show ?thesis by (induction d) (auto simp: step)
qed

lemma json_compact_dict_cong:
  "map (\<lambda>(k, v). (k, json_compact v)) d = map (\<lambda>(k, v). (k, json_compact v)) e \<Longrightarrow>
    json_compact (PDict d) = json_compact (PDict e)"
  by simp

lemma json_compact_sort: "json_compact (PDict (sort_key fst d)) = json_compact (PDict d)"
  by (simp add: sort_key_map_snd sort_key_id_if_sorted)

lemma json_compact_reload: "json_compact (json_reload v) = json_compact v"
proof (induction v rule: json_reload.induct)
  case (8 d)
  have "json_compact (json_reload (PDict d)) = json_compact (PDict (map (\<lambda>(k, v). (k, json_reload v)) d))"
    by (simp only: json_reload_dict reload_dict_def json_compact_sort)
  also have "\<dots> = json_compact (PDict d)"
    by (rule json_compact_dict_cong) (use 8 in auto)
  finally show ?case .
qed (simp_all cong: map_cong)

lemma reload_dict_filter:
  "filter (\<lambda>(k, v). k \<noteq> x) (reload_dict d) = reload_dict (filter (\<lambda>(k, v). k \<noteq> x) d)"
  by (simp add: reload_dict_def filter_map filter_sort comp_def case_prod_unfold)

section \<open>Names\<close>

lemma replace_one: "replace [a] [b] s = map (\<lambda>c. if c = a then b else c) s"
  unfolding replace_char by (induction s) simp_all

lemma lower_latin_idem: "lower_latin (lower_latin c) = lower_latin c"
proof -
  have "(of_char c :: nat) < 256" by (metis of_char_of nat_of_char_less_256)
  then show ?thesis by (simp add: lower_latin_def Let_def of_char_mod_256)
qed

lemma name_char_not_space: "is_name_char c \<Longrightarrow> \<not> is_space c"
  by (auto simp: is_name_char_def is_alnum_def is_space_def Let_def)

lemma strip_name: "list_all is_name_char s \<Longrightarrow> strip s = s"
proof -
  assume "list_all is_name_char s"
  then have "\<forall>c \<in> set s. \<not> is_space c" by (auto simp: list_all_iff name_char_not_space)
  then have "dropWhile is_space s = s" "dropWhile is_space (rev s) = rev s"
    by (auto simp: dropWhile_eq_self_iff hd_in_set hd_rev)
  then show ?thesis by (simp add: strip_def strip_chars_def)
qed

lemma normalized_name_idem:
  assumes "list_all is_name_char (normalized_name name)"
  shows "normalized_name (normalized_name name) = normalized_name name"
proof -
  let ?dash = "\<lambda>c. if c = CHR '' '' then CHR ''-'' else c"
  obtain s where n: "normalized_name name = map (?dash \<circ> lower_latin) s"
    by (simp add: normalized_name_def replace_one)
  have "lower_latin (CHR ''-'') = CHR ''-''" "CHR '' '' \<noteq> CHR ''-''" by (simp_all add: lower_latin_def Let_def)
  then have "(?dash \<circ> lower_latin) ((?dash \<circ> lower_latin) c) = (?dash \<circ> lower_latin) c" for c
    by (simp add: lower_latin_idem)
  then have "map (?dash \<circ> lower_latin) (normalized_name name) = normalized_name name"
    unfolding n by simp
  then show ?thesis using strip_name [OF assms] by (subst normalized_name_def) (simp add: replace_one comp_def)
qed

lemma make_location_Inr:
  assumes "make_location name latitude longitude = Inr l"
  shows "lc_name l \<noteq> []" "list_all is_name_char (lc_name l)" "lc_latitude l = latitude" "lc_longitude l = longitude"
    "num_of latitude \<noteq> None" "num_of longitude \<noteq> None" "make_location (lc_name l) latitude longitude = Inr l"
proof -
  have n: "lc_name l = normalized_name name" "normalized_name name \<noteq> []" "list_all is_name_char (normalized_name name)"
    and deg: "within_degrees 90 latitude = Inr True" "within_degrees 180 longitude = Inr True"
    and f: "lc_latitude l = latitude" "lc_longitude l = longitude"
    using assms by (auto simp: make_location_def Let_def result_simps split: if_splits)
  show "lc_name l \<noteq> []" "list_all is_name_char (lc_name l)" "lc_latitude l = latitude" "lc_longitude l = longitude"
    using n f by simp_all
  show "num_of latitude \<noteq> None" "num_of longitude \<noteq> None"
    using deg by (auto simp: within_degrees_def split: option.splits)
  show "make_location (lc_name l) latitude longitude = Inr l"
    using assms n normalized_name_idem [OF n(3)] by (simp add: make_location_def Let_def)
qed

lemma json_reload_number: "num_of v \<noteq> None \<Longrightarrow> json_reload v = v"
  by (cases v) auto

section \<open>Keys\<close>

lemma split_char_none: "d \<notin> set a \<Longrightarrow> split_char d a = [a]"
  by (induction a) auto

lemma split_char_part: "d \<notin> set a \<Longrightarrow> split_char d (a @ d # s) = a # split_char d s"
  by (induction a) auto

lemma slash_free_name: "list_all is_name_char s \<Longrightarrow> CHR ''/'' \<notin> set s"
  by (auto simp: list_all_iff is_name_char_def is_alnum_def Let_def)

lemma slash_free_hex: "is_hex n s \<Longrightarrow> CHR ''/'' \<notin> set s \<and> CHR ''.'' \<notin> set s"
  by (auto simp: is_hex_def list_all_iff is_hex_char_def Let_def)

lemma slash_free_digits: "CHR ''/'' \<notin> set (pad_nat k n)"
  using pad_nat_digits [of k n] by (auto simp: list_all_iff is_ascii_digit_def Let_def)

lemma slash_free_date: "CHR ''/'' \<notin> set (iso_date us)"
  by (simp add: iso_date_def slash_free_digits split: prod.split)

lemma checksum_hex: "is_hex 64 (calculate_object_checksum p)"
  by (simp add: calculate_object_checksum_def Let_def sha256_hex_hex)

text \<open>Paths of the form of a key.\<close>

definition key_of :: "string \<Rightarrow> string \<Rightarrow> string \<Rightarrow> string" where
  "key_of date name checksum =
     ''source=open_meteo'' @ CHR ''/'' # (''ingest_date='' @ date) @ CHR ''/'' # (''location='' @ name) @
     CHR ''/'' # checksum @ ''.json''"

lemma object_key_of: "object_key p t = key_of (iso_date (dt_local t)) (lc_name (wp_location p)) (calculate_object_checksum p)"
  by (simp add: object_key_def key_of_def)

lemma key_of_path:
  assumes "CHR ''/'' \<notin> set date" "CHR ''/'' \<notin> set name" "is_hex 64 checksum"
  shows "path_root (key_of date name checksum) = []"
    "path_names (key_of date name checksum) =
      [''source=open_meteo'', ''ingest_date='' @ date, ''location='' @ name, checksum @ ''.json'']"
    "as_posix (key_of date name checksum) = key_of date name checksum"
    "path_stem (key_of date name checksum) = checksum"
proof -
  have h: "CHR ''/'' \<notin> set checksum" "CHR ''.'' \<notin> set checksum" "length checksum = 64"
    using slash_free_hex [OF assms(3)] is_hex_length [OF assms(3)] by auto
  show root: "path_root (key_of date name checksum) = []"
    by (simp add: path_root_def key_of_def)
  have split: "split_char (CHR ''/'') (key_of date name checksum) =
      [''source=open_meteo'', ''ingest_date='' @ date, ''location='' @ name, checksum @ ''.json'']"
  proof -
    have a: "CHR ''/'' \<notin> set ''source=open_meteo''" "CHR ''/'' \<notin> set (''ingest_date='' @ date)"
      "CHR ''/'' \<notin> set (''location='' @ name)" "CHR ''/'' \<notin> set (checksum @ ''.json'')"
      using assms h by simp_all
    show ?thesis unfolding key_of_def
      by (simp only: split_char_part [OF a(1)] split_char_part [OF a(2)] split_char_part [OF a(3)] split_char_none [OF a(4)])
  qed
  have ne: "checksum @ ''.json'' \<noteq> ''.''" by auto
  show names: "path_names (key_of date name checksum) =
      [''source=open_meteo'', ''ingest_date='' @ date, ''location='' @ name, checksum @ ''.json'']"
    using ne by (simp add: path_names_def split)
  show "as_posix (key_of date name checksum) = key_of date name checksum"
    using root names join_split_char [of "CHR ''/''" "key_of date name checksum"]
    by (simp add: as_posix_def path_parts_def split)
  have "takeWhile (\<lambda>c. c \<noteq> CHR ''.'') (rev (checksum @ ''.json'')) = rev ''json''" by simp
  then show "path_stem (key_of date name checksum) = checksum"
    using h by (simp add: path_stem_def names stem_of_name_def Let_def)
qed

section \<open>The landed object\<close>

lemma payload_Inr:
  assumes "payload_from_source l d = Inr p"
  shows "wp_location p = l" "wp_source p = d"
  using assms by (auto simp: payload_from_source_def result_simps split: pyval.splits if_splits)

lemma check_series_reload: "check_series hourly n name = Inr u \<Longrightarrow> check_series (reload_dict hourly) n name = Inr u"
  by (cases "get hourly name") (auto simp: check_series_def split: if_splits)

lemma payload_reload:
  assumes "payload_from_source l d = Inr p"
  shows "payload_from_source l (reload_dict d) = Inr \<lparr>wp_location = l, wp_source = reload_dict d\<rparr>"
proof -
  obtain hourly hours us where h: "get d ''hourly'' = PDict hourly" "get hourly ''time'' = PList hours" "hours \<noteq> []"
    and s: "mapE (check_series hourly (length hours)) required_series = Inr us"
    using assms by (auto simp: payload_from_source_def result_simps split: pyval.splits if_splits)
  have "mapE (check_series (reload_dict hourly) (length hours)) required_series = Inr us"
    using s unfolding mapE_Inr_iff by (rule list_all2_mono) (rule check_series_reload)
  then show ?thesis using h by (simp add: payload_from_source_def)
qed

lemma checksum_reload:
  "calculate_object_checksum \<lparr>wp_location = l, wp_source = reload_dict d\<rparr> =
     calculate_object_checksum \<lparr>wp_location = l, wp_source = d\<rparr>"
proof -
  let ?stable = "filter (\<lambda>(k, v). k \<noteq> ''generationtime_ms'')"
  have "json_compact (PDict (reload_dict x)) = json_compact (PDict x)" for x
    using json_compact_reload [of "PDict x"] by simp
  then have "json_compact (PDict (?stable (reload_dict d))) = json_compact (PDict (?stable d))"
    by (simp only: reload_dict_filter)
  then have "json_compact (PDict [(a, b), (c, e), (k, PDict (?stable (reload_dict d)))]) =
      json_compact (PDict [(a, b), (c, e), (k, PDict (?stable d))])" for a b c e k
    by (intro json_compact_dict_cong) simp
  then show ?thesis by (simp only: calculate_object_checksum_def Let_def weather_payload.simps)
qed

lemma prepare_Inr:
  "prepare_landing_object now p t = Inr obj \<longleftrightarrow> (\<exists>u. is_aware (case t of None \<Rightarrow> now | Some t \<Rightarrow> t) \<and>
     to_utc (case t of None \<Rightarrow> now | Some t \<Rightarrow> t) = Inr u \<and>
     obj = \<lparr>lo_key = object_key p u, lo_checksum = calculate_object_checksum p,
       lo_body = utf8 (json_compact (PDict (landing_document p u)))\<rparr>)"
  by (auto simp: prepare_landing_object_def Let_def result_simps)

lemma to_utc_Inr: "to_utc t = Inr u \<Longrightarrow> fromisoformat (isoformat u) = Some u \<and> is_aware u"
  by (auto simp: to_utc_def is_aware_def split: if_splits intro!: fromisoformat_isoformat)

text \<open>The decoder returns the document of the landed body, as \<open>json.loads\<close> does for what \<open>json.dumps\<close>
  wrote.\<close>

definition reads_back :: "(string \<Rightarrow> pyval result) \<Rightarrow> weather_payload \<Rightarrow> pydt \<Rightarrow> bool" where
  "reads_back json p u \<longleftrightarrow> json (utf8 (json_compact (PDict (landing_document p u)))) =
     Inr (json_reload (PDict (landing_document p u)))"

definition located :: "string \<Rightarrow> pyval \<Rightarrow> pyval \<Rightarrow> pydict \<Rightarrow> weather_payload \<Rightarrow> bool" where
  "located name latitude longitude source p \<longleftrightarrow>
     bindE (make_location name latitude longitude) (\<lambda>l. payload_from_source l source) = Inr p"

lemma located_facts:
  assumes "located name latitude longitude source p"
  shows "lc_name (wp_location p) \<noteq> []" "list_all is_name_char (lc_name (wp_location p))"
    "json_reload (lc_latitude (wp_location p)) = lc_latitude (wp_location p)"
    "json_reload (lc_longitude (wp_location p)) = lc_longitude (wp_location p)"
    "make_location (lc_name (wp_location p)) (lc_latitude (wp_location p)) (lc_longitude (wp_location p)) = Inr (wp_location p)"
    "payload_from_source (wp_location p) (wp_source p) = Inr p"
proof -
  obtain l where l: "make_location name latitude longitude = Inr l" and s: "payload_from_source l source = Inr p"
    using assms by (auto simp: located_def result_simps)
  note m = make_location_Inr [OF l] and q = payload_Inr [OF s]
  show "lc_name (wp_location p) \<noteq> []" "list_all is_name_char (lc_name (wp_location p))"
    using m q by simp_all
  show "json_reload (lc_latitude (wp_location p)) = lc_latitude (wp_location p)"
    "json_reload (lc_longitude (wp_location p)) = lc_longitude (wp_location p)"
    using m q json_reload_number by metis+
  show "make_location (lc_name (wp_location p)) (lc_latitude (wp_location p)) (lc_longitude (wp_location p)) = Inr (wp_location p)"
    using m q by simp
  show "payload_from_source (wp_location p) (wp_source p) = Inr p" using s q by simp
qed

definition ingestion_of :: "weather_payload \<Rightarrow> pydt \<Rightarrow> pydict" where
  "ingestion_of p u = [(''source'', PStr ''open_meteo''), (''ingested_at'', PStr (isoformat u)),
     (''location'', location_dict (wp_location p)), (''object_checksum'', PStr (calculate_object_checksum p))]"

lemma document_parts: "get (landing_document p u) ''ingestion'' = PDict (ingestion_of p u)"
  "get (landing_document p u) ''payload'' = PDict (wp_source p)"
  by (simp_all add: landing_document_def get_simps ingestion_of_def)

lemma payload_of_landed_document:
  assumes "located name latitude longitude source p"
  shows "payload_of_document (json_reload (location_dict (wp_location p))) (reload_dict (wp_source p)) =
    Inr \<lparr>wp_location = wp_location p, wp_source = reload_dict (wp_source p)\<rparr>"
proof -
  note f = located_facts [OF assms]
  have g: "get (reload_dict [(''name'', PStr n), (''latitude'', a), (''longitude'', b)]) ''name'' = PStr n"
    "item (reload_dict [(''name'', PStr n), (''latitude'', a), (''longitude'', b)]) ''latitude'' = Inr (json_reload a)"
    "item (reload_dict [(''name'', PStr n), (''latitude'', a), (''longitude'', b)]) ''longitude'' = Inr (json_reload b)" for n a b
    by (simp_all add: get_simps item_eq_Inr)
  show ?thesis
    by (simp add: payload_of_document_def location_dict_def g f payload_reload get_simps)
qed

lemma validate_landed_document:
  assumes "located name latitude longitude source p" "to_utc t = Inr u"
    "md = PNone \<or> md = PStr (calculate_object_checksum p)"
  shows "validate_document (object_key p u) (reload_dict (ingestion_of p u)) (reload_dict (wp_source p)) md = Inr []"
proof -
  note f = located_facts [OF assms(1)]
  have c: "calculate_object_checksum \<lparr>wp_location = wp_location p, wp_source = reload_dict (wp_source p)\<rparr> =
      calculate_object_checksum p"
    using checksum_reload [of "wp_location p" "wp_source p"] by (cases p) simp
  have k: "path_root (object_key p u) = []"
    "path_names (object_key p u) = [''source=open_meteo'', ''ingest_date='' @ iso_date (dt_local u),
      ''location='' @ lc_name (wp_location p), calculate_object_checksum p @ ''.json'']"
    "path_stem (object_key p u) = calculate_object_checksum p"
    unfolding object_key_of
    by (rule key_of_path [OF slash_free_date slash_free_name [OF f(2)] checksum_hex])+
  have g: "get (ingestion_of p u) ''source'' = PStr ''open_meteo''"
    "get (ingestion_of p u) ''ingested_at'' = PStr (isoformat u)"
    "get (ingestion_of p u) ''location'' = location_dict (wp_location p)"
    "get (ingestion_of p u) ''object_checksum'' = PStr (calculate_object_checksum p)"
    by (simp_all add: ingestion_of_def get_simps)
  show ?thesis
    using payload_of_landed_document [OF assms(1)] to_utc_Inr [OF assms(2)] assms(3)
    by (auto simp: validate_document_def Let_def g c k path_parts_def ingestion_date_errors_def py_str_def)
qed

lemma audit_landed_object:
  assumes "located name latitude longitude source p" "to_utc t = Inr u" "reads_back json p u"
    "md = PNone \<or> md = PStr (calculate_object_checksum p)"
  shows "audit_landing_content json (object_key p u) (utf8 (json_compact (PDict (landing_document p u)))) md =
    Inr \<lparr>ai_path = object_key p u, ai_status = ''valid'', ai_errors = []\<rparr>"
proof -
  note f = located_facts [OF assms(1)]
  have k: "path_root (object_key p u) = []"
    "path_names (object_key p u) = [''source=open_meteo'', ''ingest_date='' @ iso_date (dt_local u),
      ''location='' @ lc_name (wp_location p), calculate_object_checksum p @ ''.json'']"
    "as_posix (object_key p u) = object_key p u"
    unfolding object_key_of
    by (rule key_of_path [OF slash_free_date slash_free_name [OF f(2)] checksum_hex])+
  have "validate_layout (object_key p u) = []"
    by (simp add: validate_layout_def path_parts_def k)
  then show ?thesis
    using assms(3) validate_landed_document [OF assms(1,2,4)]
    by (simp add: audit_landing_content_def reads_back_def document_parts audit_verdict_def k)
qed

lemma audit_content_cong:
  "json content = json' content' \<Longrightarrow> audit_landing_content json path content md = audit_landing_content json' path content' md"
  by (simp add: audit_landing_content_def)

text \<open>What a valid item tells of its document.\<close>

lemma audit_validE:
  assumes "audit_landing_content json path content md = Inr v" "ai_status v = ''valid''"
  obtains document q where "json content = Inr (PDict document)"
    "is_dict (get document ''ingestion'')" "is_dict (get document ''payload'')" "validate_layout path = []"
    "payload_of_document (get (the_dict (get document ''ingestion'')) ''location'') (the_dict (get document ''payload'')) = Inr q"
    "path_stem path = calculate_object_checksum q"
proof -
  let ?part = "\<lambda>document key. get document key"
  obtain document where j: "json content = Inr (PDict document)"
    using assms unfolding audit_landing_content_def audit_verdict_def
    by (cases "json content") (auto simp: Let_def split: pyval.splits if_splits)
  have d: "is_dict (?part document ''ingestion'')" "is_dict (?part document ''payload'')"
    using assms j by (auto simp: audit_landing_content_def audit_verdict_def Let_def split: if_splits)
  have valid: "validate_layout path = []"
    "validate_document path (the_dict (?part document ''ingestion'')) (the_dict (?part document ''payload'')) md = Inr []"
    using assms j d by (auto simp: audit_landing_content_def audit_verdict_def Let_def result_simps split: if_splits)
  then obtain q where "payload_of_document (get (the_dict (?part document ''ingestion'')) ''location'') (the_dict (?part document ''payload'')) = Inr q"
    "path_stem path = calculate_object_checksum q"
    by (auto simp: validate_document_def Let_def split: sum.splits if_splits)
  with that j d valid show thesis by blast
qed

text \<open>A digest in the metadata that is not the one of the content is always refused.\<close>

lemma audit_refuses_metadata:
  assumes "audit_landing_content json path content PNone = Inr v" "ai_status v = ''valid''"
    "md \<noteq> PNone" "md \<noteq> PStr (path_stem path)"
  shows "\<exists>v. audit_landing_content json path content md = Inr v \<and> ai_status v = ''invalid''"
proof -
  obtain document q where j: "json content = Inr (PDict document)"
    "is_dict (get document ''ingestion'')" "is_dict (get document ''payload'')"
    and q: "payload_of_document (get (the_dict (get document ''ingestion'')) ''location'') (the_dict (get document ''payload'')) = Inr q"
    "path_stem path = calculate_object_checksum q"
    using audit_validE [OF assms(1,2)] by metis
  have "\<exists>more. validate_document path (the_dict (get document ''ingestion'')) (the_dict (get document ''payload'')) md = Inr more \<and> more \<noteq> []"
    using assms(3,4) q by (simp add: validate_document_def Let_def)
  then show ?thesis using j by (auto simp: audit_landing_content_def audit_verdict_def Let_def)
qed

section \<open>A demonstration\<close>

definition demo_source :: pydict where
  "demo_source = [(''generationtime_ms'', PFloat (Fin (1 / 4))), (''hourly'', PDict
     [(''time'', PList [PStr ''2026-01-01T00:00'']), (''temperature_2m'', PList [PFloat (Fin (3 / 2))]),
      (''relative_humidity_2m'', PList [PInt 80]), (''precipitation'', PList [PInt 0]), (''wind_speed_10m'', PList [PInt 7])])]"

definition demo_forecast :: weather_payload where
  "demo_forecast = \<lparr>wp_location = \<lparr>lc_name = ''new-york'', lc_latitude = PFloat (Fin (81 / 2)), lc_longitude = PInt (- 74)\<rparr>,
     wp_source = demo_source\<rparr>"

text \<open>The first of January 2026, one hour past midnight at an offset of two hours: still December in UTC.\<close>

definition demo_instant :: pydt where
  "demo_instant = \<lparr>dt_local = 739616 * day_us + 3600000000, dt_offset = Some 7200000000\<rparr>"

definition demo_utc :: pydt where
  "demo_utc = \<lparr>dt_local = 739616 * day_us - 3600000000, dt_offset = Some 0\<rparr>"

definition demo_decoder :: "string \<Rightarrow> pyval result" where
  "demo_decoder content =
     (if content = utf8 (json_compact (PDict (landing_document demo_forecast demo_utc)))
      then Inr (json_reload (PDict (landing_document demo_forecast demo_utc))) else raise JSONDecodeError [])"

lemma demo_located: "located '' New York '' (PFloat (Fin (81 / 2))) (PInt (- 74)) demo_source demo_forecast"
  by code_simp

lemma demo_reads_back: "reads_back demo_decoder demo_forecast demo_utc"
  by (simp add: reads_back_def demo_decoder_def)

lemma demo_instant_utc: "is_aware demo_instant" "to_utc demo_instant = Inr demo_utc"
  by code_simp+

section \<open>A landed forecast passes the audit\<close>

definition landing_time :: "pydt \<Rightarrow> pydt option \<Rightarrow> pydt" where
  "landing_time now t = (case t of None \<Rightarrow> now | Some t \<Rightarrow> t)"

definition passed :: "string \<Rightarrow> audit_item" where
  "passed path = \<lparr>ai_path = path, ai_status = ''valid'', ai_errors = []\<rparr>"

text \<open>What a read of the object returns after it was put.\<close>

definition got_of :: "s3_object \<Rightarrow> got_object" where
  "got_of obj = \<lparr>go_metadata = PDict (map (\<lambda>(k, v). (k, PStr v)) (so_metadata obj)), go_body = Some (Inr (so_body obj))\<rparr>"



end
