(* ===== verification/Weather_Run_Properties.thy ===== *)
theory Weather_Run_Properties
  imports Weather_Properties
begin

text \<open>
  The two loops of the weather path: the attempts of a fetch, and the batch over all locations of a
  manifest.
\<close>

section \<open>Fetching\<close>

definition answer_of :: "source_env \<Rightarrow> location \<Rightarrow> int \<Rightarrow> nat \<Rightarrow> weather_payload result" where
  "answer_of env l days n = bindE (se_get env n l days) (decode_answer env l)"

lemma fetch_once_answer:
  "fetch_once env l days w = Some (answer_of env l days (sw_requests w), w\<lparr>sw_requests := Suc (sw_requests w)\<rparr>)"
  by (cases "se_get env (sw_requests w) l days")
    (simp_all add: fetch_once_def source_get_def bind_io_def lift_io_def answer_of_def)

lemma answer_payload:
  assumes "answer_of env l days n = Inr p"
  shows "wp_location p = l" "payload_from_source l (wp_source p) = Inr p"
proof -
  obtain d where d: "payload_from_source l d = Inr p"
  proof -
    obtain v where "(case v of PDict d \<Rightarrow> payload_from_source l d
        | _ \<Rightarrow> raise OpenMeteoError ''source response must be a JSON object'') = Inr p"
      using assms by (auto simp: answer_of_def decode_answer_def result_simps split: if_splits)
    with that show thesis by (cases v) auto
  qed
  show "wp_location p = l" "payload_from_source l (wp_source p) = Inr p"
    using d payload_Inr [OF d] by simp_all
qed

text \<open>A run of \<open>j\<close> retries: each of them follows an error that may pass, after a pause twice as long as the
  one before.\<close>

definition retried :: "source_env \<Rightarrow> location \<Rightarrow> int \<Rightarrow> nat \<Rightarrow> nat \<Rightarrow> source_world \<Rightarrow> source_world \<Rightarrow> bool" where
  "retried env l days attempt j w w' \<longleftrightarrow> sw_requests w' = sw_requests w + j + 1 \<and>
     sw_pauses w' = sw_pauses w @ map (\<lambda>i. 1 / 4 * 2 ^ (attempt - 1 + i)) [0..<j] \<and>
     (\<forall>i < j. \<exists>e. answer_of env l days (sw_requests w + i) = Inl e \<and> is_retryable (class_of e))"

lemma retried_step:
  assumes "retried env l days (attempt + 1) j (w\<lparr>sw_requests := Suc (sw_requests w), sw_pauses := sw_pauses w @ [1 / 4 * 2 ^ (attempt - 1)]\<rparr>) w'"
    "answer_of env l days (sw_requests w) = Inl e" "is_retryable (class_of e)" "1 \<le> attempt"
  shows "retried env l days attempt (Suc j) w w'"
proof -
  have "map (\<lambda>i. 1 / 4 * 2 ^ (attempt - 1 + i)) [0..<Suc j] =
      (1 / 4 * 2 ^ (attempt - 1) :: rat) # map (\<lambda>i. 1 / 4 * 2 ^ (attempt + i)) [0..<j]"
    using assms(4) by (subst upt_conv_Cons) (simp_all add: map_Suc_upt [symmetric] comp_def del: upt_Suc)
  moreover have "\<exists>e. answer_of env l days (sw_requests w + i) = Inl e \<and> is_retryable (class_of e)" if "i < Suc j" for i
    using assms that by (cases i) (auto simp: retried_def)
  ultimately show ?thesis using assms(1) by (simp add: retried_def)
qed

text \<open>What the loop makes of the answer of its last attempt.\<close>

definition fetch_outcome :: "nat \<Rightarrow> weather_payload result \<Rightarrow> weather_payload result" where
  "fetch_outcome m answer = (case answer of
       Inr p \<Rightarrow> Inr p
     | Inl e \<Rightarrow> if caught_by_fetch (class_of e)
         then raise OpenMeteoError (''failed to fetch weather data after '' @ dec_nat m @ '' attempt(s)'') else Inl e)"

definition tries_again :: "weather_payload result \<Rightarrow> bool" where
  "tries_again answer \<longleftrightarrow> (\<exists>e. answer = Inl e \<and> is_retryable (class_of e))"

lemma retryable_caught: "is_retryable k \<Longrightarrow> caught_by_fetch k"
  by (auto simp: is_retryable_def caught_by_fetch_def)

lemma fetch_attempts_step:
  "fetch_attempts env m l days attempt (Suc n) w =
     (let answer = answer_of env l days (sw_requests w); w' = w\<lparr>sw_requests := Suc (sw_requests w)\<rparr> in
      if n \<noteq> 0 \<and> tries_again answer
      then fetch_attempts env m l days (attempt + 1) n (w'\<lparr>sw_pauses := sw_pauses w @ [1 / 4 * 2 ^ (attempt - 1)]\<rparr>)
      else Some (fetch_outcome m answer, w'))"
  by (auto simp: catch_io_def fetch_once_answer tries_again_def fetch_outcome_def retryable_caught bind_io_def pause_def
      raise_io_def raise_def Let_def split: sum.split)

lemma fetch_attempts_spec:
  assumes "1 \<le> attempt"
  shows "\<exists>w' j. fetch_attempts env m l days attempt (Suc n) w = Some (fetch_outcome m (answer_of env l days (sw_requests w + j)), w') \<and>
    j \<le> n \<and> retried env l days attempt j w w' \<and> (tries_again (answer_of env l days (sw_requests w + j)) \<longrightarrow> j = n)"
  using assms
proof (induction n arbitrary: attempt w)
  case 0
  show ?case
    by (intro exI [of _ "w\<lparr>sw_requests := Suc (sw_requests w)\<rparr>"] exI [of _ 0])
      (simp add: fetch_attempts_step retried_def del: fetch_attempts.simps)
next
  case (Suc n)
  show ?case
  proof (cases "tries_again (answer_of env l days (sw_requests w))")
    case True
    let ?w = "w\<lparr>sw_requests := Suc (sw_requests w), sw_pauses := sw_pauses w @ [1 / 4 * 2 ^ (attempt - 1)]\<rparr>"
    obtain w' j where IH: "fetch_attempts env m l days (attempt + 1) (Suc n) ?w =
        Some (fetch_outcome m (answer_of env l days (sw_requests ?w + j)), w')" "j \<le> n"
      "retried env l days (attempt + 1) j ?w w'" "tries_again (answer_of env l days (sw_requests ?w + j)) \<longrightarrow> j = n"
      using Suc.IH [of "attempt + 1" ?w] by auto
    have "sw_requests ?w + j = sw_requests w + Suc j" by simp
    moreover obtain e where "answer_of env l days (sw_requests w) = Inl e" "is_retryable (class_of e)"
      using True by (auto simp: tries_again_def)
    then have "retried env l days attempt (Suc j) w w'" using retried_step [OF IH(3)] Suc.prems by blast
    moreover have "fetch_attempts env m l days attempt (Suc (Suc n)) w = fetch_attempts env m l days (attempt + 1) (Suc n) ?w"
      using True by (subst fetch_attempts_step) simp
    ultimately show ?thesis using IH(1,2,4) by (intro exI [of _ w'] exI [of _ "Suc j"]) simp
  next
    case False
    then show ?thesis
      by (intro exI [of _ "w\<lparr>sw_requests := Suc (sw_requests w)\<rparr>"] exI [of _ 0])
        (simp add: fetch_attempts_step retried_def del: fetch_attempts.simps)
  qed
qed

text \<open>
  C16. A fetch of a client with a given number of attempts always ends: it sends at most that many requests,
  pauses a quarter of a second and then twice as long before each further one, and sends a further one only
  after an answer that may pass. A payload that it returns is the one of its last answer, of the location it
  was asked for, and is ready to be landed.
\<close>

theorem fetch_ends_within_its_attempts:
  assumes "make_source_client max_attempts = Inr m" "1 \<le> days" "days \<le> 16"
  shows "\<exists>r w' j. fetch env m l days w = Some (r, w') \<and> int j < max_attempts \<and> sw_requests w' = sw_requests w + j + 1 \<and>
    sw_pauses w' = sw_pauses w @ map (\<lambda>i. 1 / 4 * 2 ^ i) [0..<j] \<and>
    (\<forall>i < j. tries_again (answer_of env l days (sw_requests w + i))) \<and>
    (tries_again (answer_of env l days (sw_requests w + j)) \<longrightarrow> int j = max_attempts - 1) \<and>
    r = fetch_outcome m (answer_of env l days (sw_requests w + j)) \<and>
    (\<forall>p name latitude longitude. r = Inr p \<and> make_location name latitude longitude = Inr l \<longrightarrow>
      located name latitude longitude (wp_source p) p)"
proof -
  obtain n where m: "m = Suc n" "max_attempts = int n + 1"
    using assms(1) by (cases m) (auto simp: make_source_client_def split: if_splits)
  obtain w' j where a: "fetch_attempts env m l days 1 m w = Some (fetch_outcome m (answer_of env l days (sw_requests w + j)), w')"
    "j \<le> n" "retried env l days 1 j w w'" "tries_again (answer_of env l days (sw_requests w + j)) \<longrightarrow> j = n"
    using fetch_attempts_spec [of 1 env m l days n w] unfolding m(1) by auto
  have "located name latitude longitude (wp_source p) p"
    if "fetch_outcome m (answer_of env l days (sw_requests w + j)) = Inr p" "make_location name latitude longitude = Inr l"
    for p name latitude longitude
  proof -
    have "answer_of env l days (sw_requests w + j) = Inr p"
      using that(1) by (auto simp: fetch_outcome_def split: sum.splits if_splits)
    then show ?thesis using that(2) answer_payload by (simp add: located_def)
  qed
  moreover have "fetch env m l days w = fetch_attempts env m l days 1 m w"
    using assms(2,3) by (simp add: fetch_def del: fetch_attempts.simps)
  ultimately show ?thesis using a m(2)
    by (intro exI [of _ "fetch_outcome m (answer_of env l days (sw_requests w + j))"] exI [of _ w'] exI [of _ j])
      (simp add: retried_def tries_again_def)
qed

definition busy_source :: source_env where
  "busy_source = \<lparr>se_get = \<lambda>n l days. Inr (if n < 2 then (503, []) else (200, ''forecast'')),
     se_json = \<lambda>body. Inr (PDict demo_source)\<rparr>"

theorem fetch_ends_within_its_attempts_witness:
  "\<exists>r w'. fetch busy_source 3 (wp_location demo_forecast) 3 \<lparr>sw_requests = 0, sw_pauses = []\<rparr> = Some (r, w') \<and>
    r = Inr demo_forecast \<and> sw_requests w' = 3 \<and> sw_pauses w' = [1 / 4, 1 / 2]"
proof -
  let ?w = "\<lparr>sw_requests = 0, sw_pauses = []\<rparr>"
  let ?answer = "answer_of busy_source (wp_location demo_forecast) 3"
  have client: "make_source_client 3 = Inr 3" by code_simp
  have busy: "tries_again (?answer 0)" "tries_again (?answer 1)" "?answer 2 = Inr demo_forecast"
    by (simp_all add: tries_again_def answer_of_def busy_source_def decode_answer_def transient_status_codes_def raise_def
        is_retryable_def is_a_def) code_simp
  obtain r w' j where f: "fetch busy_source 3 (wp_location demo_forecast) 3 ?w = Some (r, w')" "int j < 3"
    "sw_requests w' = sw_requests ?w + j + 1" "sw_pauses w' = sw_pauses ?w @ map (\<lambda>i. 1 / 4 * 2 ^ i) [0..<j]"
    "tries_again (?answer (sw_requests ?w + j)) \<longrightarrow> int j = 3 - 1" "r = fetch_outcome 3 (?answer (sw_requests ?w + j))"
    using fetch_ends_within_its_attempts [OF client, of 3 busy_source "wp_location demo_forecast" ?w] by auto
  have "j = 0 \<or> j = 1 \<or> j = 2" using f(2) by linarith
  then have j: "j = 2" using f(5) busy by auto
  then have "sw_requests ?w + j = 2" by simp
  with f(6) have "r = fetch_outcome 3 (?answer 2)" by (simp only:)
  then have "r = Inr demo_forecast" by (simp only: busy(3) fetch_outcome_def sum.case)
  moreover have "sw_pauses w' = [1 / 4, 1 / 2]" "sw_requests w' = 3" using f(3,4) j by (simp_all add: upt_rec)
  ultimately show ?thesis using f(1) by blast
qed

section \<open>The batch\<close>

lemma collect_results_fold:
  assumes "\<And>i. i \<in> set completed \<Longrightarrow> batch_item_of type_name (ls ! i) (answer i) = Inr (found i)"
  shows "collect_results type_name ls answer completed results = Inr (fold (\<lambda>i rs. rs[i := Some (found i)]) completed results)"
  using assms by (induction completed arbitrary: results) simp_all

lemma fold_update_nth:
  "i < length results \<Longrightarrow> fold (\<lambda>i rs. rs[i := Some (found i)]) completed results ! i =
     (if i \<in> set completed then Some (found i) else results ! i)"
  by (induction completed arbitrary: results) (auto simp: nth_list_update)

lemma fold_update_length [simp]: "length (fold (\<lambda>i rs. rs[i := Some (found i)]) completed results) = length results"
  by (induction completed arbitrary: results) simp_all

lemma map_filter_Some: "List.map_filter id (map Some xs) = xs"
  by (induction xs) (simp_all add: List.map_filter_simps)

text \<open>The results come in the order of the manifest, whatever the order of completion.\<close>

lemma collected_in_order:
  assumes "set completed = {..<length ls}"
    "\<And>i. i < length ls \<Longrightarrow> batch_item_of type_name (ls ! i) (answer i) = Inr (found i)"
  shows "collect_results type_name ls answer completed (replicate (length ls) None) = Inr (map Some (map found [0..<length ls]))"
proof -
  have "fold (\<lambda>i rs. rs[i := Some (found i)]) completed (replicate (length ls) None) = map Some (map found [0..<length ls])"
    by (rule nth_equalityI) (simp_all add: fold_update_nth assms(1))
  then show ?thesis using collect_results_fold [of completed type_name ls answer found] assms by simp
qed

lemma filter_split_length:
  "(\<And>x. x \<in> set xs \<Longrightarrow> (r x \<longleftrightarrow> p x \<or> q x) \<and> \<not> (p x \<and> q x)) \<Longrightarrow>
    length (filter p xs) + length (filter q xs) = length (filter r xs)"
  by (induction xs) auto

lemma add_locations_distinct:
  assumes "add_locations index vs ls = Inr ms" "distinct (map lc_name ls)"
  shows "distinct (map lc_name ms)" "length ms = length ls + length vs"
  using assms
  by (induction index vs ls rule: add_locations.induct) (force simp: result_simps manifest_failure_def split: if_splits)+

lemma loaded_locations:
  assumes "load_location_manifest text_of_file json = Inr ls"
  shows "ls \<noteq> []" "length ls \<le> 100" "distinct (map lc_name ls)"
proof -
  obtain vs where "add_locations 0 vs [] = Inr ls" "vs \<noteq> []" "length vs \<le> 100"
    using assms unfolding load_location_manifest_def manifest_locations_def
    by (auto simp: Let_def result_simps manifest_failure_def max_locations_def not_less split: if_splits)
  then show "ls \<noteq> []" "length ls \<le> 100" "distinct (map lc_name ls)"
    using add_locations_distinct [of 0 vs "[]" ls] by auto
qed

text \<open>
  C28. The batch over the locations of a manifest that was loaded, at most one hundred of distinct names:
  whatever the number of workers and the order in which the futures complete, its report is the one of the
  serial run, with one item for every location in the order of the manifest, which tells what its worker
  did; the counts of the report add up, and the failures are the workers that raised.
\<close>

theorem batch_accounts_for_every_location:
  assumes "load_location_manifest text_of_file json = Inr ls" "mset completed = mset [0..<length ls]"
    "1 \<le> workers" "workers \<le> 16" "\<forall>i < length ls. \<forall>e. answer i = Inl e \<longrightarrow> class_of e \<noteq> KeyboardInterrupt"
  shows "0 < length ls \<and> length ls \<le> 100 \<and> distinct (map lc_name ls) \<and>
    (\<exists>items. run_batch type_name ls answer completed workers = Inr items \<and>
      run_batch type_name ls answer [0..<length ls] 1 = Inr items \<and>
      map bi_location items = map lc_name ls \<and>
      (\<forall>i < length ls. batch_item_of type_name (ls ! i) (answer i) = Inr (items ! i)) \<and>
      batch_created items + batch_duplicates items = batch_succeeded items \<and>
      batch_succeeded items + batch_failed items = length ls \<and>
      batch_failed items = card {i. i < length ls \<and> isl (answer i)})"
proof -
  note l = loaded_locations [OF assms(1)]
  define found where "found i = (case batch_item_of type_name (ls ! i) (answer i) of Inr x \<Rightarrow> x)" for i
  have found: "batch_item_of type_name (ls ! i) (answer i) = Inr (found i)"
    "bi_location (found i) = lc_name (ls ! i)" "bi_status (found i) \<in> {''created'', ''duplicate'', ''failed''}"
    "bi_status (found i) = ''failed'' \<longleftrightarrow> isl (answer i)" if "i < length ls" for i
    using assms(5) that unfolding found_def batch_item_of_def by (auto split: sum.splits)
  let ?items = "map found [0..<length ls]"
  have run: "run_batch type_name ls answer order k = Inr ?items"
    if "mset order = mset [0..<length ls]" "1 \<le> k" "k \<le> 16" for order k
  proof -
    have "set order = set [0..<length ls]" using that(1) by (rule mset_eq_setD)
    then have "set order = {..<length ls}" by (simp only: set_upt lessThan_atLeast0)
    then have "collect_results type_name ls answer order (replicate (length ls) None) = Inr (map Some ?items)"
      by (rule collected_in_order) (rule found(1))
    then show ?thesis
      unfolding run_batch_def using l(1) that(2,3) by (simp only: map_filter_Some bindE.simps simp_thms if_False)
  qed
  have names: "map bi_location ?items = map lc_name ls"
    by (rule nth_equalityI) (simp_all add: found(2))
  have status: "bi_status x \<in> {''created'', ''duplicate'', ''failed''}" if "x \<in> set ?items" for x
  proof -
    obtain i where "i < length ls" "x = found i" using \<open>x \<in> set ?items\<close> by auto
    then show ?thesis using found(3) by simp
  qed
  have "batch_created ?items + batch_duplicates ?items = batch_succeeded ?items"
    unfolding batch_created_def batch_duplicates_def batch_succeeded_def items_with_def
    by (rule filter_split_length) (use status in fastforce)
  moreover have "batch_succeeded ?items + batch_failed ?items = length (filter (\<lambda>x. True) ?items)"
    unfolding batch_failed_def batch_succeeded_def items_with_def
    by (rule filter_split_length) simp
  moreover have "batch_failed ?items = card {i. i < length ls \<and> isl (answer i)}"
    unfolding batch_failed_def items_with_def length_filter_conv_card
    by (rule arg_cong [where f = card]) (use found(4) in auto)
  moreover have "\<forall>i < length ls. batch_item_of type_name (ls ! i) (answer i) = Inr (?items ! i)"
    by (simp add: found(1))
  ultimately show ?thesis
    using l run [OF assms(2,3,4)] run [of "[0..<length ls]" 1] names
    by (intro conjI exI [of _ ?items]) simp_all
qed

definition demo_manifest :: pyval where
  "demo_manifest = PDict [(''locations'', PList
     [PDict [(''name'', PStr ''New York''), (''latitude'', PFloat (Fin (81 / 2))), (''longitude'', PInt (- 74))],
      PDict [(''name'', PStr ''Oslo''), (''latitude'', PInt 60), (''longitude'', PInt 11)]])]"

definition demo_answer :: "nat \<Rightarrow> weather_result result" where
  "demo_answer i = (if i = 0 then raise OpenMeteoError ''failed'' else Inr \<lparr>wl_path = ''p'', wl_checksum = ''c'', wl_created = True\<rparr>)"

lemma demo_manifest_loads:
  "\<exists>ls. load_location_manifest (Inr ''text'') (\<lambda>_. Inr demo_manifest) = Inr ls \<and> length ls = 2"
proof -
  have "(case load_location_manifest (Inr ''text'') (\<lambda>_. Inr demo_manifest) of Inl e \<Rightarrow> False | Inr ls \<Rightarrow> length ls = 2)"
    by code_simp
  then show ?thesis by (simp split: sum.splits)
qed

theorem batch_accounts_for_every_location_witness:
  "\<exists>ls items. load_location_manifest (Inr ''text'') (\<lambda>_. Inr demo_manifest) = Inr ls \<and>
    run_batch (\<lambda>_. ''Error'') ls demo_answer [1, 0] 4 = Inr items \<and> batch_failed items = 1 \<and> batch_succeeded items = 1"
proof -
  obtain ls where ls: "load_location_manifest (Inr ''text'') (\<lambda>_. Inr demo_manifest) = Inr ls" "length ls = 2"
    using demo_manifest_loads by blast
  have upt: "[0..<2] = [0, 1 :: nat]" by (simp add: upt_rec)
  have order: "mset [1, 0] = mset [0..<length ls]" by (simp add: ls(2) upt)
  have plain: "\<forall>i < length ls. \<forall>e. demo_answer i = Inl e \<longrightarrow> class_of e \<noteq> KeyboardInterrupt"
    by (auto simp: demo_answer_def split: if_splits)
  have "{i. i < length ls \<and> isl (demo_answer i)} = {0}"
    by (auto simp: ls(2) demo_answer_def raise_def split: if_splits)
  then show ?thesis
    using batch_accounts_for_every_location [OF ls(1) order, of 4 demo_answer "\<lambda>_. ''Error''"] plain ls by auto
qed

end
