(* ===== verification/Weather_Zone_Properties.thy ===== *)
theory Weather_Zone_Properties
  imports Weather_Properties
begin

text \<open>
  The landing zone of files under concurrent writers and failing calls: what is published is never
  changed, and every published file passes the audit.
\<close>

section \<open>What the other processes and the system keep\<close>

definition valid_content :: "(string \<Rightarrow> pyval result) \<Rightarrow> string \<Rightarrow> string \<Rightarrow> bool" where
  "valid_content json path content \<longleftrightarrow>
     (\<exists>v. audit_landing_content json path content PNone = Inr v \<and> ai_status v = ''valid'')"

text \<open>Every published file passes the audit; a temporary file is not published.\<close>

definition zone_valid :: "(string \<Rightarrow> pyval result) \<Rightarrow> zone_files \<Rightarrow> bool" where
  "zone_valid json s \<longleftrightarrow> (\<forall>path content. s path = Some content \<and> ends_with ''.json'' path \<longrightarrow> valid_content json path content)"

definition file_step :: "(string \<Rightarrow> pyval result) \<Rightarrow> zone_files \<Rightarrow> zone_files \<Rightarrow> bool" where
  "file_step json s s' \<longleftrightarrow> (\<forall>path content. s path = Some content \<and> ends_with ''.json'' path \<longrightarrow> s' path = Some content) \<and>
     (zone_valid json s \<longrightarrow> zone_valid json s')"

definition own_temporary :: "zone_env \<Rightarrow> string \<Rightarrow> bool" where
  "own_temporary env path \<longleftrightarrow> (\<exists>dest checksum n. path = temporary_name dest checksum (ze_random env n))"

text \<open>Other processes publish in the same way and leave the temporary files of this one alone.\<close>

definition zone_contract :: "zone_env \<Rightarrow> bool" where
  "zone_contract env \<longleftrightarrow> (\<forall>n s. file_step (ze_json env) s (ze_before env n s) \<and>
     (\<forall>path content. s path = Some content \<and> own_temporary env path \<longrightarrow> ze_before env n s path = Some content))"

lemma file_step_refl [simp]: "file_step json s s"
  by (simp add: file_step_def)

lemma file_step_trans: "file_step json s t \<Longrightarrow> file_step json t u \<Longrightarrow> file_step json s u"
  by (auto simp: file_step_def)

lemma file_step_keeps: "file_step json s s' \<Longrightarrow> s path = Some c \<Longrightarrow> ends_with ''.json'' path \<Longrightarrow> s' path = Some c"
  by (simp add: file_step_def)

lemma file_step_other: "\<not> ends_with ''.json'' path \<Longrightarrow> file_step json s (s(path := x))"
  by (auto simp: file_step_def zone_valid_def)

lemma file_step_publish: "valid_content json path c \<Longrightarrow> s path = None \<Longrightarrow> file_step json s (s(path \<mapsto> c))"
  by (auto simp: file_step_def zone_valid_def)

definition zone_step :: "(string \<Rightarrow> pyval result) \<Rightarrow> zone_world \<Rightarrow> zone_world \<Rightarrow> bool" where
  "zone_step json w w' \<longleftrightarrow> file_step json (zw_files w) (zw_files w')"

interpretation zone: action_relation "zone_step json" for json
  by unfold_locales (auto simp: zone_step_def intro: file_step_trans)

section \<open>Calls\<close>

text \<open>An action that ends, whatever fails, and obeys the relation of the zone.\<close>

definition zone_action :: "zone_env \<Rightarrow> 'a zone_io \<Rightarrow> bool" where
  "zone_action env m \<longleftrightarrow> (\<forall>w. m w \<noteq> None) \<and> obeys (zone_step (ze_json env)) m"

named_theorems zone_intros \<open>actions on the landing zone\<close>

lemma zone_action_step: "zone_action env m \<Longrightarrow> m w = Some (r, w') \<Longrightarrow> zone_step (ze_json env) w w'"
  by (auto simp: zone_action_def dest: obeysD)

lemma zone_action_ends: "zone_action env m \<Longrightarrow> \<exists>r w'. m w = Some (r, w')"
  by (auto simp: zone_action_def)

lemma zone_basic [zone_intros]: "zone_action env (return_io x)" "zone_action env (lift_io r)" "zone_action env (raise_io c m)"
  by (simp_all add: zone_action_def zone.obeys_basic) (simp_all add: return_io_def lift_io_def raise_io_def)

lemma zone_bind [zone_intros]:
  assumes "zone_action env m" "\<And>x. zone_action env (f x)"
  shows "zone_action env (bind_io m f)"
  using assms zone.obeys_bind [of "ze_json env" m f] by (auto simp: zone_action_def bind_io_None)

lemma zone_catch [zone_intros]:
  assumes "zone_action env m" "\<And>e. zone_action env (h e)"
  shows "zone_action env (catch_io m p h)"
  using assms zone.obeys_catch [of "ze_json env" m h p]
  by (auto simp: zone_action_def catch_io_def split: option.splits sum.splits)

lemma zone_if [zone_intros]: "zone_action env m \<Longrightarrow> zone_action env m' \<Longrightarrow> zone_action env (if c then m else m')"
  by simp

lemma zone_call_action [zone_intros]:
  assumes "zone_contract env" "\<And>n s. file_step (ze_json env) s (broken n s)"
    "\<And>n s. file_step (ze_json env) s (snd (f n s))"
  shows "zone_action env (zone_call env broken f)"
  unfolding zone_action_def
proof
  show "\<forall>w. zone_call env broken f w \<noteq> None" by (simp add: zone_call_def Let_def split: prod.split)
  have before: "file_step (ze_json env) s (ze_before env n s)" for n s
    using assms(1) by (simp add: zone_contract_def)
  show "obeys (zone_step (ze_json env)) (zone_call env broken f)"
    unfolding obeys_def zone_step_def
  proof (intro allI impI)
    fix w r w'
    assume call: "zone_call env broken f w = Some (r, w')"
    let ?s = "ze_before env (zw_tick w) (zw_files w)"
    have "zw_files w' = broken (zw_tick w) ?s \<or> zw_files w' = snd (f (zw_tick w) ?s)"
      using call by (auto simp: zone_call_def Let_def split: option.splits prod.splits)
    then show "file_step (ze_json env) (zw_files w) (zw_files w')"
      using file_step_trans [OF before] assms(2,3) by metis
  qed
qed

lemma zone_reads [zone_intros]:
  assumes "zone_contract env"
  shows "zone_action env (make_parents env)" "zone_action env (path_exists env path)" "zone_action env (read_file env path)"
  unfolding make_parents_def path_exists_def read_file_def
  by (rule zone_call_action [OF assms]; simp add: unchanged_def)+

lemma zone_replay [zone_intros]: "zone_contract env \<Longrightarrow> zone_action env (verified_replay env obj)"
  unfolding verified_replay_def Let_def by (intro zone_intros)

section \<open>Temporary files\<close>

lemma ends_with_append: "ends_with q (s @ t @ q)"
  by (auto simp: ends_with_iff)

lemma temporary_not_json: "own_temporary env path \<Longrightarrow> \<not> ends_with ''.json'' path"
proof -
  assume "own_temporary env path"
  then obtain dirs base where "path = join ''/'' (dirs @ [base @ ''.tmp''])"
    by (auto simp: own_temporary_def temporary_name_def) (metis append.assoc append_Cons)
  moreover have "\<exists>u. join ''/'' (dirs @ [base @ ''.tmp'']) = u @ ''.tmp''"
    by (induction dirs rule: induct_list012) auto
  ultimately show ?thesis by (auto simp: ends_with_def)
qed

lemma zone_temporary [zone_intros]:
  assumes "zone_contract env" "own_temporary env temp"
  shows "zone_action env (write_temporary env temp body)" "zone_action env (unlink_file env temp)"
    "zone_action env (discard_temporary env temp)"
proof -
  note t = temporary_not_json [OF assms(2)]
  show "zone_action env (write_temporary env temp body)"
    unfolding write_temporary_def by (rule zone_call_action [OF assms(1)]) (simp_all add: file_step_other t)
  show u: "zone_action env (unlink_file env temp)"
    unfolding unlink_file_def by (rule zone_call_action [OF assms(1)]) (simp_all add: file_step_other t unchanged_def)
  show "zone_action env (discard_temporary env temp)"
    unfolding discard_temporary_def by (intro zone_intros u assms)
qed

lemma zone_make_temporary [zone_intros]:
  assumes "zone_contract env"
  shows "zone_action env (make_temporary env dest checksum)"
proof -
  have "own_temporary env (temporary_name dest checksum (ze_random env n))" for n
    by (auto simp: own_temporary_def)
  then have "\<not> ends_with ''.json'' (temporary_name dest checksum (ze_random env n))" for n
    by (rule temporary_not_json)
  then show ?thesis unfolding make_temporary_def
    by (intro zone_call_action [OF assms]) (simp_all add: file_step_other unchanged_def Let_def)
qed

text \<open>A call that did not fail, on the files that the other processes left.\<close>

lemma zone_call_Inr:
  assumes "zone_call env broken f w = Some (Inr x, w')"
  shows "fst (f (zw_tick w) (ze_before env (zw_tick w) (zw_files w))) = Inr x"
    "zw_files w' = snd (f (zw_tick w) (ze_before env (zw_tick w) (zw_files w)))"
  using assms by (auto simp: zone_call_def Let_def raise_def split: option.splits prod.splits)

lemma make_temporary_Inr:
  assumes "make_temporary env dest checksum w = Some (Inr temp, w')"
  shows "own_temporary env temp" "zw_files w' temp = Some []"
  using zone_call_Inr [OF assms [unfolded make_temporary_def]]
  by (auto simp: own_temporary_def raise_def Let_def split: if_splits)

lemma write_temporary_Inr:
  assumes "zone_contract env" "own_temporary env temp" "zw_files w temp = Some c"
    "write_temporary env temp body w = Some (Inr u, w')"
  shows "zw_files w' temp = Some body"
proof -
  have "ze_before env n (zw_files w) temp = Some c" for n
    using assms(1-3) by (simp add: zone_contract_def)
  then show ?thesis using zone_call_Inr [OF assms(4) [unfolded write_temporary_def]] by (auto split: if_splits)
qed

text \<open>A complete file is linked: the object appears under its name at once, or the name was taken.\<close>

lemma link_file_step:
  assumes "zone_contract env" "own_temporary env temp" "zw_files w temp = Some body"
    "valid_content (ze_json env) dest body" "ends_with ''.json'' dest"
  shows "\<exists>r w'. link_file env temp dest w = Some (r, w') \<and> zone_step (ze_json env) w w' \<and>
    (r = Inr () \<longrightarrow> zw_files w dest = None \<and> zw_files w' dest = Some body)"
proof -
  let ?s = "ze_before env (zw_tick w) (zw_files w)"
  have before: "file_step (ze_json env) (zw_files w) ?s" and temp: "?s temp = Some body"
    using assms(1-3) by (simp_all add: zone_contract_def)
  have taken: "?s dest = None \<Longrightarrow> zw_files w dest = None"
    using file_step_keeps [OF before] assms(5) by (cases "zw_files w dest") auto
  have publish: "file_step (ze_json env) (zw_files w) (?s(dest \<mapsto> body))" if "?s dest = None"
    by (rule file_step_trans [OF before]) (rule file_step_publish, rule assms(4), rule that)
  show ?thesis
    using before publish taken
    by (cases "ze_fault env (zw_tick w)"; cases "?s dest")
      (simp_all add: link_file_def zone_call_def Let_def temp zone_step_def unchanged_def raise_def)
qed

section \<open>Publishing\<close>

text \<open>What a result stands for: a published file that the audit accepts, under the checksum of its
  content; one that was created holds the object, and its name was free before.\<close>

definition landed :: "zone_env \<Rightarrow> landing_object \<Rightarrow> zone_world \<Rightarrow> zone_world \<Rightarrow> weather_result \<Rightarrow> bool" where
  "landed env obj w w' res \<longleftrightarrow> wl_path res = lo_key obj \<and> wl_checksum res = lo_checksum obj \<and>
     (\<exists>c. zw_files w' (lo_key obj) = Some c \<and> valid_content (ze_json env) (lo_key obj) c \<and>
       (wl_created res \<longrightarrow> zw_files w (lo_key obj) = None \<and> c = lo_body obj))"

text \<open>An object under its key.\<close>

definition sound_object :: "zone_env \<Rightarrow> landing_object \<Rightarrow> bool" where
  "sound_object env obj \<longleftrightarrow> as_posix (lo_key obj) = lo_key obj \<and> ends_with ''.json'' (lo_key obj) \<and>
     valid_content (ze_json env) (lo_key obj) (lo_body obj)"

lemma landed_later:
  assumes "landed env obj w u res" "zone_step (ze_json env) u w'" "sound_object env obj"
  shows "landed env obj w w' res"
  using assms file_step_keeps [of "ze_json env" "zw_files u" "zw_files w'" "lo_key obj"]
  by (auto simp: landed_def zone_step_def sound_object_def)

lemma landed_earlier:
  assumes "landed env obj u w' res" "zone_step (ze_json env) w u" "sound_object env obj"
  shows "landed env obj w w' res"
proof -
  have "zw_files u (lo_key obj) = None \<Longrightarrow> zw_files w (lo_key obj) = None"
    using assms(2,3) file_step_keeps [of "ze_json env" "zw_files w" "zw_files u" "lo_key obj"]
    by (cases "zw_files w (lo_key obj)") (auto simp: zone_step_def sound_object_def)
  then show ?thesis using assms(1) by (auto simp: landed_def)
qed

lemma verified_replay_Inr:
  assumes "zone_contract env" "sound_object env obj" "verified_replay env obj w = Some (Inr res, w')"
  shows "landed env obj w w' res \<and> \<not> wl_created res"
proof -
  note key = assms(2) [unfolded sound_object_def]
  obtain c where read: "read_file env (lo_key obj) w = Some (Inr c, w')"
    and valid: "valid_content (ze_json env) (lo_key obj) c"
    and res: "res = \<lparr>wl_path = lo_key obj, wl_checksum = lo_checksum obj, wl_created = False\<rparr>"
    using assms(3) key by (auto simp: verified_replay_def Let_def io_simps valid_content_def split: if_splits)
  have "zw_files w' (lo_key obj) = Some c"
    using zone_call_Inr [OF read [unfolded read_file_def]] by (auto simp: raise_def split: option.splits)
  then show ?thesis using valid res by (simp add: landed_def)
qed

lemma publish_spec:
  assumes "zone_contract env" "sound_object env obj" "own_temporary env temp" "zw_files w temp = Some c"
  shows "\<exists>r w'. publish env obj (lo_key obj) temp w = Some (r, w') \<and> zone_step (ze_json env) w w' \<and>
    (\<forall>found. r = Inr found \<longrightarrow> landed env obj w w'
      (case found of Some res \<Rightarrow> res | None \<Rightarrow> \<lparr>wl_path = lo_key obj, wl_checksum = lo_checksum obj, wl_created = True\<rparr>))"
proof -
  have act: "zone_action env (write_temporary env temp (lo_body obj))" using assms(1,3) by (rule zone_temporary)
  obtain r u where wrote: "write_temporary env temp (lo_body obj) w = Some (r, u)" using zone_action_ends [OF act] by blast
  note first = zone_action_step [OF act wrote]
  show ?thesis
  proof (cases r)
    case (Inl e)
    then show ?thesis using wrote first by (auto simp: publish_def bind_io_def)
  next
    case (Inr x)
    then have temp: "zw_files u temp = Some (lo_body obj)"
      using write_temporary_Inr [OF assms(1,3,4)] wrote by blast
    obtain q v where link: "link_file env temp (lo_key obj) u = Some (q, v)" "zone_step (ze_json env) u v"
      and linked: "q = Inr () \<longrightarrow> zw_files u (lo_key obj) = None \<and> zw_files v (lo_key obj) = Some (lo_body obj)"
      using link_file_step [OF assms(1,3) temp] assms(2) unfolding sound_object_def by blast
    note second = zone.rel_trans [OF first link(2)]
    have step: "publish env obj (lo_key obj) temp w =
        (case q of Inr _ \<Rightarrow> Some (Inr None, v)
         | Inl e \<Rightarrow> if is_a (class_of e) FileExistsError
             then bind_io (verified_replay env obj) (\<lambda>replay. return_io (Some replay)) v else Some (Inl e, v))"
      using wrote Inr link(1) by (simp add: publish_def bind_io_def catch_io_def return_io_def split: sum.split)
    show ?thesis
    proof (cases q)
      case (Inr y)
      then have "landed env obj u v \<lparr>wl_path = lo_key obj, wl_checksum = lo_checksum obj, wl_created = True\<rparr>"
        using linked assms(2) by (simp add: landed_def sound_object_def)
      then show ?thesis using step second Inr landed_earlier [OF _ first assms(2)] by simp
    next
      case (Inl e)
      have act: "zone_action env (bind_io (verified_replay env obj) (\<lambda>replay. return_io (Some replay)))"
        by (intro zone_intros assms(1))
      obtain a z where replay: "bind_io (verified_replay env obj) (\<lambda>replay. return_io (Some replay)) v = Some (a, z)"
        using zone_action_ends [OF act] by blast
      note third = zone.rel_trans [OF second zone_action_step [OF act replay]]
      have "landed env obj w z res" if "a = Inr (Some res)" for res
        using replay verified_replay_Inr [OF assms(1,2)] landed_earlier [OF _ second assms(2)] that
        by (auto simp: io_simps)
      moreover have "a \<noteq> Inr None" using replay by (auto simp: io_simps)
      ultimately show ?thesis using step Inl replay second third by (cases a) (auto split: option.splits)
    qed
  qed
qed

definition ends_landed :: "zone_env \<Rightarrow> landing_object \<Rightarrow> weather_result zone_io \<Rightarrow> zone_world \<Rightarrow> bool" where
  "ends_landed env obj m w \<longleftrightarrow> (\<exists>r w'. m w = Some (r, w') \<and> zone_step (ze_json env) w w' \<and>
     (\<forall>res. r = Inr res \<longrightarrow> landed env obj w w' res))"

lemma ends_landed_bind:
  assumes "sound_object env obj" "zone_action env m" "\<And>x u. m w = Some (Inr x, u) \<Longrightarrow> ends_landed env obj (f x) u"
  shows "ends_landed env obj (bind_io m f) w"
proof -
  obtain q u where m: "m w = Some (q, u)" using zone_action_ends [OF assms(2)] by blast
  note first = zone_action_step [OF assms(2) m]
  show ?thesis
  proof (cases q)
    case (Inl e)
    then show ?thesis using m first by (simp add: ends_landed_def bind_io_def)
  next
    case (Inr x)
    then obtain r w' where f: "f x u = Some (r, w')" "zone_step (ze_json env) u w'" "\<forall>res. r = Inr res \<longrightarrow> landed env obj u w' res"
      using assms(3) m by (auto simp: ends_landed_def)
    then show ?thesis
      using m Inr zone.rel_trans [OF first f(2)] landed_earlier [OF _ first assms(1)] by (simp add: ends_landed_def bind_io_def)
  qed
qed

lemma ends_landed_replay:
  assumes "zone_contract env" "sound_object env obj"
  shows "ends_landed env obj (verified_replay env obj) w"
proof -
  have act: "zone_action env (verified_replay env obj)" by (intro zone_intros assms(1))
  obtain r w' where run: "verified_replay env obj w = Some (r, w')" using zone_action_ends [OF act] by blast
  then show ?thesis
    using zone_action_step [OF act run] verified_replay_Inr [OF assms] by (auto simp: ends_landed_def)
qed

lemma ends_landed_publish:
  assumes "zone_contract env" "sound_object env obj" "own_temporary env temp" "zw_files w temp = Some c"
  shows "ends_landed env obj (bind_io (finally_io (publish env obj (lo_key obj) temp) (discard_temporary env temp)) (\<lambda>replay.
    case replay of Some r \<Rightarrow> return_io r
    | None \<Rightarrow> return_io \<lparr>wl_path = lo_key obj, wl_checksum = lo_checksum obj, wl_created = True\<rparr>)) w"
proof -
  obtain r u where p: "publish env obj (lo_key obj) temp w = Some (r, u)" "zone_step (ze_json env) w u"
    "\<forall>found. r = Inr found \<longrightarrow> landed env obj w u
      (case found of Some res \<Rightarrow> res | None \<Rightarrow> \<lparr>wl_path = lo_key obj, wl_checksum = lo_checksum obj, wl_created = True\<rparr>)"
    using publish_spec [OF assms] by blast
  have act: "zone_action env (discard_temporary env temp)" using assms(1,3) by (rule zone_temporary)
  obtain q w' where d: "discard_temporary env temp u = Some (q, w')" using zone_action_ends [OF act] by blast
  note last = zone_action_step [OF act d]
  have step: "zone_step (ze_json env) w w'" using p(2) last by (rule zone.rel_trans)
  show ?thesis
  proof (cases "\<exists>found y. r = Inr found \<and> q = Inr y")
    case True
    then obtain found y where r: "r = Inr found" "q = Inr y" by blast
    have "landed env obj w w' (case found of Some res \<Rightarrow> res | None \<Rightarrow> \<lparr>wl_path = lo_key obj, wl_checksum = lo_checksum obj, wl_created = True\<rparr>)"
      using landed_later [OF _ last assms(2)] p(3) r by blast
    then show ?thesis using p(1) d r step
      by (cases found) (simp_all add: ends_landed_def bind_io_def finally_io_def return_io_def)
  next
    case False
    then obtain e where "finally_io (publish env obj (lo_key obj) temp) (discard_temporary env temp) w = Some (Inl e, w')"
      using p(1) d by (cases r; cases q) (auto simp: finally_io_def)
    then show ?thesis using step by (simp add: ends_landed_def bind_io_def)
  qed
qed

lemma ends_landed_write:
  assumes "zone_contract env" "sound_object env obj" "prepare_landing_object (ze_now env) p t = Inr obj"
  shows "ends_landed env obj (write_forecast env p t) w"
proof -
  have key: "as_posix (lo_key obj) = lo_key obj" using assms(2) by (simp add: sound_object_def)
  have ready: "lift_io (Inr obj) v = Some (Inr x, u) \<Longrightarrow> x = obj" for v x u
    by (simp add: lift_io_def)
  show ?thesis
    unfolding write_forecast_def assms(3) Let_def
  proof (rule ends_landed_bind [OF assms(2) zone_basic(2)], drule ready, hypsubst, unfold key,
      rule ends_landed_bind [OF assms(2) zone_reads(1) [OF assms(1)]],
      rule ends_landed_bind [OF assms(2) zone_reads(2) [OF assms(1)]])
    fix there v
    show "ends_landed env obj (if there then verified_replay env obj
      else bind_io (make_temporary env (lo_key obj) (lo_checksum obj)) (\<lambda>temp.
        bind_io (finally_io (publish env obj (lo_key obj) temp) (discard_temporary env temp)) (\<lambda>replay.
          case replay of None \<Rightarrow> return_io \<lparr>wl_path = lo_key obj, wl_checksum = lo_checksum obj, wl_created = True\<rparr>
          | Some r \<Rightarrow> return_io r))) v"
    proof (cases there)
      case True
      then show ?thesis using ends_landed_replay [OF assms(1,2)] by simp
    next
      case False
      then show ?thesis
        using ends_landed_bind [OF assms(2) zone_make_temporary [OF assms(1)]]
          ends_landed_publish [OF assms(1,2) make_temporary_Inr] by simp
    qed
  qed
qed

text \<open>The audit of a listing of the zone.\<close>

definition lists_zone :: "(string \<Rightarrow> pyval result) \<Rightarrow> audit_tree \<Rightarrow> zone_files \<Rightarrow> bool" where
  "lists_zone json tree s \<longleftrightarrow> at_is_dir tree \<and> (\<forall>path \<in> set (at_paths tree). ends_with ''.json'' path \<and>
     (at_is_file tree path \<longrightarrow> (\<exists>c written. s path = Some c \<and> at_text tree path = Inr written \<and> at_json tree written = json c)))"

lemma mapE_map: "(\<And>x. x \<in> set xs \<Longrightarrow> f x = Inr (g x)) \<Longrightarrow> mapE f xs = Inr (map g xs)"
  by (induction xs) simp_all

lemma audit_of_valid_zone:
  assumes "zone_valid json s" "lists_zone json tree s"
  shows "\<exists>report. audit_file_landing tree = Inr report \<and> report_invalid report = 0 \<and>
    length (ar_items report) = length (filter (at_is_file tree) (at_paths tree))"
proof -
  let ?paths = "filter (at_is_file tree) (sort_key path_parts (at_paths tree))"
  have "\<exists>v. audit_object tree path = Inr v \<and> ai_status v = ''valid''" if "path \<in> set ?paths" for path
  proof -
    obtain c written where c: "s path = Some c" "ends_with ''.json'' path" "at_text tree path = Inr written" "at_json tree written = json c"
      using assms(2) \<open>path \<in> set ?paths\<close> by (auto simp: lists_zone_def)
    have "audit_landing_content (at_json tree) path written PNone = audit_landing_content json path c PNone"
      by (rule audit_content_cong) (rule c(4))
    then show ?thesis using assms(1) c by (auto simp: zone_valid_def valid_content_def audit_object_def)
  qed
  then obtain item_of where i: "\<And>path. path \<in> set ?paths \<Longrightarrow> audit_object tree path = Inr (item_of path) \<and> ai_status (item_of path) = ''valid''"
    by metis
  then have "mapE (audit_object tree) ?paths = Inr (map item_of ?paths)"
    by (intro mapE_map) blast
  moreover have "filter (\<lambda>v. ai_status v = ''invalid'') (map item_of ?paths) = []"
    using i by (auto simp: filter_empty_conv)
  moreover have "length ?paths = length (filter (at_is_file tree) (at_paths tree))"
    by (simp add: filter_sort)
  moreover have "at_is_dir tree" using assms(2) by (simp add: lists_zone_def)
  ultimately show ?thesis by (simp add: audit_file_landing_def report_invalid_def)
qed

lemma ends_with_key: "ends_with ''.json'' (object_key p u)"
proof -
  have "object_key p u = (''source=open_meteo/ingest_date='' @ iso_date (dt_local u) @ ''/location='' @ lc_name (wp_location p) @
      ''/'' @ calculate_object_checksum p) @ ''.json''" by (simp add: object_key_def)
  then show ?thesis unfolding ends_with_iff by blast
qed

section \<open>The zone stays valid\<close>

text \<open>
  C40. A forecast is written to a landing zone of files while other processes write in the same way, and any
  call may fail with a part done: the write ends, no published file is changed or removed, and when every
  published file passed the audit before, every one does afterwards, so that the audit of the tree finds
  nothing invalid. A result is a published file that the audit accepts under the checksum of the forecast;
  when it says created, the name was free before and the file is the whole object.
\<close>

theorem landing_zone_stays_valid:
  assumes "zone_contract env" "located name latitude longitude source p"
    "is_aware (landing_time (ze_now env) t)" "to_utc (landing_time (ze_now env) t) = Inr u" "reads_back (ze_json env) p u"
  shows "\<exists>r w' obj. write_forecast env p t w = Some (r, w') \<and> prepare_landing_object (ze_now env) p t = Inr obj \<and>
    (\<forall>path c. zw_files w path = Some c \<and> ends_with ''.json'' path \<longrightarrow> zw_files w' path = Some c) \<and>
    (zone_valid (ze_json env) (zw_files w) \<longrightarrow> zone_valid (ze_json env) (zw_files w') \<and>
      (\<forall>tree. lists_zone (ze_json env) tree (zw_files w') \<longrightarrow>
        (\<exists>report. audit_file_landing tree = Inr report \<and> report_invalid report = 0))) \<and>
    (\<forall>res. r = Inr res \<longrightarrow> landed env obj w w' res)"
proof -
  define obj where "obj = \<lparr>lo_key = object_key p u, lo_checksum = calculate_object_checksum p,
    lo_body = utf8 (json_compact (PDict (landing_document p u)))\<rparr>"
  have prep: "prepare_landing_object (ze_now env) p t = Inr obj"
    unfolding prepare_Inr obj_def using assms(3,4) by (simp add: landing_time_def)
  have "as_posix (object_key p u) = object_key p u"
    unfolding object_key_of
    by (rule key_of_path [OF slash_free_date slash_free_name [OF located_facts(2) [OF assms(2)]] checksum_hex])
  moreover have "valid_content (ze_json env) (object_key p u) (lo_body obj)"
    using audit_landed_object [OF assms(2,4,5), of PNone] by (simp add: valid_content_def obj_def)
  ultimately have sound: "sound_object env obj" and key: "as_posix (lo_key obj) = lo_key obj"
    using ends_with_key [of p u] by (simp_all add: sound_object_def obj_def)
  have "ends_landed env obj (write_forecast env p t) w"
    using ends_landed_write [OF assms(1) sound] prep by simp
  then obtain r w' where run: "write_forecast env p t w = Some (r, w')" "zone_step (ze_json env) w w'"
    "\<forall>res. r = Inr res \<longrightarrow> landed env obj w w' res"
    by (auto simp: ends_landed_def)
  have "\<exists>report. audit_file_landing tree = Inr report \<and> report_invalid report = 0"
    if "zone_valid (ze_json env) (zw_files w')" "lists_zone (ze_json env) tree (zw_files w')" for tree
    using audit_of_valid_zone [OF that] by blast
  then show ?thesis using run prep
    by (intro exI [of _ r] exI [of _ w'] exI [of _ obj]) (auto simp: zone_step_def file_step_def)
qed

text \<open>Another process has removed its temporary file before every call, and the last call, the removal of
  the own one, fails.\<close>

definition demo_zone :: zone_env where
  "demo_zone = \<lparr>ze_before = \<lambda>n s. s(''other'' := None), ze_fault = \<lambda>n. if n = 6 then Some OSError else None,
     ze_random = \<lambda>n. ''abcdefgh'', ze_partial = \<lambda>n. 0, ze_json = demo_decoder, ze_now = demo_utc\<rparr>"

lemma demo_zone_contract: "zone_contract demo_zone"
proof -
  have "file_step demo_decoder s (s(''other'' := None))" for s
    by (rule file_step_other) code_simp
  moreover have "path \<noteq> ''other''" if "own_temporary demo_zone path" for path
  proof
    assume "path = ''other''"
    with that obtain dirs base where "''other'' = join ''/'' (dirs @ [base @ ''.tmp''])"
      by (auto simp: own_temporary_def temporary_name_def) (metis append.assoc append_Cons)
    moreover have "\<exists>u. join ''/'' (dirs @ [base @ ''.tmp'']) = u @ ''.tmp''"
      by (induction dirs rule: induct_list012) auto
    ultimately have "ends_with ''.tmp'' ''other''" unfolding ends_with_iff by metis
    then show False by (simp add: ends_with_def)
  qed
  ultimately show ?thesis by (auto simp: zone_contract_def demo_zone_def)
qed

theorem landing_zone_stays_valid_witness:
  "\<exists>r w'. write_forecast demo_zone demo_forecast (Some demo_instant) \<lparr>zw_tick = 0, zw_files = Map.empty\<rparr> = Some (r, w') \<and>
    zone_valid demo_decoder (zw_files w')"
proof -
  have env: "ze_json demo_zone = demo_decoder" "landing_time (ze_now demo_zone) (Some demo_instant) = demo_instant"
    by (simp_all add: demo_zone_def landing_time_def)
  have "zone_valid demo_decoder Map.empty" by (simp add: zone_valid_def)
  then show ?thesis
    using landing_zone_stays_valid [OF demo_zone_contract demo_located, of "Some demo_instant" demo_utc
        "\<lparr>zw_tick = 0, zw_files = Map.empty\<rparr>", unfolded env, OF demo_instant_utc demo_reads_back]
    by simp blast
qed

end
