(* ===== verification/Ranger_Policy.thy ===== *)
theory Ranger_Policy
  imports Access_Policy
begin

text \<open>
  The compilation half of \<open>ranger.py\<close>: the role model becomes the policies of Apache Ranger. Policies
  of the same resources are merged, because the server holds one policy for every resource. A policy
  is kept as what its dictionary is built from; \<open>ranger_policy_dict\<close> is the dictionary.
\<close>

section \<open>Policies\<close>

text \<open>Who may do what, with the items of a policy; a filter or a mask is for the reads of its users.\<close>

datatype ranger_items =
    AccessItems "(string list \<times> string list) list"
  | RowFilter "string list" pyval
  | DataMask "string list" pyval

record ranger_policy =
  rp_service :: string
  rp_name :: string
  rp_resources :: pydict
  rp_items :: ranger_items

definition managed_description :: string where
  "managed_description = ''Managed by Lakehouse Ops role-policy schema 1.0''"

definition allowed :: "string list \<Rightarrow> pyval" where
  "allowed accesses = PList (map (\<lambda>a. PDict [(''type'', PStr a), (''isAllowed'', PBool True)]) accesses)"

definition access_item :: "string list \<times> string list \<Rightarrow> pyval" where
  "access_item entry = PDict [(''users'', PList (map PStr (fst entry))), (''accesses'', allowed (snd entry)),
     (''delegateAdmin'', PBool False)]"

definition transformation_item :: "string list \<Rightarrow> string \<Rightarrow> pyval \<Rightarrow> pyval" where
  "transformation_item users key details = PDict [(''users'', PList (map PStr users)), (''accesses'', allowed [''select'']),
     (key, details), (''delegateAdmin'', PBool False)]"

definition policy_type :: "ranger_items \<Rightarrow> int" where
  "policy_type items = (case items of AccessItems _ \<Rightarrow> 0 | DataMask _ _ \<Rightarrow> 1 | RowFilter _ _ \<Rightarrow> 2)"

definition items_dict :: "ranger_items \<Rightarrow> pydict" where
  "items_dict items = (case items of
       AccessItems entries \<Rightarrow> [(''policyItems'', PList (map access_item entries))]
     | RowFilter users expression \<Rightarrow> [(''policyItems'', PList []), (''rowFilterPolicyItems'',
         PList [transformation_item users ''rowFilterInfo'' (PDict [(''filterExpr'', expression)])])]
     | DataMask users masking \<Rightarrow> [(''policyItems'', PList []), (''dataMaskPolicyItems'',
         PList [transformation_item users ''dataMaskInfo'' (PDict [(''dataMaskType'', masking)])])])"

definition ranger_policy_dict :: "ranger_policy \<Rightarrow> pydict" where
  "ranger_policy_dict p =
     [(''service'', PStr (rp_service p)), (''name'', PStr (rp_name p)), (''description'', PStr managed_description),
      (''policyType'', PInt (policy_type (rp_items p))), (''isEnabled'', PBool True), (''isAuditEnabled'', PBool True),
      (''resources'', PDict (rp_resources p))] @ items_dict (rp_items p) @ [(''isDenyAllElse'', PBool False)]"

definition access_policy :: "string \<Rightarrow> string \<Rightarrow> pydict \<Rightarrow> string list \<Rightarrow> string list \<Rightarrow> ranger_policy" where
  "access_policy service name resources users accesses =
     \<lparr>rp_service = service, rp_name = name, rp_resources = resources,
      rp_items = AccessItems [(sort users, sort (remdups accesses))]\<rparr>"

definition row_filter_policy :: "string \<Rightarrow> string \<Rightarrow> pydict \<Rightarrow> string list \<Rightarrow> pyval \<Rightarrow> ranger_policy" where
  "row_filter_policy service name resources users expression =
     \<lparr>rp_service = service, rp_name = name, rp_resources = resources, rp_items = RowFilter (sort users) expression\<rparr>"

definition data_mask_policy :: "string \<Rightarrow> string \<Rightarrow> pydict \<Rightarrow> string list \<Rightarrow> pyval \<Rightarrow> ranger_policy" where
  "data_mask_policy service name resources users masking =
     \<lparr>rp_service = service, rp_name = name, rp_resources = resources, rp_items = DataMask (sort users) masking\<rparr>"

definition resource_of :: "pyval \<Rightarrow> pyval" where
  "resource_of names = PDict [(''values'', names), (''isExcludes'', PBool False), (''isRecursive'', PBool False)]"

section \<open>Grants\<close>

text \<open>\<open>x in container\<close> for a text \<open>x\<close>: a part of a text, a key, or an element.\<close>

definition occurs_in :: "string \<Rightarrow> string \<Rightarrow> bool" where
  "occurs_in x s = list_ex (\<lambda>i. starts_with x (drop i s)) [0..<Suc (length s)]"

definition contains :: "string \<Rightarrow> pyval \<Rightarrow> bool result" where
  "contains x v = (case v of
       PStr s \<Rightarrow> Inr (occurs_in x s)
     | PDict d \<Rightarrow> Inr (x \<in> fst ` set d)
     | PList vs \<Rightarrow> Inr (PStr x \<in> set vs)
     | PTuple vs \<Rightarrow> Inr (PStr x \<in> set vs)
     | _ \<Rightarrow> raise TypeError [])"

definition access_of_privilege :: "pyval \<Rightarrow> string option" where
  "access_of_privilege v =
     (if v = PStr ''SELECT'' then Some ''select'' else if v = PStr ''INSERT'' then Some ''insert''
      else if v = PStr ''DELETE'' then Some ''delete'' else if v = PStr ''UPDATE'' then Some ''alter''
      else if v = PStr ''GRANT_SELECT'' then Some ''grant'' else None)"

definition table_accesses :: "pyval \<Rightarrow> string list result" where
  "table_accesses privileges =
     bindE (contains ''OWNERSHIP'' privileges) (\<lambda>owner.
       if owner then Inr [''all'']
       else bindE (iterate privileges) (\<lambda>vs.
         if list_all can_hash vs then Inr (sort (remdups (List.map_filter access_of_privilege vs))) else raise TypeError []))"

definition resources_of :: "pyval \<Rightarrow> (string \<times> string) list \<Rightarrow> pydict result" where
  "resources_of grant kinds =
     mapE (\<lambda>(name, key). bindE (subscript grant key) (\<lambda>v. Inr (name, resource_of v))) kinds"

text \<open>What a grant of each kind gives, before it has a name and users: its resources and its effect.\<close>

datatype effect = Accesses "string list" | Filter pyval | Mask pyval

type_synonym ranger_grant = "pydict \<times> effect"

definition catalog_grant :: "pyval \<Rightarrow> ranger_grant result" where
  "catalog_grant grant =
     bindE (subscript grant ''access'') (\<lambda>a.
     bindE (resources_of grant [(''catalog'', ''catalogs'')]) (\<lambda>resources.
       Inr (resources, Accesses [if a = PStr ''all'' then ''all'' else ''select''])))"

definition schema_grant :: "pyval \<Rightarrow> ranger_grant result" where
  "schema_grant grant =
     bindE (resources_of grant [(''catalog'', ''catalogs''), (''schema'', ''schemas'')]) (\<lambda>resources.
     bindE (subscript grant ''owner'') (\<lambda>owner.
       Inr (resources, Accesses [if truthy owner then ''all'' else ''select''])))"

definition table_grant :: "pyval \<Rightarrow> ranger_grant result" where
  "table_grant grant =
     bindE (resources_of grant [(''catalog'', ''catalogs''), (''schema'', ''schemas''), (''table'', ''tables'')]) (\<lambda>resources.
     bindE (bindE (subscript grant ''privileges'') table_accesses) (\<lambda>accesses.
       Inr (resources @ [(''column'', resource_of (PList [PStr ''*'']))], Accesses accesses)))"

definition row_filter_grant :: "pyval \<Rightarrow> ranger_grant result" where
  "row_filter_grant grant =
     bindE (resources_of grant [(''catalog'', ''catalogs''), (''schema'', ''schemas''), (''table'', ''tables'')]) (\<lambda>resources.
     bindE (subscript grant ''filter'') (\<lambda>expression. Inr (resources, Filter expression)))"

definition column_mask_grant :: "pyval \<Rightarrow> ranger_grant result" where
  "column_mask_grant grant =
     bindE (resources_of grant [(''catalog'', ''catalogs''), (''schema'', ''schemas''), (''table'', ''tables''), (''column'', ''columns'')]) (\<lambda>resources.
     bindE (subscript grant ''mask_type'') (\<lambda>masking. Inr (resources, Mask masking)))"

definition policy_of :: "string \<Rightarrow> string \<Rightarrow> string list \<Rightarrow> ranger_grant \<Rightarrow> ranger_policy" where
  "policy_of service name users grant = (case grant of (resources, effect) \<Rightarrow> (case effect of
       Accesses accesses \<Rightarrow> access_policy service name resources users accesses
     | Filter expression \<Rightarrow> row_filter_policy service name resources users expression
     | Mask masking \<Rightarrow> data_mask_policy service name resources users masking))"

text \<open>\<open>for index, grant in enumerate(permissions.get(key, []), start=1)\<close>\<close>

definition numbered_policies :: "string \<Rightarrow> string \<Rightarrow> string list \<Rightarrow> string \<Rightarrow> (pyval \<Rightarrow> ranger_grant result) \<Rightarrow> pyval \<Rightarrow> string \<Rightarrow>
    ranger_policy list result" where
  "numbered_policies service role users kind grant_of permissions key =
     bindE (grants permissions key) (\<lambda>gs.
       mapE (\<lambda>(index, grant). bindE (grant_of grant) (\<lambda>g.
         Inr (policy_of service (''lakehouse-ops-'' @ role @ ''-'' @ kind @ ''-'' @ dec_nat index) users g)))
       (zip [1..<Suc (length gs)] gs))"

definition wildcard_resource :: "string \<Rightarrow> string \<Rightarrow> pydict" where
  "wildcard_resource kind name = [(kind, resource_of (PList [PStr name]))]"

definition query_policies :: "string \<Rightarrow> string \<Rightarrow> string list \<Rightarrow> pyval \<Rightarrow> ranger_policy list result" where
  "query_policies service role users permissions =
     bindE (get_attr permissions ''queries'') (\<lambda>found.
     bindE (contains ''execute'' (case found of None \<Rightarrow> PList [] | Some v \<Rightarrow> v)) (\<lambda>execute. Inr
       (if execute then [access_policy service (''lakehouse-ops-'' @ role @ ''-query'') (wildcard_resource ''queryid'' ''*'') users [''execute'']]
        else [])))"

definition system_policies :: "string \<Rightarrow> string \<Rightarrow> string list \<Rightarrow> pyval \<Rightarrow> ranger_policy list result" where
  "system_policies service role users permissions =
     bindE (get_attr permissions ''system_information'') (\<lambda>found.
       if \<not> is_truthy found then Inr []
       else bindE (iterate (case found of None \<Rightarrow> PList [] | Some v \<Rightarrow> v)) (\<lambda>accesses. Inr
         [access_policy service (''lakehouse-ops-'' @ role @ ''-sysinfo'') (wildcard_resource ''sysinfo'' ''*'') users
           (map (\<lambda>a. py_str a @ ''_sysinfo'') accesses)]))"

definition role_policies :: "string \<Rightarrow> (string \<times> string list) list \<Rightarrow> string \<times> pyval \<Rightarrow> ranger_policy list result" where
  "role_policies service table role = (case role of (name, permissions) \<Rightarrow>
     (let users = (case map_of table name of None \<Rightarrow> [] | Some us \<Rightarrow> us) in
      if users = [] then Inr []
      else bindE (numbered_policies service name users ''catalog'' catalog_grant permissions ''catalogs'') (\<lambda>catalogs.
        bindE (numbered_policies service name users ''schema'' schema_grant permissions ''schemas'') (\<lambda>schemas.
        bindE (numbered_policies service name users ''table'' table_grant permissions ''tables'') (\<lambda>tables.
        bindE (numbered_policies service name users ''row-filter'' row_filter_grant permissions ''row_filters'') (\<lambda>filters.
        bindE (numbered_policies service name users ''column-mask'' column_mask_grant permissions ''column_masks'') (\<lambda>masks.
        bindE (query_policies service name users permissions) (\<lambda>queries.
        bindE (system_policies service name users permissions) (\<lambda>systems.
          Inr (catalogs @ schemas @ tables @ filters @ masks @ queries @ systems))))))))))"

section \<open>Merging\<close>

definition resource_key :: "ranger_policy \<Rightarrow> string" where
  "resource_key p = canonical (PDict (rp_resources p))"

definition add_to_group :: "ranger_policy \<Rightarrow> (string \<times> ranger_policy list) list \<Rightarrow> (string \<times> ranger_policy list) list" where
  "add_to_group p grouped = dict_set grouped (resource_key p)
     ((case map_of grouped (resource_key p) of None \<Rightarrow> [] | Some ps \<Rightarrow> ps) @ [p])"

definition first_entry :: "ranger_policy \<Rightarrow> string list \<times> string list" where
  "first_entry p = (case rp_items p of AccessItems (entry # _) \<Rightarrow> entry | _ \<Rightarrow> ([], []))"

text \<open>The users by the sorted tuple of accesses.\<close>

definition add_entry :: "ranger_policy \<Rightarrow> (string list \<times> string list) list \<Rightarrow> (string list \<times> string list) list" where
  "add_entry p by_access = (case first_entry p of (users, accesses) \<Rightarrow>
     dict_set by_access (sort accesses) ((case map_of by_access (sort accesses) of None \<Rightarrow> [] | Some us \<Rightarrow> us) @ users))"

definition merged_policy_name :: "pydict \<Rightarrow> string \<Rightarrow> string" where
  "merged_policy_name resources key =
     (let kinds = fst ` set resources in
      if kinds = {''queryid''} then ''lakehouse-ops-query-execution''
      else if kinds = {''sysinfo''} then ''lakehouse-ops-system-information''
      else if kinds = {''trinouser''} then ''lakehouse-ops-self-impersonation''
      else ''lakehouse-ops-'' @ join ''-'' (sort (map fst resources)) @ ''-'' @ take 10 (sha256_hex key))"

definition merge_group :: "string \<times> ranger_policy list \<Rightarrow> ranger_policy" where
  "merge_group entry = (case entry of (key, matches) \<Rightarrow>
     (let template = hd matches; by_access = fold add_entry matches [] in
      template\<lparr>rp_name := merged_policy_name (rp_resources template) key,
        rp_items := AccessItems (map (\<lambda>(accesses, users). (sort (remdups users), accesses)) (sort_key fst by_access))\<rparr>))"

definition merge_matching_resources :: "ranger_policy list \<Rightarrow> ranger_policy list" where
  "merge_matching_resources policies = sort_key rp_name (map merge_group (fold add_to_group policies []))"

section \<open>Compilation\<close>

definition is_access_policy :: "ranger_policy \<Rightarrow> bool" where
  "is_access_policy p = (policy_type (rp_items p) = 0)"

definition default_policies :: "string \<Rightarrow> string list \<Rightarrow> pydict \<Rightarrow> ranger_policy list result" where
  "default_policies service all_users model =
     bindE (bindE (item model ''defaults'') (\<lambda>defaults. get_attr defaults ''queries'')) (\<lambda>found.
     bindE (contains ''execute'' (case found of None \<Rightarrow> PList [] | Some v \<Rightarrow> v)) (\<lambda>execute. Inr
       ((if execute then [access_policy service ''lakehouse-ops-default-query-execution'' (wildcard_resource ''queryid'' ''*'')
           all_users [''execute'']] else []) @
        [access_policy service ''lakehouse-ops-self-impersonation'' (wildcard_resource ''trinouser'' ''{USER}'') all_users
           [''impersonate'']])))"

definition compile_ranger_policies :: "pydict \<Rightarrow> string \<Rightarrow> ranger_policy list result" where
  "compile_ranger_policies model service =
     bindE (item model ''roles'') (\<lambda>roles.
     bindE (bindE (item model ''bindings'') iterate) (\<lambda>bindings.
     bindE (users_by_role bindings (the_dict roles)) (\<lambda>table.
     let all_users = sort (remdups (concat (map snd table))) in
     bindE (mapE (role_policies service table) (the_dict roles)) (\<lambda>by_role.
     bindE (default_policies service all_users model) (\<lambda>rest.
     let policies = concat by_role @ rest in
       Inr (sort_key rp_name (merge_matching_resources (filter is_access_policy policies) @
         filter (\<lambda>p. \<not> is_access_policy p) policies)))))))"

end
