(* ===== verification/Ranger_Sync.thy ===== *)
theory Ranger_Sync
  imports Ranger_Policy Break_Glass Report_Schema World_IO
begin

text \<open>
  The client half of \<open>ranger.py\<close>: a synchronisation makes the policies of the Ranger server those of
  the role model. The state is the list of requests that were sent; the server answers a request as it
  likes, whatever came before. What it answers, how it is decoded and the path that the HTTP library
  makes of a request are parameters.
\<close>

section \<open>Requests\<close>

record ranger_request =
  rr_method :: string
  rr_path :: string
  rr_json :: "pydict option"
  rr_params :: pydict

record ranger_response =
  ra_status :: int
  ra_content :: string

record ranger_env =
  re_answer :: "ranger_request list \<Rightarrow> ranger_request \<Rightarrow> ranger_response result"
  re_json :: "string \<Rightarrow> pyval result"
  re_text :: "string \<Rightarrow> string"
  re_url_path :: "string \<Rightarrow> string"

type_synonym 'a admin = "(pyexn, 'a, ranger_request list) act"

definition plain :: "string \<Rightarrow> string \<Rightarrow> ranger_request" where
  "plain http_method path = \<lparr>rr_method = http_method, rr_path = path, rr_json = None, rr_params = []\<rparr>"

definition with_json :: "string \<Rightarrow> string \<Rightarrow> pydict \<Rightarrow> ranger_request" where
  "with_json http_method path body = \<lparr>rr_method = http_method, rr_path = path, rr_json = Some body, rr_params = []\<rparr>"

definition is_admin_fault :: "exn_class \<Rightarrow> bool" where
  "is_admin_fault k = (is_a k HttpTransportError \<or> is_a k HttpStatusError)"

definition admin_text :: "ranger_request \<Rightarrow> string \<Rightarrow> string" where
  "admin_text r path = ''Ranger Admin '' @ rr_method r @ '' '' @ path @ '' failed''"

definition send_request :: "ranger_env \<Rightarrow> ranger_request \<Rightarrow> ranger_response admin" where
  "send_request env r sent = Some
     (catchE (re_answer env sent r) is_admin_fault (\<lambda>e.
        raise RangerAdminError (admin_text r (rr_path r) @ '': '' @ message_of e)), sent @ [r])"

definition raise_for_status :: "ranger_env \<Rightarrow> ranger_request \<Rightarrow> ranger_response \<Rightarrow> unit result" where
  "raise_for_status env r answer =
     (if 200 \<le> ra_status answer \<and> ra_status answer < 300 then Inr ()
      else raise RangerAdminError (admin_text r (re_url_path env (rr_path r)) @ '' with '' @ dec_int (ra_status answer) @
        '': '' @ re_text env (ra_content answer)))"

definition decoded :: "ranger_env \<Rightarrow> ranger_request \<Rightarrow> ranger_response \<Rightarrow> pyval result" where
  "decoded env r answer =
     bindE (raise_for_status env r answer) (\<lambda>_.
       if ra_content answer = [] then Inr PNone else re_json env (ra_content answer))"

definition request_io :: "ranger_env \<Rightarrow> ranger_request \<Rightarrow> pyval admin" where
  "request_io env r = bind_io (send_request env r) (\<lambda>answer. lift_io (decoded env r answer))"

section \<open>The service and its users\<close>

definition service_configs :: "string \<Rightarrow> string \<Rightarrow> (string \<times> string) list" where
  "service_configs jdbc_url service_user =
     [(''username'', service_user), (''jdbc.driverClassName'', ''io.trino.jdbc.TrinoDriver''), (''jdbc.url'', jdbc_url)]"

definition service_definition :: "string \<Rightarrow> string \<Rightarrow> string \<Rightarrow> pydict" where
  "service_definition service jdbc_url service_user =
     [(''name'', PStr service), (''displayName'', PStr ''Lakehouse Trino''), (''type'', PStr ''trino''),
      (''isEnabled'', PBool True),
      (''configs'', PDict (map (\<lambda>(key, v). (key, PStr v)) (service_configs jdbc_url service_user)))]"

fun configs_agree :: "pyval \<Rightarrow> (string \<times> string) list \<Rightarrow> bool result" where
  "configs_agree current [] = Inr True"
| "configs_agree current ((key, v) # rest) = bindE (get_attr current key) (\<lambda>found.
     if found = Some (PStr v) then configs_agree current rest else Inr False)"

definition service_is_current :: "pyval \<Rightarrow> (string \<times> string) list \<Rightarrow> bool result" where
  "service_is_current current configs =
     bindE (get_attr current ''configs'') (\<lambda>found.
     bindE (get_attr current ''type'') (\<lambda>kind.
     bindE (get_attr current ''isEnabled'') (\<lambda>enabled.
       if kind = Some (PStr ''trino'') \<and> enabled = Some (PBool True)
       then configs_agree (case found of None \<Rightarrow> PDict [] | Some v \<Rightarrow> v) configs
       else Inr False)))"

definition service_path :: "pyval \<Rightarrow> string" where
  "service_path i = ''/service/public/v2/api/service/'' @ py_str i"

definition ensure_service :: "ranger_env \<Rightarrow> string \<Rightarrow> string \<Rightarrow> string \<Rightarrow> string admin" where
  "ensure_service env service jdbc_url service_user =
     (let desired = service_definition service jdbc_url service_user;
          question = plain ''GET'' (''/service/public/v2/api/service/name/'' @ service) in
      bind_io (send_request env question) (\<lambda>answer.
        if ra_status answer = 404
        then bind_io (request_io env (with_json ''POST'' ''/service/public/v2/api/service'' desired)) (\<lambda>_. return_io ''created'')
        else bind_io (lift_io (raise_for_status env question answer)) (\<lambda>_.
          bind_io (lift_io (re_json env (ra_content answer))) (\<lambda>current.
          bind_io (lift_io (service_is_current current (service_configs jdbc_url service_user))) (\<lambda>same.
            if same then return_io ''unchanged''
            else bind_io (lift_io (subscript current ''id'')) (\<lambda>i.
              bind_io (request_io env (with_json ''PUT'' (service_path i)
                (dict_set desired ''id'' i))) (\<lambda>_. return_io ''updated'')))))))"

text \<open>The names of the users that the server lists.\<close>

definition listed_users :: "pyval \<Rightarrow> string list result" where
  "listed_users answer =
     bindE (get_attr answer ''vXUsers'') (\<lambda>found.
     bindE (iterate (case found of None \<Rightarrow> PList [] | Some v \<Rightarrow> v)) (\<lambda>users.
       Inr (List.map_filter (\<lambda>u. case u of PDict d \<Rightarrow> (case get d ''name'' of PStr s \<Rightarrow> Some s | _ \<Rightarrow> None) | _ \<Rightarrow> None) users)))"

definition ensure_users :: "ranger_env \<Rightarrow> string list \<Rightarrow> pydict admin" where
  "ensure_users env users =
     bind_io (request_io env \<lparr>rr_method = ''GET'', rr_path = ''/service/xusers/users'', rr_json = None,
         rr_params = [(''pageSize'', PInt (max (int (length users)) 100))]\<rparr>) (\<lambda>answer.
     bind_io (lift_io (listed_users answer)) (\<lambda>existing.
     let missing = filter (\<lambda>u. u \<notin> set existing) users in
     bind_io (mapM_io (\<lambda>u. request_io env (with_json ''POST'' ''/service/xusers/users/external'' [(''name'', PStr u)])) missing) (\<lambda>_.
       return_io [(''desired'', PInt (int (length users))), (''created'', PInt (int (length missing))),
         (''unchanged'', PInt (int (length users) - int (length missing)))])))"

section \<open>The policies of the server\<close>

definition is_bootstrap_policy :: "string \<Rightarrow> pydict \<Rightarrow> bool" where
  "is_bootstrap_policy service_user p =
     ((case get p ''name'' of PStr s \<Rightarrow> starts_with ''all - '' s | _ \<Rightarrow> False) \<and>
      (case get p ''description'' of PStr s \<Rightarrow> starts_with ''Policy for all - '' s | _ \<Rightarrow> False) \<and>
      (case get p ''policyItems'' of PList items \<Rightarrow> items \<noteq> [] \<and>
         list_all (\<lambda>i. case i of PDict d \<Rightarrow> py_eq (get d ''users'') (PList [PStr service_user]) \<and>
           get d ''delegateAdmin'' = PBool True | _ \<Rightarrow> False) items | _ \<Rightarrow> False))"

definition dicts :: "pyval list \<Rightarrow> pydict list" where
  "dicts vs = List.map_filter (\<lambda>v. case v of PDict d \<Rightarrow> Some d | _ \<Rightarrow> None) vs"

definition list_request :: "string \<Rightarrow> ranger_request" where
  "list_request service = plain ''GET'' (''/service/public/v2/api/service/'' @ service @ ''/policy'')"

definition policy_path :: "pyval \<Rightarrow> string" where
  "policy_path i = ''/service/public/v2/api/policy/'' @ py_str i"

definition delete_policy :: "ranger_env \<Rightarrow> pydict \<Rightarrow> unit admin" where
  "delete_policy env p =
     bind_io (lift_io (item p ''id'')) (\<lambda>i.
     bind_io (request_io env (plain ''DELETE'' (policy_path i))) (\<lambda>_. return_io ()))"

text \<open>\<open>[policy for policy in existing if policy not in bootstrap_policies]\<close>: an element is in a list when
  it is one of its elements or equal to one.\<close>

definition bootstrap_policies :: "string \<Rightarrow> pyval list \<Rightarrow> pydict list" where
  "bootstrap_policies service_user existing = filter (is_bootstrap_policy service_user) (dicts existing)"

definition without_bootstrap :: "string \<Rightarrow> pyval list \<Rightarrow> pyval list" where
  "without_bootstrap service_user existing =
     filter (\<lambda>v. \<not> list_ex (\<lambda>b. v = PDict b \<or> py_eq v (PDict b)) (bootstrap_policies service_user existing)) existing"

definition remove_bootstrap_policies :: "ranger_env \<Rightarrow> string \<Rightarrow> string \<Rightarrow> (pyval list \<times> nat) admin" where
  "remove_bootstrap_policies env service service_user =
     bind_io (request_io env (list_request service)) (\<lambda>answer.
     bind_io (lift_io (iterate answer)) (\<lambda>existing.
     bind_io (mapM_io (delete_policy env) (bootstrap_policies service_user existing)) (\<lambda>_.
       return_io (without_bootstrap service_user existing, length (bootstrap_policies service_user existing)))))"

section \<open>One desired policy\<close>

definition is_managed :: "pydict \<Rightarrow> bool" where
  "is_managed p = (get p ''description'' = PStr managed_description)"

definition policy_projection :: "pydict \<Rightarrow> pydict" where
  "policy_projection p =
     map (\<lambda>key. (key, get p key)) [''service'', ''name'', ''description'', ''policyType'', ''isEnabled'', ''isAuditEnabled'',
       ''resources'', ''isDenyAllElse''] @
     map (\<lambda>key. (key, if truthy (get p key) then get p key else PList [])) [''policyItems'', ''denyPolicyItems'',
       ''allowExceptions'', ''denyExceptions'', ''dataMaskPolicyItems'', ''rowFilterPolicyItems'']"

text \<open>The keys of \<open>existing_by_name\<close>: every policy has a name that can be a key.\<close>

definition check_names :: "pydict list \<Rightarrow> unit result" where
  "check_names existing =
     bindE (mapE (\<lambda>p. bindE (item p ''name'') (\<lambda>v. if can_hash v then Inr () else raise TypeError [])) existing) (\<lambda>_. Inr ())"

definition named :: "pydict list \<Rightarrow> string \<Rightarrow> pydict option" where
  "named existing name = (case filter (\<lambda>p. get p ''name'' = PStr name) existing of [] \<Rightarrow> None | ps \<Rightarrow> Some (last ps))"

definition consumed_id :: "pyval \<Rightarrow> pyval list \<Rightarrow> bool result" where
  "consumed_id i consumed = (if can_hash i then Inr (list_ex (\<lambda>j. i = j \<or> py_eq i j) consumed) else raise TypeError [])"

fun same_resources :: "pydict list \<Rightarrow> pydict \<Rightarrow> pyval list \<Rightarrow> pydict option result" where
  "same_resources [] resources consumed = Inr None"
| "same_resources (c # cs) resources consumed =
     (if is_managed c \<and> py_eq (get c ''resources'') (PDict resources)
      then bindE (consumed_id (get c ''id'') consumed) (\<lambda>used.
        if used then same_resources cs resources consumed else Inr (Some c))
      else same_resources cs resources consumed)"

definition current_policy :: "pydict list \<Rightarrow> ranger_policy \<Rightarrow> pyval list \<Rightarrow> pydict option result" where
  "current_policy existing p consumed =
     (case named existing (rp_name p) of Some c \<Rightarrow> Inr (Some c)
      | None \<Rightarrow> same_resources existing (rp_resources p) consumed)"

definition create_policy :: "ranger_env \<Rightarrow> string \<Rightarrow> string \<Rightarrow> ranger_policy \<Rightarrow> nat admin" where
  "create_policy env service service_user p =
     (let create = with_json ''POST'' ''/service/public/v2/api/policy'' (ranger_policy_dict p) in
      catch_io (bind_io (request_io env create) (\<lambda>_. return_io 0)) (\<lambda>k. is_a k RangerAdminError) (\<lambda>error.
        if \<not> occurs_in ''Another policy already exists for matching resource'' (message_of error) then lift_io (Inl error)
        else bind_io (remove_bootstrap_policies env service service_user) (\<lambda>(_, late).
          if late = 0 then lift_io (Inl error)
          else bind_io (request_io env create) (\<lambda>_. return_io late))))"

text \<open>The counters of the run, and the identifiers of the policies it has used.\<close>

record tally =
  ty_consumed :: "pyval list"
  ty_bootstrap :: nat
  ty_created :: nat
  ty_updated :: nat
  ty_unchanged :: nat

definition consume :: "pydict \<Rightarrow> tally \<Rightarrow> tally result" where
  "consume current t =
     bindE (item current ''id'') (\<lambda>i.
       if can_hash i then Inr (t\<lparr>ty_consumed := i # ty_consumed t\<rparr>) else raise TypeError [])"

definition sync_policy :: "ranger_env \<Rightarrow> string \<Rightarrow> string \<Rightarrow> pydict list \<Rightarrow> ranger_policy \<Rightarrow> tally \<Rightarrow> tally admin" where
  "sync_policy env service service_user existing p t =
     bind_io (lift_io (current_policy existing p (ty_consumed t))) (\<lambda>found. case found of
       None \<Rightarrow> bind_io (create_policy env service service_user p) (\<lambda>late.
         return_io (t\<lparr>ty_bootstrap := ty_bootstrap t + late, ty_created := Suc (ty_created t)\<rparr>))
     | Some current \<Rightarrow>
         if py_eq (PDict (policy_projection current)) (PDict (policy_projection (ranger_policy_dict p)))
         then lift_io (bindE (consume current t) (\<lambda>t. Inr (t\<lparr>ty_unchanged := Suc (ty_unchanged t)\<rparr>)))
         else bind_io (lift_io (item current ''id'')) (\<lambda>i.
           bind_io (request_io env (with_json ''PUT'' (policy_path i) (dict_set (ranger_policy_dict p) ''id'' i))) (\<lambda>_.
             lift_io (bindE (consume current t) (\<lambda>t. Inr (t\<lparr>ty_updated := Suc (ty_updated t)\<rparr>))))))"

primrec sync_policies ::
    "ranger_env \<Rightarrow> string \<Rightarrow> string \<Rightarrow> pydict list \<Rightarrow> ranger_policy list \<Rightarrow> tally \<Rightarrow> tally admin" where
  "sync_policies env service service_user existing [] t = return_io t"
| "sync_policies env service service_user existing (p # ps) t =
     bind_io (sync_policy env service service_user existing p t) (\<lambda>t.
       sync_policies env service service_user existing ps t)"

section \<open>Stale policies\<close>

definition is_stale :: "string set \<Rightarrow> pyval list \<Rightarrow> pydict \<Rightarrow> bool result" where
  "is_stale names consumed p =
     (if is_managed p \<and> \<not> (is_str (get p ''name'') \<and> the_str (get p ''name'') \<in> names)
      then bindE (consumed_id (get p ''id'') consumed) (\<lambda>used. Inr (\<not> used)) else Inr False)"

primrec delete_stale :: "ranger_env \<Rightarrow> string set \<Rightarrow> pyval list \<Rightarrow> pydict list \<Rightarrow> nat admin" where
  "delete_stale env names consumed [] = return_io 0"
| "delete_stale env names consumed (p # ps) =
     bind_io (lift_io (is_stale names consumed p)) (\<lambda>stale.
     bind_io (if stale then bind_io (delete_policy env p) (\<lambda>_. return_io (1 :: nat)) else return_io 0) (\<lambda>n.
     bind_io (delete_stale env names consumed ps) (\<lambda>m. return_io (n + m))))"

section \<open>The synchronisation\<close>

text \<open>The model file, the lease file if there is one, and the time at which the lease is read.\<close>

record sync_input =
  si_model :: "fdoc option"
  si_lease :: "(fdoc option \<times> pydt) option"
  si_service :: string
  si_jdbc_url :: string
  si_service_user :: string
  si_schema :: string

definition leased_model :: "sync_input \<Rightarrow> (pydict \<times> lease_report option) result" where
  "leased_model inp =
     bindE (load_access_policy (si_model inp)) (\<lambda>model. case si_lease inp of
       None \<Rightarrow> Inr (model, None)
     | Some (content, now) \<Rightarrow> bindE (apply_break_glass_lease model content now) (\<lambda>(effective, lease).
         Inr (effective, Some lease)))"

definition users_of :: "pydict \<Rightarrow> string list result" where
  "users_of model =
     bindE (bindE (item model ''bindings'') iterate) (\<lambda>bindings.
     bindE (mapE (\<lambda>b. bindE (bindE (subscript b ''users'') iterate) (mapE name_of)) bindings) (\<lambda>names.
       Inr (sort (remdups (concat names)))))"

definition sync_report_dict :: "sync_input \<Rightarrow> string \<Rightarrow> pydict \<Rightarrow> nat \<Rightarrow> tally \<Rightarrow> nat \<Rightarrow> lease_report option \<Rightarrow> pydict" where
  "sync_report_dict inp service_status user_status desired t deleted lease =
     [(''schema_version'', PStr ''1.0''), (''status'', PStr ''synchronized''), (''service'', PStr (si_service inp)),
      (''service_status'', PStr service_status), (''users'', PDict user_status),
      (''policies'', PDict [(''desired'', PInt (int desired)), (''bootstrap_deleted'', PInt (int (ty_bootstrap t))),
         (''created'', PInt (int (ty_created t))), (''updated'', PInt (int (ty_updated t))),
         (''unchanged'', PInt (int (ty_unchanged t))), (''deleted'', PInt (int deleted))])] @
     (case lease of None \<Rightarrow> []
      | Some l \<Rightarrow> [(''break_glass'', PDict (map (\<lambda>(key, v). (key, PStr v)) (lease_report_dict l)))])"

definition sync :: "ranger_env \<Rightarrow> schema_env \<Rightarrow> sync_input \<Rightarrow> pydict admin" where
  "sync env schemas inp =
     bind_io (lift_io (leased_model inp)) (\<lambda>(model, lease).
     bind_io (ensure_service env (si_service inp) (si_jdbc_url inp) (si_service_user inp)) (\<lambda>service_status.
     bind_io (lift_io (users_of model)) (\<lambda>users.
     bind_io (ensure_users env users) (\<lambda>user_status.
     bind_io (lift_io (compile_ranger_policies model (si_service inp))) (\<lambda>desired.
     bind_io (remove_bootstrap_policies env (si_service inp) (si_service_user inp)) (\<lambda>(remaining, removed).
     let existing = dicts remaining in
     bind_io (lift_io (check_names existing)) (\<lambda>_.
     bind_io (sync_policies env (si_service inp) (si_service_user inp) existing desired
       \<lparr>ty_consumed = [], ty_bootstrap = removed, ty_created = 0, ty_updated = 0, ty_unchanged = 0\<rparr>) (\<lambda>t.
     bind_io (delete_stale env (rp_name ` set desired) (ty_consumed t) existing) (\<lambda>deleted.
     let report = sync_report_dict inp service_status user_status (length desired) t deleted lease in
     bind_io (lift_io (checked_report RangerAdminError schemas (PDict report) (si_schema inp))) (\<lambda>_.
       return_io report))))))))))"

end
