(* ===== verification/Ranger_Properties.thy ===== *)
theory Ranger_Properties
  imports Ranger_Policy Access_Properties
begin

text \<open>
  The compiled Ranger policies against the role model: they allow exactly what the roles of a user
  grant, although policies of the same resources are merged.
\<close>

section \<open>Merging keeps what is allowed\<close>

definition entries :: "ranger_policy \<Rightarrow> (string list \<times> string list) set" where
  "entries p = (case rp_items p of AccessItems es \<Rightarrow> set es | _ \<Rightarrow> {})"

definition policy_allows :: "ranger_policy \<Rightarrow> string \<Rightarrow> string \<Rightarrow> bool" where
  "policy_allows p user access \<longleftrightarrow> (\<exists>(users, accesses) \<in> entries p. user \<in> set users \<and> access \<in> set accesses)"

definition allows :: "ranger_policy set \<Rightarrow> string \<Rightarrow> string \<Rightarrow> string \<Rightarrow> bool" where
  "allows ps key user access \<longleftrightarrow> (\<exists>p \<in> ps. resource_key p = key \<and> policy_allows p user access)"

lemma allows_Un: "allows (A \<union> B) key user access \<longleftrightarrow> allows A key user access \<or> allows B key user access"
  by (auto simp: allows_def)

lemma allows_Union: "allows (\<Union> (f ` I)) key user access \<longleftrightarrow> (\<exists>i \<in> I. allows (f i) key user access)"
  by (auto simp: allows_def)

definition single_entry :: "ranger_policy \<Rightarrow> bool" where
  "single_entry p \<longleftrightarrow> (\<exists>entry. rp_items p = AccessItems [entry])"

lemma single_entry_allows:
  "single_entry p \<Longrightarrow> policy_allows p user access \<longleftrightarrow> user \<in> set (fst (first_entry p)) \<and> access \<in> set (snd (first_entry p))"
  by (auto simp: single_entry_def policy_allows_def entries_def first_entry_def)

text \<open>Groups: every key with the policies of that key, in order.\<close>

lemma distinct_dict_set_keys: "distinct (map fst d) \<Longrightarrow> distinct (map fst (dict_set d k v))"
  by (rule distinct_dict_set)

lemma grouped:
  "distinct (map fst (fold add_to_group ps [])) \<and>
   map_of (fold add_to_group ps []) key = (let qs = filter (\<lambda>p. resource_key p = key) ps in if qs = [] then None else Some qs)"
proof (induction ps arbitrary: key rule: rev_induct)
  case Nil
  then show ?case by simp
next
  case (snoc p ps)
  then show ?case by (auto simp: add_to_group_def Let_def intro!: distinct_dict_set)
qed

lemma entries_by_access:
  "distinct (map fst (fold add_entry ms [])) \<and>
   map_of (fold add_entry ms []) accesses =
     (let qs = filter (\<lambda>p. sort (snd (first_entry p)) = accesses) ms in if qs = [] then None else Some (concat (map (fst \<circ> first_entry) qs)))"
proof (induction ms arbitrary: accesses rule: rev_induct)
  case Nil
  then show ?case by simp
next
  case (snoc p ms)
  then show ?case by (auto simp: add_entry_def Let_def case_prod_beta intro!: distinct_dict_set)
qed

lemma set_map_of: "distinct (map fst d) \<Longrightarrow> (k, v) \<in> set d \<longleftrightarrow> map_of d k = Some v"
  by (auto dest: map_of_SomeD)

lemma merge_group_allows:
  assumes "\<forall>p \<in> set ms. single_entry p"
  shows "policy_allows (merge_group (key, ms)) user access \<longleftrightarrow> (\<exists>p \<in> set ms. policy_allows p user access)"
proof -
  let ?d = "fold add_entry ms []"
  have "policy_allows (merge_group (key, ms)) user access \<longleftrightarrow>
      (\<exists>accesses users. (accesses, users) \<in> set ?d \<and> user \<in> set users \<and> access \<in> set accesses)"
    by (auto simp: merge_group_def Let_def policy_allows_def entries_def image_iff) force+
  also have "\<dots> \<longleftrightarrow> (\<exists>accesses users. map_of ?d accesses = Some users \<and> user \<in> set users \<and> access \<in> set accesses)"
    using entries_by_access [of ms] by (simp add: set_map_of)
  also have "\<dots> \<longleftrightarrow> (\<exists>p \<in> set ms. user \<in> set (fst (first_entry p)) \<and> access \<in> set (snd (first_entry p)))"
  proof -
    have found: "map_of ?d accesses = Some users \<longleftrightarrow> filter (\<lambda>p. sort (snd (first_entry p)) = accesses) ms \<noteq> [] \<and>
        users = concat (map (fst \<circ> first_entry) (filter (\<lambda>p. sort (snd (first_entry p)) = accesses) ms))" for accesses users
      using entries_by_access [of ms] by (auto simp: Let_def)
    have eq: "(\<exists>users. map_of ?d accesses = Some users \<and> user \<in> set users \<and> access \<in> set accesses) \<longleftrightarrow>
        (\<exists>p \<in> set ms. sort (snd (first_entry p)) = accesses \<and> user \<in> set (fst (first_entry p)) \<and> access \<in> set accesses)" for accesses
      unfolding found by (auto simp: filter_empty_conv)
    show ?thesis unfolding eq
      by auto (rule exI, rule bexI [rotated], assumption, intro conjI, rule refl, assumption, simp)
  qed
  also have "\<dots> \<longleftrightarrow> (\<exists>p \<in> set ms. policy_allows p user access)"
    using assms by (simp add: single_entry_allows)
  finally show ?thesis .
qed

lemma merge_group_key: "ms \<noteq> [] \<Longrightarrow> resource_key (merge_group (key, ms)) = resource_key (hd ms)"
  by (simp add: merge_group_def resource_key_def Let_def)

lemma groups_of:
  "(key, ms) \<in> set (fold add_to_group ps []) \<longleftrightarrow> ms \<noteq> [] \<and> ms = filter (\<lambda>p. resource_key p = key) ps"
  using grouped [of ps] by (auto simp: set_map_of Let_def)

lemma merged_key: "(key, ms) \<in> set (fold add_to_group ps []) \<Longrightarrow> resource_key (merge_group (key, ms)) = key"
  using hd_in_set [of ms] by (auto simp: groups_of merge_group_key)

lemma merge_allows:
  assumes "\<forall>p \<in> set ps. single_entry p"
  shows "allows (set (merge_matching_resources ps)) key user access \<longleftrightarrow> allows (set ps) key user access"
proof -
  have "allows (set (merge_matching_resources ps)) key user access \<longleftrightarrow>
      (\<exists>ms. (key, ms) \<in> set (fold add_to_group ps []) \<and> policy_allows (merge_group (key, ms)) user access)"
    by (auto simp: allows_def merge_matching_resources_def merged_key) (metis merged_key)+
  also have "\<dots> \<longleftrightarrow> (\<exists>ms. (key, ms) \<in> set (fold add_to_group ps []) \<and> (\<exists>p \<in> set ms. policy_allows p user access))"
    using assms by (intro ex_cong1 conj_cong refl merge_group_allows) (auto simp: groups_of)
  also have "\<dots> \<longleftrightarrow> allows (set ps) key user access"
    by (auto simp: groups_of allows_def filter_empty_conv)
  finally show ?thesis .
qed

text \<open>The server holds one access policy for every resource.\<close>

lemma merged_keys_distinct: "distinct (map resource_key (merge_matching_resources ps))"
proof -
  let ?g = "fold add_to_group ps []"
  have "map (resource_key \<circ> merge_group) ?g = map fst ?g"
    by (rule map_cong [OF refl]) (auto simp: merged_key)
  then have "distinct (map resource_key (map merge_group ?g))" using grouped [of ps] by (metis map_map)
  moreover have "mset (map resource_key (merge_matching_resources ps)) = mset (map resource_key (map merge_group ?g))"
    by (simp add: merge_matching_resources_def multiset.map_comp)
  ultimately show ?thesis by (metis mset_eq_imp_distinct_iff)
qed

lemma merged_are_access: "p \<in> set (merge_matching_resources ps) \<Longrightarrow> is_access_policy p"
  by (auto simp: merge_matching_resources_def merge_group_def Let_def is_access_policy_def policy_type_def)

section \<open>What a role grants\<close>

text \<open>A right on a resource: to make an access, or to see only the rows of a filter or masked values.\<close>

datatype right = May string | OnlyRows pyval | Masked pyval

definition listed :: "pyval \<Rightarrow> string \<Rightarrow> pyval \<Rightarrow> bool" where
  "listed permissions key g \<longleftrightarrow> (\<exists>gs. grants permissions key = Inr gs \<and> g \<in> set gs)"

text \<open>The rights of a role, grant by grant.\<close>

inductive role_gives :: "pyval \<Rightarrow> pydict \<Rightarrow> right \<Rightarrow> bool" for permissions where
  catalog: "listed permissions ''catalogs'' g \<Longrightarrow> subscript g ''catalogs'' = Inr c \<Longrightarrow> subscript g ''access'' = Inr a \<Longrightarrow>
    access = (if a = PStr ''all'' then ''all'' else ''select'') \<Longrightarrow> role_gives permissions [(''catalog'', resource_of c)] (May access)"
| schema: "listed permissions ''schemas'' g \<Longrightarrow> subscript g ''catalogs'' = Inr c \<Longrightarrow> subscript g ''schemas'' = Inr s \<Longrightarrow>
    subscript g ''owner'' = Inr owner \<Longrightarrow>
    access = (if truthy owner then ''all'' else ''select'') \<Longrightarrow>
    role_gives permissions [(''catalog'', resource_of c), (''schema'', resource_of s)] (May access)"
| table_owner: "listed permissions ''tables'' g \<Longrightarrow> subscript g ''catalogs'' = Inr c \<Longrightarrow> subscript g ''schemas'' = Inr s \<Longrightarrow>
    subscript g ''tables'' = Inr t \<Longrightarrow> subscript g ''privileges'' = Inr privileges \<Longrightarrow> contains ''OWNERSHIP'' privileges = Inr True \<Longrightarrow>
    role_gives permissions [(''catalog'', resource_of c), (''schema'', resource_of s), (''table'', resource_of t),
      (''column'', resource_of (PList [PStr ''*'']))] (May ''all'')"
| table_privilege: "listed permissions ''tables'' g \<Longrightarrow> subscript g ''catalogs'' = Inr c \<Longrightarrow> subscript g ''schemas'' = Inr s \<Longrightarrow>
    subscript g ''tables'' = Inr t \<Longrightarrow> subscript g ''privileges'' = Inr privileges \<Longrightarrow> contains ''OWNERSHIP'' privileges = Inr False \<Longrightarrow>
    iterate privileges = Inr vs \<Longrightarrow> v \<in> set vs \<Longrightarrow> access_of_privilege v = Some access \<Longrightarrow>
    role_gives permissions [(''catalog'', resource_of c), (''schema'', resource_of s), (''table'', resource_of t),
      (''column'', resource_of (PList [PStr ''*'']))] (May access)"
| row_filter: "listed permissions ''row_filters'' g \<Longrightarrow> subscript g ''catalogs'' = Inr c \<Longrightarrow> subscript g ''schemas'' = Inr s \<Longrightarrow>
    subscript g ''tables'' = Inr t \<Longrightarrow> subscript g ''filter'' = Inr e \<Longrightarrow>
    role_gives permissions [(''catalog'', resource_of c), (''schema'', resource_of s), (''table'', resource_of t)] (OnlyRows e)"
| column_mask: "listed permissions ''column_masks'' g \<Longrightarrow> subscript g ''catalogs'' = Inr c \<Longrightarrow> subscript g ''schemas'' = Inr s \<Longrightarrow>
    subscript g ''tables'' = Inr t \<Longrightarrow> subscript g ''columns'' = Inr cs \<Longrightarrow> subscript g ''mask_type'' = Inr m \<Longrightarrow>
    role_gives permissions [(''catalog'', resource_of c), (''schema'', resource_of s), (''table'', resource_of t), (''column'', resource_of cs)] (Masked m)"
| query: "get_attr permissions ''queries'' = Inr (Some q) \<Longrightarrow> contains ''execute'' q = Inr True \<Longrightarrow>
    role_gives permissions (wildcard_resource ''queryid'' ''*'') (May ''execute'')"
| system: "get_attr permissions ''system_information'' = Inr (Some v) \<Longrightarrow> truthy v \<Longrightarrow> iterate v = Inr vs \<Longrightarrow> a \<in> set vs \<Longrightarrow>
    role_gives permissions (wildcard_resource ''sysinfo'' ''*'') (May (py_str a @ ''_sysinfo''))"

definition policy_gives :: "ranger_policy \<Rightarrow> string \<Rightarrow> right \<Rightarrow> bool" where
  "policy_gives p user right \<longleftrightarrow> (case right of
       May access \<Rightarrow> policy_allows p user access
     | OnlyRows e \<Rightarrow> (\<exists>users. rp_items p = RowFilter users e \<and> user \<in> set users)
     | Masked m \<Rightarrow> (\<exists>users. rp_items p = DataMask users m \<and> user \<in> set users))"

definition gives :: "ranger_policy set \<Rightarrow> string \<Rightarrow> string \<Rightarrow> right \<Rightarrow> bool" where
  "gives ps key user right \<longleftrightarrow> (\<exists>p \<in> ps. resource_key p = key \<and> policy_gives p user right)"

fun effect_gives :: "effect \<Rightarrow> right \<Rightarrow> bool" where
  "effect_gives (Accesses accesses) (May a) = (a \<in> set accesses)"
| "effect_gives (Filter e) (OnlyRows e') = (e = e')"
| "effect_gives (Mask m) (Masked m') = (m = m')"
| "effect_gives _ _ = False"

lemma policy_of_gives:
  "policy_gives (policy_of service name users (resources, e)) user right \<longleftrightarrow> user \<in> set users \<and> effect_gives e right"
  by (cases e; cases right)
    (auto simp: policy_of_def policy_gives_def access_policy_def row_filter_policy_def data_mask_policy_def policy_allows_def entries_def)

lemma policy_of_key: "resource_key (policy_of service name users (resources, e)) = canonical (PDict resources)"
  by (cases e) (simp_all add: policy_of_def resource_key_def access_policy_def row_filter_policy_def data_mask_policy_def)

lemma policy_of_single: "is_access_policy (policy_of service name users g) \<Longrightarrow> single_entry (policy_of service name users g)"
  by (cases g; cases "snd g")
    (auto simp: policy_of_def single_entry_def is_access_policy_def policy_type_def access_policy_def row_filter_policy_def data_mask_policy_def)

lemma numbered_gives:
  assumes "numbered_policies service role users kind grant_of permissions name = Inr ps"
  shows "gives (set ps) key user right \<longleftrightarrow> user \<in> set users \<and>
      (\<exists>g resources e. listed permissions name g \<and> grant_of g = Inr (resources, e) \<and> canonical (PDict resources) = key \<and> effect_gives e right)"
    "listed permissions name g \<Longrightarrow> \<exists>r. grant_of g = Inr r"
    "\<forall>p \<in> set ps. is_access_policy p \<longrightarrow> single_entry p"
proof -
  let ?name = "\<lambda>i. ''lakehouse-ops-'' @ role @ ''-'' @ kind @ ''-'' @ dec_nat i"
  obtain gs where gs: "grants permissions name = Inr gs"
    and made: "mapE (\<lambda>(i, g). bindE (grant_of g) (\<lambda>r. Inr (policy_of service (?name i) users r))) (zip [1..<Suc (length gs)] gs) = Inr ps"
    using assms unfolding numbered_policies_def bindE_eq_Inr by blast
  have l2: "list_all2 (\<lambda>(i, g) p. \<exists>r. grant_of g = Inr r \<and> policy_of service (?name i) users r = p) (zip [1..<Suc (length gs)] gs) ps"
    using made unfolding mapE_Inr_iff
    by (rule list_all2_mono) (simp add: case_prod_beta bindE_eq_Inr del: append_Cons append_assoc)
  have len: "length ps = length gs" using list_all2_lengthD [OF l2] by (simp del: upt_Suc)
  have at_index: "\<exists>n r. grant_of (gs ! i) = Inr r \<and> ps ! i = policy_of service n users r" if "i < length gs" for i
    using list_all2_nthD2 [OF l2, of i] that len by (simp add: nth_zip case_prod_beta del: upt_Suc append_Cons append_assoc) metis
  have all: "listed permissions name g \<longleftrightarrow> g \<in> set gs" for g
    using gs by (auto simp: listed_def)
  show "listed permissions name g \<Longrightarrow> \<exists>r. grant_of g = Inr r"
    using at_index by (metis all in_set_conv_nth)
  show "\<forall>p \<in> set ps. is_access_policy p \<longrightarrow> single_entry p"
    using at_index len policy_of_single by (metis in_set_conv_nth)
  show "gives (set ps) key user right \<longleftrightarrow> user \<in> set users \<and>
      (\<exists>g resources e. listed permissions name g \<and> grant_of g = Inr (resources, e) \<and> canonical (PDict resources) = key \<and> effect_gives e right)"
  proof
    assume "gives (set ps) key user right"
    then obtain i where i: "i < length gs" "resource_key (ps ! i) = key" "policy_gives (ps ! i) user right"
      by (auto simp: gives_def in_set_conv_nth len)
    then obtain n resources e where "grant_of (gs ! i) = Inr (resources, e)" "ps ! i = policy_of service n users (resources, e)"
      using at_index by fastforce
    then show "user \<in> set users \<and>
      (\<exists>g resources e. listed permissions name g \<and> grant_of g = Inr (resources, e) \<and> canonical (PDict resources) = key \<and> effect_gives e right)"
      using i by (auto simp: all policy_of_gives policy_of_key intro!: exI [of _ "gs ! i"])
  next
    assume "user \<in> set users \<and>
      (\<exists>g resources e. listed permissions name g \<and> grant_of g = Inr (resources, e) \<and> canonical (PDict resources) = key \<and> effect_gives e right)"
    then obtain i resources e where "i < length gs" "grant_of (gs ! i) = Inr (resources, e)" "canonical (PDict resources) = key"
      "effect_gives e right" "user \<in> set users"
      by (auto simp: all in_set_conv_nth)
    then obtain n where "policy_of service n users (resources, e) \<in> set ps" using at_index [of i] len by (metis Inr_inject nth_mem)
    then show "gives (set ps) key user right"
      using \<open>canonical (PDict resources) = key\<close> \<open>effect_gives e right\<close> \<open>user \<in> set users\<close>
      by (auto simp: gives_def policy_of_gives policy_of_key intro!: bexI)
  qed
qed

text \<open>Grant by grant: what is compiled is what the grant gives.\<close>

lemma resources_of_simps [result_simps]:
  "resources_of g [] = Inr []"
  "resources_of g ((name, key) # kinds) = bindE (subscript g key) (\<lambda>v.
     bindE (resources_of g kinds) (\<lambda>rest. Inr ((name, resource_of v) # rest)))"
  by (auto simp: resources_of_def bindE_def split: sum.splits)

lemma table_accesses_Inr:
  "table_accesses v = Inr accesses \<longleftrightarrow>
     contains ''OWNERSHIP'' v = Inr True \<and> accesses = [''all''] \<or>
     contains ''OWNERSHIP'' v = Inr False \<and> (\<exists>vs. iterate v = Inr vs \<and> list_all can_hash vs \<and>
       accesses = sort (remdups (List.map_filter access_of_privilege vs)))"
  by (auto simp: table_accesses_def bindE_eq_Inr split: if_splits)

lemma set_map_filter_iff: "y \<in> set (List.map_filter f xs) \<longleftrightarrow> (\<exists>x \<in> set xs. f x = Some y)"
  by (induction xs) (auto simp: List.map_filter_simps split: option.splits)

lemma effect_Accesses: "effect_gives (Accesses accesses) right \<longleftrightarrow> (\<exists>a \<in> set accesses. right = May a)"
  by (cases right) auto

lemma effect_Filter: "effect_gives (Filter e) right \<longleftrightarrow> right = OnlyRows e"
  by (cases right) auto

lemma effect_Mask: "effect_gives (Mask m) right \<longleftrightarrow> right = Masked m"
  by (cases right) auto

lemmas effect_simps = effect_Accesses effect_Filter effect_Mask

definition grant_gives :: "(pyval \<Rightarrow> ranger_grant result) \<Rightarrow> pyval \<Rightarrow> string \<Rightarrow> pydict \<Rightarrow> right \<Rightarrow> bool" where
  "grant_gives grant_of permissions name resources right \<longleftrightarrow>
     (\<exists>g e. listed permissions name g \<and> grant_of g = Inr (resources, e) \<and> effect_gives e right)"

lemma grants_sound:
  "grant_gives catalog_grant permissions ''catalogs'' res right \<Longrightarrow> role_gives permissions res right"
  "grant_gives schema_grant permissions ''schemas'' res right \<Longrightarrow> role_gives permissions res right"
  "grant_gives row_filter_grant permissions ''row_filters'' res right \<Longrightarrow> role_gives permissions res right"
  "grant_gives column_mask_grant permissions ''column_masks'' res right \<Longrightarrow> role_gives permissions res right"
  by (auto simp: grant_gives_def catalog_grant_def schema_grant_def row_filter_grant_def column_mask_grant_def bindE_eq_Inr
      resources_of_simps effect_simps split: if_splits)
    (metis role_gives.intros)+

lemma table_sound:
  "grant_gives table_grant permissions ''tables'' res right \<Longrightarrow> role_gives permissions res right"
  by (auto simp: grant_gives_def table_grant_def bindE_eq_Inr resources_of_simps effect_simps table_accesses_Inr
      set_map_filter_iff) (metis role_gives.intros)+

definition all_made :: "(pyval \<Rightarrow> ranger_grant result) \<Rightarrow> pyval \<Rightarrow> string \<Rightarrow> bool" where
  "all_made grant_of permissions name \<longleftrightarrow> (\<forall>g. listed permissions name g \<longrightarrow> (\<exists>r. grant_of g = Inr r))"

lemma role_gives_cases:
  assumes "role_gives permissions res right" "all_made table_grant permissions ''tables''"
  shows "grant_gives catalog_grant permissions ''catalogs'' res right \<or>
     grant_gives schema_grant permissions ''schemas'' res right \<or>
     grant_gives table_grant permissions ''tables'' res right \<or>
     grant_gives row_filter_grant permissions ''row_filters'' res right \<or>
     grant_gives column_mask_grant permissions ''column_masks'' res right \<or>
     (\<exists>q. get_attr permissions ''queries'' = Inr (Some q) \<and> contains ''execute'' q = Inr True \<and>
        res = wildcard_resource ''queryid'' ''*'' \<and> right = May ''execute'') \<or>
     (\<exists>v vs a. get_attr permissions ''system_information'' = Inr (Some v) \<and> truthy v \<and> iterate v = Inr vs \<and> a \<in> set vs \<and>
        res = wildcard_resource ''sysinfo'' ''*'' \<and> right = May (py_str a @ ''_sysinfo''))"
  using assms(1)
proof cases
  case catalog
  then have "grant_gives catalog_grant permissions ''catalogs'' res right"
    by (auto simp: grant_gives_def catalog_grant_def resources_of_simps effect_simps intro!: exI)
  then show ?thesis by blast
next
  case schema
  then have "grant_gives schema_grant permissions ''schemas'' res right"
    by (auto simp: grant_gives_def schema_grant_def resources_of_simps effect_simps intro!: exI)
  then show ?thesis by blast
next
  case (table_owner g c s t privileges)
  then have "table_grant g = Inr (res, Accesses [''all''])" by (simp add: table_grant_def resources_of_simps table_accesses_def)
  then show ?thesis using table_owner by (fastforce simp: grant_gives_def effect_simps)
next
  case (table_privilege g c s t privileges vs v access)
  then obtain accesses where acc: "table_accesses privileges = Inr accesses"
    using assms(2) by (fastforce simp: all_made_def table_grant_def resources_of_simps bindE_eq_Inr)
  then have "table_grant g = Inr (res, Accesses accesses)" using table_privilege by (simp add: table_grant_def resources_of_simps)
  moreover have "access \<in> set accesses"
    using acc table_privilege by (auto simp: table_accesses_Inr set_map_filter_iff)
  ultimately show ?thesis using table_privilege by (fastforce simp: grant_gives_def effect_simps)
next
  case row_filter
  then have "grant_gives row_filter_grant permissions ''row_filters'' res right"
    by (auto simp: grant_gives_def row_filter_grant_def resources_of_simps effect_simps intro!: exI)
  then show ?thesis by blast
next
  case column_mask
  then have "grant_gives column_mask_grant permissions ''column_masks'' res right"
    by (auto simp: grant_gives_def column_mask_grant_def resources_of_simps effect_simps intro!: exI)
  then show ?thesis by blast
qed blast+

lemma role_gives_iff:
  assumes "all_made table_grant permissions ''tables''"
  shows "role_gives permissions res right \<longleftrightarrow>
     grant_gives catalog_grant permissions ''catalogs'' res right \<or>
     grant_gives schema_grant permissions ''schemas'' res right \<or>
     grant_gives table_grant permissions ''tables'' res right \<or>
     grant_gives row_filter_grant permissions ''row_filters'' res right \<or>
     grant_gives column_mask_grant permissions ''column_masks'' res right \<or>
     (\<exists>q. get_attr permissions ''queries'' = Inr (Some q) \<and> contains ''execute'' q = Inr True \<and>
        res = wildcard_resource ''queryid'' ''*'' \<and> right = May ''execute'') \<or>
     (\<exists>v vs a. get_attr permissions ''system_information'' = Inr (Some v) \<and> truthy v \<and> iterate v = Inr vs \<and> a \<in> set vs \<and>
        res = wildcard_resource ''sysinfo'' ''*'' \<and> right = May (py_str a @ ''_sysinfo''))"
  by (rule iffI, rule role_gives_cases [OF _ assms], assumption,
      elim disjE exE conjE, blast intro: grants_sound table_sound, blast intro: grants_sound table_sound,
      blast intro: grants_sound table_sound, blast intro: grants_sound table_sound, blast intro: grants_sound table_sound,
      auto intro: role_gives.intros)

text \<open>A role: its policies give what it grants to the users that are bound to it.\<close>

lemma gives_Un: "gives (A \<union> B) key user right \<longleftrightarrow> gives A key user right \<or> gives B key user right"
  by (auto simp: gives_def)

lemma gives_empty [simp]: "\<not> gives {} key user right"
  by (simp add: gives_def)

lemma gives_access_policy:
  "gives {access_policy service name resources users accesses} key user right \<longleftrightarrow>
     canonical (PDict resources) = key \<and> user \<in> set users \<and> (\<exists>a \<in> set accesses. right = May a)"
  by (cases right) (auto simp: gives_def policy_gives_def access_policy_def policy_allows_def entries_def resource_key_def)

lemma access_policy_single: "single_entry (access_policy service name resources users accesses)"
  by (simp add: single_entry_def access_policy_def)

definition well_made :: "ranger_policy list \<Rightarrow> bool" where
  "well_made ps \<longleftrightarrow> (\<forall>p \<in> set ps. is_access_policy p \<longrightarrow> single_entry p)"

lemma numbered_policies_give:
  assumes "numbered_policies service role users kind grant_of permissions name = Inr ps"
  shows "gives (set ps) key user right \<longleftrightarrow> user \<in> set users \<and>
      (\<exists>res. grant_gives grant_of permissions name res right \<and> canonical (PDict res) = key)"
    "all_made grant_of permissions name" "well_made ps"
  using numbered_gives [OF assms] by (auto simp: grant_gives_def all_made_def well_made_def)

lemma query_policies_give:
  assumes "query_policies service role users permissions = Inr ps"
  shows "gives (set ps) key user right \<longleftrightarrow> user \<in> set users \<and> right = May ''execute'' \<and>
      canonical (PDict (wildcard_resource ''queryid'' ''*'')) = key \<and>
      (\<exists>q. get_attr permissions ''queries'' = Inr (Some q) \<and> contains ''execute'' q = Inr True)" "well_made ps"
  using assms
  by (auto simp: query_policies_def bindE_eq_Inr gives_access_policy access_policy_single well_made_def contains_def
      split: option.splits if_splits)

lemma system_policies_give:
  assumes "system_policies service role users permissions = Inr ps"
  shows "gives (set ps) key user right \<longleftrightarrow> user \<in> set users \<and>
      canonical (PDict (wildcard_resource ''sysinfo'' ''*'')) = key \<and>
      (\<exists>v vs a. get_attr permissions ''system_information'' = Inr (Some v) \<and> truthy v \<and> iterate v = Inr vs \<and> a \<in> set vs \<and>
         right = May (py_str a @ ''_sysinfo''))" "well_made ps"
  using assms
  by (auto simp: system_policies_def bindE_eq_Inr gives_access_policy access_policy_single well_made_def is_truthy_def
      split: option.splits if_splits)

lemma role_policies_give:
  assumes "role_policies service table (role, permissions) = Inr ps"
  shows "gives (set ps) key user right \<longleftrightarrow> user \<in> users_in table role \<and>
      (\<exists>res. role_gives permissions res right \<and> canonical (PDict res) = key)" "well_made ps"
proof -
  let ?users = "case map_of table role of None \<Rightarrow> [] | Some us \<Rightarrow> us"
  have users: "users_in table role = set ?users" by (auto simp: users_in_def split: option.splits)
  have "(gives (set ps) key user right \<longleftrightarrow> user \<in> set ?users \<and>
      (\<exists>res. role_gives permissions res right \<and> canonical (PDict res) = key)) \<and> well_made ps"
  proof (cases "?users = []")
    case True
    then have "ps = []" using assms by (simp add: role_policies_def)
    then show ?thesis by (simp only: True) (simp add: well_made_def)
  next
    case False
    define us where "us = ?users"
    obtain c s t f m q y where parts:
        "numbered_policies service role us ''catalog'' catalog_grant permissions ''catalogs'' = Inr c"
        "numbered_policies service role us ''schema'' schema_grant permissions ''schemas'' = Inr s"
        "numbered_policies service role us ''table'' table_grant permissions ''tables'' = Inr t"
        "numbered_policies service role us ''row-filter'' row_filter_grant permissions ''row_filters'' = Inr f"
        "numbered_policies service role us ''column-mask'' column_mask_grant permissions ''column_masks'' = Inr m"
        "query_policies service role us permissions = Inr q" "system_policies service role us permissions = Inr y"
      and ps: "ps = c @ s @ t @ f @ m @ q @ y"
      using assms False unfolding role_policies_def prod.case Let_def us_def [symmetric] by (auto simp: bindE_eq_Inr)
    note made = numbered_policies_give [OF parts(1)] numbered_policies_give [OF parts(2)] numbered_policies_give [OF parts(3)]
      numbered_policies_give [OF parts(4)] numbered_policies_give [OF parts(5)] query_policies_give [OF parts(6)] system_policies_give [OF parts(7)]
    have all: "all_made table_grant permissions ''tables''" by (rule made)
    have "well_made ps" using made by (auto simp: ps well_made_def)
    moreover have "gives (set ps) key user right \<longleftrightarrow> user \<in> set us \<and> (\<exists>res. role_gives permissions res right \<and> canonical (PDict res) = key)"
      unfolding ps set_append gives_Un made
      unfolding role_gives_iff [OF all] by blast
    ultimately show ?thesis by (simp only: us_def)
  qed
  then show "gives (set ps) key user right \<longleftrightarrow> user \<in> users_in table role \<and>
      (\<exists>res. role_gives permissions res right \<and> canonical (PDict res) = key)" "well_made ps"
    by (simp_all only: users)
qed

section \<open>All users\<close>

lemma foldE_keeps:
  assumes "foldE f xs y = Inr z" "\<And>x y y'. f x y = Inr y' \<Longrightarrow> g y' = g y"
  shows "g z = g y"
  using assms by (induction xs arbitrary: y) (force simp: bindE_eq_Inr)+

lemma dict_set_known: "map_of d k = Some v' \<Longrightarrow> map fst (dict_set d k v) = map fst d"
  by (induction d) (auto split: if_splits)

lemma users_by_role_keys:
  assumes "users_by_role bindings roles = Inr table"
  shows "map fst table = map fst roles"
proof -
  have user: "add_user r u t = Inr t' \<Longrightarrow> map fst t' = map fst t" for r u t t'
    by (auto simp: add_user_def dict_set_known split: option.splits if_splits)
  have "add_binding b t = Inr t' \<Longrightarrow> map fst t' = map fst t" for b t t'
    unfolding add_binding_def bindE_eq_Inr
    by (elim exE conjE, erule foldE_keeps [where g = "map fst"], unfold bindE_eq_Inr, elim exE conjE,
        erule foldE_keeps [where g = "map fst"], unfold bindE_eq_Inr, elim exE conjE, erule user)
  then have "map fst table = map fst (map (\<lambda>(name, _). (name, [] :: string list)) roles)"
    using foldE_keeps [OF assms [unfolded users_by_role_def], of "map fst"] by blast
  then show ?thesis by (simp add: comp_def case_prod_beta)
qed

definition bound :: "pyval list \<Rightarrow> pydict \<Rightarrow> string \<Rightarrow> bool" where
  "bound bindings roles user \<longleftrightarrow> (\<exists>role \<in> fst ` set roles. bound_to bindings role user)"

lemma all_users_bound:
  assumes "users_by_role bindings roles = Inr table" "distinct (map fst roles)"
  shows "user \<in> set (concat (map snd table)) \<longleftrightarrow> bound bindings roles user"
proof -
  have keys: "map fst table = map fst roles" by (rule users_by_role_keys [OF assms(1)])
  then have "distinct (map fst table)" using assms(2) by simp
  then have "user \<in> set (concat (map snd table)) \<longleftrightarrow> (\<exists>role \<in> set (map fst table). user \<in> users_in table role)"
    by (force simp: users_in_def)
  then show ?thesis unfolding keys using users_by_role_Inr [OF assms(1)] by (simp add: bound_def)
qed

text \<open>What every bound user is given.\<close>

definition default_gives :: "pydict \<Rightarrow> pydict \<Rightarrow> right \<Rightarrow> bool" where
  "default_gives model resources right \<longleftrightarrow>
     resources = wildcard_resource ''trinouser'' ''{USER}'' \<and> right = May ''impersonate'' \<or>
     resources = wildcard_resource ''queryid'' ''*'' \<and> right = May ''execute'' \<and>
       (\<exists>defaults q. item model ''defaults'' = Inr defaults \<and> get_attr defaults ''queries'' = Inr (Some q) \<and>
          contains ''execute'' q = Inr True)"

lemma default_policies_give:
  assumes "default_policies service users model = Inr ps"
  shows "gives (set ps) key user right \<longleftrightarrow> user \<in> set users \<and> (\<exists>res. default_gives model res right \<and> canonical (PDict res) = key)"
    "well_made ps"
proof -
  obtain defaults found execute where d: "item model ''defaults'' = Inr defaults" "get_attr defaults ''queries'' = Inr found"
      "contains ''execute'' (case found of None \<Rightarrow> PList [] | Some v \<Rightarrow> v) = Inr execute"
    and ps: "ps = (if execute then [access_policy service ''lakehouse-ops-default-query-execution'' (wildcard_resource ''queryid'' ''*'')
           users [''execute'']] else []) @ [access_policy service ''lakehouse-ops-self-impersonation''
           (wildcard_resource ''trinouser'' ''{USER}'') users [''impersonate'']]"
    using assms unfolding default_policies_def bindE_eq_Inr by blast
  have execute: "execute \<longleftrightarrow> (\<exists>q. found = Some q \<and> contains ''execute'' q = Inr True)"
    using d(3) by (auto simp: contains_def split: option.splits)
  show "well_made ps" by (auto simp: ps well_made_def access_policy_single)
  have "gives (set ps) key user right \<longleftrightarrow>
      execute \<and> canonical (PDict (wildcard_resource ''queryid'' ''*'')) = key \<and> user \<in> set users \<and> right = May ''execute'' \<or>
      canonical (PDict (wildcard_resource ''trinouser'' ''{USER}'')) = key \<and> user \<in> set users \<and> right = May ''impersonate''"
    unfolding ps set_append gives_Un by (cases execute) (simp_all add: gives_access_policy)
  then show "gives (set ps) key user right \<longleftrightarrow> user \<in> set users \<and> (\<exists>res. default_gives model res right \<and> canonical (PDict res) = key)"
    using d(1,2) by (auto simp: execute default_gives_def)
qed

section \<open>The compiled policies\<close>

lemma gives_May: "gives ps key user (May access) \<longleftrightarrow> allows ps key user access"
  by (simp add: gives_def allows_def policy_gives_def)

lemma access_policy_items: "is_access_policy p \<longleftrightarrow> (\<exists>es. rp_items p = AccessItems es)"
  by (auto simp: is_access_policy_def policy_type_def split: ranger_items.splits)

lemma policy_allows_access: "policy_allows p user access \<Longrightarrow> is_access_policy p"
  by (cases "rp_items p") (auto simp: policy_allows_def entries_def access_policy_items)

lemma allows_filter: "allows (set ps) key user access \<longleftrightarrow> allows (set (filter is_access_policy ps)) key user access"
  by (auto simp: allows_def dest: policy_allows_access)

lemma access_gives_May: "policy_gives p user right \<Longrightarrow> is_access_policy p \<Longrightarrow> \<exists>access. right = May access"
  by (cases right) (auto simp: policy_gives_def access_policy_items)

definition compiled_from :: "ranger_policy list \<Rightarrow> ranger_policy list" where
  "compiled_from ps = sort_key rp_name (merge_matching_resources (filter is_access_policy ps) @ filter (\<lambda>p. \<not> is_access_policy p) ps)"

lemma compiled_from_gives:
  assumes "well_made ps"
  shows "gives (set (compiled_from ps)) key user right \<longleftrightarrow> gives (set ps) key user right"
proof (cases right)
  case (May access)
  have "allows (set (compiled_from ps)) key user access \<longleftrightarrow> allows (set (merge_matching_resources (filter is_access_policy ps))) key user access"
    unfolding compiled_from_def set_sort set_append allows_Un
    by (auto simp: allows_def dest: policy_allows_access)
  also have "\<dots> \<longleftrightarrow> allows (set ps) key user access"
    using assms by (subst merge_allows) (auto simp: well_made_def allows_filter [of ps])
  finally show ?thesis by (simp add: May gives_May)
next
  case (OnlyRows e)
  show ?thesis unfolding OnlyRows by (auto simp: compiled_from_def gives_def dest: merged_are_access access_gives_May)
next
  case (Masked m)
  show ?thesis unfolding Masked by (auto simp: compiled_from_def gives_def dest: merged_are_access access_gives_May)
qed

lemma compiled_from_distinct: "distinct (map resource_key (filter is_access_policy (compiled_from ps)))"
proof -
  let ?m = "merge_matching_resources (filter is_access_policy ps)"
  have "filter is_access_policy (?m @ filter (\<lambda>p. \<not> is_access_policy p) ps) = ?m"
    using merged_are_access [of _ "filter is_access_policy ps"] by (simp add: filter_id_conv)
  then have all: "mset (filter is_access_policy (?m @ filter (\<lambda>p. \<not> is_access_policy p) ps)) = mset ?m" by (rule arg_cong)
  have "filter_mset is_access_policy (mset (compiled_from ps)) = mset ?m"
    unfolding compiled_from_def mset_sort all [symmetric] mset_filter ..
  then have "mset (filter is_access_policy (compiled_from ps)) = mset (merge_matching_resources (filter is_access_policy ps))"
    by simp
  then have "mset (map resource_key (filter is_access_policy (compiled_from ps))) =
      mset (map resource_key (merge_matching_resources (filter is_access_policy ps)))" by simp
  then show ?thesis using merged_keys_distinct by (metis mset_eq_imp_distinct_iff)
qed

lemma compiled_parts:
  assumes "compile_ranger_policies model service = Inr policies"
    and "get model ''roles'' = PDict roles" "get model ''bindings'' = PList bindings"
  shows "\<exists>table by_role rest. users_by_role bindings roles = Inr table \<and> mapE (role_policies service table) roles = Inr by_role \<and>
      default_policies service (sort (remdups (concat (map snd table)))) model = Inr rest \<and>
      policies = compiled_from (concat by_role @ rest)"
proof -
  from assms(1) obtain roles' bindings' table by_role rest where c:
      "item model ''roles'' = Inr roles'" "bindE (item model ''bindings'') iterate = Inr bindings'"
      "users_by_role bindings' (the_dict roles') = Inr table"
      "mapE (role_policies service table) (the_dict roles') = Inr by_role"
      "default_policies service (sort (remdups (concat (map snd table)))) model = Inr rest"
      "policies = compiled_from (concat by_role @ rest)"
    unfolding compile_ranger_policies_def bindE_eq_Inr Let_def compiled_from_def [symmetric] by blast
  moreover have "the_dict roles' = roles" "bindings' = bindings"
    using c(1,2) assms(2,3) by (auto simp: get_def item_eq_Inr bindE_eq_Inr iterate_def)
  ultimately show ?thesis by blast
qed

text \<open>C26. The compiled Ranger policies give a user a right on a resource exactly when a role that is bound
  to the user grants it, or when every bound user has it, although policies of the same resources are
  merged; no two access policies have the same resources.\<close>

theorem ranger_policies_give_what_roles_grant:
  assumes "compile_ranger_policies model service = Inr policies"
    and "get model ''roles'' = PDict roles" "get model ''bindings'' = PList bindings" "distinct (map fst roles)"
  shows "(gives (set policies) (canonical (PDict resources)) user right \<longleftrightarrow>
       (\<exists>role permissions res. (role, permissions) \<in> set roles \<and> bound_to bindings role user \<and>
          role_gives permissions res right \<and> canonical (PDict res) = canonical (PDict resources)) \<or>
       bound bindings roles user \<and> (\<exists>res. default_gives model res right \<and> canonical (PDict res) = canonical (PDict resources))) \<and>
     distinct (map resource_key (filter is_access_policy policies)) \<and> sorted (map rp_name policies)"
proof -
  let ?key = "canonical (PDict resources)"
  obtain table by_role rest where c: "users_by_role bindings roles = Inr table"
      "mapE (role_policies service table) roles = Inr by_role"
      "default_policies service (sort (remdups (concat (map snd table)))) model = Inr rest"
    and policies: "policies = compiled_from (concat by_role @ rest)"
    using compiled_parts [OF assms(1-3)] by blast
  note made = c(2) [unfolded mapE_Inr_iff]
  have "list_all2 (\<lambda>(role, permissions) ps. well_made ps) roles by_role"
    using made by (rule list_all2_mono) (auto dest: role_policies_give(2))
  then have "well_made (concat by_role)" by (induction rule: list_all2_induct) (auto simp: well_made_def)
  then have well: "well_made (concat by_role @ rest)"
    using default_policies_give(2) [OF c(3)] by (auto simp: well_made_def)
  have "list_all2 (\<lambda>(role, permissions) ps. gives (set ps) ?key user right \<longleftrightarrow> bound_to bindings role user \<and>
      (\<exists>res. role_gives permissions res right \<and> canonical (PDict res) = ?key)) roles by_role"
    using made by (rule list_all2_mono) (auto simp: role_policies_give(1) users_by_role_Inr [OF c(1)])
  then have "gives (set (concat by_role)) ?key user right \<longleftrightarrow> (\<exists>(role, permissions) \<in> set roles. bound_to bindings role user \<and>
      (\<exists>res. role_gives permissions res right \<and> canonical (PDict res) = ?key))"
    by (induction rule: list_all2_induct) (auto simp: gives_Un)
  moreover have "gives (set rest) ?key user right \<longleftrightarrow> bound bindings roles user \<and>
      (\<exists>res. default_gives model res right \<and> canonical (PDict res) = ?key)"
    unfolding default_policies_give(1) [OF c(3)] set_sort set_remdups all_users_bound [OF c(1) assms(4)] ..
  moreover have "sorted (map rp_name policies)" by (simp add: policies compiled_from_def)
  ultimately show ?thesis
    unfolding policies compiled_from_gives [OF well] set_append gives_Un
    using compiled_from_distinct by fastforce
qed

definition demo_query_model :: pydict where
  "demo_query_model = [(''schema_version'', PStr ''1.0''),
     (''roles'', PDict [(''analyst'', PDict [(''queries'', PList [PStr ''execute''])])]),
     (''bindings'', PList [PDict [(''users'', PList [PStr ''ann'']), (''roles'', PList [PStr ''analyst''])]]),
     (''defaults'', PDict [(''queries'', PList [])])]"

definition demo_policies :: "ranger_policy list" where
  "demo_policies =
     [access_policy ''lake'' ''lakehouse-ops-query-execution'' (wildcard_resource ''queryid'' ''*'') [''ann''] [''execute''],
      access_policy ''lake'' ''lakehouse-ops-self-impersonation'' (wildcard_resource ''trinouser'' ''{USER}'') [''ann''] [''impersonate'']]"

lemma demo_query_compiles: "compile_ranger_policies demo_query_model ''lake'' = Inr demo_policies"
proof -
  let ?roles = "[(''analyst'', PDict [(''queries'', PList [PStr ''execute''])])]"
  let ?query = "access_policy ''lake'' ''lakehouse-ops-analyst-query'' (wildcard_resource ''queryid'' ''*'') [''ann''] [''execute'']"
  let ?self = "access_policy ''lake'' ''lakehouse-ops-self-impersonation'' (wildcard_resource ''trinouser'' ''{USER}'') [''ann''] [''impersonate'']"
  have model: "item demo_query_model ''roles'' = Inr (PDict ?roles)" "the_dict (PDict ?roles) = ?roles"
    "bindE (item demo_query_model ''bindings'') iterate =
       Inr [PDict [(''users'', PList [PStr ''ann'']), (''roles'', PList [PStr ''analyst''])]]"
    by code_simp+
  have users: "users_by_role [PDict [(''users'', PList [PStr ''ann'']), (''roles'', PList [PStr ''analyst''])]] ?roles = Inr [(''analyst'', [''ann''])]"
    "sort (remdups (concat (map snd [(''analyst'', [''ann''])]))) = [''ann'']"
    by code_simp+
  have policies: "mapE (role_policies ''lake'' [(''analyst'', [''ann''])]) ?roles = Inr [[?query]]"
    "default_policies ''lake'' [''ann''] demo_query_model = Inr [?self]"
    by code_simp+
  have "sort_key rp_name (merge_matching_resources (filter is_access_policy [?query, ?self]) @
      filter (\<lambda>p. \<not> is_access_policy p) [?query, ?self]) = demo_policies" by code_simp
  then show ?thesis
    unfolding compile_ranger_policies_def model bindE.simps users Let_def policies by simp
qed

theorem ranger_policies_give_what_roles_grant_witness:
  "compile_ranger_policies demo_query_model ''lake'' = Inr demo_policies \<and>
     gives (set demo_policies) (canonical (PDict (wildcard_resource ''queryid'' ''*''))) ''ann'' (May ''execute'')"
proof -
  let ?perms = "PDict [(''queries'', PList [PStr ''execute''])]"
  let ?bindings = "[PDict [(''users'', PList [PStr ''ann'']), (''roles'', PList [PStr ''analyst''])]]"
  have model: "get demo_query_model ''roles'' = PDict [(''analyst'', ?perms)]" "get demo_query_model ''bindings'' = PList ?bindings"
    by code_simp+
  have "role_gives ?perms (wildcard_resource ''queryid'' ''*'') (May ''execute'')"
    by (rule role_gives.query [where q = "PList [PStr ''execute'']"]) code_simp+
  moreover have "bound_to ?bindings ''analyst'' ''ann''"
    by (simp add: bound_to_def names_in_def subscript_def item_def iterate_def)
  ultimately show ?thesis
    using ranger_policies_give_what_roles_grant [OF demo_query_compiles model, of "wildcard_resource ''queryid'' ''*''" "''ann''" "May ''execute''"]
      demo_query_compiles by fastforce
qed

end
