(* ===== verification/Ranger_Sync_Properties.thy ===== *)
theory Ranger_Sync_Properties
  imports Ranger_Sync Ranger_Properties "HOL-Library.Sublist"
begin

text \<open>
  The synchronisation of Ranger policies: which requests a run may send, and what a report accounts for.
\<close>

section \<open>What the server reported\<close>

definition answered :: "ranger_env \<Rightarrow> ranger_request list \<Rightarrow> ranger_request \<Rightarrow> pyval \<Rightarrow> bool" where
  "answered env sent r v \<longleftrightarrow> (\<exists>n answer. n < length sent \<and> sent ! n = r \<and>
     re_answer env (take n sent) r = Inr answer \<and> decoded env r answer = Inr v)"

definition accepted :: "ranger_env \<Rightarrow> ranger_request list \<Rightarrow> ranger_request \<Rightarrow> bool" where
  "accepted env sent r \<longleftrightarrow> (\<exists>v. answered env sent r v)"

definition listing :: "ranger_env \<Rightarrow> string \<Rightarrow> ranger_request list \<Rightarrow> pyval list \<Rightarrow> bool" where
  "listing env service sent vs \<longleftrightarrow> (\<exists>content. answered env sent (list_request service) content \<and> iterate content = Inr vs)"

definition reported :: "ranger_env \<Rightarrow> string \<Rightarrow> ranger_request list \<Rightarrow> pydict \<Rightarrow> bool" where
  "reported env service sent p \<longleftrightarrow> (\<exists>vs. listing env service sent vs \<and> PDict p \<in> set vs)"

lemma answered_append: "answered env sent r v \<Longrightarrow> answered env (sent @ rest) r v"
  unfolding answered_def by (metis nth_append take_append append_Nil2 diff_is_0_eq less_imp_le_nat take_0 trans_less_add1 length_append)

lemma answered_prefix: "prefix s s' \<Longrightarrow> answered env s r v \<Longrightarrow> answered env s' r v"
  by (auto simp: prefix_def answered_append)

lemma accepted_prefix: "prefix s s' \<Longrightarrow> accepted env s r \<Longrightarrow> accepted env s' r"
  by (auto simp: accepted_def dest: answered_prefix)

lemma listing_prefix: "prefix s s' \<Longrightarrow> listing env service s vs \<Longrightarrow> listing env service s' vs"
  by (auto simp: listing_def dest: answered_prefix)

lemma reported_prefix: "prefix s s' \<Longrightarrow> reported env service s p \<Longrightarrow> reported env service s' p"
  by (auto simp: reported_def dest: listing_prefix)

lemma set_dicts: "p \<in> set (dicts vs) \<longleftrightarrow> PDict p \<in> set vs"
  by (induction vs) (auto simp: dicts_def List.map_filter_simps split: pyval.splits option.splits)

section \<open>Requests that a run may send\<close>

inductive permitted :: "ranger_env \<Rightarrow> sync_input \<Rightarrow> ranger_policy list \<Rightarrow> ranger_request list \<Rightarrow> ranger_request \<Rightarrow> bool"
  for env inp desired sent where
  read: "rr_method r = ''GET'' \<Longrightarrow> permitted env inp desired sent r"
| service_created: "permitted env inp desired sent (with_json ''POST'' ''/service/public/v2/api/service''
    (service_definition (si_service inp) (si_jdbc_url inp) (si_service_user inp)))"
| service_updated: "permitted env inp desired sent (with_json ''PUT'' (service_path i)
    (dict_set (service_definition (si_service inp) (si_jdbc_url inp) (si_service_user inp)) ''id'' i))"
| user_created: "permitted env inp desired sent (with_json ''POST'' ''/service/xusers/users/external'' [(''name'', PStr u)])"
| bootstrap_deleted: "reported env (si_service inp) sent p \<Longrightarrow> is_bootstrap_policy (si_service_user inp) p \<Longrightarrow>
    map_of p ''id'' = Some i \<Longrightarrow> permitted env inp desired sent (plain ''DELETE'' (policy_path i))"
| stale_deleted: "reported env (si_service inp) sent p \<Longrightarrow> is_managed p \<Longrightarrow> get p ''name'' \<notin> PStr ` rp_name ` set desired \<Longrightarrow>
    map_of p ''id'' = Some i \<Longrightarrow> permitted env inp desired sent (plain ''DELETE'' (policy_path i))"
| policy_created: "q \<in> set desired \<Longrightarrow>
    permitted env inp desired sent (with_json ''POST'' ''/service/public/v2/api/policy'' (ranger_policy_dict q))"
| policy_replaced: "q \<in> set desired \<Longrightarrow> reported env (si_service inp) sent p \<Longrightarrow> map_of p ''id'' = Some i \<Longrightarrow>
    get p ''name'' = PStr (rp_name q) \<or> is_managed p \<and> py_eq (get p ''resources'') (PDict (rp_resources q)) \<Longrightarrow>
    permitted env inp desired sent (with_json ''PUT'' (policy_path i) (dict_set (ranger_policy_dict q) ''id'' i))"

lemma permitted_prefix: "permitted env inp desired s r \<Longrightarrow> prefix s s' \<Longrightarrow> permitted env inp desired s' r"
  by (induction rule: permitted.induct) (auto intro: permitted.intros dest: reported_prefix)

text \<open>A run from requests in which the policies \<open>known\<close> were reported sends only permitted requests.\<close>

definition only_permitted :: "ranger_env \<Rightarrow> sync_input \<Rightarrow> ranger_policy list \<Rightarrow> pydict list \<Rightarrow>
    ranger_request list \<Rightarrow> ranger_request list \<Rightarrow> bool" where
  "only_permitted env inp desired known s s' \<longleftrightarrow> prefix s s' \<and>
     ((\<forall>p \<in> set known. reported env (si_service inp) s p) \<longrightarrow> (\<forall>r \<in> set s. permitted env inp desired s r) \<longrightarrow>
      (\<forall>r \<in> set s'. permitted env inp desired s' r))"

interpretation requests: action_relation "only_permitted env inp desired known" for env inp desired known
proof
  fix s t u
  assume "only_permitted env inp desired known s t" "only_permitted env inp desired known t u"
  then show "only_permitted env inp desired known s u"
    unfolding only_permitted_def by (blast intro: prefix_order.trans dest: reported_prefix)
qed (simp add: only_permitted_def)

lemma send_permitted:
  assumes "\<And>s. \<forall>p \<in> set known. reported env (si_service inp) s p \<Longrightarrow> permitted env inp desired s r"
  shows "obeys (only_permitted env inp desired known) (send_request env r)"
proof -
  have "only_permitted env inp desired known s (s @ [r])" for s
    unfolding only_permitted_def using assms permitted_prefix [of env inp desired s _ "s @ [r]"] by auto
  then show ?thesis by (auto simp: obeys_def send_request_def)
qed

lemma request_permitted:
  assumes "\<And>s. \<forall>p \<in> set known. reported env (si_service inp) s p \<Longrightarrow> permitted env inp desired s r"
  shows "obeys (only_permitted env inp desired known) (request_io env r)"
  unfolding request_io_def by (intro requests.obeys_bind requests.obeys_basic send_permitted assms)

lemma obeys_if: "(b \<Longrightarrow> obeys rel m) \<Longrightarrow> (\<not> b \<Longrightarrow> obeys rel m') \<Longrightarrow> obeys rel (if b then m else m')"
  by simp

lemmas request_rules = requests.obeys_bind requests.obeys_basic requests.obeys_mapM requests.obeys_catch
  send_permitted request_permitted obeys_if

lemma plain_method [simp]: "rr_method (plain m path) = m" "rr_method (with_json m path body) = m"
  by (simp_all add: plain_def with_json_def)

lemma ensure_service_permitted:
  "obeys (only_permitted env inp desired known) (ensure_service env (si_service inp) (si_jdbc_url inp) (si_service_user inp))"
  unfolding ensure_service_def Let_def
  by (intro request_rules permitted.service_created permitted.service_updated permitted.read plain_method)

lemma ensure_users_permitted: "obeys (only_permitted env inp desired known) (ensure_users env users)"
  unfolding ensure_users_def Let_def
  by (intro request_rules permitted.user_created permitted.read ranger_request.select_convs)

section \<open>Policies\<close>

lemma obeys_mapM_set:
  assumes "\<And>x. x \<in> set xs \<Longrightarrow> obeys (only_permitted env inp desired known) (f x)"
  shows "obeys (only_permitted env inp desired known) (mapM_io f xs)"
  using assms by (induction xs) (simp_all add: requests.obeys_basic requests.obeys_bind)

lemma delete_policy_permitted:
  assumes "\<And>s i. map_of p ''id'' = Some i \<Longrightarrow> \<forall>p \<in> set known. reported env (si_service inp) s p \<Longrightarrow>
      permitted env inp desired s (plain ''DELETE'' (policy_path i))"
  shows "obeys (only_permitted env inp desired known) (delete_policy env p)"
proof (cases "map_of p ''id''")
  case None
  then have "delete_policy env p = lift_io (raise KeyError ''id'')"
    by (auto simp: fun_eq_iff delete_policy_def item_def bind_io_def lift_io_def raise_def)
  then show ?thesis by (simp add: requests.obeys_basic)
next
  case (Some i)
  then have "delete_policy env p = bind_io (request_io env (plain ''DELETE'' (policy_path i))) (\<lambda>_. return_io ())"
    by (auto simp: fun_eq_iff delete_policy_def item_def bind_io_def lift_io_def)
  then show ?thesis by (simp only:) (intro request_rules assms Some)
qed

lemma request_sent: "request_io env r s = Some (v, s') \<Longrightarrow> s' = s @ [r]"
  by (auto simp: request_io_def send_request_def bind_io_Some io_simps)

lemma request_answered: "request_io env r s = Some (Inr v, s') \<Longrightarrow> answered env s' r v"
  by (auto simp: request_io_def send_request_def io_simps answered_def result_simps intro!: exI [of _ "length s"])

lemma request_accepted: "request_io env r s = Some (Inr v, s') \<Longrightarrow> accepted env s' r"
  by (auto simp: accepted_def dest: request_answered)

lemma request_listing:
  assumes "request_io env (list_request service) s = Some (Inr content, s')" "iterate content = Inr vs"
  shows "listing env service s' vs"
  using assms by (auto simp: listing_def dest: request_answered)

text \<open>A listing makes its policies known.\<close>

lemma only_permitted_known:
  assumes "only_permitted env inp desired known' t s'" "\<forall>p \<in> set known'. reported env (si_service inp) t p"
    and "only_permitted env inp desired known s t"
  shows "only_permitted env inp desired known s s'"
  using assms unfolding only_permitted_def by (blast intro: prefix_order.trans)

lemma remove_bootstrap_permitted:
  "obeys (only_permitted env inp desired known) (remove_bootstrap_policies env (si_service inp) (si_service_user inp))"
  unfolding obeys_def
proof (intro allI impI)
  fix s r s'
  assume run: "remove_bootstrap_policies env (si_service inp) (si_service_user inp) s = Some (r, s')"
  have sent: "obeys (only_permitted env inp desired known) (request_io env (list_request (si_service inp)))"
    by (intro request_rules permitted.read) (simp add: list_request_def)
  from run consider e where "request_io env (list_request (si_service inp)) s = Some (Inl e, s')"
    | content t where "request_io env (list_request (si_service inp)) s = Some (Inr content, t)"
      "bind_io (lift_io (iterate content)) (\<lambda>existing.
         bind_io (mapM_io (delete_policy env) (bootstrap_policies (si_service_user inp) existing)) (\<lambda>_.
           return_io (without_bootstrap (si_service_user inp) existing,
             length (bootstrap_policies (si_service_user inp) existing)))) t = Some (r, s')"
    unfolding remove_bootstrap_policies_def bind_io_Some [of "request_io env (list_request (si_service inp))"] by blast
  then show "only_permitted env inp desired known s s'"
  proof cases
    case 1
    then show ?thesis by (rule obeysD [OF sent])
  next
    case (2 content t)
    have st: "only_permitted env inp desired known s t" by (rule obeysD [OF sent 2(1)])
    show ?thesis
    proof (cases "iterate content")
      case (Inl e)
      then have "s' = t" using 2(2) by (simp add: bind_io_Some io_simps)
      then show ?thesis using st by simp
    next
      case (Inr vs)
      let ?known = "dicts vs"
      have "obeys (only_permitted env inp desired ?known) (delete_policy env p)"
        if "p \<in> set (bootstrap_policies (si_service_user inp) vs)" for p
        using that by (intro delete_policy_permitted permitted.bootstrap_deleted) (auto simp: bootstrap_policies_def)
      then have "obeys (only_permitted env inp desired ?known)
          (mapM_io (delete_policy env) (bootstrap_policies (si_service_user inp) vs))"
        by (rule obeys_mapM_set)
      then have "only_permitted env inp desired ?known t s'"
        using 2(2) Inr by (auto simp: bind_io_Some io_simps dest: obeysD)
      moreover have "\<forall>p \<in> set ?known. reported env (si_service inp) t p"
        using request_listing [OF 2(1) Inr] by (auto simp: reported_def set_dicts)
      ultimately show ?thesis using st by (rule only_permitted_known)
    qed
  qed
qed

lemma obeys_prod: "(\<And>a b. obeys rel (f a b)) \<Longrightarrow> obeys rel (case x of (a, b) \<Rightarrow> f a b)"
  by (simp split: prod.split)

lemma create_policy_permitted:
  assumes "p \<in> set desired"
  shows "obeys (only_permitted env inp desired known) (create_policy env (si_service inp) (si_service_user inp) p)"
  unfolding create_policy_def Let_def
  by (intro request_rules obeys_prod remove_bootstrap_permitted permitted.policy_created assms)

text \<open>The policy of the server that a desired policy takes has its name, or its resources and no other use.\<close>

lemma same_resources_Some:
  "same_resources cs resources consumed = Inr (Some c) \<Longrightarrow>
     c \<in> set cs \<and> is_managed c \<and> py_eq (get c ''resources'') (PDict resources)"
  by (induction cs) (auto simp: bindE_eq_Inr split: if_splits)

lemma current_policy_Some:
  assumes "current_policy existing p consumed = Inr (Some c)"
  shows "c \<in> set existing \<and>
     (get c ''name'' = PStr (rp_name p) \<or> is_managed c \<and> py_eq (get c ''resources'') (PDict (rp_resources p)))"
proof (cases "named existing (rp_name p)")
  case None
  then show ?thesis using assms same_resources_Some by (auto simp: current_policy_def)
next
  case (Some d)
  then have "c = d" "c \<in> set (filter (\<lambda>q. get q ''name'' = PStr (rp_name p)) existing)"
    using assms last_in_set [of "filter (\<lambda>q. get q ''name'' = PStr (rp_name p)) existing"]
    by (simp_all only: current_policy_def option.case Inr_inject option.inject) (auto simp: named_def split: list.splits)
  then show ?thesis by auto
qed

lemma sync_policy_permitted:
  assumes "p \<in> set desired"
  shows "obeys (only_permitted env inp desired existing) (sync_policy env (si_service inp) (si_service_user inp) existing p t)"
  unfolding sync_policy_def
proof (rule requests.obeys_lift)
  fix found
  assume found: "current_policy existing p (ty_consumed t) = Inr found"
  show "obeys (only_permitted env inp desired existing) (case found of
       None \<Rightarrow> bind_io (create_policy env (si_service inp) (si_service_user inp) p) (\<lambda>late.
         return_io (t\<lparr>ty_bootstrap := ty_bootstrap t + late, ty_created := Suc (ty_created t)\<rparr>))
     | Some current \<Rightarrow>
         if py_eq (PDict (policy_projection current)) (PDict (policy_projection (ranger_policy_dict p)))
         then lift_io (bindE (consume current t) (\<lambda>t. Inr (t\<lparr>ty_unchanged := Suc (ty_unchanged t)\<rparr>)))
         else bind_io (lift_io (item current ''id'')) (\<lambda>i.
           bind_io (request_io env (with_json ''PUT'' (policy_path i) (dict_set (ranger_policy_dict p) ''id'' i))) (\<lambda>_.
             lift_io (bindE (consume current t) (\<lambda>t. Inr (t\<lparr>ty_updated := Suc (ty_updated t)\<rparr>))))))"
  proof (cases found)
    case None
    then show ?thesis by (simp only: option.case) (intro request_rules create_policy_permitted assms)
  next
    case (Some c)
    note c = current_policy_Some [OF found [unfolded Some]]
    have "obeys (only_permitted env inp desired existing)
        (request_io env (with_json ''PUT'' (policy_path i) (dict_set (ranger_policy_dict p) ''id'' i)))" if "map_of c ''id'' = Some i" for i
      by (intro request_permitted permitted.policy_replaced [OF assms _ that]) (use c in auto)
    then show ?thesis unfolding Some option.case item_eq_Inr [symmetric]
      by (intro obeys_if requests.obeys_lift requests.obeys_bind requests.obeys_basic)
  qed
qed

lemma sync_policies_permitted:
  "set ps \<subseteq> set desired \<Longrightarrow>
     obeys (only_permitted env inp desired existing) (sync_policies env (si_service inp) (si_service_user inp) existing ps t)"
  by (induction ps arbitrary: t) (auto intro!: request_rules sync_policy_permitted)

lemma delete_stale_permitted:
  assumes "set ps \<subseteq> set existing"
  shows "obeys (only_permitted env inp desired existing) (delete_stale env (rp_name ` set desired) consumed ps)"
  using assms
proof (induction ps)
  case Nil
  then show ?case by (simp add: requests.obeys_basic)
next
  case (Cons p ps)
  have "obeys (only_permitted env inp desired existing) (delete_policy env p)"
    if "is_stale (rp_name ` set desired) consumed p = Inr True"
  proof (intro delete_policy_permitted permitted.stale_deleted)
    show "is_managed p" "get p ''name'' \<notin> PStr ` rp_name ` set desired"
      using that by (auto simp: is_stale_def is_str_def the_str_def split: if_splits)
  qed (use Cons.prems in auto)
  then show ?case using Cons
    by (auto intro!: requests.obeys_lift obeys_if requests.obeys_bind requests.obeys_basic)
qed

section \<open>What a report accounts for\<close>

text \<open>A desired policy is at the server under an identifier: it was there, or it replaced what was there.\<close>

definition policy_at :: "ranger_env \<Rightarrow> pydict list \<Rightarrow> ranger_request list \<Rightarrow> ranger_policy \<Rightarrow> pyval \<Rightarrow> bool" where
  "policy_at env existing sent q i \<longleftrightarrow> (\<exists>c \<in> set existing. map_of c ''id'' = Some i \<and>
     (py_eq (PDict (policy_projection c)) (PDict (policy_projection (ranger_policy_dict q))) \<or>
      accepted env sent (with_json ''PUT'' (policy_path i) (dict_set (ranger_policy_dict q) ''id'' i))))"

definition settled :: "ranger_env \<Rightarrow> pydict list \<Rightarrow> ranger_request list \<Rightarrow> ranger_policy \<Rightarrow> bool" where
  "settled env existing sent q \<longleftrightarrow>
     accepted env sent (with_json ''POST'' ''/service/public/v2/api/policy'' (ranger_policy_dict q)) \<or> (\<exists>i. policy_at env existing sent q i)"

lemma policy_at_prefix: "prefix s s' \<Longrightarrow> policy_at env existing s q i \<Longrightarrow> policy_at env existing s' q i"
  unfolding policy_at_def by (blast dest: accepted_prefix)

lemma settled_prefix: "prefix s s' \<Longrightarrow> settled env existing s q \<Longrightarrow> settled env existing s' q"
  unfolding settled_def by (blast dest: accepted_prefix policy_at_prefix)

lemma prefix_if: "obeys (only_permitted env inp desired known) m \<Longrightarrow> m s = Some (r, s') \<Longrightarrow> prefix s s'"
  by (drule (1) obeysD) (simp add: only_permitted_def)

lemma create_policy_Inr:
  assumes "create_policy env service service_user p s = Some (Inr late, s')"
  shows "accepted env s' (with_json ''POST'' ''/service/public/v2/api/policy'' (ranger_policy_dict p))"
  using assms unfolding create_policy_def Let_def
  by (auto simp: io_simps split: if_splits prod.splits dest: request_accepted)

lemma sync_policy_Inr:
  assumes "sync_policy env service service_user existing p t s = Some (Inr t', s')"
  shows "ty_created t' + ty_updated t' + ty_unchanged t' = Suc (ty_created t + ty_updated t + ty_unchanged t)"
    "settled env existing s' p"
    "\<forall>i \<in> set (ty_consumed t'). i \<in> set (ty_consumed t) \<or> policy_at env existing s' p i"
proof -
  obtain found where found: "current_policy existing p (ty_consumed t) = Inr found"
    using assms by (auto simp: sync_policy_def io_simps)
  have "ty_created t' + ty_updated t' + ty_unchanged t' = Suc (ty_created t + ty_updated t + ty_unchanged t) \<and>
    settled env existing s' p \<and> (\<forall>i \<in> set (ty_consumed t'). i \<in> set (ty_consumed t) \<or> policy_at env existing s' p i)"
  proof (cases found)
    case None
    then show ?thesis using assms found
      by (auto simp: sync_policy_def io_simps settled_def dest: create_policy_Inr)
  next
    case (Some c)
    have c: "c \<in> set existing" using current_policy_Some [OF found [unfolded Some]] by simp
    show ?thesis
    proof (cases "py_eq (PDict (policy_projection c)) (PDict (policy_projection (ranger_policy_dict p)))")
      case True
      then have "bindE (consume c t) (\<lambda>t. Inr (t\<lparr>ty_unchanged := Suc (ty_unchanged t)\<rparr>)) = Inr t'"
        using assms by (simp only: sync_policy_def found Some io_simps) (simp add: io_simps del: py_eq.simps)
      then show ?thesis using True c
        by (auto simp: consume_def result_simps settled_def policy_at_def simp del: py_eq.simps split: if_splits)
    next
      case False
      then obtain i v u where i: "map_of c ''id'' = Some i"
          "request_io env (with_json ''PUT'' (policy_path i) (dict_set (ranger_policy_dict p) ''id'' i)) u = Some (Inr v, s')"
          "bindE (consume c t) (\<lambda>t. Inr (t\<lparr>ty_updated := Suc (ty_updated t)\<rparr>)) = Inr t'"
        using assms by (simp only: sync_policy_def found Some io_simps) (auto simp: io_simps result_simps simp del: py_eq.simps)
      then show ?thesis using c request_accepted [OF i(2)]
        by (auto simp: consume_def result_simps settled_def policy_at_def simp del: py_eq.simps split: if_splits)
    qed
  qed
  then show "ty_created t' + ty_updated t' + ty_unchanged t' = Suc (ty_created t + ty_updated t + ty_unchanged t)"
    "settled env existing s' p"
    "\<forall>i \<in> set (ty_consumed t'). i \<in> set (ty_consumed t) \<or> policy_at env existing s' p i" by simp_all
qed

lemma sync_policies_Inr:
  fixes inp :: sync_input
  assumes "sync_policies env (si_service inp) (si_service_user inp) existing ps t s = Some (Inr t', s')"
  shows "ty_created t' + ty_updated t' + ty_unchanged t' = ty_created t + ty_updated t + ty_unchanged t + length ps \<and>
    (\<forall>q \<in> set ps. settled env existing s' q) \<and>
    (\<forall>i \<in> set (ty_consumed t'). i \<in> set (ty_consumed t) \<or> (\<exists>q \<in> set ps. policy_at env existing s' q i))"
  using assms
proof (induction ps arbitrary: t s)
  case Nil
  then show ?case by (simp add: io_simps)
next
  case (Cons p ps)
  from Cons.prems obtain t1 s1 where one: "sync_policy env (si_service inp) (si_service_user inp) existing p t s = Some (Inr t1, s1)"
    and rest: "sync_policies env (si_service inp) (si_service_user inp) existing ps t1 s1 = Some (Inr t', s')"
    by (auto simp: io_simps)
  have grow: "prefix s1 s'" by (rule prefix_if [OF sync_policies_permitted [OF order.refl] rest])
  note IH = Cons.IH [OF rest] and head = sync_policy_Inr [OF one]
  have "settled env existing s' p" by (rule settled_prefix [OF grow head(2)])
  moreover have "i \<in> set (ty_consumed t) \<or> (\<exists>q \<in> set (p # ps). policy_at env existing s' q i)" if "i \<in> set (ty_consumed t')" for i
    using that IH head(3) policy_at_prefix [OF grow] by auto
  ultimately show ?case using IH head(1) by simp
qed

lemma delete_policy_Inr:
  assumes "delete_policy env p s = Some (Inr u, s')"
  shows "\<exists>i. map_of p ''id'' = Some i \<and> accepted env s' (plain ''DELETE'' (policy_path i))"
  using assms by (auto simp: delete_policy_def io_simps result_simps dest: request_accepted)

lemma delete_policies_prefix: "mapM_io (delete_policy env) ps s = Some (r, s') \<Longrightarrow> prefix s s'"
proof (induction ps arbitrary: s r)
  case Nil
  then show ?case by (simp add: io_simps)
next
  case (Cons p ps)
  have one: "delete_policy env p s = Some (x, t) \<Longrightarrow> prefix s t" for x t
    by (auto simp: delete_policy_def bind_io_Some io_simps dest: request_sent)
  from Cons show ?case by (auto simp: bind_io_Some io_simps dest!: one intro: prefix_order.trans)
qed

lemma delete_policies_Inr:
  assumes "mapM_io (delete_policy env) ps s = Some (Inr us, s')" "p \<in> set ps"
  shows "\<exists>i. map_of p ''id'' = Some i \<and> accepted env s' (plain ''DELETE'' (policy_path i))"
  using assms
proof (induction ps arbitrary: s us)
  case (Cons q ps)
  from Cons.prems(1) obtain u t vs where one: "delete_policy env q s = Some (Inr u, t)"
    and rest: "mapM_io (delete_policy env) ps t = Some (Inr vs, s')"
    by (auto simp: io_simps)
  show ?case
  proof (cases "p = q")
    case True
    then show ?thesis using delete_policy_Inr [OF one] accepted_prefix [OF delete_policies_prefix [OF rest]] by blast
  next
    case False
    then show ?thesis using Cons rest by auto
  qed
qed simp

lemma remove_bootstrap_Inr:
  assumes "remove_bootstrap_policies env service service_user s = Some (Inr (remaining, n), s')"
  shows "\<exists>vs. listing env service s' vs \<and> remaining = without_bootstrap service_user vs \<and>
    n = length (bootstrap_policies service_user vs) \<and>
    (\<forall>p \<in> set (bootstrap_policies service_user vs).
       \<exists>i. map_of p ''id'' = Some i \<and> accepted env s' (plain ''DELETE'' (policy_path i)))"
proof -
  from assms obtain content t vs us where run: "request_io env (list_request service) s = Some (Inr content, t)"
      "iterate content = Inr vs" "mapM_io (delete_policy env) (bootstrap_policies service_user vs) t = Some (Inr us, s')"
    and result: "remaining = without_bootstrap service_user vs" "n = length (bootstrap_policies service_user vs)"
    unfolding remove_bootstrap_policies_def by (auto simp: io_simps)
  have "listing env service s' vs"
    by (rule listing_prefix [OF delete_policies_prefix [OF run(3)] request_listing [OF run(1,2)]])
  then show ?thesis using result delete_policies_Inr [OF run(3)] by blast
qed

lemma delete_stale_prefix: "delete_stale env names consumed ps s = Some (r, s') \<Longrightarrow> prefix s s'"
proof (induction ps arbitrary: s r)
  case Nil
  then show ?case by (simp add: io_simps)
next
  case (Cons p ps)
  have one: "delete_policy env p s = Some (x, t) \<Longrightarrow> prefix s t" for x t
    by (auto simp: delete_policy_def bind_io_Some io_simps dest: request_sent)
  from Cons show ?case
    by (auto simp: bind_io_Some io_simps split: if_splits dest!: one intro: prefix_order.trans)
qed

lemma delete_stale_Inr:
  assumes "delete_stale env names consumed ps s = Some (Inr n, s')" "p \<in> set ps" "is_managed p" "get p ''name'' \<notin> PStr ` names"
  shows "(\<exists>i. map_of p ''id'' = Some i \<and> accepted env s' (plain ''DELETE'' (policy_path i))) \<or>
    (\<exists>j \<in> set consumed. get p ''id'' = j \<or> py_eq (get p ''id'') j)"
  using assms
proof (induction ps arbitrary: s n)
  case (Cons q ps)
  from Cons.prems(1) obtain stale m t k where q: "is_stale names consumed q = Inr stale"
      "(if stale then bind_io (delete_policy env q) (\<lambda>_. return_io (1 :: nat)) else return_io 0) s = Some (Inr m, t)"
    and rest: "delete_stale env names consumed ps t = Some (Inr k, s')"
    by (auto simp: io_simps)
  show ?case
  proof (cases "p = q")
    case True
    then have "bindE (consumed_id (get p ''id'') consumed) (\<lambda>used. Inr (\<not> used)) = Inr stale"
      using q(1) Cons.prems(3,4) by (auto simp: is_stale_def is_str_def the_str_def split: pyval.splits if_splits)
    then show ?thesis using q(2) True accepted_prefix [OF delete_stale_prefix [OF rest]]
      by (auto simp: consumed_id_def list_ex_iff result_simps io_simps split: if_splits dest!: delete_policy_Inr)
  next
    case False
    then show ?thesis using Cons rest by auto
  qed
qed simp

section \<open>Every run returns\<close>

definition returns :: "'a admin \<Rightarrow> bool" where
  "returns m \<longleftrightarrow> (\<forall>s. m s \<noteq> None)"

lemma returns_basic: "returns (return_io x)" "returns (lift_io r)" "returns (send_request env req)"
  by (simp_all add: returns_def return_io_def lift_io_def send_request_def)

lemma returns_bind: "returns m \<Longrightarrow> (\<And>x. returns (f x)) \<Longrightarrow> returns (bind_io m f)"
  by (simp add: returns_def bind_io_None)

lemma returns_if: "returns m \<Longrightarrow> returns m' \<Longrightarrow> returns (if b then m else m')"
  by simp

lemma returns_prod: "(\<And>a b. returns (f a b)) \<Longrightarrow> returns (case x of (a, b) \<Rightarrow> f a b)"
  by (simp split: prod.split)

lemma returns_option: "returns m \<Longrightarrow> (\<And>a. returns (f a)) \<Longrightarrow> returns (case x of None \<Rightarrow> m | Some a \<Rightarrow> f a)"
  by (simp split: option.split)

lemma returns_mapM: "(\<And>x. returns (f x)) \<Longrightarrow> returns (mapM_io f xs)"
  by (induction xs) (simp_all add: returns_basic returns_bind)

lemma returns_catch: "returns m \<Longrightarrow> (\<And>e. returns (h e)) \<Longrightarrow> returns (catch_io m p h)"
  by (auto simp: returns_def catch_io_def split: option.splits sum.splits)

lemma returns_request: "returns (request_io env r)"
  unfolding request_io_def by (intro returns_bind returns_basic)

lemmas returns_rules = returns_bind returns_basic returns_request returns_if returns_prod returns_option returns_mapM returns_catch

lemma returns_delete: "returns (delete_policy env p)"
  unfolding delete_policy_def by (intro returns_rules)

lemma returns_remove: "returns (remove_bootstrap_policies env service service_user)"
  unfolding remove_bootstrap_policies_def by (intro returns_rules returns_delete)

lemma returns_sync_policy: "returns (sync_policy env service service_user existing p t)"
  unfolding sync_policy_def create_policy_def Let_def by (intro returns_rules returns_remove)

lemma returns_sync_policies: "returns (sync_policies env service service_user existing ps t)"
  by (induction ps arbitrary: t) (auto intro!: returns_rules returns_sync_policy)

lemma returns_delete_stale: "returns (delete_stale env names consumed ps)"
  by (induction ps) (auto intro!: returns_rules returns_delete)

lemma returns_sync: "returns (sync env schemas inp)"
  unfolding sync_def ensure_service_def ensure_users_def Let_def
  by (intro returns_rules returns_remove returns_sync_policies returns_delete_stale)

section \<open>A run\<close>

definition wanted :: "sync_input \<Rightarrow> ranger_policy list" where
  "wanted inp = (case bindE (leased_model inp) (\<lambda>(model, _). compile_ranger_policies model (si_service inp)) of
     Inr policies \<Rightarrow> policies | Inl _ \<Rightarrow> [])"

text \<open>The part of a run that needs the policies.\<close>

definition sync_from :: "ranger_env \<Rightarrow> schema_env \<Rightarrow> sync_input \<Rightarrow> lease_report option \<Rightarrow> string \<Rightarrow> pydict \<Rightarrow>
    ranger_policy list \<Rightarrow> pyval list \<times> nat \<Rightarrow> pydict admin" where
  "sync_from env schemas inp lease service_status user_status desired = (\<lambda>(remaining, removed).
     let existing = dicts remaining in
     bind_io (lift_io (check_names existing)) (\<lambda>_.
     bind_io (sync_policies env (si_service inp) (si_service_user inp) existing desired
       \<lparr>ty_consumed = [], ty_bootstrap = removed, ty_created = 0, ty_updated = 0, ty_unchanged = 0\<rparr>) (\<lambda>t.
     bind_io (delete_stale env (rp_name ` set desired) (ty_consumed t) existing) (\<lambda>deleted.
     let report = sync_report_dict inp service_status user_status (length desired) t deleted lease in
     bind_io (lift_io (checked_report RangerAdminError schemas (PDict report) (si_schema inp))) (\<lambda>_.
       return_io report)))))"

lemma sync_from_permitted:
  "obeys (only_permitted env inp desired (dicts remaining))
     (sync_from env schemas inp lease service_status user_status desired (remaining, removed))"
  unfolding sync_from_def prod.case Let_def
  by (intro request_rules sync_policies_permitted delete_stale_permitted order.refl)

lemma dicts_without_bootstrap: "set (dicts (without_bootstrap service_user vs)) \<subseteq> set (dicts vs)"
  by (auto simp: set_dicts without_bootstrap_def)

lemma sync_tail_permitted:
  fixes inp :: sync_input
  shows "obeys (only_permitted env inp desired [])
     (bind_io (remove_bootstrap_policies env (si_service inp) (si_service_user inp))
       (sync_from env schemas inp lease service_status user_status desired))"
  unfolding obeys_def
proof (intro allI impI)
  fix s r s'
  assume run: "bind_io (remove_bootstrap_policies env (si_service inp) (si_service_user inp))
       (sync_from env schemas inp lease service_status user_status desired) s = Some (r, s')"
  have boot: "only_permitted env inp desired [] s t"
    if "remove_bootstrap_policies env (si_service inp) (si_service_user inp) s = Some (x, t)" for x t
    by (rule obeysD [OF remove_bootstrap_permitted that])
  from run consider e where "remove_bootstrap_policies env (si_service inp) (si_service_user inp) s = Some (Inl e, s')"
    | remaining n t where "remove_bootstrap_policies env (si_service inp) (si_service_user inp) s = Some (Inr (remaining, n), t)"
      "sync_from env schemas inp lease service_status user_status desired (remaining, n) t = Some (r, s')"
    unfolding bind_io_Some by auto
  then show "only_permitted env inp desired [] s s'"
  proof cases
    case 1
    then show ?thesis by (rule boot)
  next
    case (2 remaining n t)
    obtain vs where vs: "listing env (si_service inp) t vs" "remaining = without_bootstrap (si_service_user inp) vs"
      using remove_bootstrap_Inr [OF 2(1)] by blast
    have "\<forall>p \<in> set (dicts remaining). reported env (si_service inp) t p"
      using vs by (auto simp: reported_def set_dicts without_bootstrap_def)
    then show ?thesis by (rule only_permitted_known [OF obeysD [OF sync_from_permitted 2(2)] _ boot [OF 2(1)]])
  qed
qed

lemma sync_permitted: "obeys (only_permitted env inp (wanted inp) []) (sync env schemas inp)"
proof -
  have step: "obeys (only_permitted env inp (wanted inp) [])
      (bind_io (ensure_service env (si_service inp) (si_jdbc_url inp) (si_service_user inp)) (\<lambda>service_status.
       bind_io (lift_io (users_of model)) (\<lambda>users.
       bind_io (ensure_users env users) (\<lambda>user_status.
       bind_io (lift_io (compile_ranger_policies model (si_service inp))) (\<lambda>desired.
       bind_io (remove_bootstrap_policies env (si_service inp) (si_service_user inp))
         (sync_from env schemas inp lease service_status user_status desired))))))"
    if "leased_model inp = Inr (model, lease)" for model lease
  proof (rule requests.obeys_bind [OF ensure_service_permitted], rule requests.obeys_lift,
      rule requests.obeys_bind [OF ensure_users_permitted], rule requests.obeys_lift)
    fix service_status users user_status desired
    assume "compile_ranger_policies model (si_service inp) = Inr desired"
    then have "wanted inp = desired" using that by (simp add: wanted_def)
    then show "obeys (only_permitted env inp (wanted inp) [])
        (bind_io (remove_bootstrap_policies env (si_service inp) (si_service_user inp))
          (sync_from env schemas inp lease service_status user_status desired))"
      using sync_tail_permitted by simp
  qed
  show ?thesis
    unfolding sync_def sync_from_def [symmetric]
    by (rule requests.obeys_lift) (auto split: prod.splits intro: step)
qed

lemma sync_Inr:
  assumes "sync env schemas inp s = Some (Inr report, sent)"
  shows "\<exists>vs t deleted service_status user_status lease existing.
        listing env (si_service inp) sent vs \<and> existing = dicts (without_bootstrap (si_service_user inp) vs) \<and>
        report = sync_report_dict inp service_status user_status (length (wanted inp)) t deleted lease \<and>
        ty_created t + ty_updated t + ty_unchanged t = length (wanted inp) \<and>
        (\<forall>q \<in> set (wanted inp). settled env existing sent q) \<and>
        (\<forall>p \<in> set (bootstrap_policies (si_service_user inp) vs).
           \<exists>i. map_of p ''id'' = Some i \<and> accepted env sent (plain ''DELETE'' (policy_path i))) \<and>
        (\<forall>p \<in> set existing. is_managed p \<and> get p ''name'' \<notin> PStr ` rp_name ` set (wanted inp) \<longrightarrow>
           (\<exists>i. map_of p ''id'' = Some i \<and> accepted env sent (plain ''DELETE'' (policy_path i))) \<or>
           (\<exists>q \<in> set (wanted inp). \<exists>i. policy_at env existing sent q i \<and> (get p ''id'' = i \<or> py_eq (get p ''id'') i)))"
proof -
  from assms obtain model lease service_status user_status desired s1 remaining n s2
    where model: "leased_model inp = Inr (model, lease)" "compile_ranger_policies model (si_service inp) = Inr desired"
      and boot: "remove_bootstrap_policies env (si_service inp) (si_service_user inp) s1 = Some (Inr (remaining, n), s2)"
      and tail: "sync_from env schemas inp lease service_status user_status desired (remaining, n) s2 = Some (Inr report, sent)"
    unfolding sync_def sync_from_def [symmetric] bind_io_Inr lift_io_iff by (auto simp: io_simps)
  have wanted: "wanted inp = desired" using model by (simp add: wanted_def)
  let ?existing = "dicts remaining"
  from tail obtain t s3 deleted where loop: "sync_policies env (si_service inp) (si_service_user inp) ?existing desired
       \<lparr>ty_consumed = [], ty_bootstrap = n, ty_created = 0, ty_updated = 0, ty_unchanged = 0\<rparr> s2 = Some (Inr t, s3)"
    and stale: "delete_stale env (rp_name ` set desired) (ty_consumed t) ?existing s3 = Some (Inr deleted, sent)"
    and report: "report = sync_report_dict inp service_status user_status (length desired) t deleted lease"
    unfolding sync_from_def Let_def prod.case bind_io_Inr lift_io_iff return_io_iff by blast
  obtain vs where vs: "listing env (si_service inp) s2 vs" "remaining = without_bootstrap (si_service_user inp) vs"
      "\<forall>p \<in> set (bootstrap_policies (si_service_user inp) vs).
         \<exists>i. map_of p ''id'' = Some i \<and> accepted env s2 (plain ''DELETE'' (policy_path i))"
    using remove_bootstrap_Inr [OF boot] by blast
  have p23: "prefix s2 s3" by (rule prefix_if [OF sync_policies_permitted [OF order.refl] loop])
  have p3: "prefix s3 sent" by (rule delete_stale_prefix [OF stale])
  have p2: "prefix s2 sent" using p23 p3 by (rule prefix_order.trans)
  note synced = sync_policies_Inr [OF loop]
  have "\<forall>q \<in> set desired. settled env ?existing sent q" using synced settled_prefix [OF p3] by blast
  moreover have used: "\<forall>j \<in> set (ty_consumed t). \<exists>q \<in> set desired. policy_at env ?existing sent q j"
    using synced policy_at_prefix [OF p3] by fastforce
  have "\<forall>p \<in> set ?existing. is_managed p \<and> get p ''name'' \<notin> PStr ` rp_name ` set desired \<longrightarrow>
           (\<exists>i. map_of p ''id'' = Some i \<and> accepted env sent (plain ''DELETE'' (policy_path i))) \<or>
           (\<exists>q \<in> set desired. \<exists>i. policy_at env ?existing sent q i \<and> (get p ''id'' = i \<or> py_eq (get p ''id'') i))"
  proof (intro ballI impI)
    fix p assume "p \<in> set ?existing" "is_managed p \<and> get p ''name'' \<notin> PStr ` rp_name ` set desired"
    then show "(\<exists>i. map_of p ''id'' = Some i \<and> accepted env sent (plain ''DELETE'' (policy_path i))) \<or>
           (\<exists>q \<in> set desired. \<exists>i. policy_at env ?existing sent q i \<and> (get p ''id'' = i \<or> py_eq (get p ''id'') i))"
      using delete_stale_Inr [OF stale, of p] used by metis
  qed
  moreover have "\<forall>p \<in> set (bootstrap_policies (si_service_user inp) vs).
         \<exists>i. map_of p ''id'' = Some i \<and> accepted env sent (plain ''DELETE'' (policy_path i))"
    using vs(3) accepted_prefix [OF p2] by blast
  moreover have "ty_created t + ty_updated t + ty_unchanged t = length desired" using synced by simp
  ultimately show ?thesis
    unfolding wanted using listing_prefix [OF p2 vs(1)] report vs(2) by blast
qed

text \<open>C9. However a synchronisation ends, it ends, and it has sent only requests that it may send: it deletes
  no policy but bootstrap policies and managed policies that are no longer wanted, and replaces no policy
  but those with the name or the resources of a wanted one, all of them reported by the server. When it
  returns a report, the server has accepted what the report counts: every wanted policy was there, was
  created or replaced a policy, no bootstrap policy is left, and every managed policy with another name
  was deleted or is the place of a wanted one.\<close>

theorem sync_accounts_for_every_policy:
  "\<exists>r sent. sync env schemas inp [] = Some (r, sent) \<and> (\<forall>req \<in> set sent. permitted env inp (wanted inp) sent req) \<and>
     (\<forall>report. r = Inr report \<longrightarrow> (\<exists>vs t deleted service_status user_status lease existing.
        listing env (si_service inp) sent vs \<and> existing = dicts (without_bootstrap (si_service_user inp) vs) \<and>
        report = sync_report_dict inp service_status user_status (length (wanted inp)) t deleted lease \<and>
        ty_created t + ty_updated t + ty_unchanged t = length (wanted inp) \<and>
        (\<forall>q \<in> set (wanted inp). settled env existing sent q) \<and>
        (\<forall>p \<in> set (bootstrap_policies (si_service_user inp) vs).
           \<exists>i. map_of p ''id'' = Some i \<and> accepted env sent (plain ''DELETE'' (policy_path i))) \<and>
        (\<forall>p \<in> set existing. is_managed p \<and> get p ''name'' \<notin> PStr ` rp_name ` set (wanted inp) \<longrightarrow>
           (\<exists>i. map_of p ''id'' = Some i \<and> accepted env sent (plain ''DELETE'' (policy_path i))) \<or>
           (\<exists>q \<in> set (wanted inp). \<exists>i. policy_at env existing sent q i \<and> (get p ''id'' = i \<or> py_eq (get p ''id'') i)))))"
proof -
  obtain r sent where run: "sync env schemas inp [] = Some (r, sent)"
    using returns_sync [of env schemas inp] unfolding returns_def by (metis not_None_eq surj_pair)
  have "\<forall>req \<in> set sent. permitted env inp (wanted inp) sent req"
    using obeysD [OF sync_permitted run] by (simp add: only_permitted_def)
  moreover have "\<exists>vs t deleted service_status user_status lease existing.
        listing env (si_service inp) sent vs \<and> existing = dicts (without_bootstrap (si_service_user inp) vs) \<and>
        report = sync_report_dict inp service_status user_status (length (wanted inp)) t deleted lease \<and>
        ty_created t + ty_updated t + ty_unchanged t = length (wanted inp) \<and>
        (\<forall>q \<in> set (wanted inp). settled env existing sent q) \<and>
        (\<forall>p \<in> set (bootstrap_policies (si_service_user inp) vs).
           \<exists>i. map_of p ''id'' = Some i \<and> accepted env sent (plain ''DELETE'' (policy_path i))) \<and>
        (\<forall>p \<in> set existing. is_managed p \<and> get p ''name'' \<notin> PStr ` rp_name ` set (wanted inp) \<longrightarrow>
           (\<exists>i. map_of p ''id'' = Some i \<and> accepted env sent (plain ''DELETE'' (policy_path i))) \<or>
           (\<exists>q \<in> set (wanted inp). \<exists>i. policy_at env existing sent q i \<and> (get p ''id'' = i \<or> py_eq (get p ''id'') i)))"
    if "r = Inr report" for report
    using sync_Inr [OF run [unfolded that]] by blast
  ultimately show ?thesis using run by blast
qed

text \<open>A server that does not know the service and lists one managed policy of an earlier model.\<close>

definition demo_old_policy :: pydict where
  "demo_old_policy = [(''id'', PInt 7), (''name'', PStr ''old''), (''description'', PStr managed_description),
     (''resources'', PDict (wildcard_resource ''table'' ''x''))]"

definition demo_admin :: ranger_env where
  "demo_admin = \<lparr>re_answer = (\<lambda>sent r. Inr \<lparr>
       ra_status = (if r = plain ''GET'' ''/service/public/v2/api/service/name/lake'' then 404 else 200),
       ra_content = (if r = list_request ''lake'' then ''listing'' else if rr_method r = ''GET'' then ''{}'' else [])\<rparr>),
     re_json = (\<lambda>s. Inr (if s = ''{}'' then PDict [] else PList [PDict demo_old_policy])), re_text = id, re_url_path = id\<rparr>"

definition demo_sync :: sync_input where
  "demo_sync = \<lparr>si_model = Some (Doc (PDict demo_query_model)), si_lease = None, si_service = ''lake'', si_jdbc_url = ''jdbc'',
     si_service_user = ''svc'', si_schema = ''s''\<rparr>"

definition demo_schemas :: schema_env where
  "demo_schemas = \<lparr>sc_file = (\<lambda>_. Some (Doc (PDict []))), sc_check = (\<lambda>_. None), sc_validate = (\<lambda>_ _. None)\<rparr>"

definition demo_tally :: tally where
  "demo_tally = \<lparr>ty_consumed = [], ty_bootstrap = 0, ty_created = 0, ty_updated = 0, ty_unchanged = 0\<rparr>"

lemma demo_steps:
  "leased_model demo_sync = Inr (demo_query_model, None)"
  "case ensure_service demo_admin ''lake'' ''jdbc'' ''svc'' s of Some (Inr v, t) \<Rightarrow> v = ''created'' | _ \<Rightarrow> False"
  "users_of demo_query_model = Inr [''ann'']"
  "case ensure_users demo_admin [''ann''] s of Some (Inr v, t) \<Rightarrow> True | _ \<Rightarrow> False"
  "case remove_bootstrap_policies demo_admin ''lake'' ''svc'' s of Some (Inr v, t) \<Rightarrow> v = ([PDict demo_old_policy], 0) | _ \<Rightarrow> False"
  "dicts [PDict demo_old_policy] = [demo_old_policy]"
  "check_names [demo_old_policy] = Inr ()"
  "case sync_policies demo_admin ''lake'' ''svc'' [demo_old_policy] demo_policies demo_tally s of
     Some (Inr v, t) \<Rightarrow> v = demo_tally\<lparr>ty_created := 2\<rparr> | _ \<Rightarrow> False"
  "case delete_stale demo_admin (set (map rp_name demo_policies)) [] [demo_old_policy] s of Some (Inr v, t) \<Rightarrow> v = 1 | _ \<Rightarrow> False"
  "checked_report RangerAdminError demo_schemas v ''s'' = Inr ()"
  by code_simp+

lemma demo_sync_returns: "\<exists>report sent. sync demo_admin demo_schemas demo_sync [] = Some (Inr report, sent)"
proof -
  obtain s1 where s1: "ensure_service demo_admin ''lake'' ''jdbc'' ''svc'' [] = Some (Inr ''created'', s1)"
    using demo_steps(2) [of "[]"] by (auto split: option.splits sum.splits prod.splits)
  obtain u s2 where s2: "ensure_users demo_admin [''ann''] s1 = Some (Inr u, s2)" using demo_steps(4) [of s1] by (auto split: option.splits sum.splits prod.splits)
  obtain s3 where s3: "remove_bootstrap_policies demo_admin ''lake'' ''svc'' s2 = Some (Inr ([PDict demo_old_policy], 0), s3)"
    using demo_steps(5) [of s2] by (auto split: option.splits sum.splits prod.splits)
  obtain s4 where s4: "sync_policies demo_admin ''lake'' ''svc'' [demo_old_policy] demo_policies demo_tally s3 =
      Some (Inr (demo_tally\<lparr>ty_created := 2\<rparr>), s4)" using demo_steps(8) [of s3] by (auto split: option.splits sum.splits prod.splits)
  obtain s5 where s5: "delete_stale demo_admin (set (map rp_name demo_policies)) [] [demo_old_policy] s4 = Some (Inr 1, s5)"
    using demo_steps(9) [of s4] by (auto split: option.splits sum.splits prod.splits)
  have inp: "si_service demo_sync = ''lake''" "si_jdbc_url demo_sync = ''jdbc''" "si_service_user demo_sync = ''svc''"
    "si_schema demo_sync = ''s''" by (simp_all add: demo_sync_def)
  have none: "ty_consumed (demo_tally\<lparr>ty_created := 2\<rparr>) = []" by (simp add: demo_tally_def)
  show ?thesis
    unfolding sync_def inp set_map [symmetric]
    using s1 s2 s3 s4 s5
    by (simp add: bind_io_def lift_io_def return_io_def demo_steps demo_query_compiles Let_def none demo_tally_def [symmetric]
        del: set_map sync_policies.simps delete_stale.simps)
qed

theorem sync_accounts_for_every_policy_witness:
  "\<exists>report sent. sync demo_admin demo_schemas demo_sync [] = Some (Inr report, sent) \<and> length (wanted demo_sync) = 2 \<and>
     (\<exists>existing. \<forall>q \<in> set (wanted demo_sync). settled demo_admin existing sent q)"
proof -
  have "wanted demo_sync = demo_policies" using demo_steps(1) demo_query_compiles by (simp add: wanted_def demo_sync_def)
  then have "length (wanted demo_sync) = 2" by (simp add: demo_policies_def)
  then show ?thesis using sync_accounts_for_every_policy [of demo_admin demo_schemas demo_sync] demo_sync_returns by fastforce
qed

section \<open>A policy that takes the place of a later one\<close>

text \<open>Two wanted policies, and a server whose policy with the name of the second has the resources of the
  first. The first takes it by its resources, and the second then takes it by its name, because a policy
  that is found by name is not looked up among the used ones: both are written to the same identifier, the
  last one remains, and the report counts two updates.\<close>

definition demo_moved :: "ranger_policy list" where
  "demo_moved = [row_filter_policy ''lake'' ''a'' (wildcard_resource ''table'' ''x'') [''ann''] (PStr ''1 = 1''),
     row_filter_policy ''lake'' ''b'' (wildcard_resource ''table'' ''y'') [''ann''] (PStr ''1 = 1'')]"

lemma sync_overwrites_a_policy_it_has_written:
  "case sync_policies demo_admin ''lake'' ''svc'' [dict_set demo_old_policy ''name'' (PStr ''b'')] demo_moved demo_tally [] of
     Some (Inr t, sent) \<Rightarrow> ty_updated t = 2 \<and> ty_created t = 0 \<and> map rr_method sent = [''PUT'', ''PUT''] \<and>
       map rr_path sent = [policy_path (PInt 7), policy_path (PInt 7)]
   | _ \<Rightarrow> False"
  by code_simp

end
