(* ===== verification/Container_Cleanup.thy ===== *)
theory Container_Cleanup
  imports Run_Journal
begin

text \<open>
  \<open>commerce_container_inspection.py\<close> and \<open>commerce_container_cleanup.py\<close>: what Docker says of the
  containers that the journal records, and the removal of one of them under the lock of the runner. The
  state is the list of Docker commands that were run; what a command answers may depend on all of it.
\<close>

section \<open>Docker\<close>

record process_end =
  pe_code :: int
  pe_stdout :: string
  pe_stderr :: string

text \<open>\<open>subprocess.run(..., capture_output=True, text=True, check=False, timeout=...)\<close>: the process ended, it
  did not end in time, it could not be run, or what it wrote is no text.\<close>

datatype process_answer = Ended process_end | RunTimedOut | CannotRun | NoText

record docker_env =
  dk_run :: "string list list \<Rightarrow> string list \<Rightarrow> process_answer"
  dk_json :: "string \<Rightarrow> pyval result"

type_synonym 'a docker = "(pyexn, 'a, string list list) act"

definition process_result :: "process_answer \<Rightarrow> process_end result" where
  "process_result answer = (case answer of Ended e \<Rightarrow> Inr e | RunTimedOut \<Rightarrow> raise TimeoutExpired []
     | CannotRun \<Rightarrow> raise OSError [] | NoText \<Rightarrow> raise UnicodeError [])"

definition docker_run :: "docker_env \<Rightarrow> string list \<Rightarrow> process_end docker" where
  "docker_run env command past = Some (process_result (dk_run env past command), past @ [command])"

definition inspect_command :: "string \<Rightarrow> string list" where
  "inspect_command name = [''docker'', ''container'', ''inspect'', ''--'', name]"

definition remove_command :: "string \<Rightarrow> string list" where
  "remove_command container_id = [''docker'', ''container'', ''rm'', ''--force'', ''--'', container_id]"

text \<open>Only Docker's exact answer of a missing container proves absence.\<close>

definition says_missing :: "string \<Rightarrow> process_end \<Rightarrow> bool" where
  "says_missing name answer = (pe_code answer \<noteq> 0 \<and> map lower_latin (strip (pe_stderr answer)) \<in>
     set [map lower_latin (''error: no such container: '' @ name),
          map lower_latin (''error response from daemon: no such container: '' @ name)])"

section \<open>Inspection\<close>

text \<open>\<open>SELECT ... WHERE project_hint = ? AND event = 'launch_intent' AND ... ORDER BY sequence DESC LIMIT ?\<close>\<close>

definition launch_intents ::
    "container_event list \<Rightarrow> string \<Rightarrow> string option \<Rightarrow> string option \<Rightarrow> nat \<Rightarrow> container_event list" where
  "launch_intents rows project run_id container_name count =
     take count (rev (sort_key ce_sequence (filter (\<lambda>e. ce_project e = project \<and> ce_event e = ''launch_intent'' \<and>
       (run_id = None \<or> run_id = Some (ce_run_id e)) \<and>
       (container_name = None \<or> container_name = Some (ce_container e))) rows)))"

datatype inspect_error = InspectExit | InspectRaised exn_class

record container_item =
  ci_row :: container_event
  ci_observation :: string
  ci_container_id :: "pyval option"
  ci_error :: "inspect_error option"

definition wanted_labels :: "string \<Rightarrow> container_event \<Rightarrow> (string \<times> string) list" where
  "wanted_labels project row =
     [(''lakehouse.ops.run_id'', ce_run_id row), (''lakehouse.ops.batch_id'', ce_batch_id row),
      (''lakehouse.ops.manifest_sha256'', ce_sha row), (''com.docker.compose.project'', project),
      (''com.docker.compose.service'', ce_service row)]"

fun labels_differ :: "pyval \<Rightarrow> (string \<times> string) list \<Rightarrow> bool result" where
  "labels_differ labels [] = Inr False"
| "labels_differ labels ((key, v) # rest) = bindE (get_attr labels key) (\<lambda>found.
     if found \<noteq> Some (PStr v) then Inr True else labels_differ labels rest)"

definition docker_states :: "string list" where
  "docker_states = [''running'', ''exited'', ''created'', ''paused'', ''restarting'', ''dead'', ''removing'']"

definition item_of :: "container_event \<Rightarrow> string \<Rightarrow> pyval option \<Rightarrow> inspect_error option \<Rightarrow> container_item" where
  "item_of row observation container_id error =
     \<lparr>ci_row = row, ci_observation = observation, ci_container_id = container_id, ci_error = error\<rparr>"

text \<open>The container is the one that the row records when its name and its labels say so.\<close>

definition owned_item :: "string \<Rightarrow> container_event \<Rightarrow> pyval \<Rightarrow> container_item result" where
  "owned_item project row container =
     bindE (bindE (subscript container ''Config'') (\<lambda>config. subscript config ''Labels'')) (\<lambda>found.
     bindE (subscript container ''Name'') (\<lambda>name.
     bindE (if name \<noteq> PStr (CHR ''/'' # ce_container row) then Inr True
       else labels_differ (if truthy found then found else PDict []) (wanted_labels project row)) (\<lambda>mismatch.
     if mismatch then Inr (item_of row ''ownership_mismatch'' None None)
     else bindE (bindE (subscript container ''State'') (\<lambda>state. subscript state ''Status'')) (\<lambda>state.
       if \<not> can_hash state then raise TypeError []
       else if \<not> (is_str state \<and> the_str state \<in> set docker_states) then raise ValueError ''unsupported Docker state''
       else bindE (subscript container ''Id'') (\<lambda>i. Inr (item_of row (the_str state) (Some i) None))))))"

definition observed_item :: "docker_env \<Rightarrow> string \<Rightarrow> container_event \<Rightarrow> process_end \<Rightarrow> container_item result" where
  "observed_item env project row answer =
     (if pe_code answer \<noteq> 0
      then Inr (if says_missing (ce_container row) answer then item_of row ''absent'' None None
        else item_of row ''inspect_failed'' None (Some InspectExit))
      else bindE (dk_json env (pe_stdout answer)) (\<lambda>data. case data of
          PList [container] \<Rightarrow> owned_item project row container
        | _ \<Rightarrow> raise ValueError ''requires one inspected container''))"

definition is_inspect_fault :: "exn_class \<Rightarrow> bool" where
  "is_inspect_fault k = list_ex (is_a k) [OSError, TimeoutExpired, ValueError, KeyError, TypeError, AttributeError]"

definition inspect_item :: "docker_env \<Rightarrow> string \<Rightarrow> container_event \<Rightarrow> container_item docker" where
  "inspect_item env project row =
     catch_io (bind_io (docker_run env (inspect_command (ce_container row))) (\<lambda>answer.
         lift_io (observed_item env project row answer)))
       is_inspect_fault (\<lambda>e. return_io (item_of row ''inspect_failed'' None (Some (InspectRaised (class_of e)))))"

record containers_report =
  cs_status :: string
  cs_journal :: string
  cs_project :: string
  cs_limit :: int
  cs_has_more :: bool
  cs_counts :: "(string \<times> nat) list"
  cs_containers :: "container_item list"

definition observation_counts :: "container_item list \<Rightarrow> (string \<times> nat) list" where
  "observation_counts items =
     (let observations = map ci_observation items in
      map (\<lambda>k. (k, count_list observations k)) (rev (remdups (rev observations))))"

text \<open>The rows of the journal, or nothing when SQLite refuses to read them.\<close>

definition inspect_containers ::
    "docker_env \<Rightarrow> string \<Rightarrow> container_event list option \<Rightarrow> string \<Rightarrow> pyval \<Rightarrow> string option \<Rightarrow> string option \<Rightarrow>
     containers_report docker" where
  "inspect_containers env path table project limit run_id container_name =
     (if project = [] \<or> \<not> exact_int limit \<or> \<not> (1 \<le> the_int limit \<and> the_int limit \<le> 100)
      then raise_io ValueError ''requires an explicit project and limit between 1 and 100''
      else (case table of
          None \<Rightarrow> raise_io CommerceJournalError (''cannot inspect container journal: '' @ path)
        | Some events \<Rightarrow>
            let count = nat (the_int limit);
                rows = launch_intents events project run_id container_name (count + 1) in
            bind_io (mapM_io (inspect_item env project) (take count rows)) (\<lambda>items.
            let counts = observation_counts items in
              return_io \<lparr>cs_status = (if map_of counts ''inspect_failed'' \<noteq> None then ''incomplete'' else ''observed''),
                cs_journal = path, cs_project = project, cs_limit = the_int limit, cs_has_more = count < length rows,
                cs_counts = counts, cs_containers = items\<rparr>)))"

section \<open>Cleanup\<close>

record cleanup_report =
  cl_status :: string
  cl_project :: string
  cl_run_id :: string
  cl_container :: string
  cl_container_id :: "string option"
  cl_action :: "string option"
  cl_reason :: "string option"

definition refused :: "cleanup_report \<Rightarrow> string \<Rightarrow> cleanup_report" where
  "refused report why = report\<lparr>cl_reason := Some why\<rparr>"

definition incomplete :: "cleanup_report \<Rightarrow> string \<Rightarrow> cleanup_report" where
  "incomplete report why = report\<lparr>cl_status := ''incomplete'', cl_reason := Some why\<rparr>"

definition ready :: "cleanup_report \<Rightarrow> string \<Rightarrow> cleanup_report" where
  "ready report action = report\<lparr>cl_status := ''ready'', cl_action := Some action\<rparr>"

definition removable_states :: "string list" where
  "removable_states = [''running'', ''exited'', ''created'', ''paused'', ''restarting'', ''dead'']"

text \<open>The removal by immutable identifier; an error on the way is reported with the identifier.\<close>

definition remove_container :: "docker_env \<Rightarrow> cleanup_report \<Rightarrow> string \<Rightarrow> cleanup_report docker" where
  "remove_container env report container_id =
     bind_io (docker_run env (remove_command container_id)) (\<lambda>removed.
       if pe_code removed \<noteq> 0 then return_io (incomplete report ''remove_failed'')
       else bind_io (docker_run env (inspect_command container_id)) (\<lambda>confirmed.
         if \<not> (pe_code confirmed \<noteq> 0 \<and> map lower_latin (strip (pe_stderr confirmed)) \<in>
             set [''error: no such container: '' @ container_id,
                  ''error response from daemon: no such container: '' @ container_id])
         then return_io (incomplete report ''absence_unconfirmed'')
         else return_io (ready report ''removed'')))"

text \<open>The name of an exception's class is a parameter, because the model keeps classes only as far as the
  program tells them apart. \<open>except CommerceRunnerBusyError\<close> and \<open>except (OSError, subprocess.TimeoutExpired, ValueError)\<close>\<close>

definition reporting :: "(exn_class \<Rightarrow> string) \<Rightarrow> cleanup_report \<Rightarrow> cleanup_report docker \<Rightarrow> cleanup_report docker" where
  "reporting class_name report m =
     catch_io (catch_io m (\<lambda>k. is_a k CommerceRunnerBusyError) (\<lambda>_. return_io (refused report ''active_local_runner_lock'')))
       (\<lambda>k. is_a k OSError \<or> is_a k TimeoutExpired \<or> is_a k ValueError)
       (\<lambda>e. return_io (incomplete report (class_name (class_of e))))"

definition cleanup_item :: "(exn_class \<Rightarrow> string) \<Rightarrow> docker_env \<Rightarrow> cleanup_report \<Rightarrow> container_item \<Rightarrow> cleanup_report docker" where
  "cleanup_item class_name env report found =
     (if ci_observation found = ''absent'' then return_io (ready report ''already_absent'')
      else if ci_observation found \<notin> set removable_states then return_io (refused report (ci_observation found))
      else (case ci_container_id found of
          Some (PStr i) \<Rightarrow> if is_hex 64 i
            then let known = report\<lparr>cl_container_id := Some i\<rparr> in reporting class_name known (remove_container env known i)
            else return_io (refused report ''invalid_immutable_container_id'')
        | _ \<Rightarrow> return_io (refused report ''invalid_immutable_container_id'')))"

definition stage_name_prefix :: string where
  "stage_name_prefix = ''lakeops-commerce-''"

definition cleanup_container ::
    "(exn_class \<Rightarrow> string) \<Rightarrow> docker_env \<Rightarrow> lock_outcome \<Rightarrow> string \<Rightarrow> container_event list option \<Rightarrow>
     string \<Rightarrow> string \<Rightarrow> string \<Rightarrow> cleanup_report docker" where
  "cleanup_container class_name env lock path table project run_id container_name =
     (if \<not> starts_with ''lakehouse-ops-'' project \<or> \<not> is_hex 32 run_id \<or>
         \<not> (starts_with stage_name_prefix container_name \<and> is_hex 32 (drop (length stage_name_prefix) container_name))
      then raise_io ValueError ''requires a scoped project, exact run ID and recorded stage name''
      else let report = \<lparr>cl_status = ''refused'', cl_project = project, cl_run_id = run_id, cl_container = container_name,
          cl_container_id = None, cl_action = None, cl_reason = None\<rparr> in
        reporting class_name report (runner_lock_around lock ''data/state/commerce-runner.lock''
          (bind_io (inspect_containers env path table project (PInt 2) (Some run_id) (Some container_name)) (\<lambda>observed.
             case cs_containers observed of
               [found] \<Rightarrow> if cs_has_more observed then return_io (refused report ''requires_one_recorded_launch_intent'')
                 else cleanup_item class_name env report found
             | _ \<Rightarrow> return_io (refused report ''requires_one_recorded_launch_intent'')))))"

end
