(* ===== verification/Container_Properties.thy ===== *)
theory Container_Properties
  imports Container_Cleanup
begin

text \<open>The cleanup of a container: what it removes, and what its report means.\<close>

section \<open>Inspection\<close>

definition intends :: "string \<Rightarrow> string \<Rightarrow> string \<Rightarrow> container_event \<Rightarrow> bool" where
  "intends project run_id name e \<longleftrightarrow> ce_project e = project \<and> ce_event e = ''launch_intent'' \<and>
     ce_run_id e = run_id \<and> ce_container e = name"

definition item_result :: "docker_env \<Rightarrow> string \<Rightarrow> container_event \<Rightarrow> string list list \<Rightarrow> container_item result" where
  "item_result env project row past =
     catchE (bindE (process_result (dk_run env past (inspect_command (ce_container row)))) (observed_item env project row)) is_inspect_fault
       (\<lambda>e. Inr (item_of row ''inspect_failed'' None (Some (InspectRaised (class_of e)))))"

lemma inspect_item_eq:
  "inspect_item env project row past = Some (item_result env project row past, past @ [inspect_command (ce_container row)])"
  by (auto simp: inspect_item_def item_result_def catch_io_def bind_io_def docker_run_def lift_io_def return_io_def catchE_def
      split: sum.splits)

lemma inspect_items:
  "\<exists>r cs. mapM_io (inspect_item env project) rows past = Some (r, past @ cs) \<and> set cs \<subseteq> inspect_command ` ce_container ` set rows"
proof (induction rows arbitrary: past)
  case Nil
  then show ?case by (auto simp: return_io_def)
next
  case (Cons row rows)
  let ?past = "past @ [inspect_command (ce_container row)]"
  obtain r cs where "mapM_io (inspect_item env project) rows ?past = Some (r, ?past @ cs)"
    "set cs \<subseteq> inspect_command ` ce_container ` set rows" using Cons.IH by blast
  then have "mapM_io (inspect_item env project) (row # rows) past = Some (case item_result env project row past of
        Inl e \<Rightarrow> (Inl e, past @ [inspect_command (ce_container row)])
      | Inr x \<Rightarrow> (case r of Inl e \<Rightarrow> Inl e | Inr xs \<Rightarrow> Inr (x # xs), past @ inspect_command (ce_container row) # cs))"
    by (cases "item_result env project row past"; cases r)
      (simp_all add: bind_io_def inspect_item_eq [of env project row past] return_io_def)
  then show ?case using \<open>set cs \<subseteq> inspect_command ` ce_container ` set rows\<close>
    by (cases "item_result env project row past") auto
qed

lemma launch_intents_of:
  "set (launch_intents rows project (Some run_id) (Some name) n) \<subseteq> set (filter (intends project run_id name) rows)"
  by (auto simp: launch_intents_def intends_def dest!: in_set_takeD)

lemma launch_intents_single:
  assumes "launch_intents rows project (Some run_id) (Some name) 3 = [row]"
  shows "filter (intends project run_id name) rows = [row]"
proof -
  let ?rows = "filter (intends project run_id name) rows"
  have eq: "launch_intents rows project (Some run_id) (Some name) 3 = take 3 (rev (sort_key ce_sequence ?rows))"
    by (simp add: launch_intents_def intends_def [abs_def] eq_commute conj_ac)
  then have "length ?rows = 1" using arg_cong [OF assms, of length] by (auto simp: eq min_def split: if_splits)
  then obtain x where "?rows = [x]" by (auto simp: length_Suc_conv)
  then show ?thesis using assms eq by simp
qed

section \<open>Ownership\<close>

definition owned_container :: "string \<Rightarrow> container_event \<Rightarrow> pyval \<Rightarrow> string \<Rightarrow> bool" where
  "owned_container project row container container_id \<longleftrightarrow>
     subscript container ''Name'' = Inr (PStr (CHR ''/'' # ce_container row)) \<and>
     subscript container ''Id'' = Inr (PStr container_id) \<and> is_hex 64 container_id \<and>
     (\<exists>config labels. subscript container ''Config'' = Inr config \<and> subscript config ''Labels'' = Inr (PDict labels) \<and>
        (\<forall>(key, v) \<in> set (wanted_labels project row). map_of labels key = Some (PStr v))) \<and>
     (\<exists>state s. subscript container ''State'' = Inr state \<and> subscript state ''Status'' = Inr (PStr s) \<and> s \<in> set removable_states)"

lemma labels_agree:
  assumes "labels_differ labels wanted = Inr False" "wanted \<noteq> []"
  shows "\<exists>d. labels = PDict d \<and> (\<forall>(key, v) \<in> set wanted. map_of d key = Some (PStr v))"
  using assms
proof (induction wanted)
  case (Cons w wanted)
  obtain key v where w: "w = (key, v)" by (cases w)
  from Cons.prems(1) obtain d where d: "labels = PDict d" "map_of d key = Some (PStr v)" "labels_differ labels wanted = Inr False"
    unfolding w by (cases labels) (auto simp: get_attr_def raise_def split: if_splits)
  then show ?case using Cons.IH by (cases "wanted = []") (auto simp: w)
qed simp

lemma owned_item_removable:
  assumes "owned_item project row container = Inr found_item" "ci_observation found_item \<in> set removable_states"
    "ci_container_id found_item = Some (PStr i)" "is_hex 64 i"
  shows "owned_container project row container i"
proof -
  from assms obtain config found name mismatch where c: "subscript container ''Config'' = Inr config"
      "subscript config ''Labels'' = Inr found" "subscript container ''Name'' = Inr name"
    and m: "(if name \<noteq> PStr (CHR ''/'' # ce_container row) then Inr True
       else labels_differ (if truthy found then found else PDict []) (wanted_labels project row)) = Inr mismatch"
    and rest: "(if mismatch then Inr (item_of row ''ownership_mismatch'' None None)
     else bindE (bindE (subscript container ''State'') (\<lambda>state. subscript state ''Status'')) (\<lambda>state.
       if \<not> can_hash state then raise TypeError []
       else if \<not> (is_str state \<and> the_str state \<in> set docker_states) then raise ValueError ''unsupported Docker state''
       else bindE (subscript container ''Id'') (\<lambda>i. Inr (item_of row (the_str state) (Some i) None)))) = Inr found_item"
    unfolding owned_item_def bindE_eq_Inr by blast
  have "\<not> mismatch" using rest assms(3) by (auto simp: item_of_def)
  then obtain state s where s: "subscript container ''State'' = Inr state" "subscript state ''Status'' = Inr (PStr s)"
      "subscript container ''Id'' = Inr (PStr i)" "ci_observation found_item = s"
    using rest assms(3) by (auto simp: bindE_eq_Inr item_of_def is_str_def the_str_def raise_def split: if_splits pyval.splits)
  have "name = PStr (CHR ''/'' # ce_container row)"
    "labels_differ (if truthy found then found else PDict []) (wanted_labels project row) = Inr False"
    using m \<open>\<not> mismatch\<close> by (auto split: if_splits)
  moreover have "wanted_labels project row \<noteq> []" by (simp add: wanted_labels_def)
  ultimately obtain d where d: "(if truthy found then found else PDict []) = PDict d"
      "\<forall>(key, v) \<in> set (wanted_labels project row). map_of d key = Some (PStr v)"
    using labels_agree by blast
  have "d \<noteq> []" using d(2) by (auto simp: wanted_labels_def)
  then have "found = PDict d" using d(1) by (auto split: if_splits)
  then show ?thesis unfolding owned_container_def
    using c s d(2) assms(2,4) \<open>name = PStr (CHR ''/'' # ce_container row)\<close> by auto
qed

section \<open>Removal\<close>

lemma lower_hex: "is_hex n s \<Longrightarrow> map lower_latin s = s"
proof -
  have "is_hex_char c \<Longrightarrow> lower_latin c = c" for c by (auto simp: is_hex_char_def lower_latin_def Let_def)
  then show "is_hex n s \<Longrightarrow> map lower_latin s = s" by (auto simp: is_hex_def list_all_iff intro: map_idI)
qed

lemma missing_texts:
  assumes "is_hex n i"
  shows "map lower_latin (''error: no such container: '' @ i) = ''error: no such container: '' @ i"
    "map lower_latin (''error response from daemon: no such container: '' @ i) = ''error response from daemon: no such container: '' @ i"
proof -
  have "map lower_latin ''error: no such container: '' = ''error: no such container: ''"
    "map lower_latin ''error response from daemon: no such container: '' = ''error response from daemon: no such container: ''"
    by code_simp+
  then show "map lower_latin (''error: no such container: '' @ i) = ''error: no such container: '' @ i"
    "map lower_latin (''error response from daemon: no such container: '' @ i) = ''error response from daemon: no such container: '' @ i"
    unfolding map_append lower_hex [OF assms] by simp_all
qed

lemma confirmed_missing:
  assumes "is_hex n i"
  shows "says_missing i answer \<longleftrightarrow> pe_code answer \<noteq> 0 \<and> map lower_latin (strip (pe_stderr answer)) \<in>
     set [''error: no such container: '' @ i, ''error response from daemon: no such container: '' @ i]"
  unfolding says_missing_def missing_texts [OF assms] ..

definition removed :: "docker_env \<Rightarrow> string list list \<Rightarrow> string \<Rightarrow> bool" where
  "removed env past i \<longleftrightarrow> (\<exists>first second. dk_run env past (remove_command i) = Ended first \<and> pe_code first = 0 \<and>
     dk_run env (past @ [remove_command i]) (inspect_command i) = Ended second \<and> says_missing i second)"

lemma remove_container_runs:
  assumes "is_hex 64 i" "cl_status report = ''refused''"
  shows "\<exists>rep cs. reporting class_name report (remove_container env report i) past = Some (Inr rep, past @ cs) \<and>
    (cs = [remove_command i] \<or> cs = [remove_command i, inspect_command i]) \<and> cl_status rep \<noteq> ''refused'' \<and>
    (cl_status rep = ''ready'' \<longrightarrow> cl_action rep = Some ''removed'' \<and> cs = [remove_command i, inspect_command i] \<and> removed env past i)"
proof -
  have faults: "process_result a = Inl e \<Longrightarrow> \<not> is_a (class_of e) CommerceRunnerBusyError \<and>
      (is_a (class_of e) OSError \<or> is_a (class_of e) TimeoutExpired \<or> is_a (class_of e) ValueError)" for a e
    by (auto simp: process_result_def raise_def is_a_def split: process_answer.splits)
  have ended: "process_result a = Inr e \<longleftrightarrow> a = Ended e" for a e
    by (auto simp: process_result_def raise_def split: process_answer.splits)
  let ?c = "remove_command i" and ?d = "inspect_command i"
  show ?thesis
  proof (cases "process_result (dk_run env past ?c)")
    case (Inl e)
    then have "reporting class_name report (remove_container env report i) past =
        Some (Inr (incomplete report (class_name (class_of e))), past @ [?c])"
      using faults [OF Inl] by (auto simp: reporting_def remove_container_def docker_run_def bind_io_def catch_io_def return_io_def)
    then show ?thesis by (auto simp: incomplete_def)
  next
    case first: (Inr a)
    show ?thesis
    proof (cases "pe_code a = 0")
      case False
      then have "reporting class_name report (remove_container env report i) past =
          Some (Inr (incomplete report ''remove_failed''), past @ [?c])"
        using first by (simp add: reporting_def remove_container_def docker_run_def bind_io_def catch_io_def return_io_def)
      then show ?thesis by (auto simp: incomplete_def)
    next
      case zero: True
      show ?thesis
      proof (cases "process_result (dk_run env (past @ [?c]) ?d)")
        case (Inl e)
        then have "reporting class_name report (remove_container env report i) past =
            Some (Inr (incomplete report (class_name (class_of e))), past @ [?c, ?d])"
          using faults [OF Inl] first zero
          by (auto simp: reporting_def remove_container_def docker_run_def bind_io_def catch_io_def return_io_def)
        then show ?thesis by (auto simp: incomplete_def)
      next
        case (Inr b)
        have "reporting class_name report (remove_container env report i) past =
            Some (Inr (if says_missing i b then ready report ''removed'' else incomplete report ''absence_unconfirmed''), past @ [?c, ?d])"
          unfolding confirmed_missing [OF assms(1)] using first zero Inr
          by (simp add: reporting_def remove_container_def docker_run_def bind_io_def catch_io_def return_io_def)
        then show ?thesis using first zero Inr
          by (auto simp: incomplete_def ready_def removed_def ended)
      qed
    qed
  qed
qed

text \<open>What may be removed: the container of the one launch that the journal records for this run and name,
  as Docker described it when it was asked first.\<close>

definition may_remove :: "docker_env \<Rightarrow> container_event list option \<Rightarrow> string \<Rightarrow> string \<Rightarrow> string \<Rightarrow> string \<Rightarrow> bool" where
  "may_remove env table project run_id name i \<longleftrightarrow> (\<exists>events row answer container.
     table = Some events \<and> filter (intends project run_id name) events = [row] \<and>
     dk_run env [] (inspect_command name) = Ended answer \<and> pe_code answer = 0 \<and>
     dk_json env (pe_stdout answer) = Inr (PList [container]) \<and> owned_container project row container i)"

definition outcome_ok :: "docker_env \<Rightarrow> string \<Rightarrow> cleanup_report result \<Rightarrow> string list list \<Rightarrow> bool" where
  "outcome_ok env name r past \<longleftrightarrow> (\<forall>rep. r = Inr rep \<longrightarrow>
     (cl_status rep = ''refused'' \<longrightarrow> (\<forall>i. remove_command i \<notin> set past)) \<and>
     (cl_status rep = ''ready'' \<longrightarrow>
        (cl_action rep = Some ''already_absent'' \<and> past = [inspect_command name] \<and>
           (\<exists>answer. dk_run env [] (inspect_command name) = Ended answer \<and> says_missing name answer)) \<or>
        (\<exists>i. cl_action rep = Some ''removed'' \<and> past = [inspect_command name, remove_command i, inspect_command i] \<and>
           removed env [inspect_command name] i)))"

lemma outcome_error: "outcome_ok env name (Inl e) past"
  by (simp add: outcome_ok_def)

lemma inspect_not_remove: "inspect_command n \<noteq> remove_command i"
  by (simp add: inspect_command_def remove_command_def)

lemma item_result_cases:
  assumes "item_result env project row past = Inr x"
  shows "ci_observation x = ''inspect_failed'' \<or>
    (\<exists>answer. dk_run env past (inspect_command (ce_container row)) = Ended answer \<and>
       observed_item env project row answer = Inr x)"
  using assms
  by (auto simp: item_result_def result_simps process_result_def raise_def item_of_def split: process_answer.splits)

lemma one_element:
  "(case data of PList [c] \<Rightarrow> f c | _ \<Rightarrow> raise k m) = Inr x \<Longrightarrow> \<exists>c. data = PList [c] \<and> f c = Inr x"
  by (cases data) (auto simp: raise_def split: list.splits)

lemma observed_answer:
  assumes "observed_item env project row answer = Inr x" "pe_code answer = 0"
  shows "\<exists>container. dk_json env (pe_stdout answer) = Inr (PList [container]) \<and> owned_item project row container = Inr x"
proof -
  from assms obtain data where data: "dk_json env (pe_stdout answer) = Inr data"
      "(case data of PList [container] \<Rightarrow> owned_item project row container
        | _ \<Rightarrow> raise ValueError ''requires one inspected container'') = Inr x"
    by (auto simp: observed_item_def bindE_eq_Inr)
  obtain container where "data = PList [container]" "owned_item project row container = Inr x"
    using one_element [OF data(2)] by blast
  then show ?thesis using data(1) by blast
qed

lemma observed_absent:
  assumes "observed_item env project row answer = Inr x" "ci_observation x = ''absent''"
  shows "says_missing (ce_container row) answer"
proof (rule ccontr)
  assume "\<not> says_missing (ce_container row) answer"
  then have "pe_code answer = 0" using assms by (auto simp: observed_item_def item_of_def split: if_splits)
  then obtain container where "owned_item project row container = Inr x"
    using observed_answer [OF assms(1)] by blast
  then show False using assms(2)
    by (auto simp: owned_item_def result_simps item_of_def docker_states_def raise_def split: if_splits)
qed

lemma observed_removable:
  assumes "observed_item env project row answer = Inr x" "ci_observation x \<in> set removable_states"
    "ci_container_id x = Some (PStr i)" "is_hex 64 i"
  shows "\<exists>container. pe_code answer = 0 \<and> dk_json env (pe_stdout answer) = Inr (PList [container]) \<and> owned_container project row container i"
proof -
  have "pe_code answer = 0" using assms(1,3) by (auto simp: observed_item_def item_of_def split: if_splits)
  then obtain container where c: "dk_json env (pe_stdout answer) = Inr (PList [container])" "owned_item project row container = Inr x"
    using observed_answer [OF assms(1)] by blast
  then show ?thesis using owned_item_removable [OF c(2) assms(2-4)] \<open>pe_code answer = 0\<close> by blast
qed

lemma no_identifier:
  "\<not> (\<exists>i. v = Some (PStr i) \<and> is_hex 64 i) \<Longrightarrow>
     (case v of Some (PStr i) \<Rightarrow> if is_hex 64 i then f i else c | _ \<Rightarrow> c) = c"
  by (auto split: option.splits pyval.splits)

lemma cleanup_item_runs:
  assumes "item_result env project row [] = Inr x" "cl_status report = ''refused''" "ce_container row = name"
  shows "\<exists>rep cs. cleanup_item class_name env report x [inspect_command name] = Some (Inr rep, inspect_command name # cs) \<and>
    (cs = [] \<or> (\<exists>i answer container. (cs = [remove_command i] \<or> cs = [remove_command i, inspect_command i]) \<and>
       dk_run env [] (inspect_command name) = Ended answer \<and> pe_code answer = 0 \<and>
       dk_json env (pe_stdout answer) = Inr (PList [container]) \<and> owned_container project row container i)) \<and>
    outcome_ok env name (Inr rep) (inspect_command name # cs)"
proof (cases "ci_observation x \<in> set removable_states \<and> (\<exists>i. ci_container_id x = Some (PStr i) \<and> is_hex 64 i)")
  case True
  then obtain i where x: "ci_observation x \<in> set removable_states" "ci_container_id x = Some (PStr i)" "is_hex 64 i" by blast
  have state: "ci_observation x \<noteq> ''absent''" "ci_observation x \<noteq> ''inspect_failed''"
    using x(1) by (auto simp: removable_states_def)
  then obtain answer where answer: "dk_run env [] (inspect_command name) = Ended answer" "observed_item env project row answer = Inr x"
    using item_result_cases [OF assms(1)] assms(3) by blast
  obtain rep cs where run: "reporting class_name (report\<lparr>cl_container_id := Some i\<rparr>)
        (remove_container env (report\<lparr>cl_container_id := Some i\<rparr>) i) [inspect_command name] = Some (Inr rep, [inspect_command name] @ cs)"
      "cs = [remove_command i] \<or> cs = [remove_command i, inspect_command i]" "cl_status rep \<noteq> ''refused''"
      "cl_status rep = ''ready'' \<longrightarrow> cl_action rep = Some ''removed'' \<and> cs = [remove_command i, inspect_command i] \<and>
         removed env [inspect_command name] i"
    using remove_container_runs [OF x(3), of "report\<lparr>cl_container_id := Some i\<rparr>" class_name env "[inspect_command name]"] assms(2)
    by auto
  have "cleanup_item class_name env report x [inspect_command name] = Some (Inr rep, inspect_command name # cs)"
    using run(1) x state(1) by (simp add: cleanup_item_def Let_def)
  moreover have "outcome_ok env name (Inr rep) (inspect_command name # cs)" using run(3,4) unfolding outcome_ok_def by blast
  ultimately show ?thesis using run(2) answer observed_removable [OF answer(2) x] by blast
next
  case False
  then obtain rep where run: "cleanup_item class_name env report x [inspect_command name] = Some (Inr rep, [inspect_command name])"
      "cl_status rep = ''refused'' \<or> ci_observation x = ''absent'' \<and> rep = ready report ''already_absent''"
  proof (cases "ci_observation x = ''absent'' \<or> ci_observation x \<notin> set removable_states")
    case True
    then show thesis
    proof (cases "ci_observation x = ''absent''")
      case True
      then have "cleanup_item class_name env report x = return_io (ready report ''already_absent'')" by (simp add: cleanup_item_def)
      then show thesis using that True by (simp add: return_io_def)
    next
      case False
      then have "cleanup_item class_name env report x = return_io (refused report (ci_observation x))"
        using True by (simp add: cleanup_item_def)
      then show thesis using that assms(2) by (simp add: return_io_def refused_def)
    qed
  next
    case removable: False
    then have "cleanup_item class_name env report x = return_io (refused report ''invalid_immutable_container_id'')"
      using False no_identifier [of "ci_container_id x"] by (simp add: cleanup_item_def)
    then show thesis using that assms(2) by (simp add: return_io_def refused_def)
  qed
  have "outcome_ok env name (Inr rep) [inspect_command name]"
  proof (cases "cl_status rep = ''refused''")
    case False
    then have absent: "ci_observation x = ''absent''" "rep = ready report ''already_absent''" using run(2) by simp_all
    then obtain answer where "dk_run env [] (inspect_command name) = Ended answer" "observed_item env project row answer = Inr x"
      using item_result_cases [OF assms(1)] assms(3) by auto
    then show ?thesis using absent observed_absent assms(3) by (auto simp: outcome_ok_def ready_def)
  qed (simp add: outcome_ok_def inspect_not_remove [symmetric])
  then show ?thesis using run(1) by blast
qed

lemma mapM_io_length: "mapM_io f xs s = Some (Inr ys, s') \<Longrightarrow> length ys = length xs"
  by (induction xs arbitrary: s ys) (auto simp: io_simps)

lemma reporting_return: "m past = Some (Inr rep, past') \<Longrightarrow> reporting class_name report m past = Some (Inr rep, past')"
  by (simp add: reporting_def catch_io_def)

lemma reporting_stop:
  "m past = Some (Inl e, past') \<Longrightarrow> \<exists>r. reporting class_name report m past = Some (r, past') \<and>
     (r = Inl e \<or> r = Inr (refused report ''active_local_runner_lock'') \<or> r = Inr (incomplete report (class_name (class_of e))))"
  by (auto simp: reporting_def catch_io_def return_io_def)

text \<open>What a run of the cleanup may have sent and report, and what it runs under the lock.\<close>

definition cleanup_ok ::
    "docker_env \<Rightarrow> lock_outcome \<Rightarrow> container_event list option \<Rightarrow> string \<Rightarrow> string \<Rightarrow> string \<Rightarrow>
     cleanup_report result \<Rightarrow> string list list \<Rightarrow> bool" where
  "cleanup_ok env lock table project run_id name r past \<longleftrightarrow>
     ((\<forall>command \<in> set past. command = inspect_command name) \<or>
      lock = Acquired \<and> (\<exists>i. may_remove env table project run_id name i \<and>
        (past = [inspect_command name, remove_command i] \<or>
         past = [inspect_command name, remove_command i, inspect_command i]))) \<and>
     outcome_ok env name r past"

definition first_report :: "string \<Rightarrow> string \<Rightarrow> string \<Rightarrow> cleanup_report" where
  "first_report project run_id name = \<lparr>cl_status = ''refused'', cl_project = project, cl_run_id = run_id, cl_container = name,
     cl_container_id = None, cl_action = None, cl_reason = None\<rparr>"

definition not_one :: "cleanup_report \<Rightarrow> cleanup_report" where
  "not_one report = refused report ''requires_one_recorded_launch_intent''"

definition scoped :: "string \<Rightarrow> string \<Rightarrow> string \<Rightarrow> bool" where
  "scoped project run_id name \<longleftrightarrow> starts_with ''lakehouse-ops-'' project \<and> is_hex 32 run_id \<and>
     starts_with stage_name_prefix name \<and> is_hex 32 (drop (length stage_name_prefix) name)"

definition cleanup_found :: "(exn_class \<Rightarrow> string) \<Rightarrow> docker_env \<Rightarrow> cleanup_report \<Rightarrow> bool \<Rightarrow> container_item list \<Rightarrow> cleanup_report docker" where
  "cleanup_found class_name env report has_more containers = (case containers of
       [found] \<Rightarrow> if has_more then return_io (not_one report) else cleanup_item class_name env report found
     | _ \<Rightarrow> return_io (not_one report))"

definition cleanup_body ::
    "(exn_class \<Rightarrow> string) \<Rightarrow> docker_env \<Rightarrow> string \<Rightarrow> container_event list option \<Rightarrow> string \<Rightarrow> string \<Rightarrow> string \<Rightarrow>
     cleanup_report docker" where
  "cleanup_body class_name env path table project run_id name =
     bind_io (inspect_containers env path table project (PInt 2) (Some run_id) (Some name)) (\<lambda>observed.
       cleanup_found class_name env (first_report project run_id name) (cs_has_more observed) (cs_containers observed))"

lemma first_report_status [simp]: "cl_status (first_report project run_id name) = ''refused''"
  by (simp add: first_report_def)

lemma cleanup_eq:
  "scoped project run_id name \<Longrightarrow> cleanup_container class_name env lock path table project run_id name =
     reporting class_name (first_report project run_id name)
       (runner_lock_around lock ''data/state/commerce-runner.lock'' (cleanup_body class_name env path table project run_id name))"
  unfolding cleanup_container_def cleanup_body_def cleanup_found_def first_report_def not_one_def scoped_def Let_def by simp

lemma cleanup_ok_refused:
  assumes "\<forall>command \<in> set past. command = inspect_command name" "cl_status report = ''refused''"
  shows "cleanup_ok env lock table project run_id name (Inr (refused report why)) past"
proof -
  have "remove_command i \<notin> set past" for i using assms(1) inspect_not_remove by metis
  then show ?thesis using assms by (simp add: cleanup_ok_def outcome_ok_def refused_def)
qed

lemma cleanup_ok_incomplete:
  "\<forall>command \<in> set past. command = inspect_command name \<Longrightarrow>
     cleanup_ok env lock table project run_id name (Inr (incomplete report why)) past"
  by (simp add: cleanup_ok_def outcome_ok_def incomplete_def)

lemma cleanup_ok_error:
  "\<forall>command \<in> set past. command = inspect_command name \<Longrightarrow> cleanup_ok env lock table project run_id name (Inl e) past"
  by (simp add: cleanup_ok_def outcome_error)

text \<open>A run whose body under the lock, or the lock itself, raises.\<close>

lemma cleanup_stops:
  assumes "scoped project run_id name" "\<forall>command \<in> set past. command = inspect_command name"
    and "runner_lock_around lock ''data/state/commerce-runner.lock'' (cleanup_body class_name env path table project run_id name) [] =
      Some (Inl e, past)"
  shows "\<exists>r past. cleanup_container class_name env lock path table project run_id name [] = Some (r, past) \<and>
    cleanup_ok env lock table project run_id name r past"
proof -
  obtain r where "cleanup_container class_name env lock path table project run_id name [] = Some (r, past)"
    "r = Inl e \<or> r = Inr (refused (first_report project run_id name) ''active_local_runner_lock'') \<or>
     r = Inr (incomplete (first_report project run_id name) (class_name (class_of e)))"
    using reporting_stop [of "runner_lock_around lock ''data/state/commerce-runner.lock''
        (cleanup_body class_name env path table project run_id name)" "[]" e past] assms(3)
    unfolding cleanup_eq [OF assms(1)] by blast
  then show ?thesis
    using cleanup_ok_refused [OF assms(2)] cleanup_ok_incomplete [OF assms(2)] cleanup_ok_error [OF assms(2)] by auto
qed

lemma cleanup_not_held:
  assumes "scoped project run_id name" "\<not> (lock = Acquired \<and> table \<noteq> None)"
  shows "\<exists>e. runner_lock_around lock ''data/state/commerce-runner.lock'' (cleanup_body class_name env path table project run_id name) [] =
    Some (Inl e, [])"
proof (cases "lock = Acquired")
  case True
  have "project \<noteq> []" using assms(1) by (auto simp: scoped_def)
  then have "cleanup_body class_name env path table project run_id name =
      raise_io CommerceJournalError (''cannot inspect container journal: '' @ path)"
    using assms(2) True by (simp add: cleanup_body_def fun_eq_iff inspect_containers_def bind_io_def raise_io_def exact_int_def the_int_def)
  then show ?thesis using True by (simp add: runner_lock_around_def raise_io_def)
next
  case False
  then show ?thesis by (cases lock) (auto simp: runner_lock_around_def raise_io_def)
qed

text \<open>With the lock and a journal: the items of at most two launches, and then the cleanup of the only one.\<close>

lemma cleanup_body_runs:
  assumes "scoped project run_id name"
    and "mapM_io (inspect_item env project) (take 2 (launch_intents events project (Some run_id) (Some name) 3)) [] = Some (r, cs)"
  shows "cleanup_body class_name env path (Some events) project run_id name [] = (case r of Inl e \<Rightarrow> Some (Inl e, cs)
    | Inr xs \<Rightarrow> cleanup_found class_name env (first_report project run_id name)
        (2 < length (launch_intents events project (Some run_id) (Some name) 3)) xs cs)"
proof -
  have "project \<noteq> []" using assms(1) by (auto simp: scoped_def)
  then show ?thesis
    using assms(2) by (auto simp: cleanup_body_def inspect_containers_def bind_io_def return_io_def Let_def numeral_3_eq_3
        numeral_2_eq_2 exact_int_def the_int_def split: sum.splits)
qed

lemma cleanup_found_none:
  "length xs \<noteq> 1 \<Longrightarrow> cleanup_found class_name env report has_more xs = return_io (not_one report)"
  by (cases xs rule: remdups_adj.cases) (simp_all add: cleanup_found_def)

lemma cleanup_returns:
  assumes "scoped project run_id name" "cleanup_body class_name env path table project run_id name [] = Some (Inr rep, past)"
  shows "cleanup_container class_name env Acquired path table project run_id name [] = Some (Inr rep, past)"
  unfolding cleanup_eq [OF assms(1)] using assms(2) by (simp add: runner_lock_around_def reporting_return)

lemma cleanup_of_single:
  assumes "scoped project run_id name" "launch_intents events project (Some run_id) (Some name) 3 = [row]"
    and "mapM_io (inspect_item env project) [row] [] = Some (Inr xs, cs)"
  shows "\<exists>r past. cleanup_container class_name env Acquired path (Some events) project run_id name [] = Some (r, past) \<and>
    cleanup_ok env Acquired (Some events) project run_id name r past"
proof -
  have name: "ce_container row = name"
    using launch_intents_of [of events project run_id name 3] assms(2) by (auto simp: intends_def)
  obtain x where x: "xs = [x]" "item_result env project row [] = Inr x" "cs = [inspect_command name]"
    using assms(3) by (auto simp: bind_io_def inspect_item_eq return_io_def name split: sum.splits)
  obtain rep cs' where ci: "cleanup_item class_name env (first_report project run_id name) x [inspect_command name] =
        Some (Inr rep, inspect_command name # cs')"
      "cs' = [] \<or> (\<exists>i answer container. (cs' = [remove_command i] \<or> cs' = [remove_command i, inspect_command i]) \<and>
         dk_run env [] (inspect_command name) = Ended answer \<and> pe_code answer = 0 \<and>
         dk_json env (pe_stdout answer) = Inr (PList [container]) \<and> owned_container project row container i)"
      "outcome_ok env name (Inr rep) (inspect_command name # cs')"
    using cleanup_item_runs [OF x(2) first_report_status name] by blast
  have "mapM_io (inspect_item env project) (take 2 (launch_intents events project (Some run_id) (Some name) 3)) [] = Some (Inr xs, cs)"
    using assms(3) by (simp add: assms(2))
  from cleanup_body_runs [OF assms(1) this]
  have "cleanup_body class_name env path (Some events) project run_id name [] = Some (Inr rep, inspect_command name # cs')"
    using ci(1) by (simp add: x(1,3) assms(2) cleanup_found_def)
  then have "cleanup_container class_name env Acquired path (Some events) project run_id name [] =
      Some (Inr rep, inspect_command name # cs')" by (rule cleanup_returns [OF assms(1)])
  moreover have "filter (intends project run_id name) events = [row]"
    using launch_intents_single assms(2) by simp
  then have "cs' = [] \<or> (\<exists>i. may_remove env (Some events) project run_id name i \<and>
      (cs' = [remove_command i] \<or> cs' = [remove_command i, inspect_command i]))"
    using ci(2) by (fastforce simp: may_remove_def)
  ultimately show ?thesis using ci(3) by (auto simp: cleanup_ok_def)
qed

lemma cleanup_held:
  assumes "scoped project run_id name"
  shows "\<exists>r past. cleanup_container class_name env Acquired path (Some events) project run_id name [] = Some (r, past) \<and>
    cleanup_ok env Acquired (Some events) project run_id name r past"
proof -
  define rows where "rows = launch_intents events project (Some run_id) (Some name) 3"
  obtain r cs where items: "mapM_io (inspect_item env project) (take 2 rows) [] = Some (r, cs)"
      "set cs \<subseteq> inspect_command ` ce_container ` set (take 2 rows)"
    using inspect_items [of env project "take 2 rows" "[]"] by auto
  have "set (take 2 rows) \<subseteq> {row. ce_container row = name}"
    using launch_intents_of [of events project run_id name 3] set_take_subset [of 2 rows] by (auto simp: rows_def intends_def)
  then have only: "\<forall>command \<in> set cs. command = inspect_command name" using items(2) by blast
  note body = cleanup_body_runs [OF assms items(1) [unfolded rows_def], folded rows_def]
  show ?thesis
  proof (cases r)
    case (Inl e)
    then show ?thesis using body by (intro cleanup_stops [OF assms only]) (simp add: runner_lock_around_def)
  next
    case (Inr xs)
    have "length xs = length (take 2 rows)" using items(1) unfolding Inr by (rule mapM_io_length)
    then consider (none) "length xs \<noteq> 1" | (single) row where "rows = [row]"
      by (cases rows rule: remdups_adj.cases) auto
    then show ?thesis
    proof cases
      case none
      then have "cleanup_body class_name env path (Some events) project run_id name [] =
          Some (Inr (not_one (first_report project run_id name)), cs)"
        unfolding body Inr by (simp add: cleanup_found_none return_io_def)
      then show ?thesis
        using cleanup_returns [OF assms] cleanup_ok_refused [OF only] unfolding not_one_def by (meson first_report_status)
    next
      case single
      then show ?thesis using cleanup_of_single [OF assms] items(1) unfolding Inr rows_def by simp
    qed
  qed
qed

text \<open>C11. However a cleanup ends, it ends, and besides asking Docker about the container it was given it has
  run nothing but the removal of one immutable identifier: the one that Docker gave for the container of
  the only launch that the journal records for the run and the name, with the labels of that launch, in a
  removable state, while it held the lock of the runner. A report that refuses has removed nothing, and one
  that is ready has Docker's own word that the container is absent.\<close>

theorem cleanup_removes_only_its_container:
  "\<exists>r past. cleanup_container class_name env lock path table project run_id name [] = Some (r, past) \<and>
     ((\<forall>command \<in> set past. command = inspect_command name) \<or>
      lock = Acquired \<and> (\<exists>i. may_remove env table project run_id name i \<and>
        (past = [inspect_command name, remove_command i] \<or>
         past = [inspect_command name, remove_command i, inspect_command i]))) \<and>
     outcome_ok env name r past"
  unfolding cleanup_ok_def [symmetric]
proof (cases "scoped project run_id name")
  case False
  then have "cleanup_container class_name env lock path table project run_id name =
      raise_io ValueError ''requires a scoped project, exact run ID and recorded stage name''"
    by (auto simp: cleanup_container_def scoped_def)
  then show "\<exists>r past. cleanup_container class_name env lock path table project run_id name [] = Some (r, past) \<and>
      cleanup_ok env lock table project run_id name r past" by (simp add: raise_io_def cleanup_ok_error)
next
  case True
  show "\<exists>r past. cleanup_container class_name env lock path table project run_id name [] = Some (r, past) \<and>
      cleanup_ok env lock table project run_id name r past"
  proof (cases "lock = Acquired \<and> table \<noteq> None")
    case False
    then obtain e where "runner_lock_around lock ''data/state/commerce-runner.lock''
        (cleanup_body class_name env path table project run_id name) [] = Some (Inl e, [])"
      using cleanup_not_held [OF True] by blast
    then show ?thesis by (intro cleanup_stops [OF True]) auto
  next
    case held: True
    then show ?thesis using cleanup_held [OF True] by auto
  qed
qed

text \<open>A journal with one launch, whose container exited and is removed.\<close>

definition demo_launch :: container_event where
  "demo_launch = \<lparr>ce_sequence = 1, ce_run_id = replicate 32 (CHR ''a''), ce_recorded_at = ''t'', ce_batch_id = ''b'', ce_sha = ''s'',
     ce_service = ''bronze'', ce_container = stage_name_prefix @ replicate 32 (CHR ''c''), ce_project = ''lakehouse-ops-x'',
     ce_event = ''launch_intent''\<rparr>"

definition demo_container :: pyval where
  "demo_container = PDict [(''Id'', PStr (replicate 64 (CHR ''d''))), (''Name'', PStr (CHR ''/'' # ce_container demo_launch)),
     (''State'', PDict [(''Status'', PStr ''exited'')]),
     (''Config'', PDict [(''Labels'', PDict (map (\<lambda>(k, v). (k, PStr v)) (wanted_labels ''lakehouse-ops-x'' demo_launch)))])]"

definition demo_docker :: docker_env where
  "demo_docker = \<lparr>dk_run = (\<lambda>past command. Ended (if past = [] then \<lparr>pe_code = 0, pe_stdout = ''[]'', pe_stderr = []\<rparr>
       else if length past = 1 then \<lparr>pe_code = 0, pe_stdout = [], pe_stderr = []\<rparr>
       else \<lparr>pe_code = 1, pe_stdout = [], pe_stderr = ''Error: No such container: '' @ replicate 64 (CHR ''d'')\<rparr>)),
     dk_json = (\<lambda>_. Inr (PList [demo_container]))\<rparr>"

lemma demo_cleanup: "case cleanup_container (\<lambda>_. []) demo_docker Acquired ''j'' (Some [demo_launch]) ''lakehouse-ops-x''
    (ce_run_id demo_launch) (ce_container demo_launch) [] of
    Some (Inr rep, past) \<Rightarrow> cl_status rep = ''ready'' \<and> length past = 3 | _ \<Rightarrow> False"
  by code_simp

theorem cleanup_removes_only_its_container_witness:
  "\<exists>rep past i. cleanup_container (\<lambda>_. []) demo_docker Acquired ''j'' (Some [demo_launch]) ''lakehouse-ops-x''
     (ce_run_id demo_launch) (ce_container demo_launch) [] = Some (Inr rep, past) \<and> cl_status rep = ''ready'' \<and>
     remove_command i \<in> set past \<and>
     may_remove demo_docker (Some [demo_launch]) ''lakehouse-ops-x'' (ce_run_id demo_launch) (ce_container demo_launch) i"
proof -
  obtain rep past where run: "cleanup_container (\<lambda>_. []) demo_docker Acquired ''j'' (Some [demo_launch]) ''lakehouse-ops-x''
     (ce_run_id demo_launch) (ce_container demo_launch) [] = Some (Inr rep, past)" "cl_status rep = ''ready''" "length past = 3"
    using demo_cleanup
    by (cases "cleanup_container (\<lambda>_. []) demo_docker Acquired ''j'' (Some [demo_launch]) ''lakehouse-ops-x''
         (ce_run_id demo_launch) (ce_container demo_launch) []") (fastforce split: sum.splits prod.splits)+
  note all = cleanup_removes_only_its_container [of "\<lambda>_. []" demo_docker Acquired "''j''" "Some [demo_launch]" "''lakehouse-ops-x''"
      "ce_run_id demo_launch" "ce_container demo_launch"]
  have "outcome_ok demo_docker (ce_container demo_launch) (Inr rep) past" using all run(1) by auto
  then obtain i where "past = [inspect_command (ce_container demo_launch), remove_command i, inspect_command i]"
    using run(2,3) by (auto simp: outcome_ok_def)
  then have "\<not> (\<forall>command \<in> set past. command = inspect_command (ce_container demo_launch))"
    using inspect_not_remove [of "ce_container demo_launch" i] by auto
  then obtain k where k: "may_remove demo_docker (Some [demo_launch]) ''lakehouse-ops-x'' (ce_run_id demo_launch)
      (ce_container demo_launch) k" "past = [inspect_command (ce_container demo_launch), remove_command k] \<or>
      past = [inspect_command (ce_container demo_launch), remove_command k, inspect_command k]"
    using all unfolding run(1) by blast
  then have "remove_command k \<in> set past" by auto
  then show ?thesis using run(1,2) k(1) by blast
qed

end
