(* ===== verification/Warehouse.thy ===== *)
theory Warehouse
  imports Trino_Client
begin

text \<open>
  \<open>warehouse_inventory.py\<close> and \<open>warehouse_references.py\<close>: the versions of all objects under the warehouse,
  the files that selected tables refer to, and how the first divides into the second. The pages of the
  listing and the answers of the catalog are arguments; a page may be an error.
\<close>

section \<open>Inventory\<close>

record version_row =
  vr_key :: string
  vr_version :: string
  vr_latest :: bool

record object_row = version_row +
  or_bytes :: int
  or_layout :: string

record inventory =
  iv_status :: string
  iv_bucket :: string
  iv_prefix :: string
  iv_started :: string
  iv_finished :: string
  iv_versioning :: pyval
  iv_total :: int
  iv_versions :: "(string \<times> nat \<times> int) list"
  iv_layout :: "(string \<times> nat \<times> int) list"
  iv_marker_count :: nat
  iv_objects :: "object_row list"
  iv_markers :: "version_row list"

definition warehouse_prefix :: string where
  "warehouse_prefix = ''warehouse/''"

text \<open>The state of the walk over the pages.\<close>

record walk =
  wk_seen :: "(string \<times> string) list"
  wk_objects :: "object_row list"
  wk_markers :: "version_row list"
  wk_versions :: "(string \<times> nat \<times> int) list"
  wk_layout :: "(string \<times> nat \<times> int) list"

definition empty_walk :: walk where
  "empty_walk = \<lparr>wk_seen = [], wk_objects = [], wk_markers = [],
     wk_versions = [(''latest'', 0, 0), (''noncurrent'', 0, 0)],
     wk_layout = [(''metadata'', 0, 0), (''data'', 0, 0), (''other'', 0, 0)]\<rparr>"

definition add_size :: "string \<Rightarrow> int \<Rightarrow> (string \<times> nat \<times> int) list \<Rightarrow> (string \<times> nat \<times> int) list" where
  "add_size name nbytes groups = (case map_of groups name of
       None \<Rightarrow> groups
     | Some (n, before) \<Rightarrow> dict_set groups name (Suc n, before + nbytes))"

definition layout_of :: "string \<Rightarrow> string" where
  "layout_of key = (let parts = butlast (tl (split_char (CHR ''/'') key)) in
     if ''metadata'' \<in> set parts then ''metadata'' else if ''data'' \<in> set parts then ''data'' else ''other'')"

text \<open>A key and a version are strings, as S3 documents.\<close>

definition version_of :: "pyval \<Rightarrow> walk \<Rightarrow> version_row result" where
  "version_of entry w =
     bindE (subscript entry ''Key'') (\<lambda>k.
     bindE (subscript entry ''VersionId'') (\<lambda>v.
       case k of
         PStr key \<Rightarrow>
           if \<not> starts_with warehouse_prefix key then raise ValueError ''out-of-scope or duplicate warehouse version''
           else (case v of
               PStr version \<Rightarrow>
                 if (key, version) \<in> set (wk_seen w) then raise ValueError ''out-of-scope or duplicate warehouse version''
                 else bindE (subscript entry ''IsLatest'') (\<lambda>latest. case latest of
                     PBool b \<Rightarrow> Inr \<lparr>vr_key = key, vr_version = version, vr_latest = b\<rparr>
                   | _ \<Rightarrow> raise ValueError ''warehouse version requires boolean IsLatest'')
             | _ \<Rightarrow> raise TypeError [])
       | _ \<Rightarrow> raise AttributeError ''startswith''))"

definition see :: "version_row \<Rightarrow> walk \<Rightarrow> walk" where
  "see row w = w\<lparr>wk_seen := (vr_key row, vr_version row) # wk_seen w\<rparr>"

definition add_marker :: "pyval \<Rightarrow> walk \<Rightarrow> walk result" where
  "add_marker entry w = bindE (version_of entry w) (\<lambda>row. Inr ((see row w)\<lparr>wk_markers := wk_markers w @ [row]\<rparr>))"

definition add_object :: "pyval \<Rightarrow> walk \<Rightarrow> walk result" where
  "add_object entry w =
     bindE (version_of entry w) (\<lambda>row.
     bindE (subscript entry ''Size'') (\<lambda>nbytes.
       if \<not> exact_int nbytes \<or> the_int nbytes < 0 then raise ValueError ''warehouse version requires nonnegative integer Size''
       else let category = layout_of (vr_key row); bytes = the_int nbytes in
         Inr ((see row w)\<lparr>wk_objects := wk_objects w @ [version_row.extend row (object_row.fields bytes category)],
           wk_versions := add_size (if vr_latest row then ''latest'' else ''noncurrent'') bytes (wk_versions w),
           wk_layout := add_size category bytes (wk_layout w)\<rparr>)))"

primrec walk_entries :: "(pyval \<Rightarrow> walk \<Rightarrow> walk result) \<Rightarrow> pyval list \<Rightarrow> walk \<Rightarrow> walk result" where
  "walk_entries add [] w = Inr w"
| "walk_entries add (e # es) w = bindE (add e w) (walk_entries add es)"

definition walk_collection :: "(pyval \<Rightarrow> walk \<Rightarrow> walk result) \<Rightarrow> string \<Rightarrow> pyval \<Rightarrow> walk \<Rightarrow> walk result" where
  "walk_collection add collection page w =
     bindE (get_attr page collection) (\<lambda>found.
     bindE (iterate (case found of None \<Rightarrow> PList [] | Some v \<Rightarrow> v)) (\<lambda>entries. walk_entries add entries w))"

primrec walk_pages :: "pyval result list \<Rightarrow> walk \<Rightarrow> walk result" where
  "walk_pages [] w = Inr w"
| "walk_pages (p # ps) w =
     bindE p (\<lambda>page.
     bindE (walk_collection add_object ''Versions'' page w) (\<lambda>w.
     bindE (walk_collection add_marker ''DeleteMarkers'' page w) (walk_pages ps)))"

definition row_key :: "'a version_row_scheme \<Rightarrow> string \<times> string" where
  "row_key row = (vr_key row, vr_version row)"

definition by_version :: "'a version_row_scheme list \<Rightarrow> 'a version_row_scheme list" where
  "by_version rows = sort_key vr_key (sort_key vr_version rows)"

text \<open>The answer to the question of versioning, the pages, and the clock before and after.\<close>

definition warehouse_inventory :: "pyval result \<Rightarrow> pyval result list \<Rightarrow> string \<Rightarrow> string \<Rightarrow> string \<Rightarrow> inventory result" where
  "warehouse_inventory versioning pages bucket started finished =
     bindE versioning (\<lambda>answer.
     bindE (get_attr answer ''Status'') (\<lambda>status.
     bindE (walk_pages pages empty_walk) (\<lambda>w. Inr
       \<lparr>iv_status = ''observed'', iv_bucket = bucket, iv_prefix = warehouse_prefix, iv_started = started, iv_finished = finished,
        iv_versioning = (case status of None \<Rightarrow> PStr ''Disabled'' | Some v \<Rightarrow> v),
        iv_total = sum_list (map (snd \<circ> snd) (wk_versions w)),
        iv_versions = wk_versions w, iv_layout = wk_layout w, iv_marker_count = length (wk_markers w),
        iv_objects = by_version (wk_objects w), iv_markers = by_version (wk_markers w)\<rparr>)))"

section \<open>References\<close>

record file_reference =
  fr_path :: string
  fr_bytes :: int
  fr_content :: int

definition reference_of :: "pydict \<Rightarrow> file_reference result" where
  "reference_of row =
     bindE (item row ''file_path'') (\<lambda>path.
     bindE (item row ''bytes'') (\<lambda>nbytes.
     bindE (item row ''content'') (\<lambda>content.
       if \<not> is_str path \<or> \<not> exact_int nbytes \<or> the_int nbytes < 0 \<or> \<not> exact_int content \<or> the_int content \<notin> {0, 1, 2}
       then raise ValueError ''invalid Iceberg file reference''
       else Inr \<lparr>fr_path = the_str path, fr_bytes = the_int nbytes, fr_content = the_int content\<rparr>)))"

primrec unique_files :: "pydict list \<Rightarrow> (string \<times> file_reference) list \<Rightarrow> (string \<times> file_reference) list result" where
  "unique_files [] unique = Inr unique"
| "unique_files (row # rows) unique =
     bindE (reference_of row) (\<lambda>f.
       case map_of unique (fr_path f) of
         Some g \<Rightarrow> if g \<noteq> f then raise ValueError ''conflicting Iceberg references for the same path''
           else unique_files rows (dict_set unique (fr_path f) f)
       | None \<Rightarrow> unique_files rows (dict_set unique (fr_path f) f))"

definition files_of_rows :: "pydict list \<Rightarrow> file_reference list result" where
  "files_of_rows rows = bindE (unique_files rows []) (\<lambda>unique. Inr (map snd (sort_key fst unique)))"

record table_references =
  tr_table :: string
  tr_snapshots :: "pydict list"
  tr_current :: "file_reference list"
  tr_retained :: "file_reference list"

definition double_quotes :: "string \<Rightarrow> string" where
  "double_quotes s = replace [CHR 0x22] [CHR 0x22, CHR 0x22] s"

text \<open>The identifier of a metadata table, whose last quotation mark follows its suffix.\<close>

definition metadata_name :: "string \<Rightarrow> string \<Rightarrow> string \<Rightarrow> string" where
  "metadata_name schema name suffix = ''lakehouse.'' @ [CHR 0x22] @ schema @ [CHR 0x22, CHR ''.'', CHR 0x22] @ name @ suffix @ [CHR 0x22]"

definition snapshots_query :: "string \<Rightarrow> string \<Rightarrow> string" where
  "snapshots_query schema name =
     ''SELECT snapshot_id FROM '' @ metadata_name schema name ''$snapshots'' @ '' ORDER BY snapshot_id''"

definition current_query :: "string \<Rightarrow> string \<Rightarrow> string" where
  "current_query schema name =
     ''SELECT file_path, file_size_in_bytes AS bytes, content FROM '' @ metadata_name schema name ''$files'' @ '' LIMIT 100001''"

definition retained_query :: "string \<Rightarrow> string \<Rightarrow> string" where
  "retained_query schema name =
     ''SELECT DISTINCT data_file.file_path AS file_path, data_file.file_size_in_bytes AS bytes, data_file.content AS content FROM '' @
     metadata_name schema name ''$all_entries'' @ '' WHERE status IN (0, 1) LIMIT 100001''"

text \<open>A query may answer differently every time: its first argument counts the queries before.\<close>

type_synonym catalog = "nat \<Rightarrow> string \<Rightarrow> pydict list result"

definition table_reference :: "catalog \<Rightarrow> nat \<times> string \<times> string \<Rightarrow> table_references result" where
  "table_reference query table = (case table of (n, table_schema, table_name) \<Rightarrow>
     (let schema = double_quotes table_schema; name = double_quotes table_name in
      bindE (query (3 * n) (snapshots_query schema name)) (\<lambda>snapshots.
        if 100 < length snapshots then raise ValueError ''reference experiment supports at most 100 snapshots per table''
        else bindE (query (3 * n + 1) (current_query schema name)) (\<lambda>current_rows.
        bindE (query (3 * n + 2) (retained_query schema name)) (\<lambda>retained_rows.
        if 100000 < length current_rows \<or> 100000 < length retained_rows
        then raise ValueError ''reference experiment supports at most 100000 files per table''
        else bindE (files_of_rows current_rows) (\<lambda>current.
        bindE (files_of_rows retained_rows) (\<lambda>retained.
        if list_ex (\<lambda>f. map_of (map (\<lambda>g. (fr_path g, g)) retained) (fr_path f) \<noteq> Some f) current
        then raise ValueError ''current files absent from retained reference union''
        else Inr \<lparr>tr_table = schema @ ''.'' @ name, tr_snapshots = snapshots, tr_current = current, tr_retained = retained\<rparr>)))))))"

definition file_references :: "catalog \<Rightarrow> (string \<times> string) list \<Rightarrow> table_references list result" where
  "file_references query tables =
     (if 32 < length tables then raise ValueError ''reference experiment supports at most 32 tables''
      else mapE (table_reference query) (zip [0..<length tables] tables))"

section \<open>Reconciliation\<close>

definition url_fragment :: "string \<Rightarrow> string" where
  "url_fragment s = (case snd (split_at (\<lambda>c. c = CHR ''#'') (snd (split_netloc (snd (split_scheme (clean_url s)))))) of
     None \<Rightarrow> [] | Some f \<Rightarrow> f)"

text \<open>\<open>_key\<close>: the key of a plain location in the bucket.\<close>

definition warehouse_key :: "(string \<Rightarrow> bool) \<Rightarrow> string \<Rightarrow> string \<Rightarrow> string result" where
  "warehouse_key brackets bucket path =
     bindE (url_split brackets path) (\<lambda>u.
       if su_scheme u \<notin> {''s3'', ''s3a''} \<or> su_netloc u \<noteq> bucket \<or> su_query u \<noteq> [] \<or> url_fragment path \<noteq> [] \<or>
         CHR ''%'' \<in> set (su_path u) \<or> \<not> starts_with ''/warehouse/'' (su_path u)
       then raise ValueError ''reference is outside the selected plain S3 warehouse URI scope''
       else Inr (tl (su_path u)))"

type_synonym reference_map = "(string \<times> int \<times> int) list"

definition add_reference :: "(string \<Rightarrow> bool) \<Rightarrow> string \<Rightarrow> file_reference \<Rightarrow> reference_map \<Rightarrow> reference_map result" where
  "add_reference brackets bucket f target =
     bindE (warehouse_key brackets bucket (fr_path f)) (\<lambda>key.
       case map_of target key of
         Some v \<Rightarrow> if v \<noteq> (fr_bytes f, fr_content f) then raise ValueError ''conflicting shared file references'' else Inr target
       | None \<Rightarrow> Inr (dict_set target key (fr_bytes f, fr_content f)))"

primrec add_references :: "(string \<Rightarrow> bool) \<Rightarrow> string \<Rightarrow> file_reference list \<Rightarrow> reference_map \<Rightarrow> reference_map result" where
  "add_references brackets bucket [] target = Inr target"
| "add_references brackets bucket (f # fs) target =
     bindE (add_reference brackets bucket f target) (add_references brackets bucket fs)"

primrec collect_references ::
    "(string \<Rightarrow> bool) \<Rightarrow> string \<Rightarrow> table_references list \<Rightarrow> reference_map \<times> reference_map \<Rightarrow> (reference_map \<times> reference_map) result" where
  "collect_references brackets bucket [] maps = Inr maps"
| "collect_references brackets bucket (t # ts) maps =
     bindE (add_references brackets bucket (tr_current t) (fst maps)) (\<lambda>current.
     bindE (add_references brackets bucket (tr_retained t) (snd maps)) (\<lambda>retained.
       collect_references brackets bucket ts (current, retained)))"

definition latest_row :: "object_row list \<Rightarrow> string \<Rightarrow> object_row option" where
  "latest_row objects key = (case filter (\<lambda>r. vr_latest r \<and> vr_key r = key) objects of [] \<Rightarrow> None | rows \<Rightarrow> Some (last rows))"

definition group_names :: "string list" where
  "group_names = [''current_data'', ''current_delete'', ''retained_only_data'', ''retained_only_delete'',
     ''latest_not_in_selected_file_references'', ''s3_noncurrent'']"

definition group_of :: "reference_map \<Rightarrow> reference_map \<Rightarrow> object_row \<Rightarrow> string" where
  "group_of current retained row =
     (if \<not> vr_latest row then ''s3_noncurrent''
      else (case map_of current (vr_key row) of
          Some (_, content) \<Rightarrow> if content = 0 then ''current_data'' else ''current_delete''
        | None \<Rightarrow> (case map_of retained (vr_key row) of
              Some (_, content) \<Rightarrow> if content = 0 then ''retained_only_data'' else ''retained_only_delete''
            | None \<Rightarrow> ''latest_not_in_selected_file_references'')))"

definition grouped_objects :: "reference_map \<Rightarrow> reference_map \<Rightarrow> object_row list \<Rightarrow> (string \<times> nat \<times> int) list" where
  "grouped_objects current retained objects =
     fold (\<lambda>row. add_size (group_of current retained row) (or_bytes row)) objects (map (\<lambda>name. (name, 0, 0)) group_names)"

record reconciliation =
  rc_groups :: "(string \<times> nat \<times> int) list"
  rc_total :: int
  rc_references :: "table_references list"

definition reconcile_references ::
    "(string \<Rightarrow> bool) \<Rightarrow> inventory \<Rightarrow> table_references list \<Rightarrow> reconciliation result" where
  "reconcile_references brackets stock references =
     (if iv_status stock \<noteq> ''observed'' \<or> iv_prefix stock \<noteq> warehouse_prefix
      then raise ValueError ''requires a complete warehouse version inventory''
      else bindE (collect_references brackets (iv_bucket stock) references ([], [])) (\<lambda>(current, retained).
        if list_ex (\<lambda>(key, v). map_of retained key \<noteq> Some v) current
        then raise ValueError ''current files absent from retained reference union''
        else if list_ex (\<lambda>(key, nbytes, _). case latest_row (iv_objects stock) key of None \<Rightarrow> True | Some r \<Rightarrow> or_bytes r \<noteq> nbytes) retained
        then raise ValueError ''referenced file missing or size differs from latest S3 version''
        else let groups = grouped_objects current retained (iv_objects stock) in
          if sum_list (map (snd \<circ> snd) groups) \<noteq> iv_total stock
          then raise ValueError ''warehouse payload totals do not reconcile''
          else Inr \<lparr>rc_groups = groups, rc_total = iv_total stock, rc_references = references\<rparr>))"

end
