(* ===== verification/Warehouse_Properties.thy ===== *)
theory Warehouse_Properties
  imports Warehouse "HOL-Library.Multiset"
begin

text \<open>The inventory of a warehouse and its division by the references of tables.\<close>

section \<open>Groups\<close>

lemma map_of_add_size:
  "map_of (add_size name n groups) g = (case map_of groups g of None \<Rightarrow> None
     | Some (c, s) \<Rightarrow> Some (if g = name then (Suc c, s + n) else (c, s)))"
  by (auto simp: add_size_def split: option.splits)

lemma keys_add_size: "map fst (add_size name n groups) = map fst groups"
proof -
  have "map fst (dict_set groups name v) = map fst groups" if "map_of groups name = Some u" for u v
    using that by (induction groups) (auto split: if_splits)
  then show ?thesis by (auto simp: add_size_def split: option.splits)
qed

text \<open>The groups of a list of sized things, by the name of their group.\<close>

lemma fold_add_size:
  "map_of (fold (\<lambda>x. add_size (g x) (b x)) xs groups) name = (case map_of groups name of None \<Rightarrow> None
     | Some (c, s) \<Rightarrow> Some (c + length (filter (\<lambda>x. g x = name) xs), s + sum_list (map b (filter (\<lambda>x. g x = name) xs))))"
  by (induction xs arbitrary: groups) (auto simp: map_of_add_size split: option.splits)

lemma fold_keys: "map fst (fold (\<lambda>x. add_size (g x) (b x)) xs groups) = map fst groups"
  by (induction xs arbitrary: groups) (simp_all add: keys_add_size)

lemma sum_dict_set:
  "map_of groups name = Some (c, s) \<Longrightarrow>
     sum_list (map (snd \<circ> snd) (dict_set groups name (c', s + n))) = sum_list (map (snd \<circ> snd) groups) + (n :: int)"
  by (induction groups) (auto split: if_splits)

lemma sum_add_size:
  "name \<in> set (map fst groups) \<Longrightarrow> sum_list (map (snd \<circ> snd) (add_size name n groups)) = sum_list (map (snd \<circ> snd) groups) + n"
  by (auto simp: add_size_def sum_dict_set split: option.splits) (metis weak_map_of_SomeI not_None_eq prod.collapse image_eqI fst_conv)

lemma sum_fold_add_size:
  "(\<And>x. x \<in> set xs \<Longrightarrow> g x \<in> set (map fst groups)) \<Longrightarrow>
     sum_list (map (snd \<circ> snd) (fold (\<lambda>x. add_size (g x) (b x)) xs groups)) =
       sum_list (map (snd \<circ> snd) groups) + sum_list (map b xs)"
proof (induction xs arbitrary: groups)
  case (Cons x xs)
  have "g y \<in> set (map fst (add_size (g x) (b x) groups))" if "y \<in> set xs" for y
    unfolding keys_add_size using Cons.prems that by simp
  moreover have "g x \<in> set (map fst groups)" using Cons.prems by simp
  ultimately show ?case
    using Cons.IH [of "add_size (g x) (b x) groups"] sum_add_size [of "g x" groups "b x"] by (simp add: comp_def del: set_map)
qed simp

section \<open>The inventory\<close>

text \<open>What the walk keeps: every version once, with a size that is not negative, and totals of all of them.\<close>

definition sound_walk :: "walk \<Rightarrow> bool" where
  "sound_walk w \<longleftrightarrow> distinct (wk_seen w) \<and>
     mset (wk_seen w) = mset (map row_key (wk_objects w)) + mset (map row_key (wk_markers w)) \<and>
     (\<forall>r \<in> set (wk_objects w). 0 \<le> or_bytes r \<and> starts_with warehouse_prefix (vr_key r)) \<and>
     sum_list (map (snd \<circ> snd) (wk_versions w)) = sum_list (map or_bytes (wk_objects w)) \<and>
     map fst (wk_versions w) = [''latest'', ''noncurrent''] \<and> map fst (wk_layout w) = [''metadata'', ''data'', ''other''] \<and>
     sum_list (map (snd \<circ> snd) (wk_layout w)) = sum_list (map or_bytes (wk_objects w))"

lemma bool_case: "(case v of PBool b \<Rightarrow> Inr (f b) | _ \<Rightarrow> raise k m) = Inr x \<longleftrightarrow> (\<exists>b. v = PBool b \<and> x = f b)"
  by (cases v) (auto simp: raise_def)

lemma version_of_Inr:
  assumes "version_of entry w = Inr row"
  shows "row_key row \<notin> set (wk_seen w) \<and> starts_with warehouse_prefix (vr_key row)"
proof -
  from assms obtain k v where "(case k of
         PStr key \<Rightarrow>
           if \<not> starts_with warehouse_prefix key then raise ValueError ''out-of-scope or duplicate warehouse version''
           else (case v of
               PStr version \<Rightarrow>
                 if (key, version) \<in> set (wk_seen w) then raise ValueError ''out-of-scope or duplicate warehouse version''
                 else bindE (subscript entry ''IsLatest'') (\<lambda>latest. case latest of
                     PBool b \<Rightarrow> Inr \<lparr>vr_key = key, vr_version = version, vr_latest = b\<rparr>
                   | _ \<Rightarrow> raise ValueError ''warehouse version requires boolean IsLatest'')
             | _ \<Rightarrow> raise TypeError [])
       | _ \<Rightarrow> raise AttributeError ''startswith'') = Inr row"
    unfolding version_of_def bindE_eq_Inr by blast
  then show ?thesis
    by (cases k; cases v) (auto simp: raise_def bindE_eq_Inr row_key_def bool_case [unfolded raise_def] split: if_splits)
qed

lemma add_marker_sound: "sound_walk w \<Longrightarrow> add_marker entry w = Inr w' \<Longrightarrow> sound_walk w'"
  by (auto simp: add_marker_def bindE_eq_Inr sound_walk_def see_def dest!: version_of_Inr) (auto simp: row_key_def)

lemma layout_of_known: "layout_of key \<in> {''metadata'', ''data'', ''other''}"
  by (simp add: layout_of_def Let_def)

lemma add_object_sound:
  assumes "sound_walk w" "add_object entry w = Inr w'"
  shows "sound_walk w'"
proof -
  from assms(2) obtain row nb where row: "version_of entry w = Inr row"
    and rest: "(if \<not> exact_int nb \<or> the_int nb < 0 then raise ValueError ''warehouse version requires nonnegative integer Size''
       else let category = layout_of (vr_key row); bytes = the_int nb in
         Inr ((see row w)\<lparr>wk_objects := wk_objects w @ [version_row.extend row (object_row.fields bytes category)],
           wk_versions := add_size (if vr_latest row then ''latest'' else ''noncurrent'') bytes (wk_versions w),
           wk_layout := add_size category bytes (wk_layout w)\<rparr>)) = Inr w'"
    unfolding add_object_def bindE_eq_Inr by blast
  define n where "n = the_int nb"
  have n: "0 \<le> n" using rest by (auto simp: n_def raise_def split: if_splits)
  have w': "w' = (see row w)\<lparr>wk_objects := wk_objects w @ [version_row.extend row (object_row.fields n (layout_of (vr_key row)))],
           wk_versions := add_size (if vr_latest row then ''latest'' else ''noncurrent'') n (wk_versions w),
           wk_layout := add_size (layout_of (vr_key row)) n (wk_layout w)\<rparr>"
    using rest unfolding Let_def n_def [symmetric] by (simp add: raise_def split: if_splits)
  define o' where "o' = version_row.extend row (object_row.fields n (layout_of (vr_key row)))"
  have o': "vr_key o' = vr_key row" "vr_version o' = vr_version row" "or_bytes o' = n"
    by (cases row; simp add: o'_def version_row.defs object_row.defs)+
  have sums: "sum_list (map (snd \<circ> snd) (add_size (if vr_latest row then ''latest'' else ''noncurrent'') n (wk_versions w))) =
      sum_list (map (snd \<circ> snd) (wk_versions w)) + n"
    "sum_list (map (snd \<circ> snd) (add_size (layout_of (vr_key row)) n (wk_layout w))) = sum_list (map (snd \<circ> snd) (wk_layout w)) + n"
    using assms(1) layout_of_known [of "vr_key row"] by (subst sum_add_size; simp add: sound_walk_def del: set_map; fail)+
  have parts: "wk_seen w' = row_key row # wk_seen w" "wk_objects w' = wk_objects w @ [o']" "wk_markers w' = wk_markers w"
    "wk_versions w' = add_size (if vr_latest row then ''latest'' else ''noncurrent'') n (wk_versions w)"
    "wk_layout w' = add_size (layout_of (vr_key row)) n (wk_layout w)"
    by (simp_all add: w' o'_def see_def row_key_def)
  have key: "row_key o' = row_key row" by (simp add: row_key_def o')
  note old = assms(1) [unfolded sound_walk_def]
  have "distinct (wk_seen w')" using old version_of_Inr [OF row] by (simp add: parts)
  moreover have "mset (wk_seen w') = mset (map row_key (wk_objects w')) + mset (map row_key (wk_markers w'))"
    using old by (simp add: parts key)
  moreover have "\<forall>r \<in> set (wk_objects w'). 0 \<le> or_bytes r \<and> starts_with warehouse_prefix (vr_key r)"
    using old version_of_Inr [OF row] n by (simp add: parts o')
  moreover have "sum_list (map (snd \<circ> snd) (wk_versions w')) = sum_list (map or_bytes (wk_objects w'))"
    "sum_list (map (snd \<circ> snd) (wk_layout w')) = sum_list (map or_bytes (wk_objects w'))"
    using old sums by (simp_all add: parts o')
  moreover have "map fst (wk_versions w') = [''latest'', ''noncurrent'']" "map fst (wk_layout w') = [''metadata'', ''data'', ''other'']"
    using old by (simp_all add: parts keys_add_size)
  ultimately show ?thesis unfolding sound_walk_def by blast
qed

lemma walk_entries_sound:
  assumes "\<And>entry w w'. sound_walk w \<Longrightarrow> add entry w = Inr w' \<Longrightarrow> sound_walk w'"
    and "sound_walk w" "walk_entries add entries w = Inr w'"
  shows "sound_walk w'"
  using assms(2,3)
proof (induction entries arbitrary: w)
  case (Cons e es)
  then obtain u where "add e w = Inr u" "walk_entries add es u = Inr w'" by (auto simp: bindE_eq_Inr)
  then show ?case using Cons.IH assms(1) [OF Cons.prems(1)] by blast
qed simp

lemma walk_collection_sound:
  assumes "\<And>entry w w'. sound_walk w \<Longrightarrow> add entry w = Inr w' \<Longrightarrow> sound_walk w'"
    and "sound_walk w" "walk_collection add collection page w = Inr w'"
  shows "sound_walk w'"
proof -
  obtain entries where run: "walk_entries add entries w = Inr w'" using assms(3) by (auto simp: walk_collection_def bindE_eq_Inr)
  show ?thesis by (rule walk_entries_sound [of add w entries w', OF assms(1) assms(2) run])
qed

lemma walk_pages_sound: "sound_walk w \<Longrightarrow> walk_pages pages w = Inr w' \<Longrightarrow> sound_walk w'"
proof (induction pages arbitrary: w)
  case (Cons page pages)
  from Cons.prems(2) obtain p u v where "walk_collection add_object ''Versions'' p w = Inr u"
      "walk_collection add_marker ''DeleteMarkers'' p u = Inr v" "walk_pages pages v = Inr w'"
    by (auto simp: bindE_eq_Inr)
  moreover have "sound_walk u" by (rule walk_collection_sound [of add_object w "''Versions''" p, OF add_object_sound Cons.prems(1) calculation(1)])
  moreover have "sound_walk v" by (rule walk_collection_sound [of add_marker u "''DeleteMarkers''" p, OF add_marker_sound calculation(4,2)])
  ultimately show ?case using Cons.IH by blast
qed simp

lemma empty_walk_sound: "sound_walk empty_walk"
  by (simp add: sound_walk_def empty_walk_def)

lemma inventory_sound:
  assumes "warehouse_inventory versioning pages bucket started finished = Inr stock"
  shows "iv_status stock = ''observed''" "iv_prefix stock = warehouse_prefix" "iv_bucket stock = bucket"
    "distinct (map row_key (iv_objects stock))" "\<forall>r \<in> set (iv_objects stock). 0 \<le> or_bytes r"
    "iv_total stock = sum_list (map or_bytes (iv_objects stock))"
proof -
  from assms obtain w answer status where w: "walk_pages pages empty_walk = Inr w"
    and stock: "stock = \<lparr>iv_status = ''observed'', iv_bucket = bucket, iv_prefix = warehouse_prefix, iv_started = started, iv_finished = finished,
        iv_versioning = (case status of None \<Rightarrow> PStr ''Disabled'' | Some v \<Rightarrow> v),
        iv_total = sum_list (map (snd \<circ> snd) (wk_versions w)),
        iv_versions = wk_versions w, iv_layout = wk_layout w, iv_marker_count = length (wk_markers w),
        iv_objects = by_version (wk_objects w), iv_markers = by_version (wk_markers w)\<rparr>"
    by (auto simp: warehouse_inventory_def bindE_eq_Inr)
  have sound: "sound_walk w" by (rule walk_pages_sound [OF empty_walk_sound w])
  have same: "mset (by_version rows) = mset rows" for rows :: "object_row list" by (simp add: by_version_def)
  have "distinct (map row_key (wk_objects w))"
    using sound unfolding sound_walk_def by (metis distinct_append mset_append mset_eq_imp_distinct_iff)
  then show "distinct (map row_key (iv_objects stock))"
    unfolding stock by (simp add: mset_eq_imp_distinct_iff [of "map row_key (by_version (wk_objects w))" "map row_key (wk_objects w)"] same)
  show "\<forall>r \<in> set (iv_objects stock). 0 \<le> or_bytes r"
    using sound by (simp add: stock by_version_def sound_walk_def)
  have "sum_list (map or_bytes (by_version (wk_objects w))) = sum_list (map or_bytes (wk_objects w))"
    using same by (metis mset_map sum_mset_sum_list)
  then show "iv_total stock = sum_list (map or_bytes (iv_objects stock))"
    using sound by (simp add: stock sound_walk_def)
qed (use assms in \<open>auto simp: warehouse_inventory_def bindE_eq_Inr\<close>)

section \<open>References\<close>

text \<open>A file of a list has a key, with its size and its content.\<close>

definition refers :: "(string \<Rightarrow> bool) \<Rightarrow> string \<Rightarrow> file_reference list \<Rightarrow> string \<Rightarrow> int \<times> int \<Rightarrow> bool" where
  "refers brackets bucket fs key v \<longleftrightarrow>
     (\<exists>f \<in> set fs. warehouse_key brackets bucket (fr_path f) = Inr key \<and> v = (fr_bytes f, fr_content f))"

lemma add_reference_Inr:
  assumes "add_reference brackets bucket f target = Inr target'"
  shows "map_of target' k = Some v \<longleftrightarrow> map_of target k = Some v \<or> refers brackets bucket [f] k v"
proof -
  obtain key where key: "warehouse_key brackets bucket (fr_path f) = Inr key"
    and add: "(case map_of target key of
         Some v \<Rightarrow> if v \<noteq> (fr_bytes f, fr_content f) then raise ValueError ''conflicting shared file references'' else Inr target
       | None \<Rightarrow> Inr (dict_set target key (fr_bytes f, fr_content f))) = Inr target'"
    using assms unfolding add_reference_def bindE_eq_Inr by blast
  show ?thesis
  proof (cases "map_of target key")
    case None
    then show ?thesis using add key by (auto simp: refers_def split: if_splits)
  next
    case (Some u)
    then have "target' = target" "u = (fr_bytes f, fr_content f)" using add by (auto simp: raise_def split: if_splits)
    then show ?thesis using Some key by (auto simp: refers_def)
  qed
qed

lemma refers_Cons: "refers brackets bucket (f # fs) k v \<longleftrightarrow> refers brackets bucket [f] k v \<or> refers brackets bucket fs k v"
  by (simp add: refers_def)

lemma add_references_Inr:
  "add_references brackets bucket fs target = Inr target' \<Longrightarrow>
     map_of target' k = Some v \<longleftrightarrow> map_of target k = Some v \<or> refers brackets bucket fs k v"
proof (induction fs arbitrary: target)
  case Nil
  then show ?case by (simp add: refers_def)
next
  case (Cons f fs)
  from Cons.prems obtain t where one: "add_reference brackets bucket f target = Inr t"
    and rest: "add_references brackets bucket fs t = Inr target'" by (auto simp: bindE_eq_Inr)
  show ?case unfolding Cons.IH [OF rest] add_reference_Inr [OF one] refers_Cons [of _ _ f fs] by blast
qed

lemma add_references_keys:
  "add_references brackets bucket fs target = Inr target' \<Longrightarrow> f \<in> set fs \<Longrightarrow> \<exists>key. warehouse_key brackets bucket (fr_path f) = Inr key"
  by (induction fs arbitrary: target) (auto simp: bindE_eq_Inr add_reference_def)

lemma collect_references_Inr:
  "collect_references brackets bucket ts maps = Inr maps' \<Longrightarrow>
     (map_of (fst maps') k = Some v \<longleftrightarrow> map_of (fst maps) k = Some v \<or> (\<exists>t \<in> set ts. refers brackets bucket (tr_current t) k v)) \<and>
     (map_of (snd maps') k = Some v \<longleftrightarrow> map_of (snd maps) k = Some v \<or> (\<exists>t \<in> set ts. refers brackets bucket (tr_retained t) k v)) \<and>
     (\<forall>t \<in> set ts. \<forall>f \<in> set (tr_retained t). \<exists>key. warehouse_key brackets bucket (fr_path f) = Inr key)"
proof (induction ts arbitrary: maps)
  case Nil
  then show ?case by simp
next
  case (Cons t ts)
  from Cons.prems obtain current retained where
      c: "add_references brackets bucket (tr_current t) (fst maps) = Inr current" and
      r: "add_references brackets bucket (tr_retained t) (snd maps) = Inr retained" and
      rest: "collect_references brackets bucket ts (current, retained) = Inr maps'" by (auto simp: bindE_eq_Inr)
  show ?case
    using Cons.IH [OF rest] add_references_Inr [OF c, of k v] add_references_Inr [OF r, of k v] add_references_keys [OF r] by auto
qed

section \<open>Reconciliation\<close>

definition current_file :: "(string \<Rightarrow> bool) \<Rightarrow> string \<Rightarrow> table_references list \<Rightarrow> string \<Rightarrow> int \<times> int \<Rightarrow> bool" where
  "current_file brackets bucket references key v \<longleftrightarrow> (\<exists>t \<in> set references. refers brackets bucket (tr_current t) key v)"

definition retained_file :: "(string \<Rightarrow> bool) \<Rightarrow> string \<Rightarrow> table_references list \<Rightarrow> string \<Rightarrow> int \<times> int \<Rightarrow> bool" where
  "retained_file brackets bucket references key v \<longleftrightarrow> (\<exists>t \<in> set references. refers brackets bucket (tr_retained t) key v)"

text \<open>The group an object version belongs to, told by the references themselves.\<close>

definition expected_group :: "(string \<Rightarrow> bool) \<Rightarrow> string \<Rightarrow> table_references list \<Rightarrow> object_row \<Rightarrow> string" where
  "expected_group brackets bucket references row =
     (if \<not> vr_latest row then ''s3_noncurrent''
      else if \<exists>n. current_file brackets bucket references (vr_key row) (n, 0) then ''current_data''
      else if \<exists>n c. current_file brackets bucket references (vr_key row) (n, c) then ''current_delete''
      else if \<exists>n. retained_file brackets bucket references (vr_key row) (n, 0) then ''retained_only_data''
      else if \<exists>n c. retained_file brackets bucket references (vr_key row) (n, c) then ''retained_only_delete''
      else ''latest_not_in_selected_file_references'')"

lemma group_of_expected:
  assumes "\<And>k v. map_of current k = Some v \<longleftrightarrow> current_file brackets bucket references k v"
    and "\<And>k v. map_of retained k = Some v \<longleftrightarrow> retained_file brackets bucket references k v"
  shows "group_of current retained row = expected_group brackets bucket references row"
  unfolding group_of_def expected_group_def assms [symmetric] by (auto split: option.splits)

lemma group_of_known: "group_of current retained row \<in> set group_names"
  by (auto simp: group_of_def group_names_def split: option.splits)

lemma grouped_objects_sum:
  "sum_list (map (snd \<circ> snd) (grouped_objects current retained objects)) = sum_list (map or_bytes objects)"
  unfolding grouped_objects_def
  by (subst sum_fold_add_size) (use group_of_known in \<open>auto simp: group_names_def comp_def\<close>)

lemma grouped_objects_group:
  "name \<in> set group_names \<Longrightarrow> map_of (grouped_objects current retained objects) name =
     Some (length (filter (\<lambda>r. group_of current retained r = name) objects),
       sum_list (map or_bytes (filter (\<lambda>r. group_of current retained r = name) objects)))"
  unfolding grouped_objects_def fold_add_size by (auto simp: group_names_def)

lemma latest_row_Some:
  assumes "latest_row objects key = Some r"
  shows "r \<in> set objects \<and> vr_latest r \<and> vr_key r = key"
proof -
  let ?rows = "filter (\<lambda>r. vr_latest r \<and> vr_key r = key) objects"
  have "?rows \<noteq> []" "r = last ?rows" using assms by (auto simp: latest_row_def split: list.splits)
  then show ?thesis using last_in_set [of ?rows] by auto
qed

lemma reconcile_Inr:
  assumes "reconcile_references brackets stock references = Inr report"
  shows "(\<forall>name \<in> set group_names. map_of (rc_groups report) name =
       Some (length (filter (\<lambda>r. expected_group brackets (iv_bucket stock) references r = name) (iv_objects stock)),
         sum_list (map or_bytes (filter (\<lambda>r. expected_group brackets (iv_bucket stock) references r = name) (iv_objects stock))))) \<and>
     sum_list (map (snd \<circ> snd) (rc_groups report)) = iv_total stock \<and>
     (\<forall>t \<in> set references. \<forall>f \<in> set (tr_retained t). \<exists>r \<in> set (iv_objects stock). vr_latest r \<and>
        warehouse_key brackets (iv_bucket stock) (fr_path f) = Inr (vr_key r) \<and> or_bytes r = fr_bytes f) \<and>
     (\<forall>k v. current_file brackets (iv_bucket stock) references k v \<longrightarrow> retained_file brackets (iv_bucket stock) references k v)"
proof -
  obtain current retained where maps: "collect_references brackets (iv_bucket stock) references ([], []) = Inr (current, retained)"
    and checks: "\<not> list_ex (\<lambda>(key, v). map_of retained key \<noteq> Some v) current"
      "\<not> list_ex (\<lambda>(key, n, _). case latest_row (iv_objects stock) key of None \<Rightarrow> True | Some r \<Rightarrow> or_bytes r \<noteq> n) retained"
      "sum_list (map (snd \<circ> snd) (grouped_objects current retained (iv_objects stock))) = iv_total stock"
    and report: "rc_groups report = grouped_objects current retained (iv_objects stock)"
    using assms by (auto simp: reconcile_references_def bindE_eq_Inr raise_def Let_def split: if_splits)
  have cur: "map_of current k = Some v \<longleftrightarrow> current_file brackets (iv_bucket stock) references k v" for k v
    using collect_references_Inr [OF maps, of k v] by (simp add: current_file_def)
  have ret: "map_of retained k = Some v \<longleftrightarrow> retained_file brackets (iv_bucket stock) references k v" for k v
    using collect_references_Inr [OF maps, of k v] by (simp add: retained_file_def)
  have "\<forall>t \<in> set references. \<forall>f \<in> set (tr_retained t). \<exists>r \<in> set (iv_objects stock). vr_latest r \<and>
        warehouse_key brackets (iv_bucket stock) (fr_path f) = Inr (vr_key r) \<and> or_bytes r = fr_bytes f"
  proof (intro ballI)
    fix t f
    assume tf: "t \<in> set references" "f \<in> set (tr_retained t)"
    then obtain key where key: "warehouse_key brackets (iv_bucket stock) (fr_path f) = Inr key"
      using collect_references_Inr [OF maps] by blast
    then have "retained_file brackets (iv_bucket stock) references key (fr_bytes f, fr_content f)"
      using tf by (auto simp: retained_file_def refers_def)
    then have "(key, fr_bytes f, fr_content f) \<in> set retained" using ret by (metis map_of_SomeD)
    then obtain r where "latest_row (iv_objects stock) key = Some r" "or_bytes r = fr_bytes f"
      using checks(2) by (fastforce simp: list_ex_iff split: option.splits)
    then show "\<exists>r \<in> set (iv_objects stock). vr_latest r \<and>
        warehouse_key brackets (iv_bucket stock) (fr_path f) = Inr (vr_key r) \<and> or_bytes r = fr_bytes f"
      using key latest_row_Some by blast
  qed
  moreover have "current_file brackets (iv_bucket stock) references k v \<longrightarrow> retained_file brackets (iv_bucket stock) references k v" for k v
    using checks(1) unfolding cur [symmetric] ret [symmetric] by (force simp: list_ex_iff dest: map_of_SomeD)
  moreover have "\<forall>name \<in> set group_names. map_of (rc_groups report) name =
       Some (length (filter (\<lambda>r. expected_group brackets (iv_bucket stock) references r = name) (iv_objects stock)),
         sum_list (map or_bytes (filter (\<lambda>r. expected_group brackets (iv_bucket stock) references r = name) (iv_objects stock))))"
    unfolding report by (simp add: grouped_objects_group group_of_expected [OF cur ret])
  ultimately show ?thesis using checks(3) report by simp
qed

text \<open>The files of a table are those of its catalog: every path once, the current ones among the retained.\<close>

definition files_of_table :: "string \<times> string \<Rightarrow> table_references \<Rightarrow> bool" where
  "files_of_table table t \<longleftrightarrow> tr_table t = double_quotes (fst table) @ ''.'' @ double_quotes (snd table) \<and>
     set (tr_current t) \<subseteq> set (tr_retained t)"

lemma table_reference_Inr:
  assumes "table_reference query x = Inr t"
  shows "files_of_table (snd x) t"
proof -
  obtain n schema name where x: "x = (n, schema, name)" by (cases x)
  obtain current retained where ex: "\<not> list_ex (\<lambda>f. map_of (map (\<lambda>g. (fr_path g, g)) retained) (fr_path f) \<noteq> Some f) current"
    and t: "tr_table t = double_quotes schema @ ''.'' @ double_quotes name" "tr_current t = current" "tr_retained t = retained"
    using assms unfolding x by (auto simp: table_reference_def bindE_eq_Inr raise_def Let_def split: if_splits)
  have "f \<in> set retained" if "f \<in> set current" for f
    using ex that by (auto simp: list_ex_iff dest!: bspec map_of_SomeD)
  then show ?thesis using t by (auto simp: files_of_table_def x)
qed

lemma numbered_all2: "list_all2 (\<lambda>x. P (snd x)) (zip [0..<length xs] xs) ys \<Longrightarrow> list_all2 P xs ys"
  by (simp add: list_all2_conv_all_nth)

lemma file_references_Inr:
  assumes "file_references query tables = Inr references"
  shows "list_all2 files_of_table tables references"
proof -
  have "list_all2 (\<lambda>x t. table_reference query x = Inr t) (zip [0..<length tables] tables) references"
    using assms by (auto simp: file_references_def raise_def mapE_Inr_iff split: if_splits)
  then have "list_all2 (\<lambda>x. files_of_table (snd x)) (zip [0..<length tables] tables) references"
    by (rule list_all2_mono) (rule table_reference_Inr)
  then show ?thesis by (rule numbered_all2)
qed

lemma reconcile_totals:
  assumes "iv_total stock = sum_list (map or_bytes (iv_objects stock))" "reconcile_references brackets stock references = Inl e"
  shows "message_of e \<noteq> ''warehouse payload totals do not reconcile''"
  using assms
proof -
  have key: "warehouse_key brackets bucket path = Inl e \<Longrightarrow> message_of e \<noteq> ''warehouse payload totals do not reconcile''" for bucket path
    by (auto simp: warehouse_key_def url_split_def bindE_eq_Inl raise_def Let_def split: if_splits prod.splits)
  have one: "add_reference brackets bucket f target = Inl e \<Longrightarrow> message_of e \<noteq> ''warehouse payload totals do not reconcile''" for bucket f target
  proof -
    assume "add_reference brackets bucket f target = Inl e"
    then consider "warehouse_key brackets bucket (fr_path f) = Inl e" | "e = Exn ValueError ''conflicting shared file references''"
      unfolding add_reference_def bindE_eq_Inl by (auto simp: raise_def split: option.splits if_splits)
    then show ?thesis by cases (auto dest: key)
  qed
  have all: "add_references brackets bucket fs target = Inl e \<Longrightarrow> message_of e \<noteq> ''warehouse payload totals do not reconcile''" for bucket fs target
    by (induction fs arbitrary: target) (auto simp: bindE_eq_Inl dest: one)
  have tables: "collect_references brackets bucket ts maps = Inl e \<Longrightarrow> message_of e \<noteq> ''warehouse payload totals do not reconcile''" for bucket ts maps
    by (induction ts arbitrary: maps) (auto simp: bindE_eq_Inl dest: all)
  show ?thesis using assms
    by (auto simp: reconcile_references_def bindE_eq_Inl raise_def Let_def grouped_objects_sum split: if_splits dest: tables)
qed

text \<open>C14. What is reconciled is the whole warehouse: for an inventory that was taken and references that were
  read, the totals always agree; every version of every object is counted once, with its bytes, in the group
  that the references themselves give it, so a file that a selected table still refers to is never counted
  as unreferenced; and a report is only given when every reference has a latest version of its size and
  every current file is retained.\<close>

theorem reconciliation_partitions_the_warehouse:
  assumes "warehouse_inventory versioning pages bucket started finished = Inr stock"
    and "file_references query tables = Inr references"
  shows "distinct (map row_key (iv_objects stock)) \<and>
    (\<forall>e. reconcile_references brackets stock references = Inl e \<longrightarrow> message_of e \<noteq> ''warehouse payload totals do not reconcile'') \<and>
    (\<forall>report. reconcile_references brackets stock references = Inr report \<longrightarrow>
      (\<forall>name \<in> set group_names. map_of (rc_groups report) name =
         Some (length (filter (\<lambda>r. expected_group brackets bucket references r = name) (iv_objects stock)),
           sum_list (map or_bytes (filter (\<lambda>r. expected_group brackets bucket references r = name) (iv_objects stock))))) \<and>
      sum_list (map (snd \<circ> snd) (rc_groups report)) = sum_list (map or_bytes (iv_objects stock)) \<and>
      (\<forall>t \<in> set references. \<forall>f \<in> set (tr_retained t). \<exists>r \<in> set (iv_objects stock). vr_latest r \<and>
         warehouse_key brackets bucket (fr_path f) = Inr (vr_key r) \<and> or_bytes r = fr_bytes f) \<and>
      list_all2 files_of_table tables references)"
  using inventory_sound [OF assms(1)] file_references_Inr [OF assms(2)] reconcile_totals reconcile_Inr by auto

text \<open>One table with a live and an old file, a metadata file and a version that was replaced.\<close>

definition demo_version :: "string \<Rightarrow> string \<Rightarrow> bool \<Rightarrow> int \<Rightarrow> pyval" where
  "demo_version key version latest n = PDict [(''Key'', PStr (warehouse_prefix @ key)), (''VersionId'', PStr version),
     (''IsLatest'', PBool latest), (''Size'', PInt n)]"

definition demo_pages :: "pyval result list" where
  "demo_pages = [Inr (PDict [(''Versions'', PList [demo_version ''t/data/b'' ''v2'' True 10, demo_version ''t/data/a'' ''v1'' True 7])]),
     Inr (PDict [(''Versions'', PList [demo_version ''t/data/b'' ''v1'' False 13, demo_version ''t/metadata/m'' ''v1'' True 5])])]"

definition demo_file :: "string \<Rightarrow> int \<Rightarrow> pydict" where
  "demo_file key n = [(''file_path'', PStr (''s3a://lakehouse/warehouse/'' @ key)), (''bytes'', PInt n), (''content'', PInt 0)]"

definition demo_catalog :: catalog where
  "demo_catalog n sql = Inr (if n = 0 then [] else if n = 1 then [demo_file ''t/data/b'' 10]
     else [demo_file ''t/data/b'' 10, demo_file ''t/data/a'' 7])"

lemma demo_reconciles: "case warehouse_inventory (Inr (PDict [])) demo_pages ''lakehouse'' ''s'' ''f'' of
    Inr stock \<Rightarrow> (case file_references demo_catalog [(''silver'', ''t'')] of
      Inr references \<Rightarrow> (case reconcile_references (\<lambda>_. True) stock references of
        Inr report \<Rightarrow> rc_groups report = [(''current_data'', 1, 10), (''current_delete'', 0, 0), (''retained_only_data'', 1, 7),
          (''retained_only_delete'', 0, 0), (''latest_not_in_selected_file_references'', 1, 5), (''s3_noncurrent'', 1, 13)]
      | _ \<Rightarrow> False) | _ \<Rightarrow> False) | _ \<Rightarrow> False"
  by code_simp

theorem reconciliation_partitions_the_warehouse_witness:
  "\<exists>stock references report. warehouse_inventory (Inr (PDict [])) demo_pages ''lakehouse'' ''s'' ''f'' = Inr stock \<and>
     file_references demo_catalog [(''silver'', ''t'')] = Inr references \<and>
     reconcile_references (\<lambda>_. True) stock references = Inr report \<and>
     sum_list (map or_bytes (iv_objects stock)) = 35 \<and> distinct (map row_key (iv_objects stock))"
proof -
  obtain stock references report where run: "warehouse_inventory (Inr (PDict [])) demo_pages ''lakehouse'' ''s'' ''f'' = Inr stock"
      "file_references demo_catalog [(''silver'', ''t'')] = Inr references"
      "reconcile_references (\<lambda>_. True) stock references = Inr report" "sum_list (map (snd \<circ> snd) (rc_groups report)) = 35"
    using demo_reconciles by (auto split: sum.splits)
  then show ?thesis using reconciliation_partitions_the_warehouse [OF run(1,2), of "\<lambda>_. True"] by auto
qed

end
