(* ===== verification/Spec2Isabelle.thy ===== *)
theory Spec2Isabelle
  imports Pipeline_Properties Maintenance_Properties Maintenance_Run_Properties Access_Properties Cycle_Properties Trino_Properties Bronze_Properties Weather_Run_Properties Weather_Zone_Properties
    Ranger_Sync_Properties Container_Properties Warehouse_Properties
begin

text \<open>
  A verification of the lakehouse operations platform: a Python program that lands batches of a
  commerce source and weather forecasts, runs the batches through a processing pipeline and
  checkpoints them, plans and executes the maintenance of Iceberg tables, and compiles the access
  policies of the query engine and of Apache Ranger. The sources are under
  \<open>src/src/lakehouse_ops/\<close>; a file named below is relative to it.

  The parts and how they meet. A generated fixture is uploaded object by object
  (\<open>ingestion/commerce_s3_landing.py\<close>); its manifest is the commit marker that the batch planner
  discovers (\<open>ingestion/commerce_batches.py\<close>). One run of the pipeline (\<open>commerce_pipeline.py\<close>)
  plans the next batch, reserves it, runs its stages in Docker, verifies its gold rows with the gate
  (\<open>commerce_gold_gate.py\<close>), and only then commits it to the checkpoint, under the lock of
  \<open>commerce_runner_lock.py\<close> and with its evidence in the journal (\<open>commerce_run_journal.py\<close>,
  read by \<open>commerce_journal_inspection.py\<close>). What is left of a stage is looked up in Docker
  (\<open>commerce_container_inspection.py\<close>) and removed under the same lock
  (\<open>commerce_container_cleanup.py\<close>). The jobs of the stages verify the batch directory they
  read (\<open>ingestion/commerce_bronze.py\<close>) and order complete snapshots (\<open>commerce_snapshot.py\<close>). A
  scheduled attempt (\<open>commerce_cycle.py\<close>) runs the pipeline and then the freshness notification
  (\<open>commerce_alerts.py\<close>) as child processes under one time budget. The maintenance planner
  (\<open>iceberg/planner.py\<close>) turns a metadata report (\<open>iceberg/metadata.py\<close>, checked by
  \<open>report_schema.py\<close>) into a plan whose approved actions the executor (\<open>iceberg/executor.py\<close>)
  carries out; \<open>warehouse_inventory.py\<close> and \<open>warehouse_references.py\<close> say which object versions the
  tables use. Gate, metadata, references and executor reach the query engine through \<open>trino.py\<close>. The
  access policy (\<open>access_policy.py\<close>) is compiled from a role model to which a lease
  (\<open>break_glass.py\<close>) may add one binding; \<open>ranger.py\<close> compiles the same model to Ranger policies and
  makes the server hold them. Forecasts are fetched (\<open>ingestion/open_meteo.py\<close>), landed once under a
  key of their content (\<open>ingestion/models.py\<close>, \<open>ingestion/landing.py\<close>,
  \<open>ingestion/s3_landing.py\<close>), for all locations of a manifest (\<open>ingestion/batch.py\<close>), and audited
  where they lie (\<open>ingestion/audit.py\<close>).

  The library.
  \<^item> \<open>Py_Value\<close> (the prelude: values, exceptions, the error monad, strings and dictionaries),
    \<open>Py_Float\<close>, \<open>Py_Parse\<close>, \<open>Py_Time\<close>, \<open>Py_Iso\<close>, \<open>Py_Hash\<close>, \<open>Py_Json\<close>, \<open>Py_Reload\<close>: the parts of
    Python and of its standard library that the program uses, executable; \<open>Py_Iso\<close> proves that written
    times are read back, \<open>Py_Reload\<close> is what a written document is read back as.
  \<^item> \<open>World_IO\<close>: actions over a state that may fail or not return, the world of the planner (a clock
    and two files), and the locale \<open>action_relation\<close>: what composed actions leave alone, interpreted
    for the planner's files, the pipeline's checkpoint, the upload's bucket, the landing zone and the
    requests of a synchronisation.
  \<^item> \<open>Runner_Lock\<close>, \<open>Commerce_Source\<close> (budgeted reads, manifests, discovery), \<open>Commerce_Batches\<close>
    (checkpoint, reservation, plan, begin, commit, freshness): the batch planner. \<open>Planner_Interface\<close>
    is what the pipeline asks of a planner, as a locale, with the planner as its interpretation.
  \<^item> \<open>Run_Journal\<close>, \<open>Gold_Gate\<close>, \<open>Commerce_Pipeline\<close>: one run; its state is the planner's world, the
    journal's rows and the current phase.
  \<^item> \<open>Container_Cleanup\<close>: inspection and removal; the state is the list of Docker commands that were run.
  \<^item> \<open>Commerce_Alerts\<close>, \<open>Commerce_Cycle\<close>: the notification and the scheduled attempt.
  \<^item> \<open>Commerce_Landing\<close>, \<open>Commerce_Bronze\<close>: the upload, over a bucket that other clients change
    between any two calls; batch directories and snapshots.
  \<^item> \<open>Report_Schema\<close>, \<open>Maintenance_Plan\<close>, \<open>Maintenance_Executor\<close>, \<open>Table_Metadata\<close>: maintenance; the
    executor's state is the list of statements it has issued. \<open>Warehouse\<close>: inventory and references.
  \<^item> \<open>Trino_Client\<close>: queries over pages, deadlines, reader threads and cancellation; the state is the
    list of requests that were sent and the number of slots held by readers.
  \<^item> \<open>Access_Policy\<close>, \<open>Break_Glass\<close>, \<open>Ranger_Policy\<close>, \<open>Ranger_Sync\<close>: the compilation of the role
    model, the lease, and the synchronisation; its state is the list of requests that were sent.
  \<^item> \<open>Weather_Object\<close> (forecast, landing object, source client), \<open>Weather_Audit\<close>, \<open>Weather_Landing\<close>
    (a zone of files that other processes write to, and a bucket), \<open>Weather_Batch\<close> (manifest of
    locations, futures that complete in any order).
  \<^item> \<open>Demo_Lake\<close> and the \<open>demo_\<close> definitions are concrete inputs on which the theorems are applied.

  What is proved. \<open>Commerce_Properties\<close> (C1 to C8, C10): discovery is sorted, identified, terminating
  and the same read serially or in groups; plans are bounded; a commit never skips a batch, records it
  exactly once and leaves a recoverable state when it fails; no run of operations loses a batch; a
  begun batch is planned first; also that the checkpoint is read back and what the backlog report says.
  \<open>Pipeline_Properties\<close> (C12, C13, C15): the checkpoint advances only after every stage of that batch
  exited with zero and its gold rows were verified; what a returned run, the journal's inspection and
  the row of a container mean. \<open>Container_Properties\<close> (C11): a cleanup removes at most the one
  container on which journal and Docker agree. \<open>Maintenance_Properties\<close> and
  \<open>Maintenance_Run_Properties\<close> (C17 to C24): plans account for every rule and spare recent snapshots;
  collected reports are accepted by the planner and planned actions by the executor; writes need the
  approval of plan and snapshot; expiry spares the current snapshot; reports tell what happened; the
  candidate view is dropped. \<open>Warehouse_Properties\<close> (C14): every object version is counted once, in
  the group that the references give it. \<open>Access_Properties\<close> (C27, C29): rules belong to bound users, a
  lease grants one role for an hour. \<open>Ranger_Properties\<close> (C26): Ranger policies give a user what the
  roles grant, although policies of one resource are merged. \<open>Ranger_Sync_Properties\<close> (C9): which
  requests a synchronisation may send, and what its report accounts for; a lemma shows how it may
  overwrite a policy it has just written. \<open>Cycle_Properties\<close> (C30, C31): no failure is hidden by an
  exit code; the two alerts say what the checks found. \<open>Trino_Properties\<close> (C32 to C34): every query
  ends after at most 1001 requests to the configured origin; its rows are those of one chain of pages;
  results are well formed. \<open>Landing_Properties\<close> and \<open>Bronze_Properties\<close> (C35 to C39): a manifest is
  never in the bucket before its tables; what was landed is accepted by the planner and by the jobs; a
  loaded directory is the selected commit; the newest snapshot is current whatever the order of
  publication. \<open>Weather_Properties\<close>, \<open>Weather_Run_Properties\<close> and \<open>Weather_Zone_Properties\<close> (C25,
  C16, C28, C40): a landed forecast passes the audit; a fetch ends within its attempts; a batch
  reports the same in whatever order its futures complete; a landing zone stays valid under
  concurrent writers and failing calls.

  What stands for code outside the program. S3, Docker, the clocks, the query engine, the disk, the
  alert service, the HTTP transport, the Ranger server, the weather service and child processes are
  oracles of a clock that ticks at every call, or of the calls before: their answers are arguments and
  may differ at every call. The JSON decoder, the URL parser of the HTTP library, the schema validator
  and the names of exception classes are parameters. What the program relies on of them is a named
  hypothesis of the theorem that needs it: \<open>put_contract\<close> and \<open>get_contract\<close> (conditional puts
  and reads of S3, and other clients that follow the same protocol), \<open>url_parser_contract\<close>,
  \<open>distinct_tables\<close> (decoded objects have no key twice). Digests are computed by the definition of
  SHA-256; nothing assumes that they are injective.

  Bounds. Loops that a service could keep alive (listing, reading in chunks) are
  \<open>partial_function\<close>s, and C2 proves that they end for services with finitely many tokens and bounded
  reads. The page loop of a query, the attempts of the gate and of a fetch and the stages of a run are
  structural. Chunked file reads are recursive on the length of what is left. Floats are rationals that
  are rounded to binary64 after each operation; integers are unbounded as in Python. Strings are lists
  of characters below code point 256, which stand for bytes as well; a file is read at one moment.

  Not modelled: the command line (\<open>cli.py\<close>: dispatch and printing); the fixture generator, which
  draws from the pseudo-random generator of the standard library; the recovery exercise, which
  interrupts a modelled run with signals; the validators of evidence reports and of releases, which
  compare one field of a document after another and keep no state; the experiments and demonstrations
  that drive the modelled components against running services; and the Spark jobs, whose logic is the
  operators of a third-party engine. The manifest lists each with its reason.
\<close>

end
